(* ===== verification/Prelude.thy ===== *)
theory Prelude
  imports Main "HOL-Library.Word" "HOL-Library.AList" "HOL-Library.Multiset"
    "HOL-Library.List_Lexorder" "HOL-Library.Char_ord" "HOL-Library.Sublist" "HOL-Library.Countable"
begin

text \<open>
  Shared vocabulary of the development.

  A Go \<^verbatim>\<open>map[K]V\<close> is an association list with distinct keys (\<open>gomap\<close>): \<open>map_of\<close> reads
  it, \<open>AList.update\<close> is \<^verbatim>\<open>m[k] = v\<close>, \<open>AList.delete\<close> is \<^verbatim>\<open>delete(m, k)\<close>, \<open>length\<close> is
  \<^verbatim>\<open>len(m)\<close>. The order in which a Go \<^verbatim>\<open>range\<close> visits a map is unspecified, so every
  operation that ranges over a map takes a range order, a function that permutes the
  entries (\<open>range_order\<close>).

  Operations that can fail return \<open>'e option\<close> beside the new state (the Go \<^verbatim>\<open>error\<close>
  result, \<open>None\<close> for \<^verbatim>\<open>nil\<close>). \<open>seqE\<close> and \<open>forE\<close> are the two control structures of such
  code: \<^verbatim>\<open>if err := f(); err != nil { return err }\<close> and a loop with that early return.
  A run-time panic of Go is a value of type \<open>panic\<close>, the left side of a sum.
\<close>

datatype panic = IndexOutOfRange | NilDereference | DivideByZero | InvalidIntn | TypeAssertion

named_theorems gomap_simps \<open>rewriting Go maps to partial functions\<close>
named_theorems step_intros \<open>invariant preservation of operations\<close>

type_synonym ('k, 'v) gomap = "('k \<times> 'v) list"
type_synonym labels = "(string, string) gomap"
type_synonym uint16 = "16 word"
type_synonym uint32 = "32 word"
type_synonym int32 = "32 word"

abbreviation mget :: "('k, 'v) gomap \<Rightarrow> 'k \<Rightarrow> 'v option" where
  "mget \<equiv> map_of"

abbreviation mput :: "'k \<Rightarrow> 'v \<Rightarrow> ('k, 'v) gomap \<Rightarrow> ('k, 'v) gomap" where
  "mput \<equiv> AList.update"

abbreviation mdel :: "'k \<Rightarrow> ('k, 'v) gomap \<Rightarrow> ('k, 'v) gomap" where
  "mdel \<equiv> AList.delete"

abbreviation mwf :: "('k, 'v) gomap \<Rightarrow> bool" where
  "mwf m \<equiv> distinct (map fst m)"

text \<open>\<^verbatim>\<open>m[k]\<close> on a map of strings: the zero value for a missing key.\<close>

definition sget :: "('k, string) gomap \<Rightarrow> 'k \<Rightarrow> string" where
  "sget m k = (case map_of m k of None \<Rightarrow> '''' | Some v \<Rightarrow> v)"

definition range_order :: "(('k, 'v) gomap \<Rightarrow> ('k, 'v) gomap) \<Rightarrow> bool" where
  "range_order rng \<longleftrightarrow> (\<forall>m. mset (rng m) = mset m)"

text \<open>\<^verbatim>\<open>reflect.DeepEqual\<close> on two maps of strings.\<close>

definition maps_equal :: "('k, 'v) gomap \<Rightarrow> ('k, 'v) gomap \<Rightarrow> bool" where
  "maps_equal m1 m2 \<longleftrightarrow> length m1 = length m2 \<and> (\<forall>(k, v) \<in> set m1. map_of m2 k = Some v)"

subsection \<open>Early return\<close>

definition seqE :: "('s \<Rightarrow> 's \<times> 'e option) \<Rightarrow> ('s \<Rightarrow> 's \<times> 'e option) \<Rightarrow> 's \<Rightarrow> 's \<times> 'e option" where
  "seqE f g s = (case f s of (s', Some e) \<Rightarrow> (s', Some e) | (s', None) \<Rightarrow> g s')"

fun forE :: "('a \<Rightarrow> 's \<Rightarrow> 's \<times> 'e option) \<Rightarrow> 'a list \<Rightarrow> 's \<Rightarrow> 's \<times> 'e option" where
  "forE f [] s = (s, None)"
| "forE f (x # xs) s = seqE (f x) (forE f xs) s"

lemma seqE_None: "snd (f s) = None \<Longrightarrow> seqE f g s = g (fst (f s))"
  by (cases "f s") (simp add: seqE_def)

lemma seqE_Some: "snd (f s) = Some e \<Longrightarrow> seqE f g s = (fst (f s), Some e)"
  by (cases "f s") (simp add: seqE_def)

lemma seqE_inv:
  assumes "\<And>s. P s \<Longrightarrow> P (fst (f s))" and "\<And>s. P s \<Longrightarrow> P (fst (g s))" and "P s"
  shows "P (fst (seqE f g s))"
  using assms by (auto simp: seqE_def split: prod.splits option.splits) (metis fst_conv)+

lemma forE_inv:
  assumes "\<And>x s. x \<in> set xs \<Longrightarrow> P s \<Longrightarrow> P (fst (f x s))" and "P s"
  shows "P (fst (forE f xs s))"
  using assms
proof (induction xs arbitrary: s)
  case (Cons x xs)
  show ?case by (simp, rule seqE_inv) (use Cons in auto)
qed simp

lemma seqE_okE:
  assumes "seqE f g s = (s', None)"
  obtains s1 where "f s = (s1, None)" and "g s1 = (s', None)"
  using assms by (auto simp: seqE_def split: prod.splits option.splits)

subsection \<open>Go maps\<close>

declare map_of_eq_Some_iff [simp del] Some_eq_map_of_iff [simp del]

lemma mget_mput [simp, gomap_simps]: "mget (mput k v m) k' = (if k' = k then Some v else mget m k')"
  by (simp add: update_conv')

lemma mget_mdel [simp, gomap_simps]: "mget (mdel k m) k' = (if k' = k then None else mget m k')"
  by (simp add: delete_conv')

lemma mwf_mput [intro!, simp]: "mwf m \<Longrightarrow> mwf (mput k v m)"
  by (rule distinct_update)

lemma mwf_mdel [intro!, simp]: "mwf m \<Longrightarrow> mwf (mdel k m)"
  by (rule distinct_delete)

lemma mget_mem: "mwf m \<Longrightarrow> mget m k = Some v \<longleftrightarrow> (k, v) \<in> set m"
  by (simp add: map_of_eq_Some_iff)

lemma length_mput_new: "mget m k = None \<Longrightarrow> length (mput k v m) = Suc (length m)"
  by (induction m) (auto split: if_splits)

lemma range_orderD:
  assumes "range_order rng"
  shows "set (rng m) = set m" and "length (rng m) = length m"
    and "distinct (map fst (rng m)) = distinct (map fst m)"
proof -
  from assms have eq: "mset (rng m) = mset m" by (simp add: range_order_def)
  then show "set (rng m) = set m" and "length (rng m) = length m"
    by (auto dest: mset_eq_setD mset_eq_length)
  from eq have "mset (map fst (rng m)) = mset (map fst m)" by (metis mset_map)
  then show "distinct (map fst (rng m)) = distinct (map fst m)"
    by (metis distinct_count_atmost_1 mset_eq_setD)
qed

lemma range_order_id [simp]: "range_order (\<lambda>m. m)"
  by (simp add: range_order_def)

lemma range_order_rev [simp]: "range_order rev"
  by (simp add: range_order_def)

lemma range_order_mget:
  "range_order rng \<Longrightarrow> mwf m \<Longrightarrow> mget (rng m) k = mget m k"
  by (metis map_of_eq_Some_iff not_None_eq range_orderD(1,3))

end
