(* ===== verification/Types.thy ===== *)
theory Types
  imports Go_Strings
begin

text \<open>
  The data of the program: the custom resources of
  \<^verbatim>\<open>src/pkg/apis/clusterlink.net/v1alpha1\<close> (Import, Export, Peer, AccessPolicy) as records,
  the fields of the Kubernetes objects the code reads or writes, the Go error values, and
  the functions of \<^verbatim>\<open>k8s.io/apimachinery\<close> the code calls, which are the fields of a record
  (\<open>apimachinery\<close>) that every definition calling them takes as an argument, with their
  documented behaviour as the predicate \<open>apimachinery_ok\<close>.
\<close>

subsection \<open>Names\<close>

datatype NamespacedName = NamespacedName (nn_Namespace: string) (nn_Name: string)

instantiation NamespacedName :: linorder
begin

definition less_eq_NamespacedName :: "NamespacedName \<Rightarrow> NamespacedName \<Rightarrow> bool" where
  "less_eq_NamespacedName a b \<longleftrightarrow> nn_Namespace a < nn_Namespace b
     \<or> nn_Namespace a = nn_Namespace b \<and> nn_Name a \<le> nn_Name b"

definition less_NamespacedName :: "NamespacedName \<Rightarrow> NamespacedName \<Rightarrow> bool" where
  "less_NamespacedName a b \<longleftrightarrow> nn_Namespace a < nn_Namespace b
     \<or> nn_Namespace a = nn_Namespace b \<and> nn_Name a < nn_Name b"

instance
proof
  fix x y z :: NamespacedName
  show "(x < y) = (x \<le> y \<and> \<not> y \<le> x)"
    by (auto simp: less_eq_NamespacedName_def less_NamespacedName_def)
  show "x \<le> x" by (simp add: less_eq_NamespacedName_def)
  show "x \<le> y \<Longrightarrow> y \<le> z \<Longrightarrow> x \<le> z"
    by (auto simp: less_eq_NamespacedName_def)
  show "x \<le> y \<Longrightarrow> y \<le> x \<Longrightarrow> x = y"
    by (auto simp: less_eq_NamespacedName_def NamespacedName.expand)
  show "x \<le> y \<or> y \<le> x"
    by (auto simp: less_eq_NamespacedName_def)
qed

end

text \<open>With a linear order on the keys, sorting is one concrete order a range may take.\<close>

definition sorted_range :: "(NamespacedName, 'v) gomap \<Rightarrow> (NamespacedName, 'v) gomap" where
  "sorted_range m = sort_key fst m"

lemma range_order_sorted [simp]: "range_order sorted_range"
  by (simp add: range_order_def sorted_range_def)

record ObjectMeta =
  om_Name :: string
  om_Namespace :: string
  om_Labels :: labels

definition object_key :: "ObjectMeta \<Rightarrow> NamespacedName" where
  "object_key m = NamespacedName (om_Namespace m) (om_Name m)"

subsection \<open>Conditions\<close>

datatype ConditionStatus = ConditionTrue | ConditionFalse | ConditionUnknown

record Condition =
  cond_Type :: string
  cond_Status :: ConditionStatus
  cond_ObservedGeneration :: int
  cond_LastTransitionTime :: nat
  cond_Reason :: string
  cond_Message :: string

subsection \<open>Import\<close>

record ImportSource =
  is_Peer :: string
  is_ExportName :: string
  is_ExportNamespace :: string

type_synonym LBScheme = string

definition LBSchemeRandom :: LBScheme where "LBSchemeRandom = ''random''"
definition LBSchemeRoundRobin :: LBScheme where "LBSchemeRoundRobin = ''round-robin''"
definition LBSchemeStatic :: LBScheme where "LBSchemeStatic = ''static''"
definition LBSchemeDefault :: LBScheme where "LBSchemeDefault = LBSchemeRoundRobin"

record ImportSpec =
  imp_Port :: uint16
  imp_TargetPort :: uint16
  imp_Sources :: "ImportSource list"
  imp_LBScheme :: LBScheme

record ImportStatus =
  imp_Conditions :: "Condition list"

record Import =
  imp_Meta :: ObjectMeta
  imp_Spec :: ImportSpec
  imp_Status :: ImportStatus

definition ImportTargetPortValid :: string where
  "ImportTargetPortValid = ''ImportTargetPortValid''"
definition ImportServiceValid :: string where
  "ImportServiceValid = ''ImportServiceValid''"
definition LabelImportMerge :: string where
  "LabelImportMerge = ''import.clusterlink.net/merge''"

abbreviation imp_Name :: "Import \<Rightarrow> string" where
  "imp_Name i \<equiv> om_Name (imp_Meta i)"
abbreviation imp_Namespace :: "Import \<Rightarrow> string" where
  "imp_Namespace i \<equiv> om_Namespace (imp_Meta i)"
abbreviation imp_key :: "Import \<Rightarrow> NamespacedName" where
  "imp_key i \<equiv> object_key (imp_Meta i)"

subsection \<open>Export\<close>

record ExportSpec =
  exp_Host :: string
  exp_Port :: uint16

record ExportStatus =
  exp_Conditions :: "Condition list"

record Export =
  exp_Meta :: ObjectMeta
  exp_Spec :: ExportSpec
  exp_Status :: ExportStatus

definition ExportValid :: string where "ExportValid = ''ExportValid''"

subsection \<open>Peer\<close>

record Endpoint =
  ep_Host :: string
  ep_Port :: uint16

record PeerSpec =
  pr_Gateways :: "Endpoint list"

record PeerStatus =
  pr_Conditions :: "Condition list"
  pr_Labels :: labels

record Peer =
  pr_Meta :: ObjectMeta
  pr_Spec :: PeerSpec
  pr_Status :: PeerStatus

definition PeerReachable :: string where "PeerReachable = ''PeerReachable''"

abbreviation pr_Name :: "Peer \<Rightarrow> string" where
  "pr_Name p \<equiv> om_Name (pr_Meta p)"

subsection \<open>Access policies\<close>

type_synonym AccessPolicyAction = string
type_synonym WorkloadAttrs = "(string, string) gomap"

definition AccessPolicyActionAllow :: AccessPolicyAction where
  "AccessPolicyActionAllow = ''allow''"
definition AccessPolicyActionDeny :: AccessPolicyAction where
  "AccessPolicyActionDeny = ''deny''"

record LabelSelectorRequirement =
  lsr_Key :: string
  lsr_Operator :: string
  lsr_Values :: "string list"

record LabelSelector =
  ls_MatchLabels :: labels
  ls_MatchExpressions :: "LabelSelectorRequirement list"

record WorkloadSetOrSelector =
  wss_WorkloadSets :: "string list"
  wss_WorkloadSelector :: "LabelSelector option"

type_synonym WorkloadSetOrSelectorList = "WorkloadSetOrSelector list"

record AccessPolicySpec =
  aps_Action :: AccessPolicyAction
  aps_From :: WorkloadSetOrSelectorList
  aps_To :: WorkloadSetOrSelectorList

record AccessPolicyCR =
  ap_Meta :: ObjectMeta
  ap_Spec :: AccessPolicySpec

record PrivilegedAccessPolicyCR =
  pap_Meta :: ObjectMeta
  pap_Spec :: AccessPolicySpec

subsection \<open>Kubernetes objects\<close>

datatype IntOrString = IntVal int32 | StrVal string

record ServicePort =
  sp_Protocol :: string
  sp_Port :: int32
  sp_TargetPort :: IntOrString

record ServiceSpec =
  ss_Type :: string
  ss_ExternalName :: string
  ss_Selector :: labels
  ss_Ports :: "ServicePort list"

record Service =
  svc_Meta :: ObjectMeta
  svc_Spec :: ServiceSpec

record EndpointConditions =
  ec_Ready :: "bool option"
  ec_Serving :: "bool option"
  ec_Terminating :: "bool option"

record SliceEndpoint =
  se_Addresses :: "string list"
  se_Conditions :: EndpointConditions

record EndpointPort =
  epp_Port :: "int32 option"
  epp_Protocol :: "string option"

record EndpointSlice =
  es_Meta :: ObjectMeta
  es_AddressType :: string
  es_Endpoints :: "SliceEndpoint list"
  es_Ports :: "EndpointPort list"

record Secret =
  sec_Meta :: ObjectMeta
  sec_Data :: "(string, string) gomap"

record Pod =
  pod_Meta :: ObjectMeta
  pod_ServiceAccountName :: string
  pod_PodIPs :: "string list"
  pod_HostIP :: string

subsection \<open>Go errors\<close>

text \<open>
  An error of the Kubernetes API carries its reason (what \<^verbatim>\<open>k8serrors.IsNotFound\<close> and
  \<^verbatim>\<open>IsAlreadyExists\<close> test) and its message. \<open>Wrapf p e\<close> is \<^verbatim>\<open>fmt.Errorf(p + "%w", e)\<close>.
\<close>

datatype api_reason = NotFound | AlreadyExists | OtherReason

datatype error =
    ApiError api_reason string
  | Errorf string
  | Wrapf string error
  | conflictingTargetPortError uint16 NamespacedName
  | exportServiceNotExistError NamespacedName
  | importServiceNotExistError NamespacedName
  | conflictingServiceError NamespacedName string
  | JoinError "error list"

type_synonym api_error = "api_reason \<times> string"

definition api :: "api_error \<Rightarrow> error" where
  "api e = ApiError (fst e) (snd e)"

text \<open>The chain \<^verbatim>\<open>errors.Is\<close> walks: the error itself, then what it wraps or joins.\<close>

fun error_chain :: "error \<Rightarrow> error list" where
  "error_chain (Wrapf p e) = Wrapf p e # error_chain e"
| "error_chain (JoinError es) = JoinError es # concat (map error_chain es)"
| "error_chain e = [e]"

definition Is_conflictingTargetPortError :: "error \<Rightarrow> bool" where
  "Is_conflictingTargetPortError e \<longleftrightarrow>
     list_ex (\<lambda>x. case x of conflictingTargetPortError _ _ \<Rightarrow> True | _ \<Rightarrow> False) (error_chain e)"

definition Is_exportServiceNotExistError :: "error \<Rightarrow> bool" where
  "Is_exportServiceNotExistError e \<longleftrightarrow>
     list_ex (\<lambda>x. case x of exportServiceNotExistError _ \<Rightarrow> True | _ \<Rightarrow> False) (error_chain e)"

definition Is_importServiceNotExistError :: "error \<Rightarrow> bool" where
  "Is_importServiceNotExistError e \<longleftrightarrow>
     list_ex (\<lambda>x. case x of importServiceNotExistError _ \<Rightarrow> True | _ \<Rightarrow> False) (error_chain e)"

definition Is_conflictingServiceError :: "error \<Rightarrow> bool" where
  "Is_conflictingServiceError e \<longleftrightarrow>
     list_ex (\<lambda>x. case x of conflictingServiceError _ _ \<Rightarrow> True | _ \<Rightarrow> False) (error_chain e)"

text \<open>\<^verbatim>\<open>errors.Join\<close>: nil values are dropped, and a join of nothing is nil.\<close>

definition errors_Join :: "error option list \<Rightarrow> error option" where
  "errors_Join es = (let xs = List.map_filter (\<lambda>x. x) es in if xs = [] then None else Some (JoinError xs))"

lemma errors_Join_None: "errors_Join es = None \<longleftrightarrow> (\<forall>e \<in> set es. e = None)"
  by (auto simp: errors_Join_def map_filter_def Let_def filter_empty_conv)

subsection \<open>Functions of k8s.io/apimachinery and k8s.io/utils\<close>

record apimachinery =
  NamespacedName_String :: "NamespacedName \<Rightarrow> string"
  ShortenString :: "string \<Rightarrow> nat \<Rightarrow> string"
  FindStatusCondition :: "Condition list \<Rightarrow> string \<Rightarrow> Condition option"
  SetStatusCondition :: "Condition list \<Rightarrow> Condition \<Rightarrow> Condition list"
  IsStatusConditionTrue :: "Condition list \<Rightarrow> string \<Rightarrow> bool"
  LabelSelectorAsSelector :: "LabelSelector option \<Rightarrow> error + (WorkloadAttrs \<Rightarrow> bool)"

text \<open>
  Their documented behaviour, as far as the properties below use it: \<open>SetStatusCondition\<close>
  sets the condition of its type and leaves the others, \<open>IsStatusConditionTrue\<close> is true when
  the condition is present and set to true, \<open>ShortenString\<close> returns at most n bytes, the
  empty label selector matches everything and the null selector matches nothing.
\<close>

definition apimachinery_ok :: "apimachinery \<Rightarrow> bool" where
  "apimachinery_ok K \<longleftrightarrow>
     (\<forall>cs c. \<exists>c'. FindStatusCondition K (SetStatusCondition K cs c) (cond_Type c) = Some c'
        \<and> cond_Status c' = cond_Status c \<and> cond_Reason c' = cond_Reason c
        \<and> cond_Message c' = cond_Message c)
     \<and> (\<forall>cs c t. t \<noteq> cond_Type c \<longrightarrow>
          FindStatusCondition K (SetStatusCondition K cs c) t = FindStatusCondition K cs t)
     \<and> (\<forall>cs t. IsStatusConditionTrue K cs t \<longleftrightarrow>
          (\<exists>c. FindStatusCondition K cs t = Some c \<and> cond_Status c = ConditionTrue))
     \<and> (\<forall>s n. length (ShortenString K s n) \<le> n)
     \<and> LabelSelectorAsSelector K (Some \<lparr>ls_MatchLabels = [], ls_MatchExpressions = []\<rparr>) = Inr (\<lambda>_. True)
     \<and> LabelSelectorAsSelector K None = Inr (\<lambda>_. False)"

lemma apimachinery_okD:
  assumes "apimachinery_ok K"
  shows "\<exists>c'. FindStatusCondition K (SetStatusCondition K cs c) (cond_Type c) = Some c'
      \<and> cond_Status c' = cond_Status c \<and> cond_Reason c' = cond_Reason c
      \<and> cond_Message c' = cond_Message c"
    and "t \<noteq> cond_Type c \<Longrightarrow>
      FindStatusCondition K (SetStatusCondition K cs c) t = FindStatusCondition K cs t"
    and "IsStatusConditionTrue K cs t \<longleftrightarrow>
      (\<exists>c. FindStatusCondition K cs t = Some c \<and> cond_Status c = ConditionTrue)"
    and "length (ShortenString K s n) \<le> n"
    and "LabelSelectorAsSelector K (Some \<lparr>ls_MatchLabels = [], ls_MatchExpressions = []\<rparr>) = Inr (\<lambda>_. True)"
    and "LabelSelectorAsSelector K None = Inr (\<lambda>_. False)"
  using assms by (simp_all add: apimachinery_ok_def)

text \<open>
  One set of functions with that behaviour, for evaluating the definitions on concrete
  inputs. Its selectors understand match labels and the \<^verbatim>\<open>Exists\<close> operator; any other
  operator is refused.
\<close>

definition ref_find :: "Condition list \<Rightarrow> string \<Rightarrow> Condition option" where
  "ref_find cs t = List.find (\<lambda>c. cond_Type c = t) cs"

fun ref_set :: "Condition list \<Rightarrow> Condition \<Rightarrow> Condition list" where
  "ref_set [] c = [c]"
| "ref_set (x # xs) c = (if cond_Type x = cond_Type c then c # xs else x # ref_set xs c)"

definition ref_selector :: "LabelSelector option \<Rightarrow> error + (WorkloadAttrs \<Rightarrow> bool)" where
  "ref_selector sel =
     (case sel of None \<Rightarrow> Inr (\<lambda>_. False)
      | Some s \<Rightarrow>
          if list_all (\<lambda>r. lsr_Operator r = ''Exists'') (ls_MatchExpressions s)
          then Inr (\<lambda>attrs. list_all (\<lambda>(k, v). map_of attrs k = Some v) (ls_MatchLabels s)
                  \<and> list_all (\<lambda>r. map_of attrs (lsr_Key r) \<noteq> None) (ls_MatchExpressions s))
          else Inl (Errorf ''not a valid label selector operator''))"

definition ref_apimachinery :: apimachinery where
  "ref_apimachinery = \<lparr>
     NamespacedName_String = (\<lambda>n. nn_Namespace n @ ''/'' @ nn_Name n),
     ShortenString = (\<lambda>s n. take n s),
     FindStatusCondition = ref_find,
     SetStatusCondition = ref_set,
     IsStatusConditionTrue = (\<lambda>cs t. case ref_find cs t of None \<Rightarrow> False
                              | Some c \<Rightarrow> cond_Status c = ConditionTrue),
     LabelSelectorAsSelector = ref_selector\<rparr>"

lemma ref_find_set: "ref_find (ref_set cs c) (cond_Type c) = Some c"
  by (induction cs) (auto simp: ref_find_def)

lemma ref_find_set_other: "t \<noteq> cond_Type c \<Longrightarrow> ref_find (ref_set cs c) t = ref_find cs t"
  by (induction cs) (auto simp: ref_find_def)

lemma ref_apimachinery_ok: "apimachinery_ok ref_apimachinery"
  by (simp add: apimachinery_ok_def ref_apimachinery_def ref_find_set ref_find_set_other
        ref_selector_def
        split: option.split)

text \<open>The text of an error: \<^verbatim>\<open>err.Error()\<close>.\<close>

fun join_lines :: "string list \<Rightarrow> string" where
  "join_lines [] = []"
| "join_lines [s] = s"
| "join_lines (s # ss) = s @ [CHR 0x0A] @ join_lines ss"

fun Error :: "apimachinery \<Rightarrow> error \<Rightarrow> string" where
  "Error K (ApiError _ m) = m"
| "Error K (Errorf m) = m"
| "Error K (Wrapf p e) = p @ Error K e"
| "Error K (conflictingTargetPortError p n) =
     ''port '' @ Itoa (unat p) @ '' is already in use by service '' @ NamespacedName_String K n"
| "Error K (exportServiceNotExistError n) =
     ''export service '' @ [CHR 0x27] @ nn_Namespace n @ ''/'' @ nn_Name n @ [CHR 0x27] @ '' does not exist''"
| "Error K (importServiceNotExistError n) =
     ''import service '' @ [CHR 0x27] @ nn_Namespace n @ ''/'' @ nn_Name n @ [CHR 0x27] @ '' does not exist''"
| "Error K (conflictingServiceError n m) =
     ''service '' @ [CHR 0x27] @ nn_Namespace n @ ''/'' @ nn_Name n @ [CHR 0x27]
       @ '' already exists and managed by '' @ [CHR 0x27] @ m @ [CHR 0x27]"
| "Error K (JoinError es) = join_lines (map (Error K) es)"

end
