(* ===== verification/Certs.thy ===== *)
theory Certs
  imports Types
begin

text \<open>
  Peer certificates: \<^verbatim>\<open>src/pkg/util/tls/util.go\<close> (parsing the files) and
  \<^verbatim>\<open>src/pkg/controlplane/peer/certs.go\<close> (watching them and handing new certificates to the
  consumers). The file system and the cryptographic parsers are the fields of \<open>tls_env\<close>; the
  events of the file watcher and of the ticker are an explicit sequence.
\<close>

subsection \<open>Parsing\<close>

record Certificate =
  tc_Certificate :: "string list"
  tc_PrivateKey :: string

record X509Certificate =
  x509_DNSNames :: "string list"

record ParsedCertData =
  pcd_certificate :: Certificate
  pcd_ca :: string
  pcd_x509cert :: X509Certificate

record RawCertData =
  rcd_certificate :: string
  rcd_key :: string
  rcd_ca :: string

record tls_env =
  ReadFile :: "string \<Rightarrow> error + string"
  X509KeyPair :: "string \<Rightarrow> string \<Rightarrow> error + Certificate"
  AppendCertsFromPEM :: "string \<Rightarrow> string option"
  ParseCertificate :: "string \<Rightarrow> error + X509Certificate"

definition ParseFiles ::
    "tls_env \<Rightarrow> string \<Rightarrow> string \<Rightarrow> string \<Rightarrow> panic + (error + ParsedCertData \<times> RawCertData)" where
  "ParseFiles E ca cert key =
     (case ReadFile E ca of
        Inl err \<Rightarrow> Inr (Inl (Wrapf (''unable to read CA file '' @ [CHR 0x27] @ ca @ [CHR 0x27] @ '': '') err))
      | Inr rawCA \<Rightarrow>
     (case ReadFile E cert of
        Inl err \<Rightarrow> Inr (Inl (Wrapf ''unable to read certificate file: '' err))
      | Inr rawCertificate \<Rightarrow>
     (case ReadFile E key of
        Inl err \<Rightarrow> Inr (Inl (Wrapf ''unable to read private key file: '' err))
      | Inr rawPrivateKey \<Rightarrow>
     (case X509KeyPair E rawCertificate rawPrivateKey of
        Inl err \<Rightarrow> Inr (Inl (Wrapf ''unable to parse certificate keypair: '' err))
      | Inr certificate \<Rightarrow>
     (case AppendCertsFromPEM E rawCA of
        None \<Rightarrow> Inr (Inl (Errorf ''unable to parse CA file''))
      | Some caCertPool \<Rightarrow>
     (case tc_Certificate certificate of
        [] \<Rightarrow> Inl IndexOutOfRange
      | leaf # _ \<Rightarrow>
     (case ParseCertificate E leaf of
        Inl err \<Rightarrow> Inr (Inl (Wrapf ''unable to parse x509 certificate: '' err))
      | Inr x509cert \<Rightarrow>
          Inr (Inr (\<lparr>pcd_certificate = certificate, pcd_ca = caCertPool, pcd_x509cert = x509cert\<rparr>,
                    \<lparr>rcd_certificate = rawCertificate, rcd_key = rawPrivateKey, rcd_ca = rawCA\<rparr>)))))))))"

definition RawCertData_Certificate :: "RawCertData \<Rightarrow> string" where
  "RawCertData_Certificate c = rcd_certificate c"

definition RawCertData_Key :: "RawCertData \<Rightarrow> string" where
  "RawCertData_Key c = rcd_key c"

definition RawCertData_CA :: "RawCertData \<Rightarrow> string" where
  "RawCertData_CA c = rcd_ca c"

datatype ClientAuthType = NoClientCert | RequireAndVerifyClientCert

record tls_Config =
  cfg_MinVersion :: nat
  cfg_SessionCache :: "nat option"
  cfg_Certificates :: "Certificate list"
  cfg_ClientCAs :: "string option"
  cfg_RootCAs :: "string option"
  cfg_ClientAuth :: ClientAuthType
  cfg_ServerName :: string

definition VersionTLS12 :: nat where "VersionTLS12 = 0x0303"

definition ServerConfig :: "ParsedCertData \<Rightarrow> tls_Config" where
  "ServerConfig c = \<lparr>cfg_MinVersion = VersionTLS12, cfg_SessionCache = None,
     cfg_Certificates = [pcd_certificate c], cfg_ClientCAs = Some (pcd_ca c), cfg_RootCAs = None,
     cfg_ClientAuth = RequireAndVerifyClientCert, cfg_ServerName = []\<rparr>"

definition ClientConfig :: "ParsedCertData \<Rightarrow> string \<Rightarrow> tls_Config" where
  "ClientConfig c sni = \<lparr>cfg_MinVersion = VersionTLS12, cfg_SessionCache = Some 64,
     cfg_Certificates = [pcd_certificate c], cfg_ClientCAs = None, cfg_RootCAs = Some (pcd_ca c),
     cfg_ClientAuth = NoClientCert, cfg_ServerName = sni\<rparr>"

definition DNSNames :: "ParsedCertData \<Rightarrow> string list" where
  "DNSNames c = x509_DNSNames (pcd_x509cert c)"

subsection \<open>Directories\<close>

text \<open>\<^verbatim>\<open>path.Dir\<close>: everything up to the last slash, cleaned as \<^verbatim>\<open>path.Clean\<close> does.\<close>

fun split_path :: "string \<Rightarrow> string \<Rightarrow> string list" where
  "split_path acc [] = [rev acc]"
| "split_path acc (c # cs) = (if c = CHR ''/'' then rev acc # split_path [] cs else split_path (c # acc) cs)"

fun clean_components :: "bool \<Rightarrow> string list \<Rightarrow> string list \<Rightarrow> string list" where
  "clean_components rooted out [] = rev out"
| "clean_components rooted out (c # cs) =
     (if c = [] \<or> c = ''.'' then clean_components rooted out cs
      else if c = ''..''
      then (case out of
              [] \<Rightarrow> clean_components rooted (if rooted then [] else [''..'']) cs
            | d # ds \<Rightarrow> clean_components rooted (if d = ''..'' then ''..'' # out else ds) cs)
      else clean_components rooted (c # out) cs)"

fun join_path :: "string list \<Rightarrow> string" where
  "join_path [] = []"
| "join_path [c] = c"
| "join_path (c # cs) = c @ ''/'' @ join_path cs"

definition path_Clean :: "string \<Rightarrow> string" where
  "path_Clean p =
     (let rooted = HasPrefix p ''/'';
          s = join_path (clean_components rooted [] (split_path [] p))
      in if rooted then CHR ''/'' # s else if s = [] then ''.'' else s)"

definition path_Dir :: "string \<Rightarrow> string" where
  "path_Dir p = path_Clean (rev (dropWhile (\<lambda>c. c \<noteq> CHR ''/'') (rev p)))"

subsection \<open>The watcher\<close>

text \<open>
  A consumer's \<^verbatim>\<open>SetPeerCertificates\<close> acts on the state \<open>'s\<close> of the process. Pointers to
  \<^verbatim>\<open>parseError\<close> carry the address they were allocated at: \<^verbatim>\<open>errors.Is\<close> compares pointers.
\<close>

record 's CertsConsumer =
  cc_String :: string
  SetPeerCertificates :: "ParsedCertData \<Rightarrow> RawCertData \<Rightarrow> 's \<Rightarrow> 's \<times> error option"

datatype cert_error = parseErrorPtr nat "error option" | plainError error

record 's CertsWatcher =
  cw_caPath :: string
  cw_certPath :: string
  cw_keyPath :: string
  cw_consumers :: "'s CertsConsumer list"

definition NewWatcher :: "string \<Rightarrow> string \<Rightarrow> string \<Rightarrow> 's CertsWatcher" where
  "NewWatcher caPath certPath keyPath = \<lparr>cw_caPath = caPath, cw_certPath = certPath,
     cw_keyPath = keyPath, cw_consumers = []\<rparr>"

definition AddConsumer :: "'s CertsConsumer \<Rightarrow> 's CertsWatcher \<Rightarrow> 's CertsWatcher" where
  "AddConsumer consumer w = w\<lparr>cw_consumers := cw_consumers w @ [consumer]\<rparr>"

text \<open>\<open>addr\<close> is the address the allocator hands out next.\<close>

definition updateConsumer ::
    "ParsedCertData \<Rightarrow> RawCertData \<Rightarrow> 's CertsConsumer \<Rightarrow> 's \<Rightarrow> 's \<times> error option" where
  "updateConsumer parsed raw consumer s =
     (case SetPeerCertificates consumer parsed raw s of
        (s', Some err) \<Rightarrow> (s', Some (Wrapf (''error setting peer certificates on ''
                             @ cc_String consumer @ '': '') err))
      | (s', None) \<Rightarrow> (s', None))"

definition ReadCertsAndUpdateConsumers ::
    "tls_env \<Rightarrow> 's CertsWatcher \<Rightarrow> nat \<Rightarrow> 's \<Rightarrow> panic + 's \<times> cert_error option" where
  "ReadCertsAndUpdateConsumers E w addr s =
     (case ParseFiles E (cw_caPath w) (cw_certPath w) (cw_keyPath w) of
        Inl p \<Rightarrow> Inl p
      | Inr (Inl err) \<Rightarrow> Inr (s, Some (parseErrorPtr addr (Some err)))
      | Inr (Inr (parsed, raw)) \<Rightarrow>
          Inr (map_prod id (map_option plainError) (forE (updateConsumer parsed raw) (cw_consumers w) s)))"

text \<open>The directories \<^verbatim>\<open>Start\<close> adds to the file watcher (\<open>add\<close> is \<^verbatim>\<open>watcher.Add\<close>).\<close>

fun watchDirs :: "(string \<Rightarrow> error option) \<Rightarrow> string list \<Rightarrow> string list \<Rightarrow> error + string list" where
  "watchDirs add [] watchedDirs = Inr watchedDirs"
| "watchDirs add (file # files) watchedDirs =
     (let dir = path_Dir file
      in if dir \<notin> set watchedDirs
         then (case add dir of
                 Some err \<Rightarrow> Inl (Wrapf (''cannot watch directory '' @ [CHR 0x27] @ dir @ [CHR 0x27] @ '': '') err)
               | None \<Rightarrow> watchDirs add files (watchedDirs @ [dir]))
         else watchDirs add files watchedDirs)"

datatype watch_event = StopEvent | FileEvent | WatcherError error | Tick tls_env

datatype 's watch_result = Running bool nat 's | Returned 's "cert_error option" | Panicked panic

definition errors_Is :: "cert_error \<Rightarrow> cert_error \<Rightarrow> bool" where
  "errors_Is err target \<longleftrightarrow> err = target"

text \<open>
  The loop of \<^verbatim>\<open>Start\<close> over the events it selects. \<^verbatim>\<open>&parseError{}\<close> allocates the comparison
  target at a new address (\<open>Suc addr\<close>, after the address of the error just returned).
\<close>

fun watch_loop :: "'s CertsWatcher \<Rightarrow> watch_event list \<Rightarrow> bool \<Rightarrow> nat \<Rightarrow> 's \<Rightarrow> 's watch_result" where
  "watch_loop w [] certsModified addr s = Running certsModified addr s"
| "watch_loop w (StopEvent # evs) certsModified addr s = Returned s None"
| "watch_loop w (FileEvent # evs) certsModified addr s = watch_loop w evs True addr s"
| "watch_loop w (WatcherError err # evs) certsModified addr s = Returned s (Some (plainError err))"
| "watch_loop w (Tick E # evs) certsModified addr s =
     (if \<not> certsModified then watch_loop w evs certsModified addr s
      else (case ReadCertsAndUpdateConsumers E w addr s of
              Inl p \<Rightarrow> Panicked p
            | Inr (s', None) \<Rightarrow> watch_loop w evs False (Suc addr) s'
            | Inr (s', Some err) \<Rightarrow>
                if \<not> errors_Is err (parseErrorPtr (Suc addr) None) then Returned s' (Some err)
                else watch_loop w evs False (addr + 2) s'))"

definition CertsWatcher_Start ::
    "error option \<Rightarrow> (string \<Rightarrow> error option) \<Rightarrow> 's CertsWatcher \<Rightarrow> watch_event list \<Rightarrow> nat \<Rightarrow> 's
       \<Rightarrow> 's watch_result" where
  "CertsWatcher_Start newWatcher add w evs addr s =
     (case newWatcher of
        Some err \<Rightarrow> Returned s (Some (plainError (Wrapf ''cannot initialize file watcher: '' err)))
      | None \<Rightarrow>
          (case watchDirs add [cw_caPath w, cw_certPath w, cw_keyPath w] [] of
             Inl err \<Rightarrow> Returned s (Some (plainError err))
           | Inr _ \<Rightarrow> watch_loop w evs False addr s))"


subsection \<open>Properties\<close>

definition set_all :: "ParsedCertData \<Rightarrow> RawCertData \<Rightarrow> 's CertsConsumer list \<Rightarrow> 's \<Rightarrow> 's" where
  "set_all parsed raw cs s = fold (\<lambda>c s. fst (SetPeerCertificates c parsed raw s)) cs s"

lemma updateConsumer_result:
  "fst (updateConsumer parsed raw c s) = fst (SetPeerCertificates c parsed raw s)"
  "snd (updateConsumer parsed raw c s) = None \<longleftrightarrow> snd (SetPeerCertificates c parsed raw s) = None"
  by (auto simp: updateConsumer_def split: prod.splits option.splits)

lemma forE_updateConsumer:
  "\<exists>k \<le> length cs. fst (forE (updateConsumer parsed raw) cs s) = set_all parsed raw (take k cs) s
     \<and> (snd (forE (updateConsumer parsed raw) cs s) = None \<longrightarrow> k = length cs)"
proof (induction cs arbitrary: s)
  case (Cons c cs)
  let ?u = "updateConsumer parsed raw c s"
  have step: "fst ?u = fst (SetPeerCertificates c parsed raw s)" by (rule updateConsumer_result)
  show ?case
  proof (cases "snd ?u")
    case None
    then have eq: "forE (updateConsumer parsed raw) (c # cs) s = forE (updateConsumer parsed raw) cs (fst ?u)"
      by (simp add: seqE_None)
    from Cons.IH [of "fst ?u"] obtain k where "k \<le> length cs"
      "fst (forE (updateConsumer parsed raw) cs (fst ?u)) = set_all parsed raw (take k cs) (fst ?u)"
      "snd (forE (updateConsumer parsed raw) cs (fst ?u)) = None \<longrightarrow> k = length cs"
      by (elim exE conjE)
    then show ?thesis unfolding eq by (intro exI [of _ "Suc k"]) (simp add: set_all_def step)
  next
    case (Some x)
    then have "forE (updateConsumer parsed raw) (c # cs) s = (fst ?u, Some x)"
      by (simp add: seqE_Some)
    then show ?thesis by (intro exI [of _ 1]) (simp add: set_all_def step)
  qed
qed (simp add: set_all_def)

text \<open>
  A reload hands one and the same parsed and raw certificate pair to the consumers, in
  the order they were added: to all of them when it succeeds, to a prefix of them when a
  consumer refuses it, and to none when the files cannot be parsed.
\<close>

theorem reload_consumers:
  assumes "ReadCertsAndUpdateConsumers E w addr s = Inr (s', err)"
  shows "case ParseFiles E (cw_caPath w) (cw_certPath w) (cw_keyPath w) of
      Inl _ \<Rightarrow> False
    | Inr (Inl e) \<Rightarrow> s' = s \<and> err = Some (parseErrorPtr addr (Some e))
    | Inr (Inr (parsed, raw)) \<Rightarrow> \<exists>k \<le> length (cw_consumers w).
        s' = set_all parsed raw (take k (cw_consumers w)) s \<and> (err = None \<longrightarrow> k = length (cw_consumers w))"
proof (cases "ParseFiles E (cw_caPath w) (cw_certPath w) (cw_keyPath w)")
  case (Inr r)
  show ?thesis
  proof (cases r)
    case (Inr pr)
    obtain parsed raw where pr: "pr = (parsed, raw)" by (cases pr)
    let ?f = "forE (updateConsumer parsed raw) (cw_consumers w) s"
    have "s' = fst ?f" "err = map_option plainError (snd ?f)"
      using assms \<open>ParseFiles E _ _ _ = Inr r\<close> Inr pr
      by (auto simp: ReadCertsAndUpdateConsumers_def map_prod_def split_beta)
    with forE_updateConsumer [of "cw_consumers w" parsed raw s] show ?thesis
      using \<open>ParseFiles E _ _ _ = Inr r\<close> Inr pr by simp
  qed (use assms Inr in \<open>simp add: ReadCertsAndUpdateConsumers_def\<close>)
qed (use assms in \<open>simp add: ReadCertsAndUpdateConsumers_def\<close>)

text \<open>A world in which the files cannot be read, and one in which they can.\<close>

definition no_files :: tls_env where
  "no_files = \<lparr>ReadFile = (\<lambda>_. Inl (Errorf ''no such file'')), X509KeyPair = (\<lambda>c k. Inr \<lparr>tc_Certificate = [c], tc_PrivateKey = k\<rparr>),
     AppendCertsFromPEM = Some, ParseCertificate = (\<lambda>c. Inr \<lparr>x509_DNSNames = [c]\<rparr>)\<rparr>"

definition good_files :: tls_env where
  "good_files = no_files\<lparr>ReadFile := (\<lambda>f. Inr (''contents of '' @ f))\<rparr>"

definition log_consumer :: "string list CertsConsumer" where
  "log_consumer = \<lparr>cc_String = ''log'', SetPeerCertificates = (\<lambda>p r s. (s @ DNSNames p, None))\<rparr>"

definition demo_watcher :: "string list CertsWatcher" where
  "demo_watcher = AddConsumer log_consumer (NewWatcher ''/etc/ca'' ''/etc/cert'' ''/etc/key'')"

theorem reload_consumers_witness:
  "[''contents of /etc/cert''] = set_all
      \<lparr>pcd_certificate = \<lparr>tc_Certificate = [''contents of /etc/cert''], tc_PrivateKey = ''contents of /etc/key''\<rparr>,
        pcd_ca = ''contents of /etc/ca'', pcd_x509cert = \<lparr>x509_DNSNames = [''contents of /etc/cert'']\<rparr>\<rparr>
      \<lparr>rcd_certificate = ''contents of /etc/cert'', rcd_key = ''contents of /etc/key'',
        rcd_ca = ''contents of /etc/ca''\<rparr> (cw_consumers demo_watcher) []"
proof -
  have "ReadCertsAndUpdateConsumers good_files demo_watcher 0 [] = Inr ([''contents of /etc/cert''], None)"
    by (simp add: ReadCertsAndUpdateConsumers_def ParseFiles_def good_files_def no_files_def demo_watcher_def
        NewWatcher_def AddConsumer_def log_consumer_def seqE_def updateConsumer_def DNSNames_def)
  from reload_consumers [OF this] show ?thesis
    by (auto simp: ParseFiles_def good_files_def no_files_def demo_watcher_def NewWatcher_def AddConsumer_def)
qed

text \<open>
  The watcher means to survive certificates it cannot parse, but \<^verbatim>\<open>errors.Is\<close> compares the
  error with a newly allocated pointer and never recognises it: the first reload that fails
  to parse ends the watcher, with no consumer touched, and no later event is handled.
\<close>

theorem parse_error_ends_watcher:
  assumes "ParseFiles E (cw_caPath w) (cw_certPath w) (cw_keyPath w) = Inr (Inl err)"
  shows "watch_loop w (replicate (Suc n) FileEvent @ Tick E # evs) m addr s =
    Returned s (Some (parseErrorPtr addr (Some err)))"
proof -
  have "watch_loop w (replicate n FileEvent @ Tick E # evs) True addr s =
      watch_loop w (Tick E # evs) True addr s"
    by (induction n) simp_all
  with assms show ?thesis by (simp add: ReadCertsAndUpdateConsumers_def errors_Is_def)
qed

theorem parse_error_ends_watcher_witness:
  "watch_loop demo_watcher [FileEvent, Tick no_files, FileEvent, Tick good_files] False 7 [] =
     Returned [] (Some (parseErrorPtr 7 (Some (Wrapf ''unable to read CA file '/etc/ca': ''
       (Errorf ''no such file'')))))"
proof -
  have "ParseFiles no_files (cw_caPath demo_watcher) (cw_certPath demo_watcher) (cw_keyPath demo_watcher) =
      Inr (Inl (Wrapf ''unable to read CA file '/etc/ca': '' (Errorf ''no such file'')))"
    by (simp add: ParseFiles_def no_files_def demo_watcher_def AddConsumer_def NewWatcher_def)
  from parse_error_ends_watcher [OF this, of 0 "[FileEvent, Tick good_files]" False 7 "[]"]
  show ?thesis by simp
qed

end
