(* ===== verification/Names.thy ===== *)
theory Names
  imports Types
begin

unbundle bit_operations_syntax

text \<open>
  The names ClusterLink generates: endpoint slices of merged imports and system services
  (\<^verbatim>\<open>src/pkg/controlplane/control/manager.go\<close>), xDS clusters and listeners
  (\<^verbatim>\<open>src/pkg/controlplane/api/xds.go\<close>). Uniqueness of these names is what keeps two imports
  or exports from overwriting each other's objects. Also the secret that holds the key
  access tokens are signed with, which both managers of the controlplane read.
\<close>

subsection \<open>Import endpoint slice names\<close>

record importEndpointSliceName =
  ies_importName :: string
  ies_dataplaneEndpointSliceName :: string

definition importEndpointSliceName_Get :: "importEndpointSliceName \<Rightarrow> string" where
  "importEndpointSliceName_Get n =
     ''clusterlink-'' @ Itoa (length (ies_importName n)) @ ''-'' @ ies_importName n
       @ ''-'' @ ies_dataplaneEndpointSliceName n"

text \<open>\<^verbatim>\<open>Parse\<close> writes its receiver: the result is the new receiver and the returned boolean.\<close>

definition importEndpointSliceName_Parse ::
    "importEndpointSliceName \<Rightarrow> string \<Rightarrow> importEndpointSliceName \<times> bool" where
  "importEndpointSliceName_Parse n s =
     (let components = SplitN s CHR ''-'' 3 in
      if length components \<noteq> 3 \<or> components ! 0 \<noteq> ''clusterlink'' then (n, False)
      else (case Atoi (components ! 1) of
              None \<Rightarrow> (n, False)
            | Some importNameLength \<Rightarrow>
                if importNameLength \<le> 0 \<or> importNameLength \<ge> int (length (components ! 2))
                then (n, False)
                else let k = nat importNameLength;
                         n' = n\<lparr>ies_importName := take k (components ! 2),
                                ies_dataplaneEndpointSliceName := drop (k + 1) (components ! 2)\<rparr>
                     in (n', ies_dataplaneEndpointSliceName n' \<noteq> [])))"

lemma dash_notin_Itoa: "CHR ''-'' \<notin> set (Itoa n)"
  using Itoa_chars not_is_digit(1) by blast

lemma SplitN_Get:
  "SplitN (importEndpointSliceName_Get n) CHR ''-'' 3 =
     [''clusterlink'', Itoa (length (ies_importName n)),
      ies_importName n @ ''-'' @ ies_dataplaneEndpointSliceName n]"
proof -
  let ?r = "ies_importName n @ ''-'' @ ies_dataplaneEndpointSliceName n"
  have "importEndpointSliceName_Get n =
      ''clusterlink'' @ CHR ''-'' # Itoa (length (ies_importName n)) @ CHR ''-'' # ?r"
    by (simp add: importEndpointSliceName_Get_def)
  then show ?thesis
    by (simp add: numeral_3_eq_3 SplitN_cut dash_notin_Itoa takeWhile_sep dropWhile_sep)
qed

text \<open>
  Parsing a generated endpoint slice name gives back the import name and the dataplane
  endpoint slice name it was made from, for all non-empty names.
\<close>

theorem Parse_Get:
  assumes "ies_importName n \<noteq> []" and "ies_dataplaneEndpointSliceName n \<noteq> []"
    and "length (ies_importName n) < 2 ^ 63"
  shows "importEndpointSliceName_Parse n0 (importEndpointSliceName_Get n) =
    (n0\<lparr>ies_importName := ies_importName n,
        ies_dataplaneEndpointSliceName := ies_dataplaneEndpointSliceName n\<rparr>, True)"
  using assms
  by (simp add: importEndpointSliceName_Parse_def SplitN_Get Let_def)

theorem Parse_Get_witness:
  "importEndpointSliceName_Parse \<lparr>ies_importName = [], ies_dataplaneEndpointSliceName = []\<rparr>
     ''clusterlink-4-my-s-clusterlink-x7''
   = (\<lparr>ies_importName = ''my-s'', ies_dataplaneEndpointSliceName = ''clusterlink-x7''\<rparr>, True)"
proof -
  let ?n = "\<lparr>ies_importName = ''my-s'', ies_dataplaneEndpointSliceName = ''clusterlink-x7''\<rparr>"
  have "importEndpointSliceName_Get ?n = ''clusterlink-4-my-s-clusterlink-x7''"
    by code_simp
  then show ?thesis
    using Parse_Get [of ?n "\<lparr>ies_importName = [], ies_dataplaneEndpointSliceName = []\<rparr>"]
    by simp
qed

lemma Get_eq_iff:
  "importEndpointSliceName_Get a = importEndpointSliceName_Get b \<longleftrightarrow> a = b"
proof
  assume eq: "importEndpointSliceName_Get a = importEndpointSliceName_Get b"
  have "Itoa (length (ies_importName a)) @ CHR ''-'' # (ies_importName a @ ''-'' @ ies_dataplaneEndpointSliceName a)
      = Itoa (length (ies_importName b)) @ CHR ''-'' # (ies_importName b @ ''-'' @ ies_dataplaneEndpointSliceName b)"
    using eq by (simp add: importEndpointSliceName_Get_def)
  from append_sep_eq [OF dash_notin_Itoa dash_notin_Itoa this]
  have len: "length (ies_importName a) = length (ies_importName b)"
    and r: "ies_importName a @ ''-'' @ ies_dataplaneEndpointSliceName a
      = ies_importName b @ ''-'' @ ies_dataplaneEndpointSliceName b"
    by (auto dest: arg_cong [where f = dec_value] simp: dec_value_Itoa)
  from r len show "a = b" by simp
qed simp

text \<open>
  Two endpoint slices of merged imports have the same name only if they are for the same
  import and the same dataplane endpoint slice.
\<close>

theorem Get_injective:
  "importEndpointSliceName_Get a = importEndpointSliceName_Get b \<longleftrightarrow> a = b"
  by (rule Get_eq_iff)

text \<open>
  \<^verbatim>\<open>Parse\<close> does not check the byte between the two names nor the form of the number: it
  accepts names \<^verbatim>\<open>Get\<close> never generates.
\<close>

theorem Parse_accepts_foreign_name:
  "snd (importEndpointSliceName_Parse n0 ''clusterlink-+1-aXb'')
   \<and> (\<forall>n. importEndpointSliceName_Get n \<noteq> ''clusterlink-+1-aXb'')"
proof
  have "SplitN ''clusterlink-+1-aXb'' CHR ''-'' 3 = [''clusterlink'', ''+1'', ''aXb'']"
    by (simp add: numeral_3_eq_3)
  moreover have "Atoi ''+1'' = Some 1"
    by (simp add: Atoi_def Let_def is_digit_def dec_value_def)
  ultimately show "snd (importEndpointSliceName_Parse n0 ''clusterlink-+1-aXb'')"
    by (simp add: importEndpointSliceName_Parse_def Let_def)
  show "\<forall>n. importEndpointSliceName_Get n \<noteq> ''clusterlink-+1-aXb''"
  proof (intro allI notI)
    fix n assume "importEndpointSliceName_Get n = ''clusterlink-+1-aXb''"
    then have "SplitN ''clusterlink-+1-aXb'' CHR ''-'' 3 ! 1 = Itoa (length (ies_importName n))"
      using SplitN_Get [of n] by simp
    then have "''+1'' = Itoa (length (ies_importName n))" by (simp add: numeral_3_eq_3)
    then have "CHR ''+'' \<in> set (Itoa (length (ies_importName n)))"
      by (metis list.set_intros(1))
    then show False using Itoa_chars not_is_digit(2) by blast
  qed
qed

subsection \<open>MD5\<close>

text \<open>\<^verbatim>\<open>crypto/md5\<close> (RFC 1321), on bytes as natural numbers.\<close>

definition md5_K :: "uint32 list" where
  "md5_K = [
      0xd76aa478, 0xe8c7b756, 0x242070db, 0xc1bdceee, 0xf57c0faf, 0x4787c62a, 0xa8304613, 0xfd469501,
      0x698098d8, 0x8b44f7af, 0xffff5bb1, 0x895cd7be, 0x6b901122, 0xfd987193, 0xa679438e, 0x49b40821,
      0xf61e2562, 0xc040b340, 0x265e5a51, 0xe9b6c7aa, 0xd62f105d, 0x02441453, 0xd8a1e681, 0xe7d3fbc8,
      0x21e1cde6, 0xc33707d6, 0xf4d50d87, 0x455a14ed, 0xa9e3e905, 0xfcefa3f8, 0x676f02d9, 0x8d2a4c8a,
      0xfffa3942, 0x8771f681, 0x6d9d6122, 0xfde5380c, 0xa4beea44, 0x4bdecfa9, 0xf6bb4b60, 0xbebfbc70,
      0x289b7ec6, 0xeaa127fa, 0xd4ef3085, 0x04881d05, 0xd9d4d039, 0xe6db99e5, 0x1fa27cf8, 0xc4ac5665,
      0xf4292244, 0x432aff97, 0xab9423a7, 0xfc93a039, 0x655b59c3, 0x8f0ccc92, 0xffeff47d, 0x85845dd1,
      0x6fa87e4f, 0xfe2ce6e0, 0xa3014314, 0x4e0811a1, 0xf7537e82, 0xbd3af235, 0x2ad7d2bb, 0xeb86d391]"

definition md5_shift :: "nat \<Rightarrow> nat" where
  "md5_shift i =
     (if i < 16 then [7, 12, 17, 22] ! (i mod 4)
      else if i < 32 then [5, 9, 14, 20] ! (i mod 4)
      else if i < 48 then [4, 11, 16, 23] ! (i mod 4)
      else [6, 10, 15, 21] ! (i mod 4))"

type_synonym md5_state = "uint32 \<times> uint32 \<times> uint32 \<times> uint32"

definition md5_step :: "uint32 list \<Rightarrow> nat \<Rightarrow> md5_state \<Rightarrow> md5_state" where
  "md5_step M i s = (case s of (a, b, c, d) \<Rightarrow>
     let (f, g) =
       (if i < 16 then ((b AND c) OR ((NOT b) AND d), i)
        else if i < 32 then ((d AND b) OR ((NOT d) AND c), (5 * i + 1) mod 16)
        else if i < 48 then (b XOR c XOR d, (3 * i + 5) mod 16)
        else (c XOR (b OR (NOT d)), (7 * i) mod 16));
       f' = f + a + md5_K ! i + M ! g;
       k = md5_shift i
     in (d, b + (push_bit k f' OR drop_bit (32 - k) f'), b, c))"

fun le_word :: "nat list \<Rightarrow> uint32" where
  "le_word [] = 0"
| "le_word (b # bs) = word_of_nat b + 256 * le_word bs"

definition le_bytes :: "nat \<Rightarrow> nat \<Rightarrow> nat list" where
  "le_bytes k n = map (\<lambda>i. (n div 256 ^ i) mod 256) [0..<k]"

fun chunks :: "nat \<Rightarrow> 'a list \<Rightarrow> 'a list list" where
  "chunks k [] = []"
| "chunks k (x # xs) = (if k = 0 then [] else take k (x # xs) # chunks k (drop (k - 1) xs))"

definition md5_block :: "nat list \<Rightarrow> md5_state \<Rightarrow> md5_state" where
  "md5_block bs s =
     (let M = map le_word (chunks 4 bs) in
      case (s, fold (md5_step M) [0..<64] s) of
        ((a, b, c, d), (a', b', c', d')) \<Rightarrow> (a + a', b + b', c + c', d + d'))"

definition md5_pad :: "nat list \<Rightarrow> nat list" where
  "md5_pad bs = bs @ [128] @ replicate ((119 - length bs mod 64) mod 64) 0
     @ le_bytes 8 ((8 * length bs) mod 2 ^ 64)"

definition md5_Sum :: "nat list \<Rightarrow> nat list" where
  "md5_Sum bs =
     (case fold md5_block (chunks 64 (md5_pad bs)) (0x67452301, 0xefcdab89, 0x98badcfe, 0x10325476) of
        (a, b, c, d) \<Rightarrow> concat (map (\<lambda>w. le_bytes 4 (unat w)) [a, b, c, d]))"

lemma length_md5_Sum [simp]: "length (md5_Sum bs) = 16"
  by (simp add: md5_Sum_def le_bytes_def split: prod.split)

definition bytes_of :: "string \<Rightarrow> nat list" where
  "bytes_of s = map of_char s"

subsection \<open>System service names\<close>

definition SystemServiceName :: "apimachinery \<Rightarrow> NamespacedName \<Rightarrow> string" where
  "SystemServiceName K name =
     ''import-'' @ ShortenString K (nn_Name name) 10 @ ''-'' @ ShortenString K (nn_Namespace name) 10
       @ ''-'' @ hex (md5_Sum (bytes_of (nn_Namespace name @ ''/'' @ nn_Name name)))"

text \<open>
  The name of the service created in the system namespace for an import has at most 61
  bytes, within the 63 bytes Kubernetes allows a service name.
\<close>

theorem SystemServiceName_length:
  assumes "apimachinery_ok K"
  shows "length (SystemServiceName K name) \<le> 61"
  using apimachinery_okD(4) [OF assms, of "nn_Name name" 10]
    apimachinery_okD(4) [OF assms, of "nn_Namespace name" 10]
  by (simp add: SystemServiceName_def)

theorem SystemServiceName_length_witness:
  "length (SystemServiceName ref_apimachinery
     (NamespacedName ''a-very-long-namespace-name'' ''a-very-long-import-name'')) \<le> 61"
  using SystemServiceName_length [OF ref_apimachinery_ok] by blast

subsection \<open>xDS names\<close>

definition ControlplaneCluster :: string where "ControlplaneCluster = ''controlplane''"
definition EgressRouterCluster :: string where "EgressRouterCluster = ''egress-router''"
definition ExportClusterPrefix :: string where "ExportClusterPrefix = ''export-''"
definition RemotePeerClusterPrefix :: string where "RemotePeerClusterPrefix = ''remote-peer-''"
definition EgressRouterListener :: string where "EgressRouterListener = ''egress-router''"
definition ImportListenerPrefix :: string where "ImportListenerPrefix = ''import-''"
definition IngressRouterListener :: string where "IngressRouterListener = ''ingress-router''"
definition ValidationSecret :: string where "ValidationSecret = ''validation''"
definition CertificateSecret :: string where "CertificateSecret = ''certificate''"

definition ExportClusterName :: "string \<Rightarrow> string \<Rightarrow> string" where
  "ExportClusterName name namespace = ExportClusterPrefix @ namespace @ ''/'' @ name"

definition RemotePeerClusterName :: "string \<Rightarrow> string" where
  "RemotePeerClusterName name = RemotePeerClusterPrefix @ name"

definition ImportListenerName :: "string \<Rightarrow> string \<Rightarrow> string" where
  "ImportListenerName name namespace = ImportListenerPrefix @ namespace @ ''/'' @ name"

lemma slash_name_inject:
  assumes "CHR ''/'' \<notin> set ns" and "CHR ''/'' \<notin> set ns'"
    and "ns @ ''/'' @ n = ns' @ ''/'' @ n'"
  shows "ns = ns' \<and> n = n'"
  using append_sep_eq [of "CHR ''/''" ns ns' n n'] assms by simp

lemma ExportClusterName_inject:
  assumes "CHR ''/'' \<notin> set ns" and "CHR ''/'' \<notin> set ns'"
    and "ExportClusterName n ns = ExportClusterName n' ns'"
  shows "n = n' \<and> ns = ns'"
  using slash_name_inject [of ns ns' n n'] assms by (simp add: ExportClusterName_def)

lemma ImportListenerName_inject:
  assumes "CHR ''/'' \<notin> set ns" and "CHR ''/'' \<notin> set ns'"
    and "ImportListenerName n ns = ImportListenerName n' ns'"
  shows "n = n' \<and> ns = ns'"
  using slash_name_inject [of ns ns' n n'] assms by (simp add: ImportListenerName_def)

lemma RemotePeerClusterName_inject [simp]:
  "RemotePeerClusterName a = RemotePeerClusterName b \<longleftrightarrow> a = b"
  by (simp add: RemotePeerClusterName_def)

lemma Export_Peer_cluster_disjoint [simp]:
  "ExportClusterName n ns \<noteq> RemotePeerClusterName p"
  "RemotePeerClusterName p \<noteq> ExportClusterName n ns"
  by (simp_all add: ExportClusterName_def RemotePeerClusterName_def ExportClusterPrefix_def
        RemotePeerClusterPrefix_def)


subsection \<open>Headers\<close>

definition ImportNameHeader :: string where "ImportNameHeader = ''x-import-name''"
definition ImportNamespaceHeader :: string where "ImportNamespaceHeader = ''x-import-namespace''"
definition ClientIPHeader :: string where "ClientIPHeader = ''x-client-ip''"
definition AuthorizationHeader :: string where "AuthorizationHeader = ''authorization''"
definition TargetClusterHeader :: string where "TargetClusterHeader = ''host''"

subsection \<open>The JWK secret\<close>

definition JWKSecretName :: string where "JWKSecretName = ''jwk''"
definition JWKSecretKeyName :: string where "JWKSecretKeyName = ''key''"

definition ParseJWKSSecret :: "Secret \<Rightarrow> error + nat list" where
  "ParseJWKSSecret secret =
     (case mget (sec_Data secret) JWKSecretKeyName of
        None \<Rightarrow> Inl (Errorf (''secret missing '' @ JWKSecretKeyName @ '' key''))
      | Some keyBase64 \<Rightarrow>
          (case b64_decode keyBase64 of
             None \<Rightarrow> Inl (Errorf ''cannot base64 decode key'')
           | Some keyBytes \<Rightarrow> Inr keyBytes))"

end
