(* ===== verification/K8s.thy ===== *)
theory K8s
  imports Types
begin

text \<open>
  The Kubernetes API client of controller-runtime, which the managers call to read and
  write objects. It is third-party code, so it is a parameter: a record \<open>'s k8s_client\<close> of
  operations on an API server state \<open>'s\<close>. \<open>client_ok\<close> states the documented behaviour over a
  view of the server as one partial function per kind: a read returns the stored object or
  fails, a successful write changes exactly the one object, a failed write either had no
  effect or took effect (the answer may be lost), and a delete that finds nothing means there
  is nothing. Any call may fail. \<open>mem_client\<close> is an
  in-memory instance.
\<close>

record ('s, 'o) kind_api =
  k_Get :: "NamespacedName \<Rightarrow> 's \<Rightarrow> api_error + 'o"
  k_List :: "labels \<Rightarrow> string option \<Rightarrow> 's \<Rightarrow> api_error + 'o list"
  k_Create :: "'o \<Rightarrow> 's \<Rightarrow> 's \<times> api_error option"
  k_Update :: "'o \<Rightarrow> 's \<Rightarrow> 's \<times> api_error option"
  k_StatusUpdate :: "'o \<Rightarrow> 's \<Rightarrow> 's \<times> api_error option"
  k_Delete :: "NamespacedName \<Rightarrow> 's \<Rightarrow> 's \<times> api_error option"

record 's k8s_client =
  cl_Import :: "('s, Import) kind_api"
  cl_Export :: "('s, Export) kind_api"
  cl_Peer :: "('s, Peer) kind_api"
  cl_Service :: "('s, Service) kind_api"
  cl_EndpointSlice :: "('s, EndpointSlice) kind_api"
  cl_Secret :: "('s, Secret) kind_api"

record cluster =
  kv_Import :: "NamespacedName \<Rightarrow> Import option"
  kv_Export :: "NamespacedName \<Rightarrow> Export option"
  kv_Peer :: "NamespacedName \<Rightarrow> Peer option"
  kv_Service :: "NamespacedName \<Rightarrow> Service option"
  kv_EndpointSlice :: "NamespacedName \<Rightarrow> EndpointSlice option"
  kv_Secret :: "NamespacedName \<Rightarrow> Secret option"

definition IsNotFound :: "api_error \<Rightarrow> bool" where
  "IsNotFound e \<longleftrightarrow> fst e = NotFound"

definition IsAlreadyExists :: "api_error \<Rightarrow> bool" where
  "IsAlreadyExists e \<longleftrightarrow> fst e = AlreadyExists"

definition has_labels :: "labels \<Rightarrow> labels \<Rightarrow> bool" where
  "has_labels sel ls \<longleftrightarrow> list_all (\<lambda>(k, v). mget ls k = Some v) sel"

definition selected :: "labels \<Rightarrow> string option \<Rightarrow> ObjectMeta \<Rightarrow> bool" where
  "selected sel ns m \<longleftrightarrow> has_labels sel (om_Labels m)
     \<and> (case ns of None \<Rightarrow> True | Some n \<Rightarrow> om_Namespace m = n)"

text \<open>
  The laws of one kind. \<open>read\<close> is the stored objects, \<open>wrote k o s s'\<close> says that \<open>s'\<close> is \<open>s\<close>
  with the object \<open>o\<close> (or none) under the key \<open>k\<close> and nothing else changed; \<open>upd\<close> and \<open>st\<close> say
  what an update and a status update make of the stored object and the given one (a kind
  with a status subresource keeps the status on the first and the rest on the second).
\<close>

definition write_law ::
    "('s \<Rightarrow> 's \<Rightarrow> bool) \<Rightarrow> ('s \<Rightarrow> 's \<Rightarrow> bool) \<Rightarrow> 's \<Rightarrow> 's \<times> api_error option \<Rightarrow> bool" where
  "write_law same wrote s r \<longleftrightarrow>
     (case r of (s', None) \<Rightarrow> wrote s s' | (s', Some _) \<Rightarrow> same s s' \<or> wrote s s')"

definition kind_ok ::
    "('s, 'o) kind_api \<Rightarrow> ('o \<Rightarrow> ObjectMeta) \<Rightarrow> ('o \<Rightarrow> 'o \<Rightarrow> 'o) \<Rightarrow> ('o \<Rightarrow> 'o \<Rightarrow> 'o)
       \<Rightarrow> ('s \<Rightarrow> NamespacedName \<Rightarrow> 'o option) \<Rightarrow> (NamespacedName \<Rightarrow> 'o option \<Rightarrow> 's \<Rightarrow> 's \<Rightarrow> bool)
       \<Rightarrow> ('s \<Rightarrow> 's \<Rightarrow> bool) \<Rightarrow> bool" where
  "kind_ok A om upd st read wrote same \<longleftrightarrow>
     (\<forall>k s. case k_Get A k s of Inr x \<Rightarrow> read s k = Some x \<and> object_key (om x) = k
            | Inl e \<Rightarrow> IsNotFound e \<longrightarrow> read s k = None)
     \<and> (\<forall>sel ns s xs. k_List A sel ns s = Inr xs \<longrightarrow>
          set xs = {x. read s (object_key (om x)) = Some x \<and> selected sel ns (om x)})
     \<and> (\<forall>x s. write_law same (\<lambda>s s'. read s (object_key (om x)) = None
                 \<and> wrote (object_key (om x)) (Some x) s s') s (k_Create A x s))
     \<and> (\<forall>x s. write_law same (\<lambda>s s'. \<exists>y. read s (object_key (om x)) = Some y
                 \<and> wrote (object_key (om x)) (Some (upd y x)) s s') s (k_Update A x s))
     \<and> (\<forall>x s. write_law same (\<lambda>s s'. \<exists>y. read s (object_key (om x)) = Some y
                 \<and> wrote (object_key (om x)) (Some (st y x)) s s') s (k_StatusUpdate A x s))
     \<and> (\<forall>k s. write_law same (\<lambda>s s'. read s k \<noteq> None \<and> wrote k None s s') s (k_Delete A k s))
     \<and> (\<forall>k s s' e. k_Delete A k s = (s', Some e) \<longrightarrow> IsNotFound e \<longrightarrow> read s' k = None)"

definition client_ok :: "'s k8s_client \<Rightarrow> ('s \<Rightarrow> cluster) \<Rightarrow> bool" where
  "client_ok C view \<longleftrightarrow>
     kind_ok (cl_Import C) imp_Meta (\<lambda>y x. x\<lparr>imp_Status := imp_Status y\<rparr>) (\<lambda>y x. y\<lparr>imp_Status := imp_Status x\<rparr>)
       (\<lambda>s. kv_Import (view s))
       (\<lambda>k x s s'. view s' = (view s)\<lparr>kv_Import := (kv_Import (view s))(k := x)\<rparr>) (\<lambda>s s'. view s' = view s)
     \<and> kind_ok (cl_Export C) exp_Meta (\<lambda>y x. x\<lparr>exp_Status := exp_Status y\<rparr>) (\<lambda>y x. y\<lparr>exp_Status := exp_Status x\<rparr>)
       (\<lambda>s. kv_Export (view s))
       (\<lambda>k x s s'. view s' = (view s)\<lparr>kv_Export := (kv_Export (view s))(k := x)\<rparr>) (\<lambda>s s'. view s' = view s)
     \<and> kind_ok (cl_Peer C) pr_Meta (\<lambda>y x. x\<lparr>pr_Status := pr_Status y\<rparr>) (\<lambda>y x. y\<lparr>pr_Status := pr_Status x\<rparr>)
       (\<lambda>s. kv_Peer (view s))
       (\<lambda>k x s s'. view s' = (view s)\<lparr>kv_Peer := (kv_Peer (view s))(k := x)\<rparr>) (\<lambda>s s'. view s' = view s)
     \<and> kind_ok (cl_Service C) svc_Meta (\<lambda>y x. x) (\<lambda>y x. y)
       (\<lambda>s. kv_Service (view s))
       (\<lambda>k x s s'. view s' = (view s)\<lparr>kv_Service := (kv_Service (view s))(k := x)\<rparr>) (\<lambda>s s'. view s' = view s)
     \<and> kind_ok (cl_EndpointSlice C) es_Meta (\<lambda>y x. x) (\<lambda>y x. y)
       (\<lambda>s. kv_EndpointSlice (view s))
       (\<lambda>k x s s'. view s' = (view s)\<lparr>kv_EndpointSlice := (kv_EndpointSlice (view s))(k := x)\<rparr>)
       (\<lambda>s s'. view s' = view s)
     \<and> kind_ok (cl_Secret C) sec_Meta (\<lambda>y x. x) (\<lambda>y x. y)
       (\<lambda>s. kv_Secret (view s))
       (\<lambda>k x s s'. view s' = (view s)\<lparr>kv_Secret := (kv_Secret (view s))(k := x)\<rparr>) (\<lambda>s s'. view s' = view s)"

lemma client_okD:
  assumes "client_ok C view"
  shows "kind_ok (cl_Import C) imp_Meta (\<lambda>y x. x\<lparr>imp_Status := imp_Status y\<rparr>) (\<lambda>y x. y\<lparr>imp_Status := imp_Status x\<rparr>)
      (\<lambda>s. kv_Import (view s))
      (\<lambda>k x s s'. view s' = (view s)\<lparr>kv_Import := (kv_Import (view s))(k := x)\<rparr>) (\<lambda>s s'. view s' = view s)"
    and "kind_ok (cl_Export C) exp_Meta (\<lambda>y x. x\<lparr>exp_Status := exp_Status y\<rparr>) (\<lambda>y x. y\<lparr>exp_Status := exp_Status x\<rparr>)
      (\<lambda>s. kv_Export (view s))
      (\<lambda>k x s s'. view s' = (view s)\<lparr>kv_Export := (kv_Export (view s))(k := x)\<rparr>) (\<lambda>s s'. view s' = view s)"
    and "kind_ok (cl_Peer C) pr_Meta (\<lambda>y x. x\<lparr>pr_Status := pr_Status y\<rparr>) (\<lambda>y x. y\<lparr>pr_Status := pr_Status x\<rparr>)
      (\<lambda>s. kv_Peer (view s))
      (\<lambda>k x s s'. view s' = (view s)\<lparr>kv_Peer := (kv_Peer (view s))(k := x)\<rparr>) (\<lambda>s s'. view s' = view s)"
    and "kind_ok (cl_Service C) svc_Meta (\<lambda>y x. x) (\<lambda>y x. y) (\<lambda>s. kv_Service (view s))
      (\<lambda>k x s s'. view s' = (view s)\<lparr>kv_Service := (kv_Service (view s))(k := x)\<rparr>) (\<lambda>s s'. view s' = view s)"
    and "kind_ok (cl_EndpointSlice C) es_Meta (\<lambda>y x. x) (\<lambda>y x. y) (\<lambda>s. kv_EndpointSlice (view s))
      (\<lambda>k x s s'. view s' = (view s)\<lparr>kv_EndpointSlice := (kv_EndpointSlice (view s))(k := x)\<rparr>)
      (\<lambda>s s'. view s' = view s)"
    and "kind_ok (cl_Secret C) sec_Meta (\<lambda>y x. x) (\<lambda>y x. y) (\<lambda>s. kv_Secret (view s))
      (\<lambda>k x s s'. view s' = (view s)\<lparr>kv_Secret := (kv_Secret (view s))(k := x)\<rparr>) (\<lambda>s s'. view s' = view s)"
  using assms unfolding client_ok_def by blast+

lemma kind_okD:
  assumes "kind_ok A om upd st read wrote same"
  shows "k_Get A k s = Inr x \<Longrightarrow> read s k = Some x"
    and "k_Get A k s = Inr x \<Longrightarrow> object_key (om x) = k"
    and "k_Get A k s = Inl e \<Longrightarrow> IsNotFound e \<Longrightarrow> read s k = None"
    and "k_List A sel ns s = Inr xs \<Longrightarrow>
      set xs = {x. read s (object_key (om x)) = Some x \<and> selected sel ns (om x)}"
    and "write_law same (\<lambda>s s'. read s (object_key (om x)) = None
      \<and> wrote (object_key (om x)) (Some x) s s') s (k_Create A x s)"
    and "write_law same (\<lambda>s s'. \<exists>y. read s (object_key (om x)) = Some y
      \<and> wrote (object_key (om x)) (Some (upd y x)) s s') s (k_Update A x s)"
    and "write_law same (\<lambda>s s'. \<exists>y. read s (object_key (om x)) = Some y
      \<and> wrote (object_key (om x)) (Some (st y x)) s s') s (k_StatusUpdate A x s)"
    and "write_law same (\<lambda>s s'. read s k \<noteq> None \<and> wrote k None s s') s (k_Delete A k s)"
    and "k_Delete A k s = (s', Some e) \<Longrightarrow> IsNotFound e \<Longrightarrow> read s' k = None"
proof -
  have g: "case k_Get A k s of Inr x \<Rightarrow> read s k = Some x \<and> object_key (om x) = k
      | Inl e \<Rightarrow> IsNotFound e \<longrightarrow> read s k = None"
    using assms unfolding kind_ok_def by (elim conjE) (drule spec, drule spec, assumption)
  show "k_Get A k s = Inr x \<Longrightarrow> read s k = Some x" and "k_Get A k s = Inr x \<Longrightarrow> object_key (om x) = k"
    and "k_Get A k s = Inl e \<Longrightarrow> IsNotFound e \<Longrightarrow> read s k = None"
    using g by simp_all
  have d: "\<forall>k s s' e. k_Delete A k s = (s', Some e) \<longrightarrow> IsNotFound e \<longrightarrow> read s' k = None"
    using assms unfolding kind_ok_def by (elim conjE)
  show "k_Delete A k s = (s', Some e) \<Longrightarrow> IsNotFound e \<Longrightarrow> read s' k = None"
    using d by blast
qed (use assms in \<open>unfold kind_ok_def, elim conjE, simp\<close>)+


subsection \<open>An in-memory API server\<close>

record mem =
  mem_Import :: "(NamespacedName, Import) gomap"
  mem_Export :: "(NamespacedName, Export) gomap"
  mem_Peer :: "(NamespacedName, Peer) gomap"
  mem_Service :: "(NamespacedName, Service) gomap"
  mem_EndpointSlice :: "(NamespacedName, EndpointSlice) gomap"
  mem_Secret :: "(NamespacedName, Secret) gomap"

definition empty_mem :: mem where
  "empty_mem = \<lparr>mem_Import = [], mem_Export = [], mem_Peer = [], mem_Service = [],
     mem_EndpointSlice = [], mem_Secret = []\<rparr>"

definition mread :: "('o \<Rightarrow> ObjectMeta) \<Rightarrow> (NamespacedName, 'o) gomap \<Rightarrow> NamespacedName \<Rightarrow> 'o option" where
  "mread om l k = (case mget l k of None \<Rightarrow> None
                   | Some x \<Rightarrow> if object_key (om x) = k then Some x else None)"

definition mem_kind ::
    "('m \<Rightarrow> (NamespacedName, 'o) gomap) \<Rightarrow> ((NamespacedName, 'o) gomap \<Rightarrow> 'm \<Rightarrow> 'm) \<Rightarrow> ('o \<Rightarrow> ObjectMeta)
       \<Rightarrow> ('o \<Rightarrow> 'o \<Rightarrow> 'o) \<Rightarrow> ('o \<Rightarrow> 'o \<Rightarrow> 'o) \<Rightarrow> ('m, 'o) kind_api" where
  "mem_kind g p om upd st = \<lparr>
     k_Get = (\<lambda>k s. case mread om (g s) k of None \<Rightarrow> Inl (NotFound, ''not found'') | Some x \<Rightarrow> Inr x),
     k_List = (\<lambda>sel ns s. Inr (filter (\<lambda>x. mread om (g s) (object_key (om x)) = Some x \<and> selected sel ns (om x))
                 (map snd (g s)))),
     k_Create = (\<lambda>x s. case mread om (g s) (object_key (om x)) of
         Some _ \<Rightarrow> (s, Some (AlreadyExists, ''already exists''))
       | None \<Rightarrow> (p (mput (object_key (om x)) x (g s)) s, None)),
     k_Update = (\<lambda>x s. case mread om (g s) (object_key (om x)) of
         None \<Rightarrow> (s, Some (NotFound, ''not found''))
       | Some y \<Rightarrow> (p (mput (object_key (om x)) (upd y x) (g s)) s, None)),
     k_StatusUpdate = (\<lambda>x s. case mread om (g s) (object_key (om x)) of
         None \<Rightarrow> (s, Some (NotFound, ''not found''))
       | Some y \<Rightarrow> (p (mput (object_key (om x)) (st y x) (g s)) s, None)),
     k_Delete = (\<lambda>k s. case mread om (g s) k of
         None \<Rightarrow> (s, Some (NotFound, ''not found''))
       | Some y \<Rightarrow> (p (mdel k (g s)) s, None))\<rparr>"

definition mem_view :: "mem \<Rightarrow> cluster" where
  "mem_view m = \<lparr>kv_Import = mread imp_Meta (mem_Import m), kv_Export = mread exp_Meta (mem_Export m),
     kv_Peer = mread pr_Meta (mem_Peer m), kv_Service = mread svc_Meta (mem_Service m),
     kv_EndpointSlice = mread es_Meta (mem_EndpointSlice m), kv_Secret = mread sec_Meta (mem_Secret m)\<rparr>"

definition mem_client :: "mem k8s_client" where
  "mem_client = \<lparr>
     cl_Import = mem_kind mem_Import (\<lambda>l. mem_Import_update (\<lambda>_. l)) imp_Meta
       (\<lambda>y x. x\<lparr>imp_Status := imp_Status y\<rparr>) (\<lambda>y x. y\<lparr>imp_Status := imp_Status x\<rparr>),
     cl_Export = mem_kind mem_Export (\<lambda>l. mem_Export_update (\<lambda>_. l)) exp_Meta
       (\<lambda>y x. x\<lparr>exp_Status := exp_Status y\<rparr>) (\<lambda>y x. y\<lparr>exp_Status := exp_Status x\<rparr>),
     cl_Peer = mem_kind mem_Peer (\<lambda>l. mem_Peer_update (\<lambda>_. l)) pr_Meta
       (\<lambda>y x. x\<lparr>pr_Status := pr_Status y\<rparr>) (\<lambda>y x. y\<lparr>pr_Status := pr_Status x\<rparr>),
     cl_Service = mem_kind mem_Service (\<lambda>l. mem_Service_update (\<lambda>_. l)) svc_Meta (\<lambda>y x. x) (\<lambda>y x. y),
     cl_EndpointSlice = mem_kind mem_EndpointSlice (\<lambda>l. mem_EndpointSlice_update (\<lambda>_. l)) es_Meta
       (\<lambda>y x. x) (\<lambda>y x. y),
     cl_Secret = mem_kind mem_Secret (\<lambda>l. mem_Secret_update (\<lambda>_. l)) sec_Meta (\<lambda>y x. x) (\<lambda>y x. y)\<rparr>"

lemma mread_key: "mread om l k = Some x \<Longrightarrow> object_key (om x) = k"
  by (auto simp: mread_def split: option.splits if_splits)

lemma mread_mput: "object_key (om x) = k \<Longrightarrow> mread om (mput k x l) = (mread om l)(k \<mapsto> x)"
  by (auto simp: mread_def fun_eq_iff)

lemma mread_mdel: "mread om (mdel k l) = (mread om l)(k := None)"
  by (auto simp: mread_def fun_eq_iff)

lemma mread_mem: "mread om l (object_key (om x)) = Some x \<Longrightarrow> x \<in> snd ` set l"
  by (force simp: mread_def dest: map_of_SomeD split: option.splits if_splits)

lemma mem_kind_ok:
  assumes upd: "\<And>y x. om (upd y x) = om x" and st: "\<And>y x. om (st y x) = om y"
    and read: "\<And>s. read s = mread om (g s)"
    and wrote: "\<And>k l x s. mread om l = (mread om (g s))(k := x) \<Longrightarrow> wrote k x s (p l s)"
    and same: "\<And>s. same s s"
  shows "kind_ok (mem_kind g p om upd st) om upd st read wrote same"
  unfolding kind_ok_def
proof (intro conjI allI impI)
  fix k s show "case k_Get (mem_kind g p om upd st) k s of Inl e \<Rightarrow> IsNotFound e \<longrightarrow> read s k = None
      | Inr x \<Rightarrow> read s k = Some x \<and> object_key (om x) = k"
    by (auto simp: mem_kind_def read dest: mread_key split: option.split)
next
  fix sel ns s xs assume "k_List (mem_kind g p om upd st) sel ns s = Inr xs"
  then show "set xs = {x. read s (object_key (om x)) = Some x \<and> selected sel ns (om x)}"
    by (auto simp: mem_kind_def read dest: mread_mem)
next
  fix x s show "write_law same (\<lambda>s s'. read s (object_key (om x)) = None
      \<and> wrote (object_key (om x)) (Some x) s s') s (k_Create (mem_kind g p om upd st) x s)"
    by (auto simp: mem_kind_def write_law_def read same mread_mput intro!: wrote split: option.split)
next
  fix x s show "write_law same (\<lambda>s s'. \<exists>y. read s (object_key (om x)) = Some y
      \<and> wrote (object_key (om x)) (Some (upd y x)) s s') s (k_Update (mem_kind g p om upd st) x s)"
    by (auto simp: mem_kind_def write_law_def read same upd mread_mput intro!: wrote split: option.split)
next
  fix x s show "write_law same (\<lambda>s s'. \<exists>y. read s (object_key (om x)) = Some y
      \<and> wrote (object_key (om x)) (Some (st y x)) s s') s (k_StatusUpdate (mem_kind g p om upd st) x s)"
    by (auto simp: mem_kind_def write_law_def read same st mread_mput dest: mread_key intro!: wrote
        split: option.split)
next
  fix k s show "write_law same (\<lambda>s s'. read s k \<noteq> None \<and> wrote k None s s') s
      (k_Delete (mem_kind g p om upd st) k s)"
    by (auto simp: mem_kind_def write_law_def read same mread_mdel intro!: wrote split: option.split)
next
  fix k s s' e assume "k_Delete (mem_kind g p om upd st) k s = (s', Some e)"
  then show "read s' k = None" by (auto simp: mem_kind_def read split: option.splits)
qed

lemma mem_client_ok: "client_ok mem_client mem_view"
  unfolding client_ok_def mem_client_def
  by (intro conjI) (auto intro!: mem_kind_ok simp: mem_view_def)

end
