(* ===== verification/Pdp.thy ===== *)
theory Pdp
  imports Types
begin

text \<open>
  The policy decision point: \<^verbatim>\<open>src/pkg/controlplane/authz/connectivitypdp\<close> and the validation
  of policies in \<^verbatim>\<open>src/pkg/apis/clusterlink.net/v1alpha1/accesspolicy.go\<close>.

  A tier keeps its deny policies and its allow policies in two maps; the PDP has a
  privileged and a regular tier. The specification is \<open>spec_decide\<close>, a decision read off one
  partial function from policy names to policies, without tiers, maps or iteration order;
  \<open>Decide\<close> refines it under every range order (\<open>Decide_correct\<close>), and adding and deleting
  policies refine update and removal of that partial function. The operations' contract is
  the locale \<open>policy_engine\<close>, interpreted on the PDP.
\<close>

subsection \<open>Validation\<close>

definition WorkloadSetOrSelector_validate ::
    "apimachinery \<Rightarrow> WorkloadSetOrSelector \<Rightarrow> error option" where
  "WorkloadSetOrSelector_validate K wss =
     (if length (wss_WorkloadSets wss) > 0 \<and> wss_WorkloadSelector wss \<noteq> None
         \<or> length (wss_WorkloadSets wss) = 0 \<and> wss_WorkloadSelector wss = None
      then Some (Errorf ''exactly one of WorkloadSets or WorkloadSelector must be set'')
      else if length (wss_WorkloadSets wss) > 0
      then Some (Errorf ''workload sets are not yet supported'')
      else (case LabelSelectorAsSelector K (wss_WorkloadSelector wss) of
              Inl err \<Rightarrow> Some err | Inr _ \<Rightarrow> None))"

fun WorkloadSetOrSelectorList_validate ::
    "apimachinery \<Rightarrow> WorkloadSetOrSelectorList \<Rightarrow> error option" where
  "WorkloadSetOrSelectorList_validate K [] = None"
| "WorkloadSetOrSelectorList_validate K (wss # wsl) =
     (case WorkloadSetOrSelector_validate K wss of
        Some err \<Rightarrow> Some err
      | None \<Rightarrow> WorkloadSetOrSelectorList_validate K wsl)"

definition AccessPolicySpec_Validate :: "apimachinery \<Rightarrow> AccessPolicySpec \<Rightarrow> error option" where
  "AccessPolicySpec_Validate K p =
     (if aps_Action p \<noteq> AccessPolicyActionAllow \<and> aps_Action p \<noteq> AccessPolicyActionDeny
      then Some (Errorf (''unsupported policy actions '' @ aps_Action p))
      else if length (aps_From p) = 0 then Some (Errorf ''empty From field is not allowed'')
      else (case WorkloadSetOrSelectorList_validate K (aps_From p) of
              Some err \<Rightarrow> Some err
            | None \<Rightarrow>
                if length (aps_To p) = 0 then Some (Errorf ''empty To field is not allowed'')
                else WorkloadSetOrSelectorList_validate K (aps_To p)))"

subsection \<open>Data\<close>

datatype Decision = DecisionUndecided | DecisionAllow | DecisionDeny

type_synonym connPolicyMap = "(NamespacedName, AccessPolicySpec) gomap"
type_synonym policy_range = "connPolicyMap \<Rightarrow> connPolicyMap"

record policyTier =
  pt_privileged :: bool
  pt_denyPolicies :: connPolicyMap
  pt_allowPolicies :: connPolicyMap

record PDP =
  pdp_privilegedPolicies :: policyTier
  pdp_regularPolicies :: policyTier

record DestinationDecision =
  dd_Destination :: WorkloadAttrs
  dd_Decision :: Decision
  dd_MatchedBy :: string
  dd_PrivilegedMatch :: bool

record AccessPolicy =
  pol_name :: NamespacedName
  pol_privileged :: bool
  pol_spec :: AccessPolicySpec

definition DefaultDenyPolicyName :: string where
  "DefaultDenyPolicyName = ''<default deny>''"

definition PolicyFromCR :: "AccessPolicyCR \<Rightarrow> AccessPolicy" where
  "PolicyFromCR vap = \<lparr>pol_name = NamespacedName (om_Namespace (ap_Meta vap)) (om_Name (ap_Meta vap)),
     pol_privileged = False, pol_spec = ap_Spec vap\<rparr>"

definition PolicyFromPrivilegedCR :: "PrivilegedAccessPolicyCR \<Rightarrow> AccessPolicy" where
  "PolicyFromPrivilegedCR vap = \<lparr>pol_name = NamespacedName [] (om_Name (pap_Meta vap)),
     pol_privileged = True, pol_spec = pap_Spec vap\<rparr>"

subsection \<open>Matching\<close>

definition workloadSetOrSelectorMatches ::
    "apimachinery \<Rightarrow> WorkloadSetOrSelector \<Rightarrow> WorkloadAttrs \<Rightarrow> error + bool" where
  "workloadSetOrSelectorMatches K wss workloadAttrs =
     (case LabelSelectorAsSelector K (wss_WorkloadSelector wss) of
        Inl err \<Rightarrow> Inl err
      | Inr selector \<Rightarrow> Inr (selector workloadAttrs))"

fun WorkloadSetOrSelectorListMatches ::
    "apimachinery \<Rightarrow> WorkloadSetOrSelectorList \<Rightarrow> WorkloadAttrs \<Rightarrow> error + bool" where
  "WorkloadSetOrSelectorListMatches K [] workloadAttrs = Inr False"
| "WorkloadSetOrSelectorListMatches K (wss # wsl) workloadAttrs =
     (case workloadSetOrSelectorMatches K wss workloadAttrs of
        Inl err \<Rightarrow> Inl err
      | Inr matched \<Rightarrow>
          if matched then Inr True else WorkloadSetOrSelectorListMatches K wsl workloadAttrs)"

definition accessPolicyMatches ::
    "apimachinery \<Rightarrow> AccessPolicySpec \<Rightarrow> WorkloadAttrs \<Rightarrow> WorkloadAttrs \<Rightarrow> error + bool" where
  "accessPolicyMatches K policy src dest =
     (case WorkloadSetOrSelectorListMatches K (aps_From policy) src of
        Inl err \<Rightarrow> Inl err
      | Inr matched \<Rightarrow>
          if \<not> matched then Inr False
          else WorkloadSetOrSelectorListMatches K (aps_To policy) dest)"

definition accessPolicyDecide ::
    "apimachinery \<Rightarrow> AccessPolicySpec \<Rightarrow> WorkloadAttrs \<Rightarrow> WorkloadAttrs \<Rightarrow> error + Decision" where
  "accessPolicyDecide K policy src dest =
     (case accessPolicyMatches K policy src dest of
        Inl err \<Rightarrow> Inl err
      | Inr matches \<Rightarrow>
          if matches
          then (if aps_Action policy = AccessPolicyActionAllow then Inr DecisionAllow
                else Inr DecisionDeny)
          else Inr DecisionUndecided)"

subsection \<open>Policy maps and tiers\<close>

text \<open>
  The loop of \<^verbatim>\<open>connPolicyMap.decide\<close> over the entries in range order. The decision it
  writes through the pointer \<^verbatim>\<open>dest\<close> is the first component of the result.
\<close>

fun decide_loop ::
    "apimachinery \<Rightarrow> connPolicyMap \<Rightarrow> WorkloadAttrs \<Rightarrow> DestinationDecision \<Rightarrow> bool \<Rightarrow> string
       \<Rightarrow> DestinationDecision \<times> (error + bool)" where
  "decide_loop K [] src dest privileged ns = (dest, Inr False)"
| "decide_loop K ((policyName, policy) # rest) src dest privileged ns =
     (if \<not> privileged \<and> nn_Namespace policyName \<noteq> ns
      then decide_loop K rest src dest privileged ns
      else (case accessPolicyDecide K policy src (dd_Destination dest) of
              Inl err \<Rightarrow> (dest, Inl err)
            | Inr decision \<Rightarrow>
                if decision \<noteq> DecisionUndecided
                then (dest\<lparr>dd_Decision := decision,
                           dd_MatchedBy := NamespacedName_String K policyName,
                           dd_PrivilegedMatch := privileged\<rparr>, Inr True)
                else decide_loop K rest src dest privileged ns))"

definition connPolicyMap_decide ::
    "apimachinery \<Rightarrow> policy_range \<Rightarrow> connPolicyMap \<Rightarrow> WorkloadAttrs \<Rightarrow> DestinationDecision \<Rightarrow> bool
       \<Rightarrow> string \<Rightarrow> DestinationDecision \<times> (error + bool)" where
  "connPolicyMap_decide K rng cpm src dest privileged ns =
     decide_loop K (rng cpm) src dest privileged ns"

fun selector_depends :: "WorkloadSetOrSelectorList \<Rightarrow> bool" where
  "selector_depends [] = False"
| "selector_depends (wss # wsl) =
     (case wss_WorkloadSelector wss of
        None \<Rightarrow> selector_depends wsl
      | Some selector \<Rightarrow>
          if length (ls_MatchExpressions selector) > 0 \<or> length (ls_MatchLabels selector) > 0
          then True else selector_depends wsl)"

fun connPolicyMap_dependsOnClientAttrs :: "connPolicyMap \<Rightarrow> bool" where
  "connPolicyMap_dependsOnClientAttrs [] = False"
| "connPolicyMap_dependsOnClientAttrs ((_, policySpec) # cpm) =
     (if selector_depends (aps_From policySpec) then True
      else connPolicyMap_dependsOnClientAttrs cpm)"

definition newPolicyTier :: "bool \<Rightarrow> policyTier" where
  "newPolicyTier privileged =
     \<lparr>pt_privileged = privileged, pt_denyPolicies = [], pt_allowPolicies = []\<rparr>"

definition policyTier_dependsOnClientAttrs :: "policyTier \<Rightarrow> bool" where
  "policyTier_dependsOnClientAttrs pt =
     (connPolicyMap_dependsOnClientAttrs (pt_denyPolicies pt)
      \<or> connPolicyMap_dependsOnClientAttrs (pt_allowPolicies pt))"

text \<open>
  \<^verbatim>\<open>unsafeDeletePolicy\<close>, and the two operations that call it under the tier's lock.
\<close>

definition unsafeDeletePolicy ::
    "apimachinery \<Rightarrow> NamespacedName \<Rightarrow> policyTier \<Rightarrow> policyTier \<times> error option" where
  "unsafeDeletePolicy K policyName pt =
     (let okDeny = (mget (pt_denyPolicies pt) policyName \<noteq> None);
          pt1 = (if okDeny then pt\<lparr>pt_denyPolicies := mdel policyName (pt_denyPolicies pt)\<rparr> else pt);
          okAllow = (mget (pt_allowPolicies pt1) policyName \<noteq> None);
          pt2 = (if okAllow then pt1\<lparr>pt_allowPolicies := mdel policyName (pt_allowPolicies pt1)\<rparr>
                 else pt1)
      in if \<not> okDeny \<and> \<not> okAllow
         then (pt2, Some (Errorf (''failed deleting AccessPolicy '' @ NamespacedName_String K policyName)))
         else (pt2, None))"

definition addPolicy ::
    "apimachinery \<Rightarrow> NamespacedName \<Rightarrow> AccessPolicySpec \<Rightarrow> policyTier \<Rightarrow> policyTier" where
  "addPolicy K policyName policySpec pt =
     (let pt1 = fst (unsafeDeletePolicy K policyName pt)
      in if aps_Action policySpec = AccessPolicyActionDeny
         then pt1\<lparr>pt_denyPolicies := mput policyName policySpec (pt_denyPolicies pt1)\<rparr>
         else pt1\<lparr>pt_allowPolicies := mput policyName policySpec (pt_allowPolicies pt1)\<rparr>)"

definition policyTier_deletePolicy ::
    "apimachinery \<Rightarrow> NamespacedName \<Rightarrow> policyTier \<Rightarrow> policyTier \<times> error option" where
  "policyTier_deletePolicy K policyName pt = unsafeDeletePolicy K policyName pt"

definition policyTier_decide ::
    "apimachinery \<Rightarrow> policy_range \<Rightarrow> policyTier \<Rightarrow> WorkloadAttrs \<Rightarrow> DestinationDecision \<Rightarrow> string
       \<Rightarrow> DestinationDecision \<times> (error + bool)" where
  "policyTier_decide K rng pt src dest ns =
     (case connPolicyMap_decide K rng (pt_denyPolicies pt) src dest (pt_privileged pt) ns of
        (dest, Inl err) \<Rightarrow> (dest, Inl err)
      | (dest, Inr decided) \<Rightarrow>
          if decided then (dest, Inr True)
          else connPolicyMap_decide K rng (pt_allowPolicies pt) src dest (pt_privileged pt) ns)"

text \<open>
  \<^verbatim>\<open>getPolicies\<close> returns the deny map itself after copying the allow policies into it, so the
  tier it reads is changed: the result is the new tier and the returned map.
\<close>

definition policyTier_getPolicies :: "policy_range \<Rightarrow> policyTier \<Rightarrow> policyTier \<times> connPolicyMap" where
  "policyTier_getPolicies rng pt =
     (let res = fold (\<lambda>(key, val) m. mput key val m) (rng (pt_allowPolicies pt)) (pt_denyPolicies pt)
      in (pt\<lparr>pt_denyPolicies := res\<rparr>, res))"

subsection \<open>The PDP\<close>

definition NewPDP :: PDP where
  "NewPDP = \<lparr>pdp_privilegedPolicies = newPolicyTier True, pdp_regularPolicies = newPolicyTier False\<rparr>"

definition GetPrivilegedPolicies ::
    "policy_range \<Rightarrow> PDP \<Rightarrow> PDP \<times> PrivilegedAccessPolicyCR list" where
  "GetPrivilegedPolicies rng pdp =
     (let (pt, pols) = policyTier_getPolicies rng (pdp_privilegedPolicies pdp)
      in (pdp\<lparr>pdp_privilegedPolicies := pt\<rparr>,
          map (\<lambda>(polName, polSpec). \<lparr>pap_Meta = \<lparr>om_Name = nn_Name polName,
                 om_Namespace = nn_Namespace polName, om_Labels = []\<rparr>, pap_Spec = polSpec\<rparr>) (rng pols)))"

definition GetPolicies :: "policy_range \<Rightarrow> PDP \<Rightarrow> PDP \<times> AccessPolicyCR list" where
  "GetPolicies rng pdp =
     (let (pt, pols) = policyTier_getPolicies rng (pdp_regularPolicies pdp)
      in (pdp\<lparr>pdp_regularPolicies := pt\<rparr>,
          map (\<lambda>(polName, polSpec). \<lparr>ap_Meta = \<lparr>om_Name = nn_Name polName,
                 om_Namespace = nn_Namespace polName, om_Labels = []\<rparr>, ap_Spec = polSpec\<rparr>) (rng pols)))"

definition DependsOnClientAttrs :: "PDP \<Rightarrow> bool" where
  "DependsOnClientAttrs pdp =
     (policyTier_dependsOnClientAttrs (pdp_privilegedPolicies pdp)
      \<or> policyTier_dependsOnClientAttrs (pdp_regularPolicies pdp))"

definition AddOrUpdatePolicy :: "apimachinery \<Rightarrow> AccessPolicy \<Rightarrow> PDP \<Rightarrow> PDP \<times> error option" where
  "AddOrUpdatePolicy K policy pdp =
     (case AccessPolicySpec_Validate K (pol_spec policy) of
        Some err \<Rightarrow> (pdp, Some err)
      | None \<Rightarrow>
          (if pol_privileged policy
           then pdp\<lparr>pdp_privilegedPolicies :=
                  addPolicy K (pol_name policy) (pol_spec policy) (pdp_privilegedPolicies pdp)\<rparr>
           else pdp\<lparr>pdp_regularPolicies :=
                  addPolicy K (pol_name policy) (pol_spec policy) (pdp_regularPolicies pdp)\<rparr>, None))"

definition DeletePolicy ::
    "apimachinery \<Rightarrow> NamespacedName \<Rightarrow> bool \<Rightarrow> PDP \<Rightarrow> PDP \<times> error option" where
  "DeletePolicy K policyName privileged pdp =
     (if privileged
      then let (pt, err) = policyTier_deletePolicy K policyName (pdp_privilegedPolicies pdp)
           in (pdp\<lparr>pdp_privilegedPolicies := pt\<rparr>, err)
      else let (pt, err) = policyTier_deletePolicy K policyName (pdp_regularPolicies pdp)
           in (pdp\<lparr>pdp_regularPolicies := pt\<rparr>, err))"

definition Decide ::
    "apimachinery \<Rightarrow> policy_range \<Rightarrow> PDP \<Rightarrow> WorkloadAttrs \<Rightarrow> WorkloadAttrs \<Rightarrow> string
       \<Rightarrow> error + DestinationDecision" where
  "Decide K rng pdp src dest ns =
     (let decision = \<lparr>dd_Destination = dest, dd_Decision = DecisionUndecided, dd_MatchedBy = [],
                      dd_PrivilegedMatch = False\<rparr>
      in case policyTier_decide K rng (pdp_privilegedPolicies pdp) src decision ns of
           (_, Inl err) \<Rightarrow> Inl err
         | (decision, Inr decided) \<Rightarrow>
             if decided then Inr decision
             else (case policyTier_decide K rng (pdp_regularPolicies pdp) src decision ns of
                     (_, Inl err) \<Rightarrow> Inl err
                   | (decision, Inr decided) \<Rightarrow>
                       if decided then Inr decision
                       else Inr (decision\<lparr>dd_Decision := DecisionDeny,
                                   dd_MatchedBy := DefaultDenyPolicyName,
                                   dd_PrivilegedMatch := False\<rparr>)))"

subsection \<open>Specification\<close>

text \<open>
  The policies of a PDP as one partial function from privilege and name, and the decision
  they make: within a tier deny takes precedence over allow, the privileged tier takes
  precedence over the regular one, regular policies apply in their own namespace only, and
  what no policy matches is denied.
\<close>

type_synonym policies = "bool \<times> NamespacedName \<Rightarrow> AccessPolicySpec option"

definition tier_policy :: "policyTier \<Rightarrow> NamespacedName \<Rightarrow> AccessPolicySpec option" where
  "tier_policy pt n = (case mget (pt_denyPolicies pt) n of Some s \<Rightarrow> Some s
                       | None \<Rightarrow> mget (pt_allowPolicies pt) n)"

definition pdp_policy :: "PDP \<Rightarrow> policies" where
  "pdp_policy pdp = (\<lambda>(privileged, n). tier_policy
     (if privileged then pdp_privilegedPolicies pdp else pdp_regularPolicies pdp) n)"

definition selects :: "apimachinery \<Rightarrow> WorkloadAttrs \<Rightarrow> WorkloadSetOrSelector \<Rightarrow> bool" where
  "selects K attrs wss =
     (case LabelSelectorAsSelector K (wss_WorkloadSelector wss) of Inl _ \<Rightarrow> False | Inr f \<Rightarrow> f attrs)"

definition policy_matches ::
    "apimachinery \<Rightarrow> AccessPolicySpec \<Rightarrow> WorkloadAttrs \<Rightarrow> WorkloadAttrs \<Rightarrow> bool" where
  "policy_matches K s src dst \<longleftrightarrow>
     (\<exists>w \<in> set (aps_From s). selects K src w) \<and> (\<exists>w \<in> set (aps_To s). selects K dst w)"

definition applies ::
    "apimachinery \<Rightarrow> policies \<Rightarrow> bool \<Rightarrow> AccessPolicyAction \<Rightarrow> WorkloadAttrs \<Rightarrow> WorkloadAttrs \<Rightarrow> string
       \<Rightarrow> bool" where
  "applies K P privileged act src dst ns \<longleftrightarrow>
     (\<exists>n s. P (privileged, n) = Some s \<and> aps_Action s = act
        \<and> (privileged \<or> nn_Namespace n = ns) \<and> policy_matches K s src dst)"

definition spec_decide ::
    "apimachinery \<Rightarrow> policies \<Rightarrow> WorkloadAttrs \<Rightarrow> WorkloadAttrs \<Rightarrow> string \<Rightarrow> Decision" where
  "spec_decide K P src dst ns =
     (if applies K P True AccessPolicyActionDeny src dst ns then DecisionDeny
      else if applies K P True AccessPolicyActionAllow src dst ns then DecisionAllow
      else if applies K P False AccessPolicyActionDeny src dst ns then DecisionDeny
      else if applies K P False AccessPolicyActionAllow src dst ns then DecisionAllow
      else DecisionDeny)"

text \<open>The invariant of the tiers: the maps are disjoint and hold validated policies of their action.\<close>

definition tier_inv :: "apimachinery \<Rightarrow> bool \<Rightarrow> policyTier \<Rightarrow> bool" where
  "tier_inv K privileged pt \<longleftrightarrow> pt_privileged pt = privileged
     \<and> mwf (pt_denyPolicies pt) \<and> mwf (pt_allowPolicies pt)
     \<and> (\<forall>n s. mget (pt_denyPolicies pt) n = Some s \<longrightarrow>
          aps_Action s = AccessPolicyActionDeny \<and> AccessPolicySpec_Validate K s = None
          \<and> mget (pt_allowPolicies pt) n = None)
     \<and> (\<forall>n s. mget (pt_allowPolicies pt) n = Some s \<longrightarrow>
          aps_Action s = AccessPolicyActionAllow \<and> AccessPolicySpec_Validate K s = None)"

definition pdp_inv :: "apimachinery \<Rightarrow> PDP \<Rightarrow> bool" where
  "pdp_inv K pdp \<longleftrightarrow> tier_inv K True (pdp_privilegedPolicies pdp)
     \<and> tier_inv K False (pdp_regularPolicies pdp)"

subsection \<open>Validated policies never fail to match\<close>

lemma actions_differ [simp]: "AccessPolicyActionAllow \<noteq> AccessPolicyActionDeny"
  "AccessPolicyActionDeny \<noteq> AccessPolicyActionAllow"
  by (simp_all add: AccessPolicyActionAllow_def AccessPolicyActionDeny_def)

lemma ListMatches_valid:
  "WorkloadSetOrSelectorList_validate K wsl = None \<Longrightarrow>
   WorkloadSetOrSelectorListMatches K wsl attrs = Inr (\<exists>w \<in> set wsl. selects K attrs w)"
  by (induction wsl)
    (auto simp: WorkloadSetOrSelector_validate_def workloadSetOrSelectorMatches_def selects_def
      split: option.splits if_splits sum.splits)

lemma Validate_None:
  assumes "AccessPolicySpec_Validate K s = None"
  shows "WorkloadSetOrSelectorList_validate K (aps_From s) = None"
    and "WorkloadSetOrSelectorList_validate K (aps_To s) = None"
    and "aps_Action s = AccessPolicyActionAllow \<or> aps_Action s = AccessPolicyActionDeny"
  using assms by (auto simp: AccessPolicySpec_Validate_def split: if_splits option.splits)

lemma accessPolicyDecide_valid:
  assumes "AccessPolicySpec_Validate K s = None"
  shows "accessPolicyDecide K s src dst = Inr (if policy_matches K s src dst
     then (if aps_Action s = AccessPolicyActionAllow then DecisionAllow else DecisionDeny)
     else DecisionUndecided)"
  using ListMatches_valid [OF Validate_None(1) [OF assms], of src]
    ListMatches_valid [OF Validate_None(2) [OF assms], of dst]
  by (simp add: accessPolicyDecide_def accessPolicyMatches_def policy_matches_def)

subsection \<open>The decision loop\<close>

definition fits ::
    "apimachinery \<Rightarrow> bool \<Rightarrow> string \<Rightarrow> WorkloadAttrs \<Rightarrow> WorkloadAttrs \<Rightarrow> NamespacedName \<times> AccessPolicySpec
       \<Rightarrow> bool" where
  "fits K privileged ns src dst e \<longleftrightarrow>
     (privileged \<or> nn_Namespace (fst e) = ns) \<and> policy_matches K (snd e) src dst"

lemma decide_loop_find:
  assumes "\<forall>(n, s) \<in> set es. AccessPolicySpec_Validate K s = None"
  shows "decide_loop K es src dest privileged ns =
    (case List.find (fits K privileged ns src (dd_Destination dest)) es of
       None \<Rightarrow> (dest, Inr False)
     | Some (n, s) \<Rightarrow> (dest\<lparr>dd_Decision := if aps_Action s = AccessPolicyActionAllow
           then DecisionAllow else DecisionDeny,
         dd_MatchedBy := NamespacedName_String K n, dd_PrivilegedMatch := privileged\<rparr>, Inr True))"
  using assms
proof (induction es)
  case (Cons e es)
  obtain n s where [simp]: "e = (n, s)" by (cases e)
  from Cons.prems have v: "AccessPolicySpec_Validate K s = None" by simp
  show ?case using Cons by (auto simp: accessPolicyDecide_valid [OF v] fits_def)
qed simp

lemma tier_policy_mem:
  assumes "tier_inv K privileged pt"
  shows "tier_policy pt n = Some s \<and> aps_Action s = AccessPolicyActionDeny \<longleftrightarrow>
      (n, s) \<in> set (pt_denyPolicies pt)"
    and "tier_policy pt n = Some s \<and> aps_Action s = AccessPolicyActionAllow \<longleftrightarrow>
      (n, s) \<in> set (pt_allowPolicies pt)"
proof -
  from assms have wf: "mwf (pt_denyPolicies pt)" "mwf (pt_allowPolicies pt)"
    by (simp_all add: tier_inv_def)
  from assms show "tier_policy pt n = Some s \<and> aps_Action s = AccessPolicyActionDeny \<longleftrightarrow>
      (n, s) \<in> set (pt_denyPolicies pt)"
    unfolding mget_mem [OF wf(1), symmetric] tier_inv_def tier_policy_def
    by (cases "mget (pt_denyPolicies pt) n") auto
  from assms show "tier_policy pt n = Some s \<and> aps_Action s = AccessPolicyActionAllow \<longleftrightarrow>
      (n, s) \<in> set (pt_allowPolicies pt)"
    unfolding mget_mem [OF wf(2), symmetric] tier_inv_def tier_policy_def
    by (cases "mget (pt_denyPolicies pt) n") auto
qed

lemma applies_tier:
  assumes "tier_inv K privileged pt"
    and P: "\<And>n. P (privileged, n) = tier_policy pt n"
  shows "applies K P privileged AccessPolicyActionDeny src dst ns \<longleftrightarrow>
      (\<exists>e \<in> set (pt_denyPolicies pt). fits K privileged ns src dst e)"
    and "applies K P privileged AccessPolicyActionAllow src dst ns \<longleftrightarrow>
      (\<exists>e \<in> set (pt_allowPolicies pt). fits K privileged ns src dst e)"
proof -
  note mem = tier_policy_mem [OF assms(1)]
  show "applies K P privileged AccessPolicyActionDeny src dst ns \<longleftrightarrow>
      (\<exists>e \<in> set (pt_denyPolicies pt). fits K privileged ns src dst e)"
    unfolding applies_def P fits_def using mem(1) by force
  show "applies K P privileged AccessPolicyActionAllow src dst ns \<longleftrightarrow>
      (\<exists>e \<in> set (pt_allowPolicies pt). fits K privileged ns src dst e)"
    unfolding applies_def P fits_def using mem(2) by force
qed

text \<open>What one pass over a policy map does to the decision, in any range order.\<close>

lemma connPolicyMap_decide_cases:
  assumes "range_order rng" and "mwf cpm"
    and valid: "\<forall>e \<in> set cpm. AccessPolicySpec_Validate K (snd e) = None \<and> aps_Action (snd e) = act"
  obtains (undecided) "\<forall>e \<in> set cpm. \<not> fits K privileged ns src (dd_Destination dest) e"
      "connPolicyMap_decide K rng cpm src dest privileged ns = (dest, Inr False)"
  | (decided) n s where "(n, s) \<in> set cpm" "fits K privileged ns src (dd_Destination dest) (n, s)"
      "connPolicyMap_decide K rng cpm src dest privileged ns =
         (dest\<lparr>dd_Decision := if act = AccessPolicyActionAllow then DecisionAllow else DecisionDeny,
               dd_MatchedBy := NamespacedName_String K n, dd_PrivilegedMatch := privileged\<rparr>, Inr True)"
proof -
  note rset = range_orderD(1) [OF assms(1)]
  have "\<forall>(n, s) \<in> set (rng cpm). AccessPolicySpec_Validate K s = None"
    using valid rset by auto
  note loop = decide_loop_find [OF this, of src dest privileged ns]
  show thesis
  proof (cases "List.find (fits K privileged ns src (dd_Destination dest)) (rng cpm)")
    case None
    then have "\<forall>e \<in> set cpm. \<not> fits K privileged ns src (dd_Destination dest) e"
      using rset by (metis find_None_iff)
    moreover have "connPolicyMap_decide K rng cpm src dest privileged ns = (dest, Inr False)"
      using loop None by (simp add: connPolicyMap_decide_def)
    ultimately show thesis by (rule undecided)
  next
    case (Some e)
    obtain n s where e: "e = (n, s)" by (cases e)
    from Some have "fits K privileged ns src (dd_Destination dest) e" "e \<in> set (rng cpm)"
      by (auto simp: find_Some_iff)
    then have m: "fits K privileged ns src (dd_Destination dest) (n, s)" "(n, s) \<in> set cpm"
      using rset e by auto
    show thesis using loop Some e bspec [OF valid m(2)] by (intro decided [OF m(2,1)])
      (simp add: connPolicyMap_decide_def)
  qed
qed

lemma tier_inv_mem:
  assumes "tier_inv K privileged pt"
  shows "\<forall>e \<in> set (pt_denyPolicies pt).
      AccessPolicySpec_Validate K (snd e) = None \<and> aps_Action (snd e) = AccessPolicyActionDeny"
    and "\<forall>e \<in> set (pt_allowPolicies pt).
      AccessPolicySpec_Validate K (snd e) = None \<and> aps_Action (snd e) = AccessPolicyActionAllow"
proof -
  from assms have wf: "mwf (pt_denyPolicies pt)" "mwf (pt_allowPolicies pt)"
    by (simp_all add: tier_inv_def)
  show "\<forall>e \<in> set (pt_denyPolicies pt).
      AccessPolicySpec_Validate K (snd e) = None \<and> aps_Action (snd e) = AccessPolicyActionDeny"
    using assms by (simp add: tier_inv_def mget_mem [OF wf(1)] split_beta) fastforce
  show "\<forall>e \<in> set (pt_allowPolicies pt).
      AccessPolicySpec_Validate K (snd e) = None \<and> aps_Action (snd e) = AccessPolicyActionAllow"
    using assms by (simp add: tier_inv_def mget_mem [OF wf(2)] split_beta) fastforce
qed

text \<open>
  The decision of a tier: \<open>names\<close> says that the decision names the policy that took it.
\<close>

definition names :: "apimachinery \<Rightarrow> policies \<Rightarrow> bool \<Rightarrow> AccessPolicyAction \<Rightarrow> WorkloadAttrs \<Rightarrow> string
    \<Rightarrow> DestinationDecision \<Rightarrow> bool" where
  "names K P privileged act src ns d \<longleftrightarrow>
     dd_Decision d = (if act = AccessPolicyActionAllow then DecisionAllow else DecisionDeny)
     \<and> dd_PrivilegedMatch d = privileged
     \<and> (\<exists>n s. P (privileged, n) = Some s \<and> aps_Action s = act \<and> dd_MatchedBy d = NamespacedName_String K n
          \<and> (privileged \<or> nn_Namespace n = ns) \<and> policy_matches K s src (dd_Destination d))"

lemma policyTier_decide_cases:
  assumes inv: "tier_inv K privileged pt" and rng: "range_order rng"
    and P: "\<And>n. P (privileged, n) = tier_policy pt n"
  obtains (deny) d where "applies K P privileged AccessPolicyActionDeny src (dd_Destination dest) ns"
      "policyTier_decide K rng pt src dest ns = (d, Inr True)" "dd_Destination d = dd_Destination dest"
      "names K P privileged AccessPolicyActionDeny src ns d"
  | (allow) d where "\<not> applies K P privileged AccessPolicyActionDeny src (dd_Destination dest) ns"
      "applies K P privileged AccessPolicyActionAllow src (dd_Destination dest) ns"
      "policyTier_decide K rng pt src dest ns = (d, Inr True)" "dd_Destination d = dd_Destination dest"
      "names K P privileged AccessPolicyActionAllow src ns d"
  | (undecided) "\<not> applies K P privileged AccessPolicyActionDeny src (dd_Destination dest) ns"
      "\<not> applies K P privileged AccessPolicyActionAllow src (dd_Destination dest) ns"
      "policyTier_decide K rng pt src dest ns = (dest, Inr False)"
proof -
  note app = applies_tier [OF inv, of P, OF P]
  note mem = tier_policy_mem [OF inv]
  have wf: "mwf (pt_denyPolicies pt)" "mwf (pt_allowPolicies pt)" "pt_privileged pt = privileged"
    using inv by (simp_all add: tier_inv_def)
  show thesis
  proof (cases rule: connPolicyMap_decide_cases [where privileged = privileged and ns = ns
        and src = src and dest = dest, OF rng wf(1) tier_inv_mem(1) [OF inv], case_names undecided decided])
    case (decided n s)
    let ?d = "dest\<lparr>dd_Decision := DecisionDeny, dd_MatchedBy := NamespacedName_String K n,
      dd_PrivilegedMatch := privileged\<rparr>"
    have "names K P privileged AccessPolicyActionDeny src ns ?d"
      using decided(1,2) mem(1) [of n s] by (auto simp: names_def fits_def P)
    with decided app(1) show thesis
      by (intro deny [of ?d]) (auto simp: policyTier_decide_def wf)
  next
    case U: undecided
    show thesis
    proof (cases rule: connPolicyMap_decide_cases [where privileged = privileged and ns = ns
          and src = src and dest = dest, OF rng wf(2) tier_inv_mem(2) [OF inv], case_names undecided decided])
      case (decided n s)
      let ?d = "dest\<lparr>dd_Decision := DecisionAllow, dd_MatchedBy := NamespacedName_String K n,
        dd_PrivilegedMatch := privileged\<rparr>"
      have "names K P privileged AccessPolicyActionAllow src ns ?d"
        using decided(1,2) mem(2) [of n s] by (auto simp: names_def fits_def P)
      with decided U app show thesis
        by (intro allow [of ?d]) (auto simp: policyTier_decide_def wf)
    next
      case undecided
      then show thesis using U app by (intro that(3)) (auto simp: policyTier_decide_def wf)
    qed
  qed
qed

lemma Decide_refines:
  assumes inv: "pdp_inv K pdp" and rng: "range_order rng"
  shows "\<exists>d. Decide K rng pdp src dst ns = Inr d \<and> dd_Destination d = dst
    \<and> dd_Decision d = spec_decide K (pdp_policy pdp) src dst ns
    \<and> ((\<exists>privileged act. names K (pdp_policy pdp) privileged act src ns d)
       \<or> dd_MatchedBy d = DefaultDenyPolicyName \<and> dd_Decision d = DecisionDeny
         \<and> \<not> dd_PrivilegedMatch d)"
proof -
  let ?P = "pdp_policy pdp"
  let ?d0 = "\<lparr>dd_Destination = dst, dd_Decision = DecisionUndecided, dd_MatchedBy = [],
    dd_PrivilegedMatch = False\<rparr>"
  from inv have t: "tier_inv K True (pdp_privilegedPolicies pdp)"
    "tier_inv K False (pdp_regularPolicies pdp)" by (simp_all add: pdp_inv_def)
  have P: "?P (True, n) = tier_policy (pdp_privilegedPolicies pdp) n"
    "?P (False, n) = tier_policy (pdp_regularPolicies pdp) n" for n
    by (simp_all add: pdp_policy_def)
  show ?thesis
  proof (cases rule: policyTier_decide_cases [where P = ?P and src = src and ns = ns and dest = ?d0,
        OF t(1) rng P(1), case_names deny allow undecided])
    case (deny d)
    then show ?thesis by (auto simp: Decide_def spec_decide_def names_def intro!: exI [of _ d] exI [of _ True]
        exI [of _ AccessPolicyActionDeny])
  next
    case (allow d)
    then show ?thesis by (auto simp: Decide_def spec_decide_def names_def intro!: exI [of _ d] exI [of _ True]
        exI [of _ AccessPolicyActionAllow])
  next
    case U: undecided
    show ?thesis
    proof (cases rule: policyTier_decide_cases [where P = ?P and src = src and ns = ns and dest = ?d0,
          OF t(2) rng P(2), case_names deny allow undecided])
      case (deny d)
      with U show ?thesis by (auto simp: Decide_def spec_decide_def names_def intro!: exI [of _ d] exI [of _ False]
          exI [of _ AccessPolicyActionDeny])
    next
      case (allow d)
      with U show ?thesis by (auto simp: Decide_def spec_decide_def names_def intro!: exI [of _ d] exI [of _ False]
          exI [of _ AccessPolicyActionAllow])
    next
      case undecided
      with U show ?thesis by (simp add: Decide_def spec_decide_def)
    qed
  qed
qed

subsection \<open>Adding and deleting policies\<close>

lemma unsafeDeletePolicy_simps:
  "pt_privileged (fst (unsafeDeletePolicy K n pt)) = pt_privileged pt"
  "mget (pt_denyPolicies (fst (unsafeDeletePolicy K n pt))) m =
     (if m = n then None else mget (pt_denyPolicies pt) m)"
  "mget (pt_allowPolicies (fst (unsafeDeletePolicy K n pt))) m =
     (if m = n then None else mget (pt_allowPolicies pt) m)"
  "mwf (pt_denyPolicies pt) \<Longrightarrow> mwf (pt_denyPolicies (fst (unsafeDeletePolicy K n pt)))"
  "mwf (pt_allowPolicies pt) \<Longrightarrow> mwf (pt_allowPolicies (fst (unsafeDeletePolicy K n pt)))"
  "snd (unsafeDeletePolicy K n pt) = None \<longleftrightarrow> tier_policy pt n \<noteq> None"
  by (auto simp: unsafeDeletePolicy_def Let_def tier_policy_def split: option.splits)

lemma tier_inv_delete [step_intros]:
  "tier_inv K b pt \<Longrightarrow> tier_inv K b (fst (unsafeDeletePolicy K n pt))"
  by (simp add: tier_inv_def unsafeDeletePolicy_simps)

lemma tier_policy_delete:
  "tier_policy (fst (unsafeDeletePolicy K n pt)) = (tier_policy pt)(n := None)"
  by (rule ext) (simp add: tier_policy_def unsafeDeletePolicy_simps split: option.split)

lemma tier_inv_add [step_intros]:
  assumes "tier_inv K b pt" and v: "AccessPolicySpec_Validate K s = None"
  shows "tier_inv K b (addPolicy K n s pt)"
  using assms Validate_None(3) [OF v]
  by (auto simp: tier_inv_def addPolicy_def Let_def unsafeDeletePolicy_simps)

lemma tier_policy_add: "tier_policy (addPolicy K n s pt) = (tier_policy pt)(n \<mapsto> s)"
  by (rule ext) (auto simp: tier_policy_def addPolicy_def Let_def unsafeDeletePolicy_simps
      split: option.splits)

lemma pdp_inv_New: "pdp_inv K NewPDP"
  by (simp add: pdp_inv_def tier_inv_def NewPDP_def newPolicyTier_def)

lemma pdp_inv_Add: "pdp_inv K pdp \<Longrightarrow> pdp_inv K (fst (AddOrUpdatePolicy K p pdp))"
  by (auto simp: pdp_inv_def AddOrUpdatePolicy_def intro: step_intros split: option.split)

lemma pdp_policy_Add:
  "pdp_policy (fst (AddOrUpdatePolicy K p pdp)) =
     (if AccessPolicySpec_Validate K (pol_spec p) = None
      then (pdp_policy pdp)((pol_privileged p, pol_name p) \<mapsto> pol_spec p) else pdp_policy pdp)"
  by (auto simp: AddOrUpdatePolicy_def pdp_policy_def tier_policy_add fun_eq_iff split: option.split)

lemma pdp_inv_Delete: "pdp_inv K pdp \<Longrightarrow> pdp_inv K (fst (DeletePolicy K n b pdp))"
  by (auto simp: pdp_inv_def DeletePolicy_def policyTier_deletePolicy_def split_beta intro: step_intros)

lemma pdp_policy_Delete:
  "pdp_policy (fst (DeletePolicy K n b pdp)) = (pdp_policy pdp)((b, n) := None)"
  by (auto simp: DeletePolicy_def policyTier_deletePolicy_def pdp_policy_def tier_policy_delete
        split_beta fun_eq_iff)

lemma DeletePolicy_err: "snd (DeletePolicy K n b pdp) = None \<longleftrightarrow> pdp_policy pdp (b, n) \<noteq> None"
  by (auto simp: DeletePolicy_def policyTier_deletePolicy_def pdp_policy_def unsafeDeletePolicy_simps
        split_beta)

subsection \<open>The interface of a policy engine\<close>

text \<open>
  What the authorization manager relies on: the engine holds a set of policies, its
  operations update that set, and a verdict is a function of the set alone.
\<close>

locale policy_engine =
  fixes new :: 'st
    and add :: "'pol \<Rightarrow> 'st \<Rightarrow> 'st \<times> 'e option"
    and remove :: "'k \<Rightarrow> 'st \<Rightarrow> 'st \<times> 'e option"
    and key :: "'pol \<Rightarrow> 'k"
    and body :: "'pol \<Rightarrow> 'b"
    and valid :: "'b \<Rightarrow> bool"
    and policies :: "'st \<Rightarrow> 'k \<Rightarrow> 'b option"
    and verdict :: "'r \<Rightarrow> 'st \<Rightarrow> 'q \<Rightarrow> 'v option"
    and order_ok :: "'r \<Rightarrow> bool"
    and spec :: "('k \<Rightarrow> 'b option) \<Rightarrow> 'q \<Rightarrow> 'v"
    and invar :: "'st \<Rightarrow> bool"
  assumes invar_new: "invar new"
    and policies_new: "policies new = (\<lambda>_. None)"
    and invar_add: "invar s \<Longrightarrow> invar (fst (add p s))"
    and policies_add: "policies (fst (add p s)) =
      (if valid (body p) then (policies s)(key p \<mapsto> body p) else policies s)"
    and invar_remove: "invar s \<Longrightarrow> invar (fst (remove k s))"
    and policies_remove: "policies (fst (remove k s)) = (policies s)(k := None)"
    and verdict_spec: "invar s \<Longrightarrow> order_ok r \<Longrightarrow> verdict r s q = Some (spec (policies s) q)"
begin

inductive reachable :: "'st \<Rightarrow> bool" where
  init: "reachable new"
| add: "reachable s \<Longrightarrow> reachable (fst (add p s))"
| remove: "reachable s \<Longrightarrow> reachable (fst (remove k s))"

lemma reachable_invar: "reachable s \<Longrightarrow> invar s"
  by (induction rule: reachable.induct) (auto intro: invar_new invar_add invar_remove)

text \<open>Two histories that leave the same policies give the same verdicts, in any range order.\<close>

lemma history_independent:
  assumes "reachable s" and "reachable t" and "policies s = policies t"
    and "order_ok r" and "order_ok r'"
  shows "verdict r s q = verdict r' t q \<and> verdict r s q \<noteq> None"
  using assms by (simp add: reachable_invar verdict_spec)

lemma add_then_remove:
  assumes "reachable s" and "policies s (key p) = None" and "order_ok r"
  shows "verdict r (fst (remove (key p) (fst (add p s)))) q = verdict r s q"
proof -
  have "policies (fst (remove (key p) (fst (add p s)))) = policies s"
    using assms(2) by (auto simp: policies_remove policies_add)
  then show ?thesis
    using history_independent assms reachable.add reachable.remove by metis
qed

lemma add_twice:
  assumes "reachable s" and "order_ok r" and "key p = key p'" and "valid (body p')"
  shows "verdict r (fst (add p' (fst (add p s)))) q = verdict r (fst (add p' s)) q"
proof -
  have "policies (fst (add p' (fst (add p s)))) = policies (fst (add p' s))"
    using assms(3,4) by (auto simp: policies_add)
  then show ?thesis
    using history_independent assms reachable.add by metis
qed

end

definition pdp_verdict ::
    "apimachinery \<Rightarrow> policy_range \<Rightarrow> PDP \<Rightarrow> WorkloadAttrs \<times> WorkloadAttrs \<times> string \<Rightarrow> Decision option" where
  "pdp_verdict K rng pdp q = (case q of (src, dst, ns) \<Rightarrow>
     (case Decide K rng pdp src dst ns of Inl _ \<Rightarrow> None | Inr d \<Rightarrow> Some (dd_Decision d)))"

interpretation pdp: policy_engine NewPDP "AddOrUpdatePolicy K" "\<lambda>(b, n). DeletePolicy K n b"
    "\<lambda>p. (pol_privileged p, pol_name p)" pol_spec "\<lambda>s. AccessPolicySpec_Validate K s = None"
    pdp_policy "pdp_verdict K" range_order "\<lambda>P (src, dst, ns). spec_decide K P src dst ns"
    "pdp_inv K" for K
proof unfold_locales
  show "pdp_policy NewPDP = (\<lambda>_. None)"
    by (simp add: NewPDP_def newPolicyTier_def pdp_policy_def tier_policy_def fun_eq_iff)
next
  fix s and r :: policy_range and q :: "WorkloadAttrs \<times> WorkloadAttrs \<times> string"
  assume "pdp_inv K s" and "range_order r"
  then show "pdp_verdict K r s q = Some (case q of (src, dst, ns) \<Rightarrow> spec_decide K (pdp_policy s) src dst ns)"
    using Decide_refines [of K s r "fst q" "fst (snd q)" "snd (snd q)"]
    by (auto simp: pdp_verdict_def split_beta)
qed (simp_all add: pdp_inv_New pdp_inv_Add pdp_policy_Add pdp_inv_Delete pdp_policy_Delete split_beta)

lemmas pdp_refinement = pdp_policy_Add pdp_policy_Delete DeletePolicy_err

text \<open>The PDPs the authorization manager can hold: it only adds and deletes policies.\<close>

inductive pdp_reachable :: "apimachinery \<Rightarrow> PDP \<Rightarrow> bool" for K where
  pdp_new: "pdp_reachable K NewPDP"
| pdp_add: "pdp_reachable K pdp \<Longrightarrow> pdp_reachable K (fst (AddOrUpdatePolicy K p pdp))"
| pdp_delete: "pdp_reachable K pdp \<Longrightarrow> pdp_reachable K (fst (DeletePolicy K n b pdp))"

lemma pdp_reachable_engine: "pdp_reachable K pdp \<Longrightarrow> pdp.reachable K pdp"
proof (induction rule: pdp_reachable.induct)
  case (pdp_delete pdp n b)
  then show ?case using pdp.reachable.remove [of K pdp "(b, n)"] by simp
qed (auto intro: pdp.reachable.intros)

lemma pdp_reachable_inv: "pdp_reachable K pdp \<Longrightarrow> pdp_inv K pdp"
  using pdp_reachable_engine pdp.reachable_invar by blast

subsection \<open>Properties\<close>

text \<open>
  C6. \<^verbatim>\<open>Decide\<close> never fails and takes the specified decision, whatever order Go ranges over
  the policy maps in: privileged policies before regular ones, deny before allow within a
  tier, regular policies only in the connection's namespace, deny when nothing matches. The
  decision names a policy of that action that matches the connection, or the default deny.
\<close>

theorem Decide_correct:
  assumes "pdp_reachable K pdp" and "range_order rng"
  shows "\<exists>d. Decide K rng pdp src dst ns = Inr d \<and> dd_Destination d = dst
    \<and> dd_Decision d = spec_decide K (pdp_policy pdp) src dst ns
    \<and> ((\<exists>privileged act. names K (pdp_policy pdp) privileged act src ns d)
       \<or> dd_MatchedBy d = DefaultDenyPolicyName \<and> dd_Decision d = DecisionDeny
         \<and> \<not> dd_PrivilegedMatch d)"
  using Decide_refines [OF pdp_reachable_inv [OF assms(1)] assms(2)] .

text \<open>Policies for the witnesses: they select every workload.\<close>

definition any_workload :: WorkloadSetOrSelector where
  "any_workload = \<lparr>wss_WorkloadSets = [],
     wss_WorkloadSelector = Some \<lparr>ls_MatchLabels = [], ls_MatchExpressions = []\<rparr>\<rparr>"

definition any_policy :: "string \<Rightarrow> bool \<Rightarrow> AccessPolicyAction \<Rightarrow> AccessPolicy" where
  "any_policy n privileged act = \<lparr>pol_name = NamespacedName ''ns'' n, pol_privileged = privileged,
     pol_spec = \<lparr>aps_Action = act, aps_From = [any_workload], aps_To = [any_workload]\<rparr>\<rparr>"

lemma any_policy_valid:
  assumes "act = AccessPolicyActionAllow \<or> act = AccessPolicyActionDeny"
  shows "AccessPolicySpec_Validate ref_apimachinery (pol_spec (any_policy n b act)) = None"
  using assms
  by (auto simp: AccessPolicySpec_Validate_def any_policy_def any_workload_def ref_selector_def
        WorkloadSetOrSelector_validate_def ref_apimachinery_def)

lemma any_policy_matches: "policy_matches ref_apimachinery (pol_spec (any_policy n b act)) src dst"
  by (simp add: policy_matches_def any_policy_def any_workload_def selects_def ref_apimachinery_def
        ref_selector_def)

abbreviation allow_all_pdp :: PDP where
  "allow_all_pdp \<equiv> fst (AddOrUpdatePolicy ref_apimachinery
     (any_policy ''p'' False AccessPolicyActionAllow) NewPDP)"

lemma allow_all_policy:
  "pdp_policy allow_all_pdp = [(False, NamespacedName ''ns'' ''p'') \<mapsto>
     pol_spec (any_policy ''p'' False AccessPolicyActionAllow)]"
  using any_policy_valid [of AccessPolicyActionAllow "''p''" False]
  by (simp add: pdp_policy_Add pdp.policies_new) (simp add: any_policy_def)

theorem Decide_correct_witness:
  "\<exists>d. Decide ref_apimachinery rev allow_all_pdp [] [] ''ns'' = Inr d
     \<and> dd_Decision d = DecisionAllow"
proof -
  have "pdp_reachable ref_apimachinery allow_all_pdp" by (intro pdp_reachable.intros)
  moreover have "spec_decide ref_apimachinery (pdp_policy allow_all_pdp) [] [] ''ns'' = DecisionAllow"
    using any_policy_matches [of "''p''" False AccessPolicyActionAllow "[]" "[]"]
    by (simp add: allow_all_policy spec_decide_def applies_def) (simp add: any_policy_def)
  ultimately show ?thesis
    using Decide_correct [of ref_apimachinery allow_all_pdp rev "[]" "[]" "''ns''"] by auto
qed

text \<open>
  Verdicts do not depend on how the policies got there: any two histories of additions,
  updates and deletions that leave the same policies in force give the same verdict on every
  connection, even if the two PDPs range over their maps in different orders.
\<close>

theorem pdp_history_independent:
  assumes "pdp_reachable K p" and "pdp_reachable K q" and "pdp_policy p = pdp_policy q"
    and "range_order rng" and "range_order rng'"
  shows "map_sum id dd_Decision (Decide K rng p src dst ns) =
         map_sum id dd_Decision (Decide K rng' q src dst ns)"
  using pdp.history_independent [OF pdp_reachable_engine [OF assms(1)] pdp_reachable_engine [OF assms(2)]
      assms(3-5), of "(src, dst, ns)"]
  by (auto simp: pdp_verdict_def split: sum.splits)

theorem pdp_history_independent_witness:
  "map_sum id dd_Decision (Decide ref_apimachinery rev allow_all_pdp [] [] ''x'') =
   map_sum id dd_Decision (Decide ref_apimachinery (\<lambda>m. m)
     (fst (AddOrUpdatePolicy ref_apimachinery (any_policy ''p'' False AccessPolicyActionAllow)
        (fst (AddOrUpdatePolicy ref_apimachinery (any_policy ''p'' False AccessPolicyActionDeny)
           NewPDP)))) [] [] ''x'')"
  by (rule pdp_history_independent; (intro pdp_reachable.intros | simp add: pdp_policy_Add
        any_policy_valid | simp)) (simp add: any_policy_def)

text \<open>
  Adding a policy puts exactly that policy in force under its privilege and name (or
  changes nothing and returns the validation error), deleting one removes exactly that
  policy, and deletion fails exactly when there is no such policy. An update may change the
  action: no other entry with that name survives.
\<close>

theorem policy_updates:
  "pdp_policy (fst (AddOrUpdatePolicy K p pdp)) =
     (case AccessPolicySpec_Validate K (pol_spec p) of
        None \<Rightarrow> (pdp_policy pdp)((pol_privileged p, pol_name p) \<mapsto> pol_spec p)
      | Some _ \<Rightarrow> pdp_policy pdp)
   \<and> snd (AddOrUpdatePolicy K p pdp) = AccessPolicySpec_Validate K (pol_spec p)
   \<and> pdp_policy (fst (DeletePolicy K n b pdp)) = (pdp_policy pdp)((b, n) := None)
   \<and> (snd (DeletePolicy K n b pdp) = None \<longleftrightarrow> pdp_policy pdp (b, n) \<noteq> None)"
  by (simp add: pdp_refinement) (simp add: AddOrUpdatePolicy_def split: option.split)

lemma selector_depends_False:
  assumes "\<not> selector_depends wsl" and "WorkloadSetOrSelectorList_validate K wsl = None"
    and "w \<in> set wsl"
  shows "wss_WorkloadSelector w = Some \<lparr>ls_MatchLabels = [], ls_MatchExpressions = []\<rparr>"
  using assms
proof (induction wsl)
  case (Cons x xs)
  then show ?case
    by (cases "w = x") (auto simp: WorkloadSetOrSelector_validate_def split: option.splits if_splits)
qed simp

lemma selects_empty:
  "apimachinery_ok K \<Longrightarrow> wss_WorkloadSelector w = Some \<lparr>ls_MatchLabels = [], ls_MatchExpressions = []\<rparr>
   \<Longrightarrow> selects K attrs w"
  by (simp add: selects_def apimachinery_okD)

lemma connPolicyMap_depends_iff:
  "connPolicyMap_dependsOnClientAttrs cpm \<longleftrightarrow> (\<exists>(n, s) \<in> set cpm. selector_depends (aps_From s))"
  by (induction cpm rule: connPolicyMap_dependsOnClientAttrs.induct) auto

lemma tier_policy_in:
  assumes "tier_policy pt n = Some s"
  shows "(n, s) \<in> set (pt_denyPolicies pt) \<or> (n, s) \<in> set (pt_allowPolicies pt)"
  using assms by (auto simp: tier_policy_def dest: map_of_SomeD split: option.splits)

lemma policy_matches_independent:
  assumes "apimachinery_ok K" and "pdp_inv K pdp" and "\<not> DependsOnClientAttrs pdp"
    and "pdp_policy pdp (b, n) = Some s"
  shows "policy_matches K s src dst = policy_matches K s src' dst"
proof -
  let ?pt = "if b then pdp_privilegedPolicies pdp else pdp_regularPolicies pdp"
  have mem: "(n, s) \<in> set (pt_denyPolicies ?pt) \<or> (n, s) \<in> set (pt_allowPolicies ?pt)"
    using assms(4) tier_policy_in by (simp add: pdp_policy_def)
  have v: "AccessPolicySpec_Validate K s = None"
    using mem assms(2) tier_inv_mem [of K True "pdp_privilegedPolicies pdp"]
      tier_inv_mem [of K False "pdp_regularPolicies pdp"] by (fastforce simp: pdp_inv_def split: if_splits)
  have "\<not> selector_depends (aps_From s)"
    using mem assms(3) by (fastforce simp: DependsOnClientAttrs_def policyTier_dependsOnClientAttrs_def
        connPolicyMap_depends_iff split: if_splits)
  then have "selects K attrs w" if "w \<in> set (aps_From s)" for attrs w
    using selects_empty [OF assms(1) selector_depends_False [OF _ Validate_None(1) [OF v] that]] by simp
  then show ?thesis by (auto simp: policy_matches_def)
qed

text \<open>
  When \<^verbatim>\<open>DependsOnClientAttrs\<close> is false the client's attributes cannot change a decision,
  which is why the manager may authorize clients it knows nothing about in that case.
\<close>

theorem Decide_ignores_client:
  assumes "apimachinery_ok K" and "pdp_reachable K pdp" and "range_order rng"
    and "\<not> DependsOnClientAttrs pdp"
  shows "map_sum id dd_Decision (Decide K rng pdp src dst ns) =
         map_sum id dd_Decision (Decide K rng pdp src' dst ns)"
proof -
  note inv = pdp_reachable_inv [OF assms(2)]
  have "applies K (pdp_policy pdp) b act src dst ns = applies K (pdp_policy pdp) b act src' dst ns" for b act
    unfolding applies_def using policy_matches_independent [OF assms(1) inv assms(4)] by metis
  then have "spec_decide K (pdp_policy pdp) src dst ns = spec_decide K (pdp_policy pdp) src' dst ns"
    by (simp add: spec_decide_def)
  then show ?thesis
    using Decide_refines [OF inv assms(3), of src dst ns] Decide_refines [OF inv assms(3), of src' dst ns]
    by auto
qed

theorem Decide_ignores_client_witness:
  "map_sum id dd_Decision (Decide ref_apimachinery rev allow_all_pdp [] [] ''ns'') =
   map_sum id dd_Decision (Decide ref_apimachinery rev allow_all_pdp [(''a'', ''b'')] [] ''ns'')"
proof (rule Decide_ignores_client)
  show "pdp_reachable ref_apimachinery allow_all_pdp" by (intro pdp_reachable.intros)
  show "\<not> DependsOnClientAttrs allow_all_pdp" by code_simp
qed (simp_all add: ref_apimachinery_ok)

text \<open>
  \<^verbatim>\<open>GetPolicies\<close> copies the allow policies into the tier's own deny map, so reading the
  policies changes decisions: with a deny-all and an allow-all policy in the namespace every
  connection is denied before the call, and can be allowed after it.
\<close>

theorem GetPolicies_breaks_deny_precedence:
  "let K = ref_apimachinery;
       pdp = fst (AddOrUpdatePolicy K (any_policy ''a'' False AccessPolicyActionAllow)
               (fst (AddOrUpdatePolicy K (any_policy ''d'' False AccessPolicyActionDeny) NewPDP)));
       verdict = (\<lambda>pdp. pdp_verdict K rev pdp ([], [], ''ns''))
   in verdict pdp = Some DecisionDeny
      \<and> verdict (fst (GetPolicies rev pdp)) = Some DecisionAllow"
  by code_simp

end
