(* ===== verification/Lb.thy ===== *)
theory Lb
  imports Types
begin

text \<open>
  \<^verbatim>\<open>src/pkg/controlplane/authz/loadbalancer.go\<close>: the choice of an import source for a
  connection, retried until a source accepts it. A \<open>LoadBalancingResult\<close> is the state of one
  connection's search; the load balancer keeps a 32-bit round-robin counter per import. The
  result of \<^verbatim>\<open>rand.Intn\<close> is an argument.
\<close>

record importState =
  roundRobinCounter :: uint32

record LoadBalancer =
  lb_states :: "(NamespacedName, importState) gomap"

record LoadBalancingResult =
  lbr_imp :: Import
  currentIndex :: int
  failed :: "(int, unit) gomap"
  delayed :: "int list"

abbreviation lbr_sources :: "LoadBalancingResult \<Rightarrow> ImportSource list" where
  "lbr_sources r \<equiv> imp_Sources (imp_Spec (lbr_imp r))"

abbreviation source_count :: "LoadBalancingResult \<Rightarrow> int" where
  "source_count r \<equiv> int (length (lbr_sources r))"

definition LoadBalancingResult_Get :: "LoadBalancingResult \<Rightarrow> panic + ImportSource option" where
  "LoadBalancingResult_Get r =
     (if currentIndex r = -1 then Inr None
      else if 0 \<le> currentIndex r \<and> currentIndex r < source_count r
      then Inr (Some (lbr_sources r ! nat (currentIndex r)))
      else Inl IndexOutOfRange)"

definition IsDelayed :: "LoadBalancingResult \<Rightarrow> bool" where
  "IsDelayed r \<longleftrightarrow> length (lbr_sources r) = length (failed r)"

definition Delay :: "LoadBalancingResult \<Rightarrow> LoadBalancingResult" where
  "Delay r = r\<lparr>delayed := delayed r @ [currentIndex r]\<rparr>"

definition NewLoadBalancingResult :: "Import \<Rightarrow> LoadBalancingResult" where
  "NewLoadBalancingResult imp = \<lparr>lbr_imp = imp, currentIndex = -1, failed = [], delayed = []\<rparr>"

definition NewLoadBalancer :: LoadBalancer where
  "NewLoadBalancer = \<lparr>lb_states = []\<rparr>"

text \<open>The loop of \<^verbatim>\<open>selectRandom\<close>: \<open>i\<close> counts the remaining iterations.\<close>

fun selectRandom_loop :: "nat \<Rightarrow> int \<Rightarrow> LoadBalancingResult \<Rightarrow> LoadBalancingResult" where
  "selectRandom_loop 0 index result = result"
| "selectRandom_loop (Suc i) index result =
     (if mget (failed result) index = None then result\<lparr>currentIndex := index\<rparr>
      else let index' = index + 1
           in selectRandom_loop i (if index' = source_count result then 0 else index') result)"

definition selectRandom :: "nat \<Rightarrow> LoadBalancingResult \<Rightarrow> panic + LoadBalancingResult" where
  "selectRandom rnd result =
     (let candidateCount = length (lbr_sources result)
      in if candidateCount = 0 then Inl InvalidIntn
         else Inr (selectRandom_loop candidateCount (int rnd) result))"

definition selectRoundRobin ::
    "LoadBalancer \<Rightarrow> LoadBalancingResult \<Rightarrow> panic + LoadBalancer \<times> LoadBalancingResult" where
  "selectRoundRobin lb result =
     (let sourceCount = source_count result;
          name = NamespacedName (imp_Namespace (lbr_imp result)) (imp_Name (lbr_imp result));
          state = (case mget (lb_states lb) name of Some st \<Rightarrow> st | None \<Rightarrow> \<lparr>roundRobinCounter = 0\<rparr>);
          counter = roundRobinCounter state + 1;
          lb' = lb\<lparr>lb_states := mput name (state\<lparr>roundRobinCounter := counter\<rparr>) (lb_states lb)\<rparr>
      in if currentIndex result \<noteq> -1
         then let i = currentIndex result + 1
              in Inr (lb', result\<lparr>currentIndex := if i = sourceCount then 0 else i\<rparr>)
         else if sourceCount = 0 then Inl DivideByZero
         else Inr (lb', result\<lparr>currentIndex := uint counter mod sourceCount\<rparr>))"

definition selectStatic :: "LoadBalancingResult \<Rightarrow> LoadBalancingResult" where
  "selectStatic result = result\<lparr>currentIndex := currentIndex result + 1\<rparr>"

definition getScheme :: "Import \<Rightarrow> LBScheme" where
  "getScheme imp = (if imp_LBScheme (imp_Spec imp) = [] then LBSchemeDefault
                    else imp_LBScheme (imp_Spec imp))"

definition Select ::
    "nat \<Rightarrow> LoadBalancer \<Rightarrow> LoadBalancingResult
       \<Rightarrow> panic + LoadBalancer \<times> LoadBalancingResult \<times> error option" where
  "Select rnd lb result0 =
     (let result = (if currentIndex result0 \<noteq> -1
                    then result0\<lparr>failed := mput (currentIndex result0) () (failed result0)\<rparr>
                    else result0);
          scheme = getScheme (lbr_imp result)
      in if length (failed result) = length (lbr_sources result)
         then (if length (delayed result) > 0
               then Inr (lb, result\<lparr>currentIndex := hd (delayed result),
                                    delayed := tl (delayed result)\<rparr>, None)
               else Inr (lb, result, Some (Errorf (''tried out all ''
                       @ Itoa (length (lbr_sources result)) @ '' sources''))))
         else if scheme = LBSchemeRandom
         then map_sum id (\<lambda>r. (lb, r, None)) (selectRandom rnd result)
         else if scheme = LBSchemeRoundRobin
         then map_sum id (\<lambda>(lb, r). (lb, r, None)) (selectRoundRobin lb result)
         else if scheme = LBSchemeStatic
         then Inr (lb, selectStatic result, None)
         else Inr (lb, result, None))"

subsection \<open>The search of one connection\<close>

text \<open>
  The states one connection's search goes through. Other connections share the load
  balancer, so each \<open>Select\<close> may find any counter values (\<open>lb\<close> is arbitrary).
\<close>

inductive lb_search :: "Import \<Rightarrow> LoadBalancingResult \<Rightarrow> bool" for imp where
  start: "lb_search imp (NewLoadBalancingResult imp)"
| select: "lb_search imp r \<Longrightarrow> rnd < length (imp_Sources (imp_Spec imp)) \<Longrightarrow>
    Select rnd lb r = Inr (lb', r', None) \<Longrightarrow> lb_search imp r'"
| delay: "lb_search imp r \<Longrightarrow> currentIndex r \<noteq> -1 \<Longrightarrow> \<not> IsDelayed r \<Longrightarrow> lb_search imp (Delay r)"

definition known_scheme :: "Import \<Rightarrow> bool" where
  "known_scheme imp \<longleftrightarrow>
     getScheme imp = LBSchemeRandom \<or> getScheme imp = LBSchemeRoundRobin \<or> getScheme imp = LBSchemeStatic"

definition tried :: "LoadBalancingResult \<Rightarrow> int set" where
  "tried r = fst ` set (failed r) \<union> (if currentIndex r = -1 then {} else {currentIndex r})"

text \<open>
  Round robin and static selection visit the sources in cyclic order from some first index
  \<open>s\<close> (0 for static): \<open>rotation s r\<close>.
\<close>

definition rotation :: "int \<Rightarrow> LoadBalancingResult \<Rightarrow> bool" where
  "rotation s r \<longleftrightarrow> currentIndex r = (s + int (length (failed r))) mod source_count r
     \<and> fst ` set (failed r) = (\<lambda>j. (s + int j) mod source_count r) ` {..<length (failed r)}"

definition first_pass :: "LoadBalancingResult \<Rightarrow> bool" where
  "first_pass r \<longleftrightarrow> length (failed r) < length (lbr_sources r)
     \<and> currentIndex r \<notin> fst ` set (failed r)
     \<and> (getScheme (lbr_imp r) = LBSchemeRoundRobin \<longrightarrow> (\<exists>s. rotation s r))
     \<and> (getScheme (lbr_imp r) = LBSchemeStatic \<longrightarrow> rotation 0 r)"

definition lb_inv :: "Import \<Rightarrow> LoadBalancingResult \<Rightarrow> bool" where
  "lb_inv imp r \<longleftrightarrow> lbr_imp r = imp \<and> mwf (failed r)
     \<and> fst ` set (failed r) \<subseteq> {0..<source_count r} \<and> set (delayed r) \<subseteq> {0..<source_count r}
     \<and> (if currentIndex r = -1 then failed r = [] \<and> delayed r = []
        else 0 \<le> currentIndex r \<and> currentIndex r < source_count r
             \<and> (first_pass r \<or> length (failed r) = length (lbr_sources r)))"

lemma schemes_differ [simp]:
  "LBSchemeRandom \<noteq> LBSchemeRoundRobin" "LBSchemeRoundRobin \<noteq> LBSchemeRandom"
  "LBSchemeRandom \<noteq> LBSchemeStatic" "LBSchemeStatic \<noteq> LBSchemeRandom"
  "LBSchemeRoundRobin \<noteq> LBSchemeStatic" "LBSchemeStatic \<noteq> LBSchemeRoundRobin"
  by (simp_all add: LBSchemeRandom_def LBSchemeRoundRobin_def LBSchemeStatic_def)

lemma card_failed: "mwf (failed r) \<Longrightarrow> card (fst ` set (failed r)) = length (failed r)"
  by (metis distinct_card length_map list.set_map)

text \<open>Marking the current source as failed.\<close>

abbreviation mark :: "LoadBalancingResult \<Rightarrow> LoadBalancingResult" where
  "mark r \<equiv> (if currentIndex r \<noteq> -1
     then r\<lparr>failed := mput (currentIndex r) () (failed r)\<rparr> else r)"

lemma mput_failed:
  "fst ` set (mput i () m) = insert i (fst ` set m)"
  "mget m i = None \<longleftrightarrow> i \<notin> fst ` set m"
  by (auto simp: dom_update map_of_eq_None_iff dest: arg_cong [of _ _ "\<lambda>m. dom (mget m)"])

lemma wrap_mod: "0 \<le> i \<Longrightarrow> i < n \<Longrightarrow> (if i + 1 = n then 0 else i + 1) = (i + 1) mod n" for i n :: int
  by auto

lemma mod_range: "0 \<le> i \<Longrightarrow> i < n \<Longrightarrow> 0 \<le> j mod n \<and> j mod n < n" for i j n :: int
  by simp

lemma selectRandom_loop_fresh:
  assumes "0 \<le> index" and "index < source_count r"
    and "\<exists>j < i. (index + int j) mod source_count r \<notin> fst ` set (failed r)"
  shows "\<exists>c. selectRandom_loop i index r = r\<lparr>currentIndex := c\<rparr>
    \<and> 0 \<le> c \<and> c < source_count r \<and> c \<notin> fst ` set (failed r)"
  using assms
proof (induction i arbitrary: index)
  case (Suc i)
  show ?case
  proof (cases "index \<in> fst ` set (failed r)")
    case False
    then show ?thesis using Suc.prems by (auto simp: mput_failed(2))
  next
    case True
    let ?index = "(index + 1) mod source_count r"
    from Suc.prems(3) obtain j where j: "j < Suc i" "(index + int j) mod source_count r \<notin> fst ` set (failed r)"
      by blast
    with True Suc.prems have "j \<noteq> 0" by (intro notI) simp
    then obtain j' where "j = Suc j'" by (cases j) auto
    with j have "\<exists>j < i. (?index + int j) mod source_count r \<notin> fst ` set (failed r)"
      by (auto simp: mod_simps algebra_simps)
    then have "\<exists>c. selectRandom_loop i ?index r = r\<lparr>currentIndex := c\<rparr>
        \<and> 0 \<le> c \<and> c < source_count r \<and> c \<notin> fst ` set (failed r)"
      using Suc.IH [of ?index] mod_range [OF Suc.prems(1,2)] by blast
    moreover have "selectRandom_loop (Suc i) index r = selectRandom_loop i ?index r"
      using True Suc.prems wrap_mod [of index "source_count r"] by (simp add: mput_failed(2) Let_def)
    ultimately show ?thesis by simp
  qed
qed simp

lemma exists_untried:
  assumes "mwf (failed r)" and "length (failed r) < length (lbr_sources r)"
    and "0 \<le> index" and "index < source_count r"
  shows "\<exists>j < length (lbr_sources r). (index + int j) mod source_count r \<notin> fst ` set (failed r)"
proof -
  have "card (fst ` set (failed r)) < card {0..<source_count r}"
    using assms(1,2) by (simp add: card_failed)
  then obtain x where x: "0 \<le> x" "x < source_count r" "x \<notin> fst ` set (failed r)"
    by (metis atLeastLessThan_iff card_mono finite_imageI finite_set not_less subsetI)
  let ?j = "nat ((x - index) mod source_count r)"
  have "?j < length (lbr_sources r)"
    using mod_range [OF assms(3,4), of "x - index"] by (simp add: nat_less_iff)
  moreover have "(index + int ?j) mod source_count r = x"
    using x mod_range [OF assms(3,4), of "x - index"] by (simp add: mod_simps)
  ultimately show ?thesis using x(3) by (intro exI [of _ ?j] conjI) metis+
qed

lemma rotation_next:
  assumes "rotation s r" and "currentIndex r \<notin> fst ` set (failed r)"
    and "Suc (length (failed r)) < length (lbr_sources r)"
  shows "rotation s (mark r\<lparr>currentIndex := (currentIndex r + 1) mod source_count r\<rparr>)"
    and "(currentIndex r + 1) mod source_count r \<notin> fst ` set (failed (mark r))"
proof -
  let ?n = "source_count r" and ?k = "length (failed r)"
  have cur: "currentIndex r = (s + int ?k) mod ?n" and
    keys: "fst ` set (failed r) = (\<lambda>j. (s + int j) mod ?n) ` {..<?k}"
    using assms(1) by (auto simp: rotation_def)
  have n: "0 < ?n" using assms(3) by linarith
  have pos: "currentIndex r \<noteq> -1" using cur n by (metis neg_0_le_iff_le not_one_le_zero pos_mod_sign)
  have len: "length (mput (currentIndex r) () (failed r)) = Suc ?k"
    using assms(2) by (simp add: length_mput_new mput_failed(2))
  have keys': "fst ` set (mput (currentIndex r) () (failed r)) = (\<lambda>j. (s + int j) mod ?n) ` {..<Suc ?k}"
    by (simp add: mput_failed(1) keys lessThan_Suc cur)
  have next': "(currentIndex r + 1) mod ?n = (s + int (Suc ?k)) mod ?n"
    by (simp add: cur mod_simps algebra_simps)
  show "rotation s (mark r\<lparr>currentIndex := (currentIndex r + 1) mod ?n\<rparr>)"
    using pos len keys' next' by (simp add: rotation_def)
  have "(s + int (Suc ?k)) mod ?n \<noteq> (s + int j) mod ?n" if "j < Suc ?k" for j
  proof
    assume "(s + int (Suc ?k)) mod ?n = (s + int j) mod ?n"
    then have "?n dvd int (Suc ?k) - int j" by (metis add_diff_cancel_left mod_eq_dvd_iff)
    then have "?n \<le> int (Suc ?k) - int j" using that by (intro zdvd_imp_le) auto
    with assms(3) that show False by linarith
  qed
  then show "(currentIndex r + 1) mod ?n \<notin> fst ` set (failed (mark r))"
    using pos keys' next' by auto
qed

lemma rotation_start: "failed r = [] \<Longrightarrow> 0 \<le> s \<Longrightarrow> s < source_count r \<Longrightarrow> rotation s (r\<lparr>currentIndex := s\<rparr>)"
  by (simp add: rotation_def)


text \<open>
  What \<open>Select\<close> does from a state of the search: it either selects a source not tried
  before, or all sources were tried and it takes back the first delayed one, or it gives up.
\<close>

definition fresh_pick :: "LoadBalancingResult \<Rightarrow> LoadBalancingResult \<Rightarrow> bool" where
  "fresh_pick r r' \<longleftrightarrow> card (tried r) < length (lbr_sources r) \<and> currentIndex r' \<notin> tried r
     \<and> 0 \<le> currentIndex r' \<and> currentIndex r' < source_count r
     \<and> lbr_imp r' = lbr_imp r \<and> failed r' = failed (mark r) \<and> delayed r' = delayed r \<and> first_pass r'"

definition delayed_pick :: "LoadBalancingResult \<Rightarrow> LoadBalancingResult \<Rightarrow> bool" where
  "delayed_pick r r' \<longleftrightarrow> card (tried r) = length (lbr_sources r) \<and> delayed r \<noteq> []
     \<and> r' = mark r\<lparr>currentIndex := hd (delayed r), delayed := tl (delayed r)\<rparr>"

lemma tried_mark: "fst ` set (failed (mark r)) = tried r"
  by (simp add: tried_def mput_failed)

lemma mwf_mark: "mwf (failed r) \<Longrightarrow> mwf (failed (mark r))"
  by simp

lemma length_mark: "mwf (failed r) \<Longrightarrow> length (failed (mark r)) = card (tried r)"
  by (metis card_failed mwf_mark tried_mark)

lemma tried_bound:
  assumes "lb_inv imp r"
  shows "tried r \<subseteq> {0..<source_count r}" and "card (tried r) \<le> length (lbr_sources r)"
proof -
  show "tried r \<subseteq> {0..<source_count r}"
    using assms by (auto simp: lb_inv_def tried_def split: if_splits)
  then show "card (tried r) \<le> length (lbr_sources r)"
    using card_mono [of "{0..<source_count r}" "tried r"] by simp
qed

lemma first_pass_pick:
  assumes inv: "lb_inv imp r" and lt: "card (tried r) < length (lbr_sources r)"
    and "currentIndex r \<noteq> -1"
  shows "currentIndex r \<notin> fst ` set (failed r)" and "Suc (length (failed r)) < length (lbr_sources r)"
    and "first_pass r"
proof -
  have wf: "mwf (failed r)" using inv by (simp add: lb_inv_def)
  have "card (fst ` set (failed r)) \<le> card (tried r)"
    by (intro card_mono) (auto simp: tried_def)
  then have "length (failed r) \<noteq> length (lbr_sources r)" using lt by (simp add: card_failed [OF wf])
  then show fp: "first_pass r" using inv assms(3) by (simp add: lb_inv_def)
  then show fresh: "currentIndex r \<notin> fst ` set (failed r)" by (simp add: first_pass_def)
  then have "card (tried r) = Suc (length (failed r))"
    using assms(3) by (simp add: tried_def card_failed [OF wf])
  with lt show "Suc (length (failed r)) < length (lbr_sources r)" by simp
qed


lemma pick_random:
  assumes inv: "lb_inv imp r" and lt: "card (tried r) < length (lbr_sources r)"
    and "getScheme imp = LBSchemeRandom" and "rnd < length (lbr_sources r)"
  shows "\<exists>r'. selectRandom rnd (mark r) = Inr r' \<and> fresh_pick r r'"
proof -
  have wf: "mwf (failed r)" and imp: "lbr_imp r = imp" using inv by (simp_all add: lb_inv_def)
  have len: "length (failed (mark r)) < length (lbr_sources (mark r))"
    using length_mark [OF wf] lt by simp
  have "0 \<le> int rnd" "int rnd < source_count (mark r)" using assms(4) by simp_all
  from selectRandom_loop_fresh [OF this exists_untried [OF mwf_mark [OF wf] len this]]
  obtain c where c: "selectRandom_loop (length (lbr_sources (mark r))) (int rnd) (mark r) =
      mark r\<lparr>currentIndex := c\<rparr>" "0 \<le> c" "c < source_count (mark r)" "c \<notin> tried r"
    unfolding tried_mark by blast
  have "selectRandom rnd (mark r) = Inr (mark r\<lparr>currentIndex := c\<rparr>)"
    using c(1) assms(4) by (cases "lbr_sources r") (simp_all add: selectRandom_def Let_def)
  moreover have "fresh_pick r (mark r\<lparr>currentIndex := c\<rparr>)"
    using c len lt assms(3) imp tried_mark [of r]
    by (simp add: fresh_pick_def first_pass_def split: if_splits)
  ultimately show ?thesis by blast
qed

lemma pick_round_robin:
  assumes inv: "lb_inv imp r" and lt: "card (tried r) < length (lbr_sources r)"
    and "getScheme imp = LBSchemeRoundRobin"
  shows "\<exists>lb' r'. selectRoundRobin lb (mark r) = Inr (lb', r') \<and> fresh_pick r r'"
proof -
  have wf: "mwf (failed r)" and imp: "lbr_imp r = imp" using inv by (simp_all add: lb_inv_def)
  have n: "0 < source_count r" using lt by linarith
  show ?thesis
  proof (cases "currentIndex r = -1")
    case True
    then have f: "failed r = []" using inv by (simp add: lb_inv_def)
    have "\<exists>lb'. selectRoundRobin lb r = Inr (lb', r\<lparr>currentIndex := uint c mod source_count r\<rparr>)"
      if "c = (case mget (lb_states lb) (NamespacedName (imp_Namespace (lbr_imp r)) (imp_Name (lbr_imp r)))
            of Some st \<Rightarrow> roundRobinCounter st | None \<Rightarrow> 0) + 1" for c :: uint32
      using True n that by (auto simp: selectRoundRobin_def Let_def split: option.split)
    then obtain lb' and c :: uint32 where
      sel: "selectRoundRobin lb r = Inr (lb', r\<lparr>currentIndex := uint c mod source_count r\<rparr>)" by blast
    let ?c = "uint c mod source_count r"
    have c: "0 \<le> ?c" "?c < source_count r" using n by simp_all
    have "fresh_pick r (r\<lparr>currentIndex := ?c\<rparr>)"
      using c lt f True rotation_start [OF f c] assms(3) imp
      by (auto simp: fresh_pick_def first_pass_def tried_def)
    with sel True show ?thesis by auto
  next
    case False
    note fp = first_pass_pick [OF inv lt False]
    obtain s where s: "rotation s r" using fp(3) assms(3) imp by (auto simp: first_pass_def)
    let ?i = "(currentIndex r + 1) mod source_count r"
    have cur: "0 \<le> currentIndex r" "currentIndex r < source_count r"
      using inv False by (auto simp: lb_inv_def)
    have "\<exists>lb'. selectRoundRobin lb (mark r) = Inr (lb', mark r\<lparr>currentIndex := ?i\<rparr>)"
      using False wrap_mod [OF cur] by (auto simp: selectRoundRobin_def Let_def)
    moreover have "fresh_pick r (mark r\<lparr>currentIndex := ?i\<rparr>)"
      using rotation_next [OF s fp(1,2)] False lt length_mark [OF wf] mod_range [OF cur] assms(3) imp
        tried_mark [of r] by (auto simp: fresh_pick_def first_pass_def)
    ultimately show ?thesis by blast
  qed
qed

lemma pick_static:
  assumes inv: "lb_inv imp r" and lt: "card (tried r) < length (lbr_sources r)"
    and "getScheme imp = LBSchemeStatic"
  shows "fresh_pick r (selectStatic (mark r))"
proof (cases "currentIndex r = -1")
  case True
  then have f: "failed r = []" using inv by (simp add: lb_inv_def)
  have n: "0 < source_count r" using lt by linarith
  have "fresh_pick r (r\<lparr>currentIndex := 0\<rparr>)"
    using lt n f True rotation_start [OF f _ n] inv assms(3)
    by (simp add: fresh_pick_def first_pass_def tried_def lb_inv_def)
  then show ?thesis using True by (simp add: selectStatic_def)
next
  case False
  have wf: "mwf (failed r)" and imp: "lbr_imp r = imp" using inv by (simp_all add: lb_inv_def)
  note fp = first_pass_pick [OF inv lt False]
  have s: "rotation 0 r" using fp(3) assms(3) imp by (simp add: first_pass_def)
  then have cur: "currentIndex r = int (length (failed r))"
    using fp(2) by (simp add: rotation_def)
  then have i: "(currentIndex r + 1) mod source_count r = currentIndex r + 1" using fp(2) by simp
  have "fresh_pick r (mark r\<lparr>currentIndex := currentIndex r + 1\<rparr>)"
    using rotation_next [OF s fp(1,2)] False lt length_mark [OF wf] assms(3) imp fp(2)
      tried_mark [of r] cur unfolding i by (auto simp: fresh_pick_def first_pass_def)
  then show ?thesis using False by (simp add: selectStatic_def)
qed

lemma Select_cases:
  assumes inv: "lb_inv imp r" and known: "known_scheme imp"
    and "lbr_sources r \<noteq> [] \<Longrightarrow> rnd < length (lbr_sources r)"
  obtains (fresh) lb' r' where "Select rnd lb r = Inr (lb', r', None)" "fresh_pick r r'"
  | (delayed) r' where "Select rnd lb r = Inr (lb, r', None)" "delayed_pick r r'"
  | (exhausted) e where "Select rnd lb r = Inr (lb, mark r, Some e)"
      "card (tried r) = length (lbr_sources r)" "delayed r = []"
proof (cases "card (tried r) = length (lbr_sources r)")
  case True
  have wf: "mwf (failed r)" using inv by (simp add: lb_inv_def)
  show thesis
  proof (cases "delayed r = []")
    case False
    have "Select rnd lb r = Inr (lb, mark r\<lparr>currentIndex := hd (delayed r), delayed := tl (delayed r)\<rparr>, None)"
      using True False length_mark [OF wf] by (simp add: Select_def Let_def)
    then show thesis using True False by (intro delayed) (simp_all add: delayed_pick_def)
  next
    case d: True
    have "Select rnd lb r = Inr (lb, mark r, Some (Errorf (''tried out all ''
          @ Itoa (length (lbr_sources r)) @ '' sources'')))"
      using True d length_mark [OF wf] by (simp add: Select_def Let_def)
    then show thesis using True d by (intro exhausted)
  qed
next
  case False
  with tried_bound(2) [OF inv] have lt: "card (tried r) < length (lbr_sources r)" by simp
  have wf: "mwf (failed r)" and imp: "lbr_imp r = imp" using inv by (simp_all add: lb_inv_def)
  have rnd: "rnd < length (lbr_sources r)" using assms(3) lt by (cases "lbr_sources r") auto
  have Sel: "Select rnd lb r =
     (if getScheme imp = LBSchemeRandom then map_sum id (\<lambda>r. (lb, r, None)) (selectRandom rnd (mark r))
      else if getScheme imp = LBSchemeRoundRobin
      then map_sum id (\<lambda>(lb, r). (lb, r, None)) (selectRoundRobin lb (mark r))
      else if getScheme imp = LBSchemeStatic then Inr (lb, selectStatic (mark r), None)
      else Inr (lb, mark r, None))"
    using lt length_mark [OF wf] imp by (simp add: Select_def Let_def)
  from known show thesis unfolding known_scheme_def
  proof (elim disjE)
    assume sch: "getScheme imp = LBSchemeRandom"
    from pick_random [OF inv lt sch rnd] show thesis using Sel sch by (auto intro: fresh)
  next
    assume sch: "getScheme imp = LBSchemeRoundRobin"
    from pick_round_robin [OF inv lt sch, of lb] show thesis using Sel sch by (auto intro: fresh)
  next
    assume sch: "getScheme imp = LBSchemeStatic"
    from pick_static [OF inv lt sch] show thesis using Sel sch by (auto intro: fresh)
  qed
qed


subsection \<open>The search invariant and its bound\<close>

text \<open>
  Every retry makes this potential smaller: a fresh source costs two and may give one back
  when it is delayed; a delayed source costs one.
\<close>

definition lb_potential :: "LoadBalancingResult \<Rightarrow> nat" where
  "lb_potential r = 2 * (length (lbr_sources r) - card (tried r)) + length (delayed r)"

lemma lb_inv_New: "lb_inv imp (NewLoadBalancingResult imp)"
  by (simp add: lb_inv_def NewLoadBalancingResult_def)

lemma fresh_pick_inv:
  assumes inv: "lb_inv imp r" and pick: "fresh_pick r r'"
  shows "lb_inv imp r'" and "lb_potential r = lb_potential r' + 2"
    and "\<not> IsDelayed r'" and "currentIndex r' \<noteq> -1"
proof -
  have wf: "mwf (failed r)" and imp: "lbr_imp r = imp" and d: "set (delayed r) \<subseteq> {0..<source_count r}"
    using inv by (auto simp: lb_inv_def)
  from pick have p: "card (tried r) < length (lbr_sources r)" "currentIndex r' \<notin> tried r"
    "0 \<le> currentIndex r'" "currentIndex r' < source_count r" "lbr_imp r' = lbr_imp r"
    "failed r' = failed (mark r)" "delayed r' = delayed r" "first_pass r'"
    by (auto simp: fresh_pick_def)
  have keys: "fst ` set (failed r') = tried r" unfolding p(6) by (rule tried_mark)
  have wf': "mwf (failed r')" unfolding p(6) by (rule mwf_mark [OF wf])
  show "lb_inv imp r'"
    using keys tried_bound(1) [OF inv] p(3,4,5,7,8) d imp wf' by (auto simp: lb_inv_def)
  have "tried r' = insert (currentIndex r') (tried r)" using keys p(3) by (auto simp: tried_def)
  then have "card (tried r') = Suc (card (tried r))" using p(2) by (simp add: tried_def)
  then show "lb_potential r = lb_potential r' + 2" using p(1,5,7) by (simp add: lb_potential_def)
  show "\<not> IsDelayed r'" using p(8) by (simp add: IsDelayed_def first_pass_def)
  show "currentIndex r' \<noteq> -1" using p(3) by simp
qed

lemma delayed_pick_inv:
  assumes inv: "lb_inv imp r" and pick: "delayed_pick r r'"
  shows "lb_inv imp r'" and "lb_potential r = lb_potential r' + 1" and "IsDelayed r'"
    and "currentIndex r' \<noteq> -1"
proof -
  have wf: "mwf (failed r)" and imp: "lbr_imp r = imp" and d: "set (delayed r) \<subseteq> {0..<source_count r}"
    using inv by (auto simp: lb_inv_def)
  from pick have c: "card (tried r) = length (lbr_sources r)" and ne: "delayed r \<noteq> []"
    and r': "r' = mark r\<lparr>currentIndex := hd (delayed r), delayed := tl (delayed r)\<rparr>"
    by (auto simp: delayed_pick_def)
  have keys: "fst ` set (failed r') = tried r" unfolding r' using tried_mark [of r] by (simp split: if_splits)
  have len: "length (failed r') = length (lbr_sources r')" unfolding r' using length_mark [OF wf] c by simp
  have wf': "mwf (failed r')" unfolding r' using wf by simp
  have f: "lbr_imp r' = imp" "delayed r' = tl (delayed r)" "currentIndex r' = hd (delayed r)"
    using imp by (simp_all add: r')
  have hd: "hd (delayed r) \<in> {0..<source_count r}" "set (tl (delayed r)) \<subseteq> {0..<source_count r}"
    using d ne by (auto dest: list.set_sel)
  show "IsDelayed r'" using len by (simp add: IsDelayed_def)
  show cur: "currentIndex r' \<noteq> -1" using hd f by auto
  show inv': "lb_inv imp r'" unfolding lb_inv_def using wf' keys f hd len tried_bound(1) [OF inv] imp by auto
  have "tried r = fst ` set (failed r')" using keys by simp
  then have "card (tried r) \<le> card (tried r')" by (auto simp: tried_def intro!: card_mono)
  then have "card (tried r') = length (lbr_sources r')"
    using tried_bound(2) [OF inv'] c f imp by simp
  then show "lb_potential r = lb_potential r' + 1"
    using c f imp ne by (simp add: lb_potential_def)
qed

lemma Delay_inv:
  assumes "lb_inv imp r" and "currentIndex r \<noteq> -1"
  shows "lb_inv imp (Delay r)" and "lb_potential (Delay r) = lb_potential r + 1"
proof -
  have "first_pass (Delay r) = first_pass r" by (simp add: first_pass_def Delay_def rotation_def)
  then show "lb_inv imp (Delay r)" using assms by (auto simp: lb_inv_def Delay_def)
  show "lb_potential (Delay r) = lb_potential r + 1"
    by (simp add: lb_potential_def Delay_def tried_def)
qed

lemma lb_search_inv:
  assumes "lb_search imp r" and "known_scheme imp"
  shows "lb_inv imp r"
  using assms
proof (induction rule: lb_search.induct)
  case (select r rnd lb lb' r')
  then have inv: "lb_inv imp r" by simp
  then have "lbr_imp r = imp" by (simp add: lb_inv_def)
  then have "lbr_sources r \<noteq> [] \<Longrightarrow> rnd < length (lbr_sources r)" using select.hyps(2) by simp
  from inv select.prems this show ?case
  proof (rule Select_cases [where lb = lb])
    fix lb'' r'' assume "Select rnd lb r = Inr (lb'', r'', None)" and "fresh_pick r r''"
    then show ?thesis using select.hyps(3) fresh_pick_inv(1) [OF inv] by simp
  next
    fix r'' assume "Select rnd lb r = Inr (lb, r'', None)" and "delayed_pick r r''"
    then show ?thesis using select.hyps(3) delayed_pick_inv(1) [OF inv] by simp
  next
    fix e assume "Select rnd lb r = Inr (lb, mark r, Some e)"
    then show ?thesis using select.hyps(3) by (metis Inr_inject Pair_inject option.distinct(1))
  qed
qed (auto simp: lb_inv_New Delay_inv)

lemma Get_in_range:
  assumes "lb_inv imp r" and "currentIndex r \<noteq> -1"
  shows "LoadBalancingResult_Get r = Inr (Some (imp_Sources (imp_Spec imp) ! nat (currentIndex r)))"
    and "nat (currentIndex r) < length (imp_Sources (imp_Spec imp))"
  using assms by (auto simp: lb_inv_def LoadBalancingResult_Get_def)


subsection \<open>Properties\<close>

text \<open>
  C36. Under each of the three schemes, every \<^verbatim>\<open>Select\<close> of a connection's search either
  picks a valid source that was never picked before, or, only once every source was picked,
  takes back the first delayed source, or reports that all sources were tried. It never
  panics, whatever other connections do to the shared round-robin counters meanwhile.
\<close>

theorem Select_no_repeats:
  assumes "lb_search imp r" and "known_scheme imp"
    and "rnd < length (imp_Sources (imp_Spec imp)) \<or> imp_Sources (imp_Spec imp) = []"
  shows "\<exists>lb' r' err. Select rnd lb r = Inr (lb', r', err) \<and>
    (if card (tried r) < length (imp_Sources (imp_Spec imp))
     then err = None \<and> currentIndex r' \<notin> tried r \<and> tried r' = insert (currentIndex r') (tried r)
          \<and> 0 \<le> currentIndex r' \<and> currentIndex r' < int (length (imp_Sources (imp_Spec imp)))
          \<and> delayed r' = delayed r
     else if delayed r \<noteq> []
     then err = None \<and> currentIndex r' = hd (delayed r) \<and> delayed r' = tl (delayed r)
     else err \<noteq> None)"
proof -
  note inv = lb_search_inv [OF assms(1,2)]
  then have imp: "lbr_imp r = imp" by (simp add: lb_inv_def)
  have rnd: "lbr_sources r \<noteq> [] \<Longrightarrow> rnd < length (lbr_sources r)" using assms(3) imp by simp
  from inv assms(2) rnd show ?thesis
  proof (rule Select_cases [where lb = lb])
    fix lb' r' assume sel: "Select rnd lb r = Inr (lb', r', None)" and pick: "fresh_pick r r'"
    have "fst ` set (failed r') = tried r" using pick tried_mark [of r] by (simp add: fresh_pick_def)
    then have "tried r' = insert (currentIndex r') (tried r)"
      using pick by (auto simp: tried_def fresh_pick_def)
    then show ?thesis using sel pick imp by (simp add: fresh_pick_def)
  next
    fix r' assume sel: "Select rnd lb r = Inr (lb, r', None)" and pick: "delayed_pick r r'"
    then show ?thesis using imp by (simp add: delayed_pick_def)
  next
    fix e assume "Select rnd lb r = Inr (lb, mark r, Some e)"
      "card (tried r) = length (lbr_sources r)" "delayed r = []"
    then show ?thesis using imp by simp
  qed
qed

text \<open>A small import for the witnesses.\<close>

definition demo_import :: "LBScheme \<Rightarrow> string list \<Rightarrow> Import" where
  "demo_import scheme peers = \<lparr>imp_Meta = \<lparr>om_Name = ''svc'', om_Namespace = ''ns'', om_Labels = []\<rparr>,
     imp_Spec = \<lparr>imp_Port = 80, imp_TargetPort = 0,
       imp_Sources = map (\<lambda>p. \<lparr>is_Peer = p, is_ExportName = ''svc'', is_ExportNamespace = ''ns''\<rparr>) peers,
       imp_LBScheme = scheme\<rparr>,
     imp_Status = \<lparr>imp_Conditions = []\<rparr>\<rparr>"

lemma demo_import_simps [simp]:
  "imp_Sources (imp_Spec (demo_import s ps)) =
     map (\<lambda>p. \<lparr>is_Peer = p, is_ExportName = ''svc'', is_ExportNamespace = ''ns''\<rparr>) ps"
  "imp_LBScheme (imp_Spec (demo_import s ps)) = s"
  "om_Labels (imp_Meta (demo_import s ps)) = []"
  by (simp_all add: demo_import_def)

theorem Select_no_repeats_witness:
  "\<exists>lb' r' err. Select 1 NewLoadBalancer
      (NewLoadBalancingResult (demo_import LBSchemeRoundRobin [''a'', ''b''])) = Inr (lb', r', err)
    \<and> err = None \<and> currentIndex r' \<in> {0, 1}"
proof -
  let ?imp = "demo_import LBSchemeRoundRobin [''a'', ''b'']"
  have "lb_search ?imp (NewLoadBalancingResult ?imp)" by (rule lb_search.start)
  moreover have "known_scheme ?imp" by (simp add: known_scheme_def getScheme_def LBSchemeRoundRobin_def)
  moreover have "card (tried (NewLoadBalancingResult ?imp)) = 0"
    by (simp add: tried_def NewLoadBalancingResult_def)
  ultimately obtain lb' r' err where
    "Select 1 NewLoadBalancer (NewLoadBalancingResult ?imp) = Inr (lb', r', err)"
    "err = None" "0 \<le> currentIndex r'" "currentIndex r' < 2"
    using Select_no_repeats [of ?imp "NewLoadBalancingResult ?imp" 1 NewLoadBalancer] by auto
  then show ?thesis by (intro exI [of _ lb'] exI [of _ r'] exI [of _ err]) auto
qed

definition rr_counter :: "LoadBalancer \<Rightarrow> NamespacedName \<Rightarrow> uint32" where
  "rr_counter lb name = (case mget (lb_states lb) name of Some st \<Rightarrow> roundRobinCounter st | None \<Rightarrow> 0)"

lemma importState_eta: "a\<lparr>roundRobinCounter := x\<rparr> = \<lparr>roundRobinCounter = x\<rparr>"
  by (cases a) simp

lemma uint_succ: "uint (c + 1) = (if c = - 1 then 0 else uint c + 1)" for c :: uint32
proof (cases "c = - 1")
  case False
  then have "1 + c \<noteq> 0" by (metis add.commute eq_neg_iff_add_eq_0)
  then have "unat (1 + c) = Suc (unat c)" by (rule unatSuc)
  then have "int (unat (c + 1)) = int (unat c) + 1" by (simp only: add.commute of_nat_Suc)
  then show ?thesis unfolding uint_nat using False by (simp only: if_False)
qed simp

text \<open>
  Round robin: each new connection to an import starts at the value of the import's
  counter modulo the number of sources, and moves the counter on by one, modulo
  \<^verbatim>\<open>2^32\<close>. So n consecutive connections that see no wrap-around of the counter start at n
  different sources, and no other import's counter moves.
\<close>

theorem round_robin_rotates:
  assumes "getScheme imp = LBSchemeRoundRobin" and "imp_Sources (imp_Spec imp) \<noteq> []"
  shows "\<exists>lb' r'. Select rnd lb (NewLoadBalancingResult imp) = Inr (lb', r', None)
    \<and> (\<forall>name. rr_counter lb' name = (if name = imp_key imp then rr_counter lb name + 1 else rr_counter lb name))
    \<and> currentIndex r' = (if rr_counter lb (imp_key imp) = - 1 then 0
         else (uint (rr_counter lb (imp_key imp)) + 1) mod int (length (imp_Sources (imp_Spec imp))))"
proof -
  let ?c = "rr_counter lb (imp_key imp)"
  have "uint (?c + 1) = (if ?c = - 1 then 0 else uint ?c + 1)"
    by (rule uint_succ)
  note c = this
  let ?lb = "lb\<lparr>lb_states := mput (imp_key imp) \<lparr>roundRobinCounter = ?c + 1\<rparr> (lb_states lb)\<rparr>"
  let ?r = "(NewLoadBalancingResult imp)\<lparr>currentIndex :=
    uint (?c + 1) mod int (length (imp_Sources (imp_Spec imp)))\<rparr>"
  have "selectRoundRobin lb (NewLoadBalancingResult imp) = Inr (?lb, ?r)"
    using assms(2) by (cases "mget (lb_states lb) (imp_key imp)")
      (simp_all add: NewLoadBalancingResult_def selectRoundRobin_def rr_counter_def object_key_def Let_def
        importState_eta)
  then have "Select rnd lb (NewLoadBalancingResult imp) = Inr (?lb, ?r, None)"
    using assms by (simp add: Select_def Let_def NewLoadBalancingResult_def)
  moreover have "rr_counter ?lb name = (if name = imp_key imp then ?c + 1 else rr_counter lb name)" for name
    by (simp add: rr_counter_def)
  ultimately show ?thesis using c by (intro exI [of _ ?lb] exI [of _ ?r]) simp
qed

theorem round_robin_rotates_witness:
  "\<exists>lb' r'. Select 0 NewLoadBalancer
      (NewLoadBalancingResult (demo_import [] [''a'', ''b'', ''c''])) = Inr (lb', r', None)
    \<and> currentIndex r' = 1"
proof -
  let ?imp = "demo_import [] [''a'', ''b'', ''c'']"
  have "getScheme ?imp = LBSchemeRoundRobin" by (simp add: getScheme_def LBSchemeDefault_def)
  moreover have "rr_counter NewLoadBalancer n = 0" for n
    by (simp add: rr_counter_def NewLoadBalancer_def)
  ultimately show ?thesis
    using round_robin_rotates [of ?imp 0 NewLoadBalancer] by auto
qed

text \<open>
  A scheme that is none of the three leaves the search where it is: \<^verbatim>\<open>Select\<close> reports
  success, yet no source is selected and \<^verbatim>\<open>Get\<close> returns nil.
\<close>

theorem unknown_scheme_selects_nothing:
  assumes "\<not> known_scheme imp" and "imp_Sources (imp_Spec imp) \<noteq> []"
  shows "Select rnd lb (NewLoadBalancingResult imp) = Inr (lb, NewLoadBalancingResult imp, None)
    \<and> LoadBalancingResult_Get (NewLoadBalancingResult imp) = Inr None"
  using assms
  by (simp add: Select_def Let_def NewLoadBalancingResult_def known_scheme_def LoadBalancingResult_Get_def)

theorem unknown_scheme_selects_nothing_witness:
  "LoadBalancingResult_Get (NewLoadBalancingResult (demo_import ''least-loaded'' [''a''])) = Inr None"
  using unknown_scheme_selects_nothing [of "demo_import ''least-loaded'' [''a'']" 0 NewLoadBalancer]
  by (simp add: known_scheme_def getScheme_def LBSchemeRandom_def LBSchemeRoundRobin_def LBSchemeStatic_def)

end
