(* ===== verification/PeerClient.thy ===== *)
theory PeerClient
  imports Certs
begin

text \<open>
  Clients of remote peers: \<^verbatim>\<open>src/pkg/util/jsonapi/client.go\<close> and
  \<^verbatim>\<open>src/pkg/controlplane/peer/client.go\<close>. The network is a parameter (\<open>http_env\<close>): it answers
  the first attempt and the retry of every request. \<^verbatim>\<open>getResponse\<close> asks all gateways in
  parallel; it is modelled twice, as the step relation of its goroutines (\<open>gr_step\<close>, with
  the lock and the unbuffered channel) and as a function of the order in which the main
  goroutine receives the responses; \<open>gr_returns_function\<close> connects the two.
\<close>

subsection \<open>HTTP\<close>

text \<open>Header names are compared case-insensitively; header maps are keyed by lower-case names.\<close>

definition to_lower :: "char \<Rightarrow> char" where
  "to_lower c = (if CHR ''A'' \<le> c \<and> c \<le> CHR ''Z'' then char_of (of_char c + 32 :: nat) else c)"

definition Header_Get :: "labels \<Rightarrow> string \<Rightarrow> string" where
  "Header_Get h k = sget h (map to_lower k)"

record http_response =
  hr_StatusCode :: int
  hr_Header :: labels
  hr_Body :: "error + string"

record Response =
  resp_Status :: int
  resp_Headers :: labels
  resp_Body :: string

record jsonapi_Client =
  jc_tlsConfig :: tls_Config
  jc_serverURL :: string

record http_request =
  hq_Method :: string
  hq_URL :: string
  hq_Header :: labels
  hq_Body :: string

text \<open>
  \<open>env_Do attempt tls req\<close>: what \<^verbatim>\<open>http.Client.Do\<close> returns, an error with whether it is a
  timeout, or a response.
\<close>

record http_env =
  env_NewRequest :: "string \<Rightarrow> string \<Rightarrow> error option"
  env_Do :: "nat \<Rightarrow> tls_Config \<Rightarrow> http_request \<Rightarrow> (bool \<times> error) + http_response"

definition JoinHostPort :: "string \<Rightarrow> string \<Rightarrow> string" where
  "JoinHostPort host port =
     (if CHR '':'' \<in> set host then ''['' @ host @ '']:'' @ port else host @ '':'' @ port)"

definition jsonapi_NewClient :: "string \<Rightarrow> uint16 \<Rightarrow> tls_Config \<Rightarrow> jsonapi_Client" where
  "jsonapi_NewClient host port tlsConfig =
     \<lparr>jc_tlsConfig = tlsConfig, jc_serverURL = ''https://'' @ JoinHostPort host (Itoa (unat port))\<rparr>"

definition jsonapi_do ::
    "http_env \<Rightarrow> jsonapi_Client \<Rightarrow> string \<Rightarrow> string \<Rightarrow> string option \<Rightarrow> error + Response" where
  "jsonapi_do E c method path body =
     (let url = jc_serverURL c @ path;
          bytes = (case body of None \<Rightarrow> [] | Some b \<Rightarrow> b);
          req = \<lparr>hq_Method = method, hq_URL = url,
                 hq_Header = (if body \<noteq> None then [(''content-type'', ''application/json; charset=utf-8'')]
                              else []), hq_Body = bytes\<rparr>
      in case env_NewRequest E method url of
           Some err \<Rightarrow> Inl (Wrapf ''unable to create http request: '' err)
         | None \<Rightarrow>
             (case (case env_Do E 0 (jc_tlsConfig c) req of
                      Inl (timeout, err) \<Rightarrow>
                        if timeout then env_Do E 1 (jc_tlsConfig c) req else Inl (timeout, err)
                    | Inr resp \<Rightarrow> Inr resp) of
                Inl (_, err) \<Rightarrow> Inl (Wrapf ''unable to perform http request: '' err)
              | Inr resp \<Rightarrow>
                  (case hr_Body resp of
                     Inl err \<Rightarrow> Inl (Wrapf ''unable to read response body: '' err)
                   | Inr b \<Rightarrow> Inr \<lparr>resp_Status = hr_StatusCode resp, resp_Headers = hr_Header resp,
                                   resp_Body = b\<rparr>)))"

definition jsonapi_Get :: "http_env \<Rightarrow> jsonapi_Client \<Rightarrow> string \<Rightarrow> error + Response" where
  "jsonapi_Get E c path = jsonapi_do E c ''GET'' path None"

definition jsonapi_Post :: "http_env \<Rightarrow> jsonapi_Client \<Rightarrow> string \<Rightarrow> string \<Rightarrow> error + Response" where
  "jsonapi_Post E c path body = jsonapi_do E c ''POST'' path (Some body)"

definition jsonapi_Put :: "http_env \<Rightarrow> jsonapi_Client \<Rightarrow> string \<Rightarrow> string \<Rightarrow> error + Response" where
  "jsonapi_Put E c path body = jsonapi_do E c ''PUT'' path (Some body)"

definition jsonapi_Delete :: "http_env \<Rightarrow> jsonapi_Client \<Rightarrow> string \<Rightarrow> string \<Rightarrow> error + Response" where
  "jsonapi_Delete E c path body = jsonapi_do E c ''DELETE'' path (Some body)"

subsection \<open>Peer clients\<close>

record peer_Client =
  pc_pr :: Peer
  pc_clients :: "jsonapi_Client list"

definition NewClient :: "Peer \<Rightarrow> tls_Config \<Rightarrow> peer_Client" where
  "NewClient peer tlsConfig = \<lparr>pc_pr = peer,
     pc_clients = map (\<lambda>endpoint. jsonapi_NewClient (ep_Host endpoint) (ep_Port endpoint) tlsConfig)
                    (pr_Gateways (pr_Spec peer))\<rparr>"

text \<open>
  The receiving loop of \<^verbatim>\<open>getResponse\<close> on the results in the order they are received. With
  no gateways it returns a nil response and a nil error (\<open>Inr None\<close>).
\<close>

fun receive :: "error option \<Rightarrow> (error + Response) list \<Rightarrow> error + Response option" where
  "receive retErr [] = (case retErr of None \<Rightarrow> Inr None | Some e \<Rightarrow> Inl e)"
| "receive retErr (Inr response # results) = Inr (Some response)"
| "receive retErr (Inl err # results) = receive (errors_Join [retErr, Some err]) results"

definition getResponse ::
    "(jsonapi_Client list \<Rightarrow> jsonapi_Client list) \<Rightarrow> peer_Client \<Rightarrow> (jsonapi_Client \<Rightarrow> error + Response)
       \<Rightarrow> error + Response option" where
  "getResponse arrival c getRespFunc =
     (case pc_clients c of
        [client] \<Rightarrow> map_sum id Some (getRespFunc client)
      | clients \<Rightarrow> receive None (map getRespFunc (arrival clients)))"

record AuthorizationRequest =
  areq_ServiceName :: string
  areq_ServiceNamespace :: string
  areq_SrcAttributes :: WorkloadAttrs

text \<open>\<^verbatim>\<open>encoding/json\<close> on the three types the code encodes or decodes.\<close>

record json_codec =
  MarshalAuthz :: "AuthorizationRequest \<Rightarrow> error + string"
  UnmarshalAuthz :: "string \<Rightarrow> error + AuthorizationRequest"
  MarshalLabels :: "labels \<Rightarrow> error + string"
  UnmarshalLabels :: "string \<Rightarrow> error + labels"

definition RemotePeerAuthorizationPath :: string where "RemotePeerAuthorizationPath = ''/authz''"
definition AccessTokenHeader :: string where "AccessTokenHeader = ''x-access-token''"
definition HeartbeatPath :: string where "HeartbeatPath = ''/healthz''"
definition PeerLabelsCustomHeader :: string where "PeerLabelsCustomHeader = ''ClusterLinkPeerLabels''"

text \<open>
  The environment of a peer client: network, arrival order, JSON. A nil response without an
  error is dereferenced by the callers.
\<close>

record peer_env =
  pe_http :: http_env
  pe_arrival :: "jsonapi_Client list \<Rightarrow> jsonapi_Client list"
  pe_json :: json_codec

definition status_error :: "string \<Rightarrow> Response \<Rightarrow> error" where
  "status_error what r = Errorf (what @ '' ('' @ (if resp_Status r < 0 then ''-'' else [])
     @ Itoa (nat \<bar>resp_Status r\<bar>) @ ''), server returned: '' @ resp_Body r)"

definition Authorize :: "peer_env \<Rightarrow> peer_Client \<Rightarrow> AuthorizationRequest \<Rightarrow> panic + (error + string)" where
  "Authorize E c req =
     (case MarshalAuthz (pe_json E) req of
        Inl err \<Rightarrow> Inr (Inl (Wrapf ''unable to serialize authorization request: '' err))
      | Inr body \<Rightarrow>
          (case getResponse (pe_arrival E) c
                  (\<lambda>client. jsonapi_Post (pe_http E) client RemotePeerAuthorizationPath body) of
             Inl err \<Rightarrow> Inr (Inl err)
           | Inr None \<Rightarrow> Inl NilDereference
           | Inr (Some serverResp) \<Rightarrow>
               if resp_Status serverResp \<noteq> 200
               then Inr (Inl (status_error ''unable to authorize connection'' serverResp))
               else Inr (Inr (Header_Get (resp_Headers serverResp) AccessTokenHeader))))"

definition bytes_to_string :: "nat list \<Rightarrow> string" where
  "bytes_to_string bs = map char_of bs"

definition GetHeartbeat :: "peer_env \<Rightarrow> peer_Client \<Rightarrow> panic + (error + labels)" where
  "GetHeartbeat E c =
     (case getResponse (pe_arrival E) c (\<lambda>client. jsonapi_Get (pe_http E) client HeartbeatPath) of
        Inl err \<Rightarrow> Inr (Inl err)
      | Inr None \<Rightarrow> Inl NilDereference
      | Inr (Some serverResp) \<Rightarrow>
          if resp_Status serverResp \<noteq> 200
          then Inr (Inl (status_error ''unable to get heartbeat'' serverResp))
          else (case b64_decode (Header_Get (resp_Headers serverResp) PeerLabelsCustomHeader) of
                  None \<Rightarrow> Inr (Inl (Errorf ''illegal base64 data''))
                | Some sDec \<Rightarrow> Inr (UnmarshalLabels (pe_json E) (bytes_to_string sDec))))"

subsection \<open>The goroutines of getResponse\<close>

text \<open>
  One worker per gateway: it has its response (\<open>Waiting\<close>), holds the lock and is blocked on
  the unbuffered channel (\<open>Sending\<close>), has handed its result over but still holds the lock
  (\<open>Sent\<close>), or is gone. The main goroutine receives, then needs the lock to set \<^verbatim>\<open>done\<close>.
\<close>

datatype worker = Requesting | Waiting | Sending | Sent | Gone

datatype main_state =
    Receiving nat "error option"
  | WantLock Response
  | ReturnedM "error + Response option"

record gr_state =
  gr_workers :: "worker list"
  gr_lock :: "nat option"
  gr_done :: bool
  gr_main :: main_state
  gr_received :: "nat list"

definition gr_init :: "nat \<Rightarrow> gr_state" where
  "gr_init n = \<lparr>gr_workers = replicate n Requesting, gr_lock = None, gr_done = False,
     gr_main = Receiving n None, gr_received = []\<rparr>"

definition set_worker :: "nat \<Rightarrow> worker \<Rightarrow> gr_state \<Rightarrow> gr_state" where
  "set_worker i x s = s\<lparr>gr_workers := (gr_workers s)[i := x]\<rparr>"

abbreviation worker_is :: "gr_state \<Rightarrow> nat \<Rightarrow> worker \<Rightarrow> bool" where
  "worker_is s i x \<equiv> i < length (gr_workers s) \<and> gr_workers s ! i = x"

inductive gr_step :: "(nat \<Rightarrow> error + Response) \<Rightarrow> gr_state \<Rightarrow> gr_state \<Rightarrow> bool" for f where
  respond: "worker_is s i Requesting \<Longrightarrow> gr_step f s (set_worker i Waiting s)"
| lock_send: "worker_is s i Waiting \<Longrightarrow> gr_lock s = None \<Longrightarrow> \<not> gr_done s \<Longrightarrow>
    gr_step f s ((set_worker i Sending s)\<lparr>gr_lock := Some i\<rparr>)"
| lock_quit: "worker_is s i Waiting \<Longrightarrow> gr_lock s = None \<Longrightarrow> gr_done s \<Longrightarrow>
    gr_step f s (set_worker i Gone s)"
| handover_ok: "worker_is s i Sending \<Longrightarrow> gr_main s = Receiving (Suc k) retErr \<Longrightarrow> f i = Inr resp \<Longrightarrow>
    gr_step f s ((set_worker i Sent s)\<lparr>gr_main := WantLock resp, gr_received := gr_received s @ [i]\<rparr>)"
| handover_err: "worker_is s i Sending \<Longrightarrow> gr_main s = Receiving (Suc k) retErr \<Longrightarrow> f i = Inl err \<Longrightarrow>
    gr_step f s ((set_worker i Sent s)\<lparr>gr_main := Receiving k (errors_Join [retErr, Some err]),
      gr_received := gr_received s @ [i]\<rparr>)"
| unlock: "worker_is s i Sent \<Longrightarrow> gr_step f s ((set_worker i Gone s)\<lparr>gr_lock := None\<rparr>)"
| finish: "gr_main s = WantLock resp \<Longrightarrow> gr_lock s = None \<Longrightarrow>
    gr_step f s (s\<lparr>gr_done := True, gr_main := ReturnedM (Inr (Some resp))\<rparr>)"
| give_up: "gr_main s = Receiving 0 retErr \<Longrightarrow>
    gr_step f s (s\<lparr>gr_main := ReturnedM (case retErr of None \<Rightarrow> Inr None | Some e \<Rightarrow> Inl e)\<rparr>)"

inductive gr_reach :: "(nat \<Rightarrow> error + Response) \<Rightarrow> nat \<Rightarrow> gr_state \<Rightarrow> bool" for f n where
  gr_start: "gr_reach f n (gr_init n)"
| gr_next: "gr_reach f n s \<Longrightarrow> gr_step f s s' \<Longrightarrow> gr_reach f n s'"


definition gr_inv :: "(nat \<Rightarrow> error + Response) \<Rightarrow> nat \<Rightarrow> gr_state \<Rightarrow> bool" where
  "gr_inv f n s \<longleftrightarrow> length (gr_workers s) = n \<and> distinct (gr_received s)
     \<and> (\<forall>i \<in> set (gr_received s). worker_is s i Sent \<or> worker_is s i Gone)
     \<and> (case gr_main s of
          Receiving k retErr \<Rightarrow> k + length (gr_received s) = n
            \<and> (\<forall>rest. receive None (map f (gr_received s @ rest)) = receive retErr (map f rest))
        | WantLock resp \<Rightarrow> \<forall>rest. receive None (map f (gr_received s @ rest)) = Inr (Some resp)
        | ReturnedM res \<Rightarrow> \<forall>rest. distinct (gr_received s @ rest) \<and> set (gr_received s @ rest) = {..<n}
            \<longrightarrow> receive None (map f (gr_received s @ rest)) = res)"

lemma gr_inv_init: "gr_inv f n (gr_init n)"
  by (simp add: gr_inv_def gr_init_def)

lemma receive_handover:
  assumes "\<forall>rest. receive None (map f (xs @ rest)) = receive retErr (map f rest)"
  shows "f i = Inr resp \<Longrightarrow> receive None (map f ((xs @ [i]) @ rest)) = Inr (Some resp)"
    and "f i = Inl err \<Longrightarrow> receive None (map f ((xs @ [i]) @ rest)) =
      receive (errors_Join [retErr, Some err]) (map f rest)"
  using spec [OF assms, of "i # rest"] by simp_all

lemma received_fresh:
  assumes "gr_inv f n s" and "worker_is s i Sending"
  shows "i \<notin> set (gr_received s)"
  using assms by (auto simp: gr_inv_def)

lemma gr_inv_step:
  assumes inv: "gr_inv f n s" and step: "gr_step f s s'"
  shows "gr_inv f n s'"
  using step
proof (cases rule: gr_step.cases)
  case (handover_ok i k retErr resp)
  have r: "\<forall>rest. receive None (map f (gr_received s @ rest)) = receive retErr (map f rest)"
    using inv handover_ok(3) by (simp add: gr_inv_def)
  from receive_handover(1) [OF r handover_ok(4)] inv handover_ok received_fresh [OF inv, of i]
  show ?thesis by (auto simp: gr_inv_def set_worker_def nth_list_update)
next
  case (handover_err i k retErr err)
  have r: "\<forall>rest. receive None (map f (gr_received s @ rest)) = receive retErr (map f rest)"
    using inv handover_err(3) by (simp add: gr_inv_def)
  from receive_handover(2) [OF r handover_err(4)] inv handover_err received_fresh [OF inv, of i]
  show ?thesis by (auto simp: gr_inv_def set_worker_def nth_list_update)
next
  case (give_up retErr)
  have r: "receive None (map f (gr_received s)) = receive retErr []"
    and len: "length (gr_received s) = n"
    using inv give_up by (auto simp: gr_inv_def dest: spec [of _ "[]"])
  have "rest = []" if "distinct (gr_received s @ rest)" "set (gr_received s @ rest) = {..<n}" for rest
    using distinct_card [OF that(1)] that(2) len by simp
  then have "\<forall>rest. distinct (gr_received s @ rest) \<and> set (gr_received s @ rest) = {..<n} \<longrightarrow>
      receive None (map f (gr_received s @ rest)) = receive retErr []"
    using r by (metis append_Nil2)
  with give_up inv show ?thesis by (auto simp: gr_inv_def)
next
  case (finish resp)
  then show ?thesis using inv by (auto simp: gr_inv_def)
qed (use inv in \<open>auto simp: gr_inv_def set_worker_def nth_list_update split: main_state.splits\<close>)

lemma gr_reach_inv: "gr_reach f n s \<Longrightarrow> gr_inv f n s"
  by (induction rule: gr_reach.induct) (auto intro: gr_inv_init gr_inv_step)

text \<open>
  C38. Whenever the concurrent \<^verbatim>\<open>getResponse\<close> returns, it returns what the sequential
  receiving loop computes on the gateways' responses in some order: the first success
  received, or, if every gateway failed, all their errors joined.
\<close>

theorem gr_returns_function:
  assumes "gr_reach f n s" and "gr_main s = ReturnedM res"
  shows "\<exists>order. mset order = mset [0..<n] \<and> res = receive None (map f order)"
proof -
  from gr_reach_inv [OF assms(1)] have inv: "length (gr_workers s) = n" "distinct (gr_received s)"
    "\<forall>i \<in> set (gr_received s). i < length (gr_workers s)"
    "\<forall>rest. distinct (gr_received s @ rest) \<and> set (gr_received s @ rest) = {..<n}
      \<longrightarrow> receive None (map f (gr_received s @ rest)) = res"
    using assms(2) by (auto simp: gr_inv_def)
  let ?order = "gr_received s @ filter (\<lambda>i. i \<notin> set (gr_received s)) [0..<n]"
  have d: "distinct ?order" "set ?order = {..<n}" using inv by auto
  then have "mset ?order = mset [0..<n]"
    by (metis atLeast_upt distinct_upt set_eq_iff_mset_eq_distinct)
  moreover have "res = receive None (map f ?order)" using inv(4) d by simp
  ultimately show ?thesis by blast
qed


text \<open>Runs as explicit sequences of steps, for the witness and the deadlock below.\<close>

definition resp_ok :: Response where
  "resp_ok = \<lparr>resp_Status = 200, resp_Headers = [], resp_Body = []\<rparr>"

lemma gr_first_handover:
  assumes "f 0 = Inr resp"
  shows "gr_reach f 2 \<lparr>gr_workers = [Sent, Waiting], gr_lock = Some 0, gr_done = False,
    gr_main = WantLock resp, gr_received = [0]\<rparr>"
proof -
  note s = set_worker_def
  have "gr_reach f 2 (gr_init 2)" by (rule gr_start)
  from gr_next [OF this respond [where i = 0]]
  have "gr_reach f 2 \<lparr>gr_workers = [Waiting, Requesting], gr_lock = None, gr_done = False,
      gr_main = Receiving 2 None, gr_received = []\<rparr>"
    by (simp add: gr_init_def s numeral_2_eq_2)
  from gr_next [OF this respond [where i = 1]]
  have "gr_reach f 2 \<lparr>gr_workers = [Waiting, Waiting], gr_lock = None, gr_done = False,
      gr_main = Receiving 2 None, gr_received = []\<rparr>" by (simp add: s)
  from gr_next [OF this lock_send [where i = 0]]
  have "gr_reach f 2 \<lparr>gr_workers = [Sending, Waiting], gr_lock = Some 0, gr_done = False,
      gr_main = Receiving 2 None, gr_received = []\<rparr>" by (simp add: s)
  from gr_next [OF this handover_ok [where i = 0 and k = 1 and retErr = None and resp = resp]] assms
  show ?thesis by (simp add: s numeral_2_eq_2)
qed

theorem gr_returns_function_witness:
  "\<exists>order. mset order = mset [0..<2] \<and>
     (Inr (Some resp_ok) :: error + Response option) = receive None (map (\<lambda>_. Inr resp_ok) order)"
proof -
  let ?f = "\<lambda>_. Inr resp_ok :: error + Response"
  from gr_next [OF gr_first_handover [of ?f resp_ok] unlock [where i = 0]]
  have "gr_reach ?f 2 \<lparr>gr_workers = [Gone, Waiting], gr_lock = None, gr_done = False,
      gr_main = WantLock resp_ok, gr_received = [0]\<rparr>" by (simp add: set_worker_def)
  from gr_next [OF this finish [where resp = resp_ok]]
  have "gr_reach ?f 2 \<lparr>gr_workers = [Gone, Waiting], gr_lock = None, gr_done = True,
      gr_main = ReturnedM (Inr (Some resp_ok)), gr_received = [0]\<rparr>" by simp
  from gr_returns_function [OF this] show ?thesis by simp
qed

text \<open>
  With two gateways, \<^verbatim>\<open>getResponse\<close> can hang forever when the first response is a
  success: the second worker takes the lock between the handover and the main goroutine's
  own locking, and then blocks sending on a channel nobody reads any more. No step is
  possible from there, and the main goroutine has not returned.
\<close>

theorem getResponse_deadlock:
  assumes "f 0 = Inr resp"
  shows "\<exists>s. gr_reach f 2 s \<and> gr_main s = WantLock resp \<and> (\<forall>s'. \<not> gr_step f s s')"
proof -
  let ?s = "\<lparr>gr_workers = [Gone, Sending], gr_lock = Some 1, gr_done = False,
      gr_main = WantLock resp, gr_received = [0]\<rparr>"
  from gr_next [OF gr_first_handover [where f = f, OF assms] unlock [where i = 0]]
  have "gr_reach f 2 \<lparr>gr_workers = [Gone, Waiting], gr_lock = None, gr_done = False,
      gr_main = WantLock resp, gr_received = [0]\<rparr>" by (simp add: set_worker_def)
  from gr_next [OF this lock_send [where i = 1]] have "gr_reach f 2 ?s" by (simp add: set_worker_def)
  moreover have "\<not> gr_step f ?s s'" for s'
    by (auto elim!: gr_step.cases simp: less_Suc_eq numeral_2_eq_2)
  ultimately show ?thesis by (intro exI [of _ ?s]) simp
qed

theorem getResponse_deadlock_witness:
  "\<exists>s. gr_reach (\<lambda>_. Inr resp_ok) 2 s \<and> gr_main s = WantLock resp_ok
     \<and> (\<forall>s'. \<not> gr_step (\<lambda>_. Inr resp_ok) s s')"
  using getResponse_deadlock [of "\<lambda>_. Inr resp_ok" resp_ok] by simp

subsection \<open>Authorization through a peer's gateways\<close>

lemma receive_Some: "receive e rs = Inr (Some r) \<Longrightarrow> Inr r \<in> set rs"
  by (induction e rs rule: receive.induct) (auto split: option.splits)

lemma getResponse_Some:
  assumes "getResponse arrival c g = Inr (Some r)" and "\<forall>xs. mset (arrival xs) = mset xs"
  shows "\<exists>client \<in> set (pc_clients c). g client = Inr r"
proof -
  have "set (arrival xs) = set xs" for xs using assms(2) by (metis set_mset_mset)
  with assms(1) show ?thesis
    by (auto simp: getResponse_def split: list.splits sum.splits dest!: receive_Some)
       (auto simp: map_sum_def split: sum.splits)
qed

text \<open>
  An access token comes from a gateway of the peer itself, over a TLS configuration that
  names the peer, from a response with status 200.
\<close>

theorem Authorize_from_gateway:
  assumes "Authorize E (NewClient pr (ClientConfig cert (pr_Name pr))) req = Inr (Inr token)"
    and "\<forall>xs. mset (pe_arrival E xs) = mset xs"
  shows "\<exists>gw \<in> set (pr_Gateways (pr_Spec pr)). \<exists>body r.
    jsonapi_do (pe_http E) (jsonapi_NewClient (ep_Host gw) (ep_Port gw) (ClientConfig cert (pr_Name pr)))
      ''POST'' ''/authz'' (Some body) = Inr r
    \<and> resp_Status r = 200 \<and> token = Header_Get (resp_Headers r) AccessTokenHeader"
proof -
  from assms(1) obtain body r where r:
    "getResponse (pe_arrival E) (NewClient pr (ClientConfig cert (pr_Name pr)))
       (\<lambda>client. jsonapi_Post (pe_http E) client RemotePeerAuthorizationPath body) = Inr (Some r)"
    "resp_Status r = 200" "token = Header_Get (resp_Headers r) AccessTokenHeader"
    by (auto simp: Authorize_def split: sum.splits option.splits if_splits)
  from getResponse_Some [OF r(1) assms(2)] r(2,3) show ?thesis
    by (auto simp: NewClient_def jsonapi_Post_def RemotePeerAuthorizationPath_def)
qed


text \<open>A network in which every gateway grants the token \<open>tok\<close>, and a JSON encoder for it.\<close>

definition demo_json :: json_codec where
  "demo_json = \<lparr>MarshalAuthz = (\<lambda>_. Inr ''{}''), UnmarshalAuthz = (\<lambda>_. Inl (Errorf ''json'')),
     MarshalLabels = (\<lambda>_. Inr ''{}''), UnmarshalLabels = (\<lambda>_. Inr [])\<rparr>"

definition grant_env :: "string \<Rightarrow> peer_env" where
  "grant_env tok = \<lparr>pe_http = \<lparr>env_NewRequest = (\<lambda>_ _. None),
       env_Do = (\<lambda>_ _ _. Inr \<lparr>hr_StatusCode = 200, hr_Header = [(''x-access-token'', tok)], hr_Body = Inr []\<rparr>)\<rparr>,
     pe_arrival = (\<lambda>xs. xs), pe_json = demo_json\<rparr>"

definition demo_peer :: "string \<Rightarrow> string list \<Rightarrow> Peer" where
  "demo_peer n hosts = \<lparr>pr_Meta = \<lparr>om_Name = n, om_Namespace = ''sys'', om_Labels = []\<rparr>,
     pr_Spec = \<lparr>pr_Gateways = map (\<lambda>h. \<lparr>ep_Host = h, ep_Port = 443\<rparr>) hosts\<rparr>,
     pr_Status = \<lparr>pr_Conditions = [], pr_Labels = []\<rparr>\<rparr>"

definition demo_cert :: ParsedCertData where
  "demo_cert = \<lparr>pcd_certificate = \<lparr>tc_Certificate = [], tc_PrivateKey = []\<rparr>, pcd_ca = [],
     pcd_x509cert = \<lparr>x509_DNSNames = [''me'']\<rparr>\<rparr>"

lemma Header_Get_token: "Header_Get [(''x-access-token'', tok)] AccessTokenHeader = tok"
  by (simp add: Header_Get_def AccessTokenHeader_def to_lower_def sget_def less_eq_char_def)

lemma Authorize_grant:
  "pc_clients c \<noteq> [] \<Longrightarrow> Authorize (grant_env tok) c req = Inr (Inr tok)"
  by (auto simp: Authorize_def grant_env_def demo_json_def getResponse_def jsonapi_Post_def jsonapi_do_def
      Header_Get_token split: list.split)

theorem Authorize_from_gateway_witness:
  "\<exists>gw \<in> set (pr_Gateways (pr_Spec (demo_peer ''p'' [''a'', ''b'']))). \<exists>body r.
    jsonapi_do (pe_http (grant_env ''t''))
      (jsonapi_NewClient (ep_Host gw) (ep_Port gw) (ClientConfig demo_cert ''p''))
      ''POST'' ''/authz'' (Some body) = Inr r
    \<and> resp_Status r = 200 \<and> ''t'' = Header_Get (resp_Headers r) AccessTokenHeader"
proof -
  let ?pr = "demo_peer ''p'' [''a'', ''b'']"
  have n: "pr_Name ?pr = ''p''" by (simp add: demo_peer_def)
  have "Authorize (grant_env ''t'') (NewClient ?pr (ClientConfig demo_cert (pr_Name ?pr))) req = Inr (Inr ''t'')" for req
    by (rule Authorize_grant) (simp add: NewClient_def demo_peer_def)
  from Authorize_from_gateway [OF this] show ?thesis unfolding n by (simp add: grant_env_def)
qed

text \<open>A peer with no gateways: a nil response is dereferenced.\<close>

lemma Authorize_no_gateways:
  assumes "pr_Gateways (pr_Spec pr) = []" and "\<forall>xs. mset (pe_arrival E xs) = mset xs"
    and "MarshalAuthz (pe_json E) req = Inr body"
  shows "Authorize E (NewClient pr cfg) req = Inl NilDereference"
proof -
  have "pe_arrival E [] = []" using spec [OF assms(2), of "[]"] by simp
  then show ?thesis using assms(1,3) by (simp add: Authorize_def NewClient_def getResponse_def)
qed

end
