(* ===== verification/Authz.thy ===== *)
theory Authz
  imports Names K8s Pdp Lb PeerClient
begin

text \<open>
  The authorization manager, \<^verbatim>\<open>src/pkg/controlplane/authz/manager.go\<close>: which connections the
  controlplane lets through. It uses the PDP (theory \<open>Pdp\<close>), the load balancer (\<open>Lb\<close>), the
  peer clients (\<open>PeerClient\<close>) and the API client (\<open>K8s\<close>). JSON web tokens are the third-party
  library \<^verbatim>\<open>jwx\<close>, a record \<open>jwt_lib\<close> with its documented behaviour as \<open>jwt_ok\<close>; time is in
  seconds.
\<close>

subsection \<open>Tokens\<close>

datatype jwk_Key = SymmetricKey "nat list"

datatype claim = ClaimString string | ClaimOther

record Token =
  tok_Expiration :: nat
  tok_PrivateClaims :: "(string, claim) gomap"

record jwt_lib =
  jwk_New :: "nat list \<Rightarrow> error + jwk_Key"
  jwt_Build :: "Token \<Rightarrow> error + Token"
  jwt_Sign :: "jwk_Key \<Rightarrow> Token \<Rightarrow> error + string"
  jwt_ParseString :: "nat \<Rightarrow> jwk_Key \<Rightarrow> string \<Rightarrow> error + Token"

text \<open>
  A signed token verifies under its key until it expires, and then gives back the token that
  was signed; from then on it is refused. Building a token does not change it.
\<close>

definition jwt_ok :: "jwt_lib \<Rightarrow> bool" where
  "jwt_ok J \<longleftrightarrow>
     (\<forall>key tok s now. jwt_Sign J key tok = Inr s \<longrightarrow>
        (if now < tok_Expiration tok then jwt_ParseString J now key s = Inr tok
         else \<exists>e. jwt_ParseString J now key s = Inl e))
     \<and> (\<forall>tok tok'. jwt_Build J tok = Inr tok' \<longrightarrow> tok' = tok)"

definition jwtExpirySeconds :: nat where "jwtExpirySeconds = 5"
definition ExportNameJWTClaim :: string where "ExportNameJWTClaim = ''export_name''"
definition ExportNamespaceJWTClaim :: string where "ExportNamespaceJWTClaim = ''export_namespace''"

definition ClientNamespaceLabel :: string where
  "ClientNamespaceLabel = ''client.clusterlink.net/namespace''"
definition ClientSALabel :: string where
  "ClientSALabel = ''client.clusterlink.net/service-account''"
definition ClientLabelsPrefix :: string where
  "ClientLabelsPrefix = ''client.clusterlink.net/labels.''"
definition ServiceNameLabel :: string where
  "ServiceNameLabel = ''export.clusterlink.net/name''"
definition ServiceNamespaceLabel :: string where
  "ServiceNamespaceLabel = ''export.clusterlink.net/namespace''"
definition ServiceLabelsPrefix :: string where
  "ServiceLabelsPrefix = ''export.clusterlink.net/labels.''"
definition PeerNameLabel :: string where
  "PeerNameLabel = ''peer.clusterlink.net/name''"
definition PeerLabelsPrefix :: string where
  "PeerLabelsPrefix = ''peer.clusterlink.net/labels.''"

subsection \<open>State\<close>

record egressAuthorizationRequest =
  er_ImportName :: NamespacedName
  er_IP :: string

record egressAuthorizationResponse =
  ea_Allowed :: bool
  ea_RemotePeerCluster :: string
  ea_AccessToken :: string

record ingressAuthorizationRequest =
  ir_ServiceName :: NamespacedName
  ir_SrcAttributes :: WorkloadAttrs

record ingressAuthorizationResponse =
  ia_ServiceExists :: bool
  ia_Allowed :: bool
  ia_AccessToken :: string

record podInfo =
  pi_name :: string
  pi_namespace :: string
  pi_serviceAccount :: string
  pi_labels :: labels

record authz_Manager =
  am_namespace :: string
  am_loadBalancer :: LoadBalancer
  am_connectivityPDP :: PDP
  am_peerTLS :: "ParsedCertData option"
  am_peerName :: string
  am_peerLabels :: labels
  am_peerClient :: "(string, peer_Client) gomap"
  am_ipToPod :: "(string, NamespacedName) gomap"
  am_podList :: "(NamespacedName, podInfo) gomap"
  am_jwkKey :: "jwk_Key option"

definition authz_NewManager :: "string \<Rightarrow> labels \<Rightarrow> authz_Manager" where
  "authz_NewManager namespace peerLabels = \<lparr>am_namespace = namespace, am_loadBalancer = NewLoadBalancer,
     am_connectivityPDP = NewPDP, am_peerTLS = None, am_peerName = [], am_peerLabels = peerLabels,
     am_peerClient = [], am_ipToPod = [], am_podList = [], am_jwkKey = None\<rparr>"

subsection \<open>Peers, policies, pods, secrets\<close>

definition authz_AddPeer :: "Peer \<Rightarrow> authz_Manager \<Rightarrow> panic + authz_Manager" where
  "authz_AddPeer pr m =
     (case am_peerTLS m of
        None \<Rightarrow> Inl NilDereference
      | Some tls \<Rightarrow> Inr (m\<lparr>am_peerClient :=
          mput (pr_Name pr) (NewClient pr (ClientConfig tls (pr_Name pr))) (am_peerClient m)\<rparr>))"

definition authz_DeletePeer :: "string \<Rightarrow> authz_Manager \<Rightarrow> authz_Manager" where
  "authz_DeletePeer name m = m\<lparr>am_peerClient := mdel name (am_peerClient m)\<rparr>"

definition AddAccessPolicy ::
    "apimachinery \<Rightarrow> AccessPolicy \<Rightarrow> authz_Manager \<Rightarrow> authz_Manager \<times> error option" where
  "AddAccessPolicy K policy m =
     (let (pdp, err) = AddOrUpdatePolicy K policy (am_connectivityPDP m)
      in (m\<lparr>am_connectivityPDP := pdp\<rparr>, err))"

definition DeleteAccessPolicy ::
    "apimachinery \<Rightarrow> NamespacedName \<Rightarrow> bool \<Rightarrow> authz_Manager \<Rightarrow> authz_Manager \<times> error option" where
  "DeleteAccessPolicy K name privileged m =
     (let (pdp, err) = DeletePolicy K name privileged (am_connectivityPDP m)
      in (m\<lparr>am_connectivityPDP := pdp\<rparr>, err))"

definition deletePod :: "NamespacedName \<Rightarrow> authz_Manager \<Rightarrow> authz_Manager" where
  "deletePod podID m = m\<lparr>am_podList := mdel podID (am_podList m),
     am_ipToPod := filter (\<lambda>(key, pod). \<not> (nn_Name pod = nn_Name podID \<and> nn_Namespace pod = nn_Namespace podID))
       (am_ipToPod m)\<rparr>"

definition addPod :: "Pod \<Rightarrow> authz_Manager \<Rightarrow> authz_Manager" where
  "addPod pod m =
     (let podID = NamespacedName (om_Namespace (pod_Meta pod)) (om_Name (pod_Meta pod));
          info = \<lparr>pi_name = om_Name (pod_Meta pod), pi_namespace = om_Namespace (pod_Meta pod),
                  pi_serviceAccount = pod_ServiceAccountName pod, pi_labels = om_Labels (pod_Meta pod)\<rparr>
      in m\<lparr>am_podList := mput podID info (am_podList m),
           am_ipToPod := fold (\<lambda>ip l. if ip \<noteq> pod_HostIP pod then mput ip podID l else l)
             (pod_PodIPs pod) (am_ipToPod m)\<rparr>)"

definition authz_addSecret :: "jwt_lib \<Rightarrow> Secret \<Rightarrow> authz_Manager \<Rightarrow> authz_Manager \<times> error option" where
  "authz_addSecret J secret m =
     (if om_Namespace (sec_Meta secret) \<noteq> am_namespace m \<or> om_Name (sec_Meta secret) \<noteq> JWKSecretName
      then (m, None)
      else (case ParseJWKSSecret secret of
              Inl err \<Rightarrow> (m, Some (Wrapf ''cannot parse JWKS secret: '' err))
            | Inr key \<Rightarrow>
                (case jwk_New J key of
                   Inl err \<Rightarrow> (m, Some (Wrapf ''unable to create JWK key: '' err))
                 | Inr jwkKey \<Rightarrow> (m\<lparr>am_jwkKey := Some jwkKey\<rparr>, None))))"

definition IsReady :: "authz_Manager \<Rightarrow> bool" where
  "IsReady m \<longleftrightarrow> am_jwkKey m \<noteq> None"

definition getPeerName :: "authz_Manager \<Rightarrow> string" where
  "getPeerName m = am_peerName m"

definition authz_SetPeerCertificates ::
    "ParsedCertData \<Rightarrow> RawCertData \<Rightarrow> authz_Manager \<Rightarrow> authz_Manager \<times> error option" where
  "authz_SetPeerCertificates peerTLS _ m =
     (case DNSNames peerTLS of
        [] \<Rightarrow> (m, Some (Errorf ''expected peer certificate to contain at least one DNS name''))
      | name # _ \<Rightarrow>
          (m\<lparr>am_peerName := name, am_peerTLS := Some peerTLS,
             am_peerClient := map (\<lambda>(pr, cl). (pr, NewClient (pc_pr cl) (ClientConfig peerTLS pr)))
               (am_peerClient m)\<rparr>, None))"

subsection \<open>Workload attributes\<close>

definition getPodInfoByIP :: "authz_Manager \<Rightarrow> string \<Rightarrow> podInfo option" where
  "getPodInfoByIP m ip =
     (case mget (am_ipToPod m) ip of
        Some p \<Rightarrow> mget (am_podList m) p
      | None \<Rightarrow> None)"

text \<open>
  \<^verbatim>\<open>for k, v := range labels { attrs[prefix+k] = v }\<close>; different labels are written to
  different keys, so the range order does not matter.
\<close>

definition add_prefixed :: "string \<Rightarrow> labels \<Rightarrow> WorkloadAttrs \<Rightarrow> WorkloadAttrs" where
  "add_prefixed pfx ls attrs = fold (\<lambda>(k, v) a. mput (pfx @ k) v a) ls attrs"

definition getSrcAttributes :: "authz_Manager \<Rightarrow> egressAuthorizationRequest \<Rightarrow> WorkloadAttrs" where
  "getSrcAttributes m req =
     (case getPodInfoByIP m (er_IP req) of
        None \<Rightarrow> []
      | Some info \<Rightarrow>
          add_prefixed PeerLabelsPrefix (am_peerLabels m)
            (add_prefixed ClientLabelsPrefix (pi_labels info)
               [(PeerNameLabel, getPeerName m), (ClientNamespaceLabel, pi_namespace info),
                (ClientSALabel, pi_serviceAccount info)]))"

definition getDstAttributes :: "string \<Rightarrow> string \<Rightarrow> string \<Rightarrow> labels \<Rightarrow> labels \<Rightarrow> WorkloadAttrs" where
  "getDstAttributes svcName svcNS peerName svcLabels peerLabels =
     add_prefixed PeerLabelsPrefix peerLabels
       (add_prefixed ServiceLabelsPrefix svcLabels
          [(ServiceNameLabel, svcName), (ServiceNamespaceLabel, svcNS), (PeerNameLabel, peerName)])"

subsection \<open>Egress\<close>

text \<open>
  What the retry loop observes: \<open>ee_state i\<close> is the API server when attempt \<open>i\<close> reads it,
  \<open>ee_rnd i\<close> the result of \<^verbatim>\<open>rand.Intn\<close>, \<open>ee_peer i\<close> the network during that attempt.
\<close>

record 's egress_env =
  ee_K :: apimachinery
  ee_rng :: policy_range
  ee_client :: "'s k8s_client"
  ee_state :: "nat \<Rightarrow> 's"
  ee_rnd :: "nat \<Rightarrow> nat"
  ee_peer :: "nat \<Rightarrow> peer_env"

definition egress_dst :: "Import \<Rightarrow> ImportSource \<Rightarrow> Peer \<Rightarrow> WorkloadAttrs" where
  "egress_dst imp importSource pr = getDstAttributes (is_ExportName importSource)
     (is_ExportNamespace importSource) (is_Peer importSource) (om_Labels (imp_Meta imp)) (pr_Labels (pr_Status pr))"

definition egress_authz_request ::
    "egressAuthorizationRequest \<Rightarrow> ImportSource \<Rightarrow> WorkloadAttrs \<Rightarrow> AuthorizationRequest" where
  "egress_authz_request req importSource srcAttributes =
     (let dstName = (if is_ExportName importSource = [] then nn_Name (er_ImportName req)
                     else is_ExportName importSource);
          dstNamespace = (if is_ExportNamespace importSource = [] then nn_Namespace (er_ImportName req)
                          else is_ExportNamespace importSource)
      in \<lparr>areq_ServiceName = dstName, areq_ServiceNamespace = dstNamespace,
          areq_SrcAttributes = srcAttributes\<rparr>)"

text \<open>One loop iteration after a source is selected: try again, or return.\<close>

datatype attempt = Continue LoadBalancingResult | Return "panic + (error + egressAuthorizationResponse)"

definition egress_attempt ::
    "'s egress_env \<Rightarrow> authz_Manager \<Rightarrow> egressAuthorizationRequest \<Rightarrow> WorkloadAttrs \<Rightarrow> Import \<Rightarrow> nat
       \<Rightarrow> LoadBalancingResult \<Rightarrow> attempt" where
  "egress_attempt E m req srcAttributes imp i lbResult =
     (case LoadBalancingResult_Get lbResult of
        Inl p \<Rightarrow> Return (Inl p)
      | Inr None \<Rightarrow> Return (Inl NilDereference)
      | Inr (Some importSource) \<Rightarrow>
     (case k_Get (cl_Peer (ee_client E)) (NamespacedName (am_namespace m) (is_Peer importSource)) (ee_state E i) of
        Inl err \<Rightarrow> Return (Inr (Inl (Wrapf (''cannot get peer '' @ [CHR 0x27] @ is_Peer importSource
                      @ [CHR 0x27] @ '': '') (api err))))
      | Inr pr \<Rightarrow>
          if \<not> IsStatusConditionTrue (ee_K E) (pr_Conditions (pr_Status pr)) PeerReachable
             \<and> \<not> IsDelayed lbResult
          then Continue (Delay lbResult)
          else
     (case Decide (ee_K E) (ee_rng E) (am_connectivityPDP m) srcAttributes (egress_dst imp importSource pr)
             (nn_Namespace (er_ImportName req)) of
        Inl err \<Rightarrow> Return (Inr (Inl (Wrapf ''error deciding on an egress connection: '' err)))
      | Inr decision \<Rightarrow>
          if dd_Decision decision \<noteq> DecisionAllow then Continue lbResult
          else
     (case mget (am_peerClient m) (is_Peer importSource) of
        None \<Rightarrow> Return (Inr (Inl (Errorf (''missing client for peer: '' @ is_Peer importSource))))
      | Some cl \<Rightarrow>
     (case Authorize (ee_peer E i) cl (egress_authz_request req importSource srcAttributes) of
        Inl p \<Rightarrow> Return (Inl p)
      | Inr (Inl err) \<Rightarrow> Continue lbResult
      | Inr (Inr accessToken) \<Rightarrow>
          Return (Inr (Inr \<lparr>ea_Allowed = True,
            ea_RemotePeerCluster = RemotePeerClusterName (is_Peer importSource),
            ea_AccessToken = accessToken\<rparr>)))))))"

text \<open>The \<^verbatim>\<open>for\<close> loop, with fuel; \<open>None\<close> is out of fuel. The load balancer is threaded through.\<close>

fun egress_loop ::
    "'s egress_env \<Rightarrow> authz_Manager \<Rightarrow> egressAuthorizationRequest \<Rightarrow> WorkloadAttrs \<Rightarrow> Import \<Rightarrow> nat \<Rightarrow> nat
       \<Rightarrow> LoadBalancer \<Rightarrow> LoadBalancingResult
       \<Rightarrow> (LoadBalancer \<times> (panic + (error + egressAuthorizationResponse))) option" where
  "egress_loop E m req srcAttributes imp 0 i lb lbResult = None"
| "egress_loop E m req srcAttributes imp (Suc fuel) i lb lbResult =
     (case Select (ee_rnd E i) lb lbResult of
        Inl p \<Rightarrow> Some (lb, Inl p)
      | Inr (lb', lbResult', Some err) \<Rightarrow>
          Some (lb', Inr (Inl (Wrapf ''cannot select import source: '' err)))
      | Inr (lb', lbResult', None) \<Rightarrow>
          (case egress_attempt E m req srcAttributes imp i lbResult' of
             Return r \<Rightarrow> Some (lb', r)
           | Continue lbResult'' \<Rightarrow>
               egress_loop E m req srcAttributes imp fuel (Suc i) lb' lbResult''))"

definition egress_fuel :: "Import \<Rightarrow> nat" where
  "egress_fuel imp = 2 * length (imp_Sources (imp_Spec imp)) + 1"

definition authorizeEgress ::
    "'s egress_env \<Rightarrow> egressAuthorizationRequest \<Rightarrow> authz_Manager
       \<Rightarrow> (authz_Manager \<times> (panic + (error + egressAuthorizationResponse))) option" where
  "authorizeEgress E req m =
     (let srcAttributes = getSrcAttributes m req
      in if length srcAttributes = 0 \<and> DependsOnClientAttrs (am_connectivityPDP m)
         then Some (m, Inr (Inl (Errorf ''failed to extract client attributes, however, access policies depend on such attributes'')))
         else (case k_Get (cl_Import (ee_client E)) (er_ImportName req) (ee_state E 0) of
                 Inl err \<Rightarrow> Some (m, Inr (Inl (Wrapf (''cannot get import ''
                     @ NamespacedName_String (ee_K E) (er_ImportName req) @ '': '') (api err))))
               | Inr imp \<Rightarrow>
                   map_option (\<lambda>(lb, r). (m\<lparr>am_loadBalancer := lb\<rparr>, r))
                     (egress_loop E m req srcAttributes imp (egress_fuel imp) 0 (am_loadBalancer m)
                        (NewLoadBalancingResult imp))))"

subsection \<open>Ingress\<close>

definition parseAuthorizationHeader ::
    "jwt_lib \<Rightarrow> nat \<Rightarrow> authz_Manager \<Rightarrow> string \<Rightarrow> panic + (error + string)" where
  "parseAuthorizationHeader J now m token =
     (case am_jwkKey m of
        None \<Rightarrow> Inr (Inl (Errorf ''jwk key undefined''))
      | Some jwkkey \<Rightarrow>
     (case jwt_ParseString J now jwkkey token of
        Inl err \<Rightarrow> Inr (Inl err)
      | Inr parsedToken \<Rightarrow>
     (case mget (tok_PrivateClaims parsedToken) ExportNameJWTClaim of
        None \<Rightarrow> Inr (Inl (Errorf (''token missing '' @ [CHR 0x27] @ ExportNameJWTClaim @ [CHR 0x27] @ '' claim'')))
      | Some exportName \<Rightarrow>
     (case mget (tok_PrivateClaims parsedToken) ExportNamespaceJWTClaim of
        None \<Rightarrow> Inr (Inl (Errorf (''token missing '' @ [CHR 0x27] @ ExportNamespaceJWTClaim @ [CHR 0x27] @ '' claim'')))
      | Some exportNamespace \<Rightarrow>
     (case (exportName, exportNamespace) of
        (ClaimString name, ClaimString namespace) \<Rightarrow> Inr (Inr (ExportClusterName name namespace))
      | _ \<Rightarrow> Inl TypeAssertion)))))"

text \<open>
  \<^verbatim>\<open>authorizeIngress\<close>. When \<^verbatim>\<open>Get\<close> fails the variable \<^verbatim>\<open>export\<close> still holds its zero value,
  with no conditions.
\<close>

definition authorizeIngress ::
    "apimachinery \<Rightarrow> policy_range \<Rightarrow> 's k8s_client \<Rightarrow> 's \<Rightarrow> jwt_lib \<Rightarrow> nat \<Rightarrow> authz_Manager
       \<Rightarrow> ingressAuthorizationRequest \<Rightarrow> error + ingressAuthorizationResponse" where
  "authorizeIngress K rng C s J now m req =
     (let resp = \<lparr>ia_ServiceExists = False, ia_Allowed = False, ia_AccessToken = []\<rparr>;
          exportName = NamespacedName (nn_Namespace (ir_ServiceName req)) (nn_Name (ir_ServiceName req))
      in case k_Get (cl_Export C) exportName s of
           Inl err \<Rightarrow>
             if IsNotFound err \<or> \<not> IsStatusConditionTrue K [] ExportValid then Inr resp
             else Inl (Wrapf (''cannot get export '' @ NamespacedName_String K exportName @ '': '') (api err))
         | Inr export \<Rightarrow>
             let resp = resp\<lparr>ia_ServiceExists := True\<rparr>
             in if length (ir_SrcAttributes req) = 0 \<and> DependsOnClientAttrs (am_connectivityPDP m)
                then Inr resp
                else
     (let dstAttributes = getDstAttributes (om_Name (exp_Meta export)) (om_Namespace (exp_Meta export))
                            (getPeerName m) (om_Labels (exp_Meta export)) (am_peerLabels m)
      in case Decide K rng (am_connectivityPDP m) (ir_SrcAttributes req) dstAttributes
                (nn_Namespace (ir_ServiceName req)) of
           Inl err \<Rightarrow> Inl (Wrapf ''error deciding on an ingress connection: '' err)
         | Inr decision \<Rightarrow>
             if dd_Decision decision \<noteq> DecisionAllow then Inr (resp\<lparr>ia_Allowed := False\<rparr>)
             else
     (let resp = resp\<lparr>ia_Allowed := True\<rparr>
      in case jwt_Build J \<lparr>tok_Expiration = now + jwtExpirySeconds,
                tok_PrivateClaims = [(ExportNameJWTClaim, ClaimString (nn_Name (ir_ServiceName req))),
                  (ExportNamespaceJWTClaim, ClaimString (nn_Namespace (ir_ServiceName req)))]\<rparr> of
           Inl err \<Rightarrow> Inl (Wrapf ''unable to generate access token: '' err)
         | Inr token \<Rightarrow>
     (case am_jwkKey m of
        None \<Rightarrow> Inl (Errorf ''jwk key undefined'')
      | Some jwkKey \<Rightarrow>
     (case jwt_Sign J jwkKey token of
        Inl err \<Rightarrow> Inl (Wrapf ''unable to sign access token: '' err)
      | Inr signedToken \<Rightarrow> Inr (resp\<lparr>ia_AccessToken := signedToken\<rparr>))))))"


subsection \<open>The egress loop\<close>

lemma receive_not_nil: "retErr \<noteq> None \<or> rs \<noteq> [] \<Longrightarrow> receive retErr rs \<noteq> Inr None"
  by (induction retErr rs rule: receive.induct)
    (auto simp: errors_Join_def map_filter_def Let_def split: option.splits)

lemma Authorize_no_panic:
  assumes "pc_clients c \<noteq> []" and "\<forall>xs. mset (pe_arrival E xs) = mset xs"
  shows "Authorize E c req \<noteq> Inl p"
proof -
  have "pe_arrival E (pc_clients c) \<noteq> []" using assms by (metis mset_zero_iff)
  then have "getResponse (pe_arrival E) c g \<noteq> Inr None" for g
    using receive_not_nil [of None "map g (pe_arrival E (pc_clients c))"]
    by (auto simp: getResponse_def map_sum_def split: list.splits sum.splits)
  then show ?thesis by (auto simp: Authorize_def split: sum.splits option.splits)
qed

lemma egress_attempt_Continue:
  assumes "egress_attempt E m req src imp i r = Continue r'"
  shows "r' = r \<or> r' = Delay r \<and> \<not> IsDelayed r \<and> currentIndex r \<noteq> -1"
  using assms
  by (auto simp: egress_attempt_def LoadBalancingResult_Get_def split: sum.splits option.splits if_splits)

text \<open>What the observations of a request must satisfy.\<close>

definition rnd_ok :: "'s egress_env \<Rightarrow> Import \<Rightarrow> bool" where
  "rnd_ok E imp \<longleftrightarrow> (\<forall>i. ee_rnd E i < length (imp_Sources (imp_Spec imp)) \<or> imp_Sources (imp_Spec imp) = [])"

lemma lb_inv_imp: "lb_inv imp r \<Longrightarrow> lbr_imp r = imp"
  by (simp add: lb_inv_def)

text \<open>One iteration under the load balancer's laws.\<close>

lemma egress_iteration:
  assumes inv: "lb_inv imp r" and known: "known_scheme imp" and rnd: "rnd_ok E imp"
  obtains (exhausted) e where "Select (ee_rnd E i) lb r = Inr (lb, mark r, Some e)"
      "card (tried r) = length (imp_Sources (imp_Spec imp))" "delayed r = []"
  | (picked) lb' r' where "Select (ee_rnd E i) lb r = Inr (lb', r', None)" "lb_inv imp r'"
      "currentIndex r' \<noteq> -1" "fresh_pick r r' \<and> lb_potential r = lb_potential r' + 2
        \<or> delayed_pick r r' \<and> lb_potential r = lb_potential r' + 1 \<and> IsDelayed r'"
proof -
  have "lbr_sources r \<noteq> [] \<Longrightarrow> ee_rnd E i < length (lbr_sources r)"
    using rnd lb_inv_imp [OF inv] by (auto simp: rnd_ok_def)
  from inv known this show thesis
  proof (rule Select_cases [where lb = lb])
    fix lb' r' assume "Select (ee_rnd E i) lb r = Inr (lb', r', None)" "fresh_pick r r'"
    then show thesis using fresh_pick_inv [OF inv] by (intro picked) auto
  next
    fix r' assume "Select (ee_rnd E i) lb r = Inr (lb, r', None)" "delayed_pick r r'"
    then show thesis using delayed_pick_inv [OF inv] by (intro picked) auto
  next
    fix e assume "Select (ee_rnd E i) lb r = Inr (lb, mark r, Some e)"
      "card (tried r) = length (lbr_sources r)" "delayed r = []"
    then show thesis using lb_inv_imp [OF inv] by (intro exhausted) auto
  qed
qed

lemma egress_continue_inv:
  assumes "lb_inv imp r'" and "currentIndex r' \<noteq> -1"
    and "egress_attempt E m req src imp i r' = Continue r''"
  shows "lb_inv imp r''" and "lb_potential r'' \<le> lb_potential r' + 1"
    and "IsDelayed r' \<Longrightarrow> r'' = r'"
  using egress_attempt_Continue [OF assms(3)] Delay_inv [OF assms(1,2)] assms(1) by auto

lemma egress_loop_total:
  assumes "lb_inv imp r" and "known_scheme imp" and "rnd_ok E imp" and "lb_potential r < fuel"
  shows "egress_loop E m req src imp fuel i lb r \<noteq> None"
  using assms(1,4)
proof (induction fuel arbitrary: i lb r)
  case (Suc fuel)
  from Suc.prems(1) assms(2,3) show ?case
  proof (cases rule: egress_iteration [where i = i and lb = lb])
    case (exhausted e)
    then show ?thesis by simp
  next
    case (picked lb' r')
    show ?thesis
    proof (cases "egress_attempt E m req src imp i r'")
      case (Continue r'')
      note c = egress_continue_inv [OF picked(2,3) Continue]
      have "lb_potential r'' < lb_potential r" using picked(4) c(2,3) by auto
      then have "lb_potential r'' < fuel" using Suc.prems(2) by linarith
      from Suc.IH [OF c(1) this, of "Suc i" lb'] show ?thesis using picked(1) Continue by simp
    qed (use picked(1) in simp)
  qed
qed simp

lemma tried_New: "tried (NewLoadBalancingResult imp) = {}"
  by (simp add: tried_def NewLoadBalancingResult_def)

lemma potential_New: "lb_potential (NewLoadBalancingResult imp) < egress_fuel imp"
  by (simp add: lb_potential_def tried_New egress_fuel_def) (simp add: NewLoadBalancingResult_def)

lemma egress_unknown_scheme:
  assumes "\<not> known_scheme imp"
  shows "egress_loop E m req src imp (egress_fuel imp) 0 lb (NewLoadBalancingResult imp) \<noteq> None"
proof (cases "imp_Sources (imp_Spec imp) = []")
  case True
  then show ?thesis
    by (simp add: egress_fuel_def Select_def Let_def NewLoadBalancingResult_def)
next
  case False
  have "Select (ee_rnd E 0) lb (NewLoadBalancingResult imp) = Inr (lb, NewLoadBalancingResult imp, None)"
    "LoadBalancingResult_Get (NewLoadBalancingResult imp) = Inr None"
    using assms False by (simp_all add: Select_def Let_def NewLoadBalancingResult_def known_scheme_def
        LoadBalancingResult_Get_def)
  then show ?thesis by (simp add: egress_fuel_def egress_attempt_def)
qed


text \<open>
  How a source refuses a connection: its peer is known, and the PDP does not allow the
  connection or the peer does not grant a token.
\<close>

definition refused ::
    "'s egress_env \<Rightarrow> authz_Manager \<Rightarrow> egressAuthorizationRequest \<Rightarrow> WorkloadAttrs \<Rightarrow> Import \<Rightarrow> nat
       \<Rightarrow> ImportSource \<Rightarrow> bool" where
  "refused E m req src imp i source \<longleftrightarrow>
     (\<exists>pr d. k_Get (cl_Peer (ee_client E)) (NamespacedName (am_namespace m) (is_Peer source)) (ee_state E i) = Inr pr
        \<and> Decide (ee_K E) (ee_rng E) (am_connectivityPDP m) src (egress_dst imp source pr)
             (nn_Namespace (er_ImportName req)) = Inr d
        \<and> (dd_Decision d \<noteq> DecisionAllow
           \<or> (\<exists>cl err. mget (am_peerClient m) (is_Peer source) = Some cl
                \<and> Authorize (ee_peer E i) cl (egress_authz_request req source src) = Inr (Inl err))))"

text \<open>How a source grants it.\<close>

definition granted ::
    "'s egress_env \<Rightarrow> authz_Manager \<Rightarrow> egressAuthorizationRequest \<Rightarrow> WorkloadAttrs \<Rightarrow> Import \<Rightarrow> nat
       \<Rightarrow> ImportSource \<Rightarrow> string \<Rightarrow> bool" where
  "granted E m req src imp i source token \<longleftrightarrow>
     (\<exists>pr d cl. k_Get (cl_Peer (ee_client E)) (NamespacedName (am_namespace m) (is_Peer source)) (ee_state E i) = Inr pr
        \<and> Decide (ee_K E) (ee_rng E) (am_connectivityPDP m) src (egress_dst imp source pr)
             (nn_Namespace (er_ImportName req)) = Inr d \<and> dd_Decision d = DecisionAllow
        \<and> mget (am_peerClient m) (is_Peer source) = Some cl
        \<and> Authorize (ee_peer E i) cl (egress_authz_request req source src) = Inr (Inr token))"

lemma egress_attempt_refused:
  assumes "egress_attempt E m req src imp i r = Continue r'" and "lb_inv imp r" and "currentIndex r \<noteq> -1"
  shows "r' = r \<and> refused E m req src imp i (imp_Sources (imp_Spec imp) ! nat (currentIndex r)) \<or> r' = Delay r"
  using assms(1) Get_in_range [OF assms(2,3)]
  by (auto simp: egress_attempt_def refused_def split: sum.splits option.splits if_splits)

lemma egress_attempt_granted:
  assumes "egress_attempt E m req src imp i r = Return (Inr (Inr resp))" and "lbr_imp r = imp"
  shows "\<exists>source \<in> set (imp_Sources (imp_Spec imp)). ea_Allowed resp
    \<and> ea_RemotePeerCluster resp = RemotePeerClusterName (is_Peer source)
    \<and> granted E m req src imp i source (ea_AccessToken resp)"
  using assms
  by (auto simp: egress_attempt_def granted_def LoadBalancingResult_Get_def nat_less_iff
      split: sum.splits option.splits if_splits intro!: bexI nth_mem)

lemma Select_imp: "Select rnd lb r = Inr (lb', r', e) \<Longrightarrow> lbr_imp r' = lbr_imp r"
proof -
  have loop: "lbr_imp (selectRandom_loop k j r) = lbr_imp r" for k j r
    by (induction k arbitrary: j) (simp_all add: Let_def)
  assume "Select rnd lb r = Inr (lb', r', e)"
  then show ?thesis
    by (auto simp: Select_def Let_def selectRandom_def selectRoundRobin_def selectStatic_def loop
        split: if_splits sum.splits)
qed

lemma egress_loop_granted:
  assumes "egress_loop E m req src imp fuel i lb r = Some (lb', Inr (Inr resp))" and "lbr_imp r = imp"
  shows "\<exists>k. \<exists>source \<in> set (imp_Sources (imp_Spec imp)). ea_Allowed resp
    \<and> ea_RemotePeerCluster resp = RemotePeerClusterName (is_Peer source)
    \<and> granted E m req src imp k source (ea_AccessToken resp)"
  using assms
proof (induction fuel arbitrary: i lb r)
  case (Suc fuel)
  from Suc.prems(1) obtain lb1 r1 where sel: "Select (ee_rnd E i) lb r = Inr (lb1, r1, None)"
    by (auto split: sum.splits option.splits)
  have imp: "lbr_imp r1 = imp" using Select_imp [OF sel] Suc.prems(2) by simp
  show ?case
  proof (cases "egress_attempt E m req src imp i r1")
    case (Continue r2)
    have "lbr_imp r2 = imp" using egress_attempt_Continue [OF Continue] imp by (auto simp: Delay_def)
    with Suc.IH [of "Suc i" lb1 r2] show ?thesis using Suc.prems(1) sel Continue by simp
  next
    case (Return x)
    then have "egress_attempt E m req src imp i r1 = Return (Inr (Inr resp))"
      using Suc.prems(1) sel by simp
    from egress_attempt_granted [OF this imp] show ?thesis by blast
  qed
qed simp

lemma tried_all:
  assumes "lb_inv imp r" and "card (tried r) = length (imp_Sources (imp_Spec imp))"
    and "j < length (imp_Sources (imp_Spec imp))"
  shows "int j \<in> tried r"
proof -
  have "tried r \<subseteq> {0..<int (length (imp_Sources (imp_Spec imp)))}"
    using tried_bound(1) [OF assms(1)] lb_inv_imp [OF assms(1)] by simp
  then have "tried r = {0..<int (length (imp_Sources (imp_Spec imp)))}"
    using assms(2) by (intro card_subset_eq) auto
  with assms(3) show ?thesis by simp
qed

lemma egress_loop_exhausted:
  assumes "lb_inv imp r" and "known_scheme imp" and "rnd_ok E imp"
    and "\<forall>j \<in> tried r. j \<in> set (delayed r)
      \<or> (\<exists>k. refused E m req src imp k (imp_Sources (imp_Spec imp) ! nat j))"
    and "egress_loop E m req src imp fuel i lb r =
      Some (lb', Inr (Inl (Wrapf ''cannot select import source: '' e)))"
  shows "\<forall>source \<in> set (imp_Sources (imp_Spec imp)). \<exists>k. refused E m req src imp k source"
  using assms(1,4,5)
proof (induction fuel arbitrary: i lb r)
  case (Suc fuel)
  from Suc.prems(1) assms(2,3) show ?case
  proof (cases rule: egress_iteration [where i = i and lb = lb])
    case (exhausted e)
    show ?thesis
    proof
      fix source assume "source \<in> set (imp_Sources (imp_Spec imp))"
      then obtain j where j: "j < length (imp_Sources (imp_Spec imp))" "source = imp_Sources (imp_Spec imp) ! j"
        by (auto simp: in_set_conv_nth)
      from tried_all [OF Suc.prems(1) exhausted(2) j(1)] Suc.prems(2) exhausted(3)
      show "\<exists>k. refused E m req src imp k source" using j(2) by force
    qed
  next
    case (picked lb' r')
    show ?thesis
    proof (cases "egress_attempt E m req src imp i r'")
      case (Continue r'')
      have "failed r' = failed (mark r)"
        using picked(4) by (auto simp: fresh_pick_def delayed_pick_def)
      then have "fst ` set (failed r') = tried r" using tried_mark [of r] by simp
      then have tried: "tried r' = insert (currentIndex r') (tried r)"
        using picked(3) by (simp add: tried_def)
      have del: "set (delayed r) \<subseteq> insert (currentIndex r') (set (delayed r'))"
        using picked(4) by (auto simp: fresh_pick_def delayed_pick_def neq_Nil_conv)
      have "\<forall>j \<in> tried r''. j \<in> set (delayed r'')
          \<or> (\<exists>k. refused E m req src imp k (imp_Sources (imp_Spec imp) ! nat j))"
      proof
        let ?ref = "\<lambda>j. \<exists>k. refused E m req src imp k (imp_Sources (imp_Spec imp) ! nat j)"
        fix j assume j: "j \<in> tried r''"
        have "tried r'' = tried r'" using egress_attempt_Continue [OF Continue] by (auto simp: Delay_def tried_def)
        then have "j = currentIndex r' \<or> j \<in> tried r" using j tried by auto
        then have "j = currentIndex r' \<or> j \<in> set (delayed r') \<or> ?ref j" using Suc.prems(2) del by blast
        moreover have "r'' = r' \<and> ?ref (currentIndex r') \<or> r'' = Delay r'"
          using egress_attempt_refused [OF Continue picked(2,3)] by auto
        ultimately show "j \<in> set (delayed r'') \<or> ?ref j" by (auto simp: Delay_def)
      qed
      from Suc.IH [OF egress_continue_inv(1) [OF picked(2,3) Continue] this, of "Suc i" lb']
      show ?thesis using Suc.prems(3) picked(1) Continue by simp
    next
      case (Return x)
      then have "egress_attempt E m req src imp i r' =
          Return (Inr (Inl (Wrapf ''cannot select import source: '' e)))"
        using Suc.prems(3) picked(1) by simp
      then show ?thesis
        by (auto simp: egress_attempt_def split: sum.splits option.splits if_splits)
    qed
  qed
qed simp

end
