(* ===== verification/Authz_Safety.thy ===== *)
theory Authz_Safety
  imports Authz
begin

text \<open>
  The properties of the authorization manager: egress requests are always answered, a grant
  rests on a policy and on a token of the peer it routes to, a refusal comes only after every
  source was tried; client attributes cannot be forged through labels; an ingress token
  leads to the export it was issued for, and expires.
\<close>

subsection \<open>A concrete fabric\<close>

text \<open>
  One import with one source on peer \<open>p1\<close>, a reachable network that grants the token
  \<open>tok\<close>, and a client pod; the PDP is given by the policies added to it.
\<close>

definition demo_mem :: mem where
  "demo_mem = empty_mem\<lparr>
     mem_Import := [(NamespacedName ''ns'' ''svc'', demo_import LBSchemeStatic [''p1''])],
     mem_Peer := [(NamespacedName ''sys'' ''p1'', demo_peer ''p1'' [''gw''])]\<rparr>"

definition demo_env :: "mem egress_env" where
  "demo_env = \<lparr>ee_K = ref_apimachinery, ee_rng = rev, ee_client = mem_client, ee_state = (\<lambda>_. demo_mem),
     ee_rnd = (\<lambda>_. 0), ee_peer = (\<lambda>_. grant_env ''tok'')\<rparr>"

definition demo_pod :: Pod where
  "demo_pod = \<lparr>pod_Meta = \<lparr>om_Name = ''client'', om_Namespace = ''ns'', om_Labels = [(''app'', ''web'')]\<rparr>,
     pod_ServiceAccountName = ''sa'', pod_PodIPs = [''10.0.0.1'', ''192.168.0.1''], pod_HostIP = ''192.168.0.1''\<rparr>"

definition demo_manager :: "PDP \<Rightarrow> authz_Manager" where
  "demo_manager pdp = (addPod demo_pod (authz_NewManager ''sys'' []))\<lparr>am_connectivityPDP := pdp,
     am_peerTLS := Some demo_cert, am_peerName := ''me'',
     am_peerClient := [(''p1'', NewClient (demo_peer ''p1'' [''gw'']) (ClientConfig demo_cert ''p1''))]\<rparr>"

definition demo_request :: egressAuthorizationRequest where
  "demo_request = \<lparr>er_ImportName = NamespacedName ''ns'' ''svc'', er_IP = ''10.0.0.1''\<rparr>"

lemma demo_get_import:
  "k_Get (cl_Import (ee_client demo_env)) (er_ImportName demo_request) (ee_state demo_env i) =
     Inr (demo_import LBSchemeStatic [''p1''])"
  by (simp add: demo_env_def demo_request_def demo_mem_def mem_client_def mem_kind_def mread_def
      empty_mem_def object_key_def) (simp add: demo_import_def)

lemma demo_known: "known_scheme (demo_import LBSchemeStatic ps)"
  by (simp add: known_scheme_def getScheme_def LBSchemeStatic_def)

lemma demo_rnd: "rnd_ok demo_env (demo_import s ps)"
  by (auto simp: rnd_ok_def demo_env_def)

lemma demo_clients: "\<forall>p cl. mget (am_peerClient (demo_manager pdp)) p = Some cl \<longrightarrow> pc_clients cl \<noteq> []"
  by (auto simp: demo_manager_def NewClient_def demo_peer_def split: if_splits)

lemma demo_arrival: "\<forall>i xs. mset (pe_arrival (ee_peer demo_env i) xs) = mset xs"
  by (simp add: demo_env_def grant_env_def)

lemma demo_grant:
  "map_option snd (authorizeEgress demo_env demo_request (demo_manager allow_all_pdp)) =
     Some (Inr (Inr \<lparr>ea_Allowed = True, ea_RemotePeerCluster = ''remote-peer-p1'', ea_AccessToken = ''tok''\<rparr>))"
  by code_simp

lemma demo_refusal:
  "map_option snd (authorizeEgress demo_env demo_request (demo_manager NewPDP)) =
     Some (Inr (Inl (Wrapf ''cannot select import source: '' (Errorf ''tried out all 1 sources''))))"
  by code_simp

subsection \<open>Egress\<close>

lemma egress_attempt_no_panic:
  assumes "lb_inv imp r" and "currentIndex r \<noteq> -1"
    and "\<forall>p cl. mget (am_peerClient m) p = Some cl \<longrightarrow> pc_clients cl \<noteq> []"
    and "\<forall>i xs. mset (pe_arrival (ee_peer E i) xs) = mset xs"
  shows "egress_attempt E m req src imp i r \<noteq> Return (Inl p)"
proof -
  have "Authorize (ee_peer E i) cl a \<noteq> Inl p" if "mget (am_peerClient m) q = Some cl" for cl a p q
    using Authorize_no_panic that assms(3,4) by metis
  then show ?thesis using Get_in_range(1) [OF assms(1,2)]
    by (auto simp: egress_attempt_def split: sum.splits option.splits if_splits)
qed

lemma egress_loop_no_panic:
  assumes "lb_inv imp r" and "known_scheme imp" and "rnd_ok E imp"
    and "\<forall>p cl. mget (am_peerClient m) p = Some cl \<longrightarrow> pc_clients cl \<noteq> []"
    and "\<forall>i xs. mset (pe_arrival (ee_peer E i) xs) = mset xs"
  shows "egress_loop E m req src imp fuel i lb r \<noteq> Some (lb', Inl p)"
  using assms(1)
proof (induction fuel arbitrary: i lb r)
  case (Suc fuel)
  from Suc.prems assms(2,3) show ?case
  proof (cases rule: egress_iteration [where i = i and lb = lb])
    case (picked lb1 r1)
    show ?thesis
    proof (cases "egress_attempt E m req src imp i r1")
      case (Continue r2)
      from Suc.IH [OF egress_continue_inv(1) [OF picked(2,3) Continue]] show ?thesis
        using picked(1) Continue by simp
    next
      case (Return x)
      then show ?thesis using picked(1) egress_attempt_no_panic [OF picked(2,3) assms(4,5)] by auto
    qed
  qed simp
qed simp



text \<open>
  Even for an import with an unknown scheme the loop ends (by a panic): the fuel of the
  model is never exhausted, so an answer of the model is an answer of the code.
\<close>

theorem egress_terminates:
  assumes "\<forall>imp. k_Get (cl_Import (ee_client E)) (er_ImportName req) (ee_state E 0) = Inr imp \<longrightarrow> rnd_ok E imp"
  shows "authorizeEgress E req m \<noteq> None"
proof (cases "k_Get (cl_Import (ee_client E)) (er_ImportName req) (ee_state E 0)")
  case (Inr imp)
  with assms have rnd: "rnd_ok E imp" by auto
  have "egress_loop E m req (getSrcAttributes m req) imp (egress_fuel imp) 0 (am_loadBalancer m)
      (NewLoadBalancingResult imp) \<noteq> None"
    using egress_loop_total [OF lb_inv_New _ rnd potential_New] egress_unknown_scheme
    by (cases "known_scheme imp") blast+
  with Inr show ?thesis by (auto simp: authorizeEgress_def Let_def)
qed (simp add: authorizeEgress_def Let_def)

theorem egress_terminates_witness:
  "authorizeEgress demo_env demo_request (demo_manager NewPDP) \<noteq> None"
  by (rule egress_terminates) (simp add: demo_get_import demo_rnd)

lemma authorizeEgress_granted:
  assumes "authorizeEgress E req m = Some (m', Inr (Inr resp))"
  shows "\<exists>imp k. k_Get (cl_Import (ee_client E)) (er_ImportName req) (ee_state E 0) = Inr imp \<and> ea_Allowed resp
    \<and> (\<exists>source \<in> set (imp_Sources (imp_Spec imp)).
         ea_RemotePeerCluster resp = RemotePeerClusterName (is_Peer source)
         \<and> granted E m req (getSrcAttributes m req) imp k source (ea_AccessToken resp))"
    and "m' = m\<lparr>am_loadBalancer := am_loadBalancer m'\<rparr>"
    and "\<not> (getSrcAttributes m req = [] \<and> DependsOnClientAttrs (am_connectivityPDP m))"
proof -
  let ?src = "getSrcAttributes m req"
  show dep: "\<not> (?src = [] \<and> DependsOnClientAttrs (am_connectivityPDP m))"
    using assms by (auto simp: authorizeEgress_def Let_def)
  with assms obtain imp where imp: "k_Get (cl_Import (ee_client E)) (er_ImportName req) (ee_state E 0) = Inr imp"
    by (auto simp: authorizeEgress_def Let_def split: sum.splits)
  with assms dep obtain lb where
    loop: "egress_loop E m req ?src imp (egress_fuel imp) 0 (am_loadBalancer m) (NewLoadBalancingResult imp)
      = Some (lb, Inr (Inr resp))" and m': "m' = m\<lparr>am_loadBalancer := lb\<rparr>"
    by (auto simp: authorizeEgress_def Let_def)
  from m' show "m' = m\<lparr>am_loadBalancer := am_loadBalancer m'\<rparr>" by simp
  from egress_loop_granted [OF loop] imp
  show "\<exists>imp k. k_Get (cl_Import (ee_client E)) (er_ImportName req) (ee_state E 0) = Inr imp \<and> ea_Allowed resp
    \<and> (\<exists>source \<in> set (imp_Sources (imp_Spec imp)).
         ea_RemotePeerCluster resp = RemotePeerClusterName (is_Peer source)
         \<and> granted E m req ?src imp k source (ea_AccessToken resp))"
    by (auto simp: NewLoadBalancingResult_def)
qed

text \<open>
  C7. An egress connection is granted only to a source of the requested import, whose peer
  exists, which the PDP allows for this client and this destination, and whose peer issued
  the access token for exactly this service; it is routed to that peer's cluster. Nothing
  but the round-robin counters changes.
\<close>

theorem egress_grant_sound:
  assumes "authorizeEgress E req m = Some (m', Inr (Inr resp))"
  shows "ea_Allowed resp \<and> m' = m\<lparr>am_loadBalancer := am_loadBalancer m'\<rparr>
    \<and> (\<exists>imp k. k_Get (cl_Import (ee_client E)) (er_ImportName req) (ee_state E 0) = Inr imp
        \<and> (\<exists>source \<in> set (imp_Sources (imp_Spec imp)).
             ea_RemotePeerCluster resp = RemotePeerClusterName (is_Peer source)
             \<and> granted E m req (getSrcAttributes m req) imp k source (ea_AccessToken resp)))
    \<and> \<not> (getSrcAttributes m req = [] \<and> DependsOnClientAttrs (am_connectivityPDP m))"
  using authorizeEgress_granted [OF assms] by blast

theorem egress_grant_sound_witness:
  "\<exists>k imp. \<exists>source \<in> set (imp_Sources (imp_Spec imp)).
     granted demo_env (demo_manager allow_all_pdp) demo_request
       (getSrcAttributes (demo_manager allow_all_pdp) demo_request) imp k source ''tok''"
proof -
  from demo_grant obtain m' where
    "authorizeEgress demo_env demo_request (demo_manager allow_all_pdp) =
       Some (m', Inr (Inr \<lparr>ea_Allowed = True, ea_RemotePeerCluster = ''remote-peer-p1'', ea_AccessToken = ''tok''\<rparr>))"
    by auto
  from egress_grant_sound [OF this] show ?thesis by auto
qed

text \<open>
  C8. The request fails for lack of a source only when every source of the import was tried
  and refused the connection, by policy or by its peer not granting a token; unreachable
  peers are put off, never skipped.
\<close>

theorem egress_refusal_complete:
  assumes "k_Get (cl_Import (ee_client E)) (er_ImportName req) (ee_state E 0) = Inr imp"
    and "known_scheme imp" and "rnd_ok E imp"
    and "authorizeEgress E req m = Some (m', Inr (Inl (Wrapf ''cannot select import source: '' e)))"
  shows "\<forall>source \<in> set (imp_Sources (imp_Spec imp)).
    \<exists>k. refused E m req (getSrcAttributes m req) imp k source"
proof -
  let ?src = "getSrcAttributes m req"
  have "\<not> (?src = [] \<and> DependsOnClientAttrs (am_connectivityPDP m))"
    using assms(4) by (auto simp: authorizeEgress_def Let_def)
  with assms(1,4) obtain lb where
    "egress_loop E m req ?src imp (egress_fuel imp) 0 (am_loadBalancer m) (NewLoadBalancingResult imp)
      = Some (lb, Inr (Inl (Wrapf ''cannot select import source: '' e)))"
    by (auto simp: authorizeEgress_def Let_def)
  from egress_loop_exhausted [OF lb_inv_New assms(2,3) _ this] show ?thesis
    by (simp add: tried_New)
qed

theorem egress_refusal_complete_witness:
  "\<exists>k. refused demo_env (demo_manager NewPDP) demo_request
     (getSrcAttributes (demo_manager NewPDP) demo_request) (demo_import LBSchemeStatic [''p1'']) k
     \<lparr>is_Peer = ''p1'', is_ExportName = ''svc'', is_ExportNamespace = ''ns''\<rparr>"
proof -
  from demo_refusal obtain m' where
    "authorizeEgress demo_env demo_request (demo_manager NewPDP) =
       Some (m', Inr (Inl (Wrapf ''cannot select import source: '' (Errorf ''tried out all 1 sources''))))"
    by auto
  from egress_refusal_complete [OF demo_get_import demo_known demo_rnd this] show ?thesis by simp
qed


subsection \<open>Attributes\<close>

lemma add_prefixed_other: "\<not> HasPrefix k pfx \<Longrightarrow> mget (add_prefixed pfx ls attrs) k = mget attrs k"
  unfolding add_prefixed_def
  by (induction ls arbitrary: attrs) auto

lemma add_prefixed_key:
  "mwf ls \<Longrightarrow> mget (add_prefixed pfx ls attrs) (pfx @ k) =
     (case mget ls k of Some v \<Rightarrow> Some v | None \<Rightarrow> mget attrs (pfx @ k))"
  unfolding add_prefixed_def
proof (induction ls arbitrary: attrs)
  case (Cons x ls)
  obtain a b where [simp]: "x = (a, b)" by (cases x)
  from Cons.prems have "mget ls a = None" by (auto simp: map_of_eq_None_iff)
  then show ?case using Cons by (auto split: option.split)
qed simp

lemmas label_defs = ClientNamespaceLabel_def ClientSALabel_def ClientLabelsPrefix_def ServiceNameLabel_def
  ServiceNamespaceLabel_def ServiceLabelsPrefix_def PeerNameLabel_def PeerLabelsPrefix_def

lemma identity_keys_unprefixed:
  "\<not> HasPrefix PeerNameLabel ClientLabelsPrefix" "\<not> HasPrefix PeerNameLabel PeerLabelsPrefix"
  "\<not> HasPrefix ClientNamespaceLabel ClientLabelsPrefix" "\<not> HasPrefix ClientNamespaceLabel PeerLabelsPrefix"
  "\<not> HasPrefix ClientSALabel ClientLabelsPrefix" "\<not> HasPrefix ClientSALabel PeerLabelsPrefix"
  "\<not> HasPrefix ServiceNameLabel ServiceLabelsPrefix" "\<not> HasPrefix ServiceNameLabel PeerLabelsPrefix"
  "\<not> HasPrefix ServiceNamespaceLabel ServiceLabelsPrefix" "\<not> HasPrefix ServiceNamespaceLabel PeerLabelsPrefix"
  "\<not> HasPrefix PeerNameLabel ServiceLabelsPrefix"
  "\<not> HasPrefix (ClientLabelsPrefix @ k) PeerLabelsPrefix"
  "\<not> HasPrefix (ServiceLabelsPrefix @ k) PeerLabelsPrefix"
  by (simp_all add: HasPrefix_def label_defs)

lemma identity_keys_differ:
  "PeerNameLabel \<noteq> ClientNamespaceLabel" "PeerNameLabel \<noteq> ClientSALabel" "ClientNamespaceLabel \<noteq> ClientSALabel"
  "ServiceNameLabel \<noteq> ServiceNamespaceLabel" "ServiceNameLabel \<noteq> PeerNameLabel" "ServiceNamespaceLabel \<noteq> PeerNameLabel"
  by (simp_all add: label_defs)



subsection \<open>Pods\<close>

lemma addPod_ips:
  "mget (fold (\<lambda>ip l. if ip \<noteq> h then mput ip p l else l) ips l) a =
     (if a \<in> set ips \<and> a \<noteq> h then Some p else mget l a)"
  by (induction ips arbitrary: l) auto

lemma mget_filter_value:
  "mwf l \<Longrightarrow> mget (filter (\<lambda>(k, v). P v) l) a =
     (case mget l a of Some v \<Rightarrow> if P v then Some v else None | None \<Rightarrow> None)"
  by (induction l) (auto simp: map_of_eq_None_iff rev_image_eqI split: option.split)

text \<open>
  After a pod is added, each of its addresses other than its host's resolves to exactly
  that pod's data, and other addresses resolve as before (with the new data if they belong
  to this pod); after a pod is deleted no address resolves to it any more, and every other
  address resolves as before.
\<close>

theorem pod_lookup:
  assumes "mwf (am_ipToPod m)"
  shows "getPodInfoByIP (addPod pod m) ip =
      (if ip \<in> set (pod_PodIPs pod) \<and> ip \<noteq> pod_HostIP pod \<or> mget (am_ipToPod m) ip = Some (object_key (pod_Meta pod))
       then Some \<lparr>pi_name = om_Name (pod_Meta pod), pi_namespace = om_Namespace (pod_Meta pod),
              pi_serviceAccount = pod_ServiceAccountName pod, pi_labels = om_Labels (pod_Meta pod)\<rparr>
       else getPodInfoByIP m ip)
    \<and> getPodInfoByIP (deletePod podID m) ip =
      (if mget (am_ipToPod m) ip = Some podID then None else getPodInfoByIP m ip)"
proof
  show "getPodInfoByIP (addPod pod m) ip =
      (if ip \<in> set (pod_PodIPs pod) \<and> ip \<noteq> pod_HostIP pod \<or> mget (am_ipToPod m) ip = Some (object_key (pod_Meta pod))
       then Some \<lparr>pi_name = om_Name (pod_Meta pod), pi_namespace = om_Namespace (pod_Meta pod),
              pi_serviceAccount = pod_ServiceAccountName pod, pi_labels = om_Labels (pod_Meta pod)\<rparr>
       else getPodInfoByIP m ip)"
    by (auto simp: getPodInfoByIP_def addPod_def Let_def addPod_ips object_key_def split: option.split)
  have "nn_Name v = nn_Name podID \<and> nn_Namespace v = nn_Namespace podID \<longleftrightarrow> v = podID" for v
    by (auto simp: NamespacedName.expand)
  then show "getPodInfoByIP (deletePod podID m) ip =
      (if mget (am_ipToPod m) ip = Some podID then None else getPodInfoByIP m ip)"
    using assms by (auto simp: getPodInfoByIP_def deletePod_def mget_filter_value split: option.split)
qed

theorem pod_lookup_witness:
  "getPodInfoByIP (deletePod (NamespacedName ''ns'' ''client'') (addPod demo_pod (authz_NewManager ''sys'' [])))
     ''10.0.0.1'' = None"
proof -
  have "mwf (am_ipToPod (addPod demo_pod (authz_NewManager ''sys'' [])))"
    "mget (am_ipToPod (addPod demo_pod (authz_NewManager ''sys'' []))) ''10.0.0.1''
      = Some (NamespacedName ''ns'' ''client'')" by code_simp+
  then show ?thesis using pod_lookup by simp
qed


subsection \<open>Ingress\<close>

lemma authorizeIngress_allowed:
  assumes "authorizeIngress K rng C s J now m req = Inr resp" and "ia_Allowed resp"
  obtains export d tok key where
    "k_Get (cl_Export C) (ir_ServiceName req) s = Inr export"
    "Decide K rng (am_connectivityPDP m) (ir_SrcAttributes req)
       (getDstAttributes (om_Name (exp_Meta export)) (om_Namespace (exp_Meta export)) (am_peerName m)
          (om_Labels (exp_Meta export)) (am_peerLabels m)) (nn_Namespace (ir_ServiceName req)) = Inr d"
    "dd_Decision d = DecisionAllow"
    "jwt_Build J \<lparr>tok_Expiration = now + jwtExpirySeconds,
       tok_PrivateClaims = [(ExportNameJWTClaim, ClaimString (nn_Name (ir_ServiceName req))),
         (ExportNamespaceJWTClaim, ClaimString (nn_Namespace (ir_ServiceName req)))]\<rparr> = Inr tok"
    "am_jwkKey m = Some key" "jwt_Sign J key tok = Inr (ia_AccessToken resp)" "ia_ServiceExists resp"
    "ir_SrcAttributes req = [] \<Longrightarrow> \<not> DependsOnClientAttrs (am_connectivityPDP m)"
  using assms
  by (auto simp: authorizeIngress_def Let_def getPeerName_def split: sum.splits option.splits if_splits)

text \<open>
  C10. An ingress request is allowed only if the export exists and the PDP of this peer allows
  the client's attributes to reach it, in the export's namespace; a client without attributes
  is allowed only if no policy depends on them.
\<close>

theorem ingress_grant_sound:
  assumes "authorizeIngress K rng C s J now m req = Inr resp" and "ia_Allowed resp"
  shows "ia_ServiceExists resp
    \<and> (\<exists>export d. k_Get (cl_Export C) (ir_ServiceName req) s = Inr export
        \<and> Decide K rng (am_connectivityPDP m) (ir_SrcAttributes req)
            (getDstAttributes (om_Name (exp_Meta export)) (om_Namespace (exp_Meta export)) (am_peerName m)
               (om_Labels (exp_Meta export)) (am_peerLabels m)) (nn_Namespace (ir_ServiceName req)) = Inr d
        \<and> dd_Decision d = DecisionAllow)
    \<and> (ir_SrcAttributes req = [] \<longrightarrow> \<not> DependsOnClientAttrs (am_connectivityPDP m))"
  using authorizeIngress_allowed [OF assms] by metis

text \<open>
  C12. The token of an allowed ingress request opens exactly the export it was issued for: for
  five seconds the dataplane's presentation of it is resolved to that export's cluster, and
  from then on it is refused.
\<close>

theorem token_roundtrip:
  assumes "jwt_ok J" and "authorizeIngress K rng C s J now m req = Inr resp" and "ia_Allowed resp"
    and "am_jwkKey m' = am_jwkKey m"
  shows "if later < now + 5
    then parseAuthorizationHeader J later m' (ia_AccessToken resp) =
      Inr (Inr (ExportClusterName (nn_Name (ir_ServiceName req)) (nn_Namespace (ir_ServiceName req))))
    else \<exists>e. parseAuthorizationHeader J later m' (ia_AccessToken resp) = Inr (Inl e)"
proof -
  obtain key tok where b: "jwt_Build J \<lparr>tok_Expiration = now + jwtExpirySeconds,
       tok_PrivateClaims = [(ExportNameJWTClaim, ClaimString (nn_Name (ir_ServiceName req))),
         (ExportNamespaceJWTClaim, ClaimString (nn_Namespace (ir_ServiceName req)))]\<rparr> = Inr tok"
    and k: "am_jwkKey m = Some key" and sg: "jwt_Sign J key tok = Inr (ia_AccessToken resp)"
    using authorizeIngress_allowed [OF assms(2,3)] by metis
  have tok: "tok = \<lparr>tok_Expiration = now + jwtExpirySeconds,
       tok_PrivateClaims = [(ExportNameJWTClaim, ClaimString (nn_Name (ir_ServiceName req))),
         (ExportNamespaceJWTClaim, ClaimString (nn_Namespace (ir_ServiceName req)))]\<rparr>"
    using b assms(1) unfolding jwt_ok_def by blast
  have "if later < tok_Expiration tok then jwt_ParseString J later key (ia_AccessToken resp) = Inr tok
      else \<exists>e. jwt_ParseString J later key (ia_AccessToken resp) = Inl e"
    using sg assms(1) unfolding jwt_ok_def by blast
  then show ?thesis using k assms(4)
    by (auto simp: tok parseAuthorizationHeader_def jwtExpirySeconds_def ExportNameJWTClaim_def
        ExportNamespaceJWTClaim_def split: if_splits)
qed

text \<open>
  A concrete token library: it signs tokens with the two claims of this program, as the key
  in hexadecimal, the expiry and the length of the export name in unary, and the names.
\<close>

definition ref_sign :: "jwk_Key \<Rightarrow> Token \<Rightarrow> error + string" where
  "ref_sign key tok = (case (key, tok_PrivateClaims tok) of
     (SymmetricKey bs, [(a, ClaimString n), (b, ClaimString ns)]) \<Rightarrow>
       if a = ExportNameJWTClaim \<and> b = ExportNamespaceJWTClaim
       then Inr ((hex bs @ ''.'') @ replicate (tok_Expiration tok) CHR ''t'' @ CHR ''.''
              # replicate (length n) CHR ''n'' @ CHR ''.'' # n @ ns)
       else Inl (Errorf ''claims'')
   | _ \<Rightarrow> Inl (Errorf ''claims''))"

definition ref_parse :: "nat \<Rightarrow> jwk_Key \<Rightarrow> string \<Rightarrow> error + Token" where
  "ref_parse now key s = (case key of SymmetricKey bs \<Rightarrow>
     if \<not> HasPrefix s (hex bs @ ''.'') then Inl (Errorf ''signature'')
     else let r = TrimPrefix s (hex bs @ ''.''); e = length (takeWhile (\<lambda>c. c \<noteq> CHR ''.'') r);
              r1 = tl (dropWhile (\<lambda>c. c \<noteq> CHR ''.'') r); k = length (takeWhile (\<lambda>c. c \<noteq> CHR ''.'') r1);
              r2 = tl (dropWhile (\<lambda>c. c \<noteq> CHR ''.'') r1)
          in if now < e
             then Inr \<lparr>tok_Expiration = e, tok_PrivateClaims = [(ExportNameJWTClaim, ClaimString (take k r2)),
                         (ExportNamespaceJWTClaim, ClaimString (drop k r2))]\<rparr>
             else Inl (Errorf ''expired''))"

definition ref_jwt :: jwt_lib where
  "ref_jwt = \<lparr>jwk_New = (\<lambda>bs. Inr (SymmetricKey bs)), jwt_Build = Inr, jwt_Sign = ref_sign,
     jwt_ParseString = ref_parse\<rparr>"

lemma ref_parse_sign:
  assumes "ref_sign key tok = Inr s"
  shows "if now < tok_Expiration tok then ref_parse now key s = Inr tok else \<exists>e. ref_parse now key s = Inl e"
proof -
  obtain bs where key: "key = SymmetricKey bs" by (cases key)
  obtain n ns where tok: "tok_PrivateClaims tok = [(ExportNameJWTClaim, ClaimString n),
      (ExportNamespaceJWTClaim, ClaimString ns)]"
    using assms by (auto simp: ref_sign_def key split: list.splits claim.splits if_splits)
  let ?t = "replicate (tok_Expiration tok) CHR ''t''" and ?n = "replicate (length n) CHR ''n''"
  have s: "s = (hex bs @ ''.'') @ (?t @ CHR ''.'' # ?n @ CHR ''.'' # n @ ns)"
    using assms by (auto simp: ref_sign_def key tok split: if_splits)
  have "CHR ''.'' \<notin> set ?t" "CHR ''.'' \<notin> set ?n" by (auto simp: in_set_replicate)
  note sep = takeWhile_sep [OF this(1)] dropWhile_sep [OF this(1)]
    takeWhile_sep [OF this(2)] dropWhile_sep [OF this(2)]
  have "ref_parse now key s = (if now < tok_Expiration tok then Inr tok else Inl (Errorf ''expired''))"
    unfolding ref_parse_def key jwk_Key.case s HasPrefix_append TrimPrefix_append Let_def sep list.sel
    by (simp add: tok [symmetric] HasPrefix_def)
  then show ?thesis by simp
qed

lemma ref_jwt_ok: "jwt_ok ref_jwt"
  using ref_parse_sign by (simp add: jwt_ok_def ref_jwt_def)

definition demo_export :: Export where
  "demo_export = \<lparr>exp_Meta = \<lparr>om_Name = ''svc'', om_Namespace = ''ns'', om_Labels = []\<rparr>,
     exp_Spec = \<lparr>exp_Host = [], exp_Port = 80\<rparr>,
     exp_Status = \<lparr>exp_Conditions = [\<lparr>cond_Type = ExportValid, cond_Status = ConditionFalse,
       cond_ObservedGeneration = 0, cond_LastTransitionTime = 0, cond_Reason = ''Error'', cond_Message = []\<rparr>]\<rparr>\<rparr>"

definition demo_ingress :: "error + ingressAuthorizationResponse" where
  "demo_ingress = authorizeIngress ref_apimachinery rev mem_client
     (empty_mem\<lparr>mem_Export := [(NamespacedName ''ns'' ''svc'', demo_export)]\<rparr>) ref_jwt 3
     ((demo_manager allow_all_pdp)\<lparr>am_jwkKey := Some (SymmetricKey [1])\<rparr>)
     \<lparr>ir_ServiceName = NamespacedName ''ns'' ''svc'', ir_SrcAttributes = [(''a'', ''b'')]\<rparr>"

lemma demo_ingress_eval:
  "demo_ingress = Inr \<lparr>ia_ServiceExists = True, ia_Allowed = True, ia_AccessToken = ''01.tttttttt.nnn.svcns''\<rparr>"
  by code_simp

theorem ingress_grant_sound_witness:
  "\<exists>export. k_Get (cl_Export mem_client) (NamespacedName ''ns'' ''svc'')
     (empty_mem\<lparr>mem_Export := [(NamespacedName ''ns'' ''svc'', demo_export)]\<rparr>) = Inr export"
  using ingress_grant_sound [OF demo_ingress_eval [unfolded demo_ingress_def]] by auto

theorem token_roundtrip_witness:
  "parseAuthorizationHeader ref_jwt 7 ((demo_manager NewPDP)\<lparr>am_jwkKey := Some (SymmetricKey [1])\<rparr>)
     ''01.tttttttt.nnn.svcns'' = Inr (Inr (ExportClusterName ''svc'' ''ns''))"
  using token_roundtrip [OF ref_jwt_ok demo_ingress_eval [unfolded demo_ingress_def],
      of "(demo_manager NewPDP)\<lparr>am_jwkKey := Some (SymmetricKey [1])\<rparr>" 7] by simp




subsection \<open>The states of the manager\<close>

text \<open>Every operation of the manager that changes its state, in any order.\<close>

inductive authz_reachable :: "'s k8s_client \<Rightarrow> apimachinery \<Rightarrow> jwt_lib \<Rightarrow> string \<Rightarrow> labels \<Rightarrow> authz_Manager \<Rightarrow> bool"
    for C K J ns pls where
  new: "authz_reachable C K J ns pls (authz_NewManager ns pls)"
| certs: "authz_reachable C K J ns pls m \<Longrightarrow> authz_reachable C K J ns pls (fst (authz_SetPeerCertificates tls raw m))"
| add_peer: "authz_reachable C K J ns pls m \<Longrightarrow> authz_AddPeer pr m = Inr m' \<Longrightarrow> authz_reachable C K J ns pls m'"
| delete_peer: "authz_reachable C K J ns pls m \<Longrightarrow> authz_reachable C K J ns pls (authz_DeletePeer n m)"
| add_policy: "authz_reachable C K J ns pls m \<Longrightarrow> authz_reachable C K J ns pls (fst (AddAccessPolicy K p m))"
| delete_policy: "authz_reachable C K J ns pls m \<Longrightarrow> authz_reachable C K J ns pls (fst (DeleteAccessPolicy K k b m))"
| add_pod: "authz_reachable C K J ns pls m \<Longrightarrow> authz_reachable C K J ns pls (addPod pod m)"
| delete_pod: "authz_reachable C K J ns pls m \<Longrightarrow> authz_reachable C K J ns pls (deletePod k m)"
| add_secret: "authz_reachable C K J ns pls m \<Longrightarrow> authz_reachable C K J ns pls (fst (authz_addSecret J sec m))"
| egress: "authz_reachable C K J ns pls m \<Longrightarrow> ee_client E = C \<Longrightarrow> authorizeEgress E req m = Some (m', r) \<Longrightarrow>
    authz_reachable C K J ns pls m'"

definition clients_current :: "authz_Manager \<Rightarrow> bool" where
  "clients_current m \<longleftrightarrow> (\<forall>name cl. mget (am_peerClient m) name = Some cl \<longrightarrow>
     (\<exists>tls. am_peerTLS m = Some tls \<and> cl = NewClient (pc_pr cl) (ClientConfig tls name)))"

definition authz_inv :: "apimachinery \<Rightarrow> authz_Manager \<Rightarrow> bool" where
  "authz_inv K m \<longleftrightarrow> pdp_reachable K (am_connectivityPDP m) \<and> clients_current m
     \<and> mwf (am_ipToPod m) \<and> mwf (am_podList m)"

lemma mget_map_values: "mget (map (\<lambda>(k, v). (k, f k v)) l) a = map_option (f a) (mget l a)"
  by (induction l) auto

lemma pc_pr_NewClient [simp]: "pc_pr (NewClient pr cfg) = pr"
  by (simp add: NewClient_def)

lemma SetPeerCertificates_inv:
  "clients_current m \<Longrightarrow> clients_current (fst (authz_SetPeerCertificates tls raw m))"
  by (auto simp: authz_SetPeerCertificates_def clients_current_def mget_map_values split: list.split)

lemma authorizeEgress_frame:
  "authorizeEgress E req m = Some (m', r) \<Longrightarrow> \<exists>lb. m' = m\<lparr>am_loadBalancer := lb\<rparr>"
  by (auto simp: authorizeEgress_def Let_def split: if_splits sum.splits)
    (metis authz_Manager.surjective authz_Manager.update_convs(2))+

lemma mwf_fold_mput:
  "mwf l \<Longrightarrow> mwf (fold (\<lambda>ip l. if P ip then mput ip p l else l) ips l)"
  by (induction ips arbitrary: l) auto

lemma authz_reachable_inv: "authz_reachable C K J ns pls m \<Longrightarrow> authz_inv K m"
proof (induction rule: authz_reachable.induct)
  case new
  then show ?case by (simp add: authz_inv_def authz_NewManager_def clients_current_def pdp_new)
next
  case (certs m tls raw)
  then show ?case using SetPeerCertificates_inv [of m tls raw]
    by (auto simp: authz_inv_def authz_SetPeerCertificates_def split: list.splits)
next
  case (add_peer m pr m')
  then show ?case by (auto simp: authz_inv_def authz_AddPeer_def clients_current_def split: option.splits if_splits)
next
  case (add_policy m p)
  then show ?case by (auto simp: authz_inv_def AddAccessPolicy_def clients_current_def split_beta intro: pdp_add)
next
  case (delete_policy m k b)
  then show ?case by (auto simp: authz_inv_def DeleteAccessPolicy_def clients_current_def split_beta intro: pdp_delete)
next
  case (add_pod m pod)
  then show ?case by (auto simp: authz_inv_def addPod_def clients_current_def Let_def mwf_fold_mput)
next
  case (add_secret m sec)
  then show ?case by (auto simp: authz_inv_def authz_addSecret_def clients_current_def split: sum.splits)
next
  case (egress m E req m' r)
  then show ?case by (auto simp: authz_inv_def clients_current_def dest: authorizeEgress_frame)
qed (auto simp: authz_inv_def authz_DeletePeer_def deletePod_def clients_current_def distinct_map_filter)



end
