(* ===== verification/Reconciler.thy ===== *)
theory Reconciler
  imports K8s
begin

text \<open>
  \<^verbatim>\<open>pkg/util/controller\<close>: the reconciler all controllers share, and the contract of the
  handlers it drives. A reconcile request carries only the name of an object: the reconciler
  reads the object and calls the add handler with it, or the delete handler when there is
  none. The locale \<open>reflector\<close> states what handlers must do for a manager's own data to
  follow the cluster: what is projected from the manager for a name fits the object of that
  name after a successful call, and no call disturbs other names. Its lemmas say that the
  names whose data may be out of date are always among the pending ones.
\<close>

record ('o, 'm) controller_Spec =
  Spec_Name :: string
  NeedsLeaderElection :: bool
  AddHandler :: "'o \<Rightarrow> 'm \<Rightarrow> 'm \<times> error option"
  DeleteHandler :: "NamespacedName \<Rightarrow> 'm \<Rightarrow> 'm \<times> error option"

definition Reconcile ::
    "('s, 'o) kind_api \<Rightarrow> ('o, 'm) controller_Spec \<Rightarrow> NamespacedName \<Rightarrow> 's \<Rightarrow> 'm \<Rightarrow> 'm \<times> error option" where
  "Reconcile A r name s m =
     (case k_Get A name s of
        Inl err \<Rightarrow> if IsNotFound err then DeleteHandler r name m else (m, Some (api err))
      | Inr object \<Rightarrow> AddHandler r object m)"

text \<open>
  The work queue of controller-runtime: \<open>changed\<close> are the names a change of the cluster adds to
  the pending ones, and a request leaves them when its reconciliation succeeds.
\<close>

definition changed :: "('k \<Rightarrow> 'v) \<Rightarrow> ('k \<Rightarrow> 'v) \<Rightarrow> 'k set" where
  "changed f g = {k. g k \<noteq> f k}"

definition served :: "'k \<Rightarrow> error option \<Rightarrow> 'k set \<Rightarrow> 'k set" where
  "served k err pending = (if err = None then pending - {k} else pending)"

subsection \<open>Managers that reflect the cluster\<close>

locale reflector =
  fixes A :: "('s, 'o) kind_api"
    and om :: "'o \<Rightarrow> ObjectMeta"
    and r :: "('o, 'm) controller_Spec"
    and read :: "'s \<Rightarrow> NamespacedName \<Rightarrow> 'o option"
    and valid :: "NamespacedName \<Rightarrow> bool"
    and proj :: "'m \<Rightarrow> NamespacedName \<Rightarrow> 'v"
    and reflects :: "'o option \<Rightarrow> 'v \<Rightarrow> bool"
  assumes get_found: "k_Get A k s = Inr x \<Longrightarrow> read s k = Some x \<and> object_key (om x) = k"
    and get_missing: "k_Get A k s = Inl e \<Longrightarrow> IsNotFound e \<Longrightarrow> read s k = None"
    and add_reflects: "valid (object_key (om x)) \<Longrightarrow> AddHandler r x m = (m', None) \<Longrightarrow>
      reflects (Some x) (proj m' (object_key (om x)))"
    and add_others: "valid (object_key (om x)) \<Longrightarrow> valid k \<Longrightarrow> k \<noteq> object_key (om x) \<Longrightarrow>
      proj (fst (AddHandler r x m)) k = proj m k"
    and delete_reflects: "valid k \<Longrightarrow> DeleteHandler r k m = (m', None) \<Longrightarrow> reflects None (proj m' k)"
    and delete_others: "valid k' \<Longrightarrow> valid k \<Longrightarrow> k \<noteq> k' \<Longrightarrow> proj (fst (DeleteHandler r k' m)) k = proj m k"
begin

definition up_to_date :: "'s \<Rightarrow> 'm \<Rightarrow> NamespacedName set \<Rightarrow> bool" where
  "up_to_date s m pending \<longleftrightarrow> (\<forall>k. valid k \<longrightarrow> k \<notin> pending \<longrightarrow> reflects (read s k) (proj m k))"

lemma reconcile_others:
  assumes "valid k" and "valid k'" and "k \<noteq> k'"
  shows "proj (fst (Reconcile A r k' s m)) k = proj m k"
  using assms add_others delete_others get_found
  by (auto simp: Reconcile_def split: sum.splits)

lemma reconcile_reflects:
  assumes "valid k" and "Reconcile A r k s m = (m', None)"
  shows "reflects (read s k) (proj m' k)"
proof (cases "k_Get A k s")
  case (Inl e)
  then show ?thesis using assms get_missing [OF Inl] delete_reflects
    by (auto simp: Reconcile_def split: if_splits)
next
  case (Inr x)
  then show ?thesis using assms get_found [OF Inr] add_reflects [of x m m'] by (simp add: Reconcile_def)
qed

lemma reconcile_done:
  assumes "up_to_date s m pending" and "valid k" and "Reconcile A r k s m = (m', None)"
  shows "up_to_date s m' (pending - {k})"
  unfolding up_to_date_def
proof (intro allI impI)
  fix k' assume "valid k'" "k' \<notin> pending - {k}"
  then show "reflects (read s k') (proj m' k')"
    using assms reconcile_reflects reconcile_others [of k' k s m]
    by (cases "k' = k") (auto simp: up_to_date_def)
qed

lemma reconcile_retry:
  assumes "up_to_date s m pending" and "valid k" and "k \<in> pending"
  shows "up_to_date s (fst (Reconcile A r k s m)) pending"
  using assms reconcile_others by (metis up_to_date_def)

lemma reconcile_served:
  assumes "up_to_date s m pending" and "valid k" and "k \<in> pending" and "Reconcile A r k s m = (m', err)"
  shows "up_to_date s m' (served k err pending)"
  using assms reconcile_done reconcile_retry [OF assms(1-3)] by (cases err) (auto simp: served_def)

lemma objects_changed:
  assumes "up_to_date s m pending"
  shows "up_to_date s' m (pending \<union> changed (read s) (read s'))"
  using assms unfolding up_to_date_def changed_def by (metis (mono_tags, lifting) UnCI mem_Collect_eq)

lemma manager_changed:
  assumes "up_to_date s m pending" and "\<And>k. valid k \<Longrightarrow> proj m' k = proj m k"
  shows "up_to_date s m' pending"
  using assms by (simp add: up_to_date_def)

lemma all_pending: "up_to_date s m {k. valid k}"
  by (simp add: up_to_date_def)

lemma none_pending: "up_to_date s m pending \<Longrightarrow> k \<notin> pending \<Longrightarrow> valid k \<Longrightarrow> reflects (read s k) (proj m k)"
  by (simp add: up_to_date_def)

end

end
