(* ===== verification/AuthzSync.thy ===== *)
theory AuthzSync
  imports Authz_Safety Reconciler
begin

text \<open>
  The controllers of the authorization manager (\<^verbatim>\<open>pkg/controlplane/authz/controllers.go\<close>) and
  what they make of it: its policies, peers and pods follow the objects of the cluster, so
  its decisions are those of the policy objects. Reading objects is third-party code; the
  readers of the watched kinds are a record, with the law that a read returns the object
  stored under its name, or reports that there is none. The certificates are read before the
  controllers start, so \<^verbatim>\<open>AddPeer\<close> has a TLS configuration to use (lemma \<open>runs_have_tls\<close>); without
  it the handler panics, which counts as a failed request here.
\<close>

subsection \<open>The controllers\<close>

definition authz_policy_controller :: "apimachinery \<Rightarrow> (AccessPolicyCR, authz_Manager) controller_Spec" where
  "authz_policy_controller K = \<lparr>Spec_Name = ''authz.access-policy'', NeedsLeaderElection = False,
     AddHandler = (\<lambda>object. AddAccessPolicy K (PolicyFromCR object)),
     DeleteHandler = (\<lambda>name. DeleteAccessPolicy K name False)\<rparr>"

definition authz_privileged_controller :: "apimachinery \<Rightarrow> (PrivilegedAccessPolicyCR, authz_Manager) controller_Spec" where
  "authz_privileged_controller K = \<lparr>Spec_Name = ''authz.privileged-access-policy'', NeedsLeaderElection = False,
     AddHandler = (\<lambda>object. AddAccessPolicy K (PolicyFromPrivilegedCR object)),
     DeleteHandler = (\<lambda>name. DeleteAccessPolicy K name True)\<rparr>"

definition authz_peer_controller :: "(Peer, authz_Manager) controller_Spec" where
  "authz_peer_controller = \<lparr>Spec_Name = ''authz.peer'', NeedsLeaderElection = False,
     AddHandler = (\<lambda>object m. case authz_AddPeer object m of
        Inl _ \<Rightarrow> (m, Some (Errorf ''invalid memory address or nil pointer dereference'')) | Inr m' \<Rightarrow> (m', None)),
     DeleteHandler = (\<lambda>name m. (authz_DeletePeer (nn_Name name) m, None))\<rparr>"

definition authz_import_controller :: "(Import, authz_Manager) controller_Spec" where
  "authz_import_controller = \<lparr>Spec_Name = ''authz.import'', NeedsLeaderElection = False,
     AddHandler = (\<lambda>_ m. (m, None)), DeleteHandler = (\<lambda>_ m. (m, None))\<rparr>"

definition authz_export_controller :: "(Export, authz_Manager) controller_Spec" where
  "authz_export_controller = \<lparr>Spec_Name = ''authz.export'', NeedsLeaderElection = False,
     AddHandler = (\<lambda>_ m. (m, None)), DeleteHandler = (\<lambda>_ m. (m, None))\<rparr>"

definition authz_secret_controller :: "jwt_lib \<Rightarrow> (Secret, authz_Manager) controller_Spec" where
  "authz_secret_controller J = \<lparr>Spec_Name = ''authz.secret'', NeedsLeaderElection = False,
     AddHandler = authz_addSecret J, DeleteHandler = (\<lambda>_ m. (m, None))\<rparr>"

definition authz_pod_controller :: "(Pod, authz_Manager) controller_Spec" where
  "authz_pod_controller = \<lparr>Spec_Name = ''authz.pod'', NeedsLeaderElection = False,
     AddHandler = (\<lambda>object m. (addPod object m, None)), DeleteHandler = (\<lambda>name m. (deletePod name m, None))\<rparr>"

lemmas authz_controller_defs = authz_policy_controller_def authz_privileged_controller_def authz_peer_controller_def
  authz_import_controller_def authz_export_controller_def authz_secret_controller_def authz_pod_controller_def

subsection \<open>The objects\<close>

record 's authz_api =
  aa_AccessPolicy :: "('s, AccessPolicyCR) kind_api"
  aa_PrivilegedAccessPolicy :: "('s, PrivilegedAccessPolicyCR) kind_api"
  aa_Peer :: "('s, Peer) kind_api"
  aa_Import :: "('s, Import) kind_api"
  aa_Export :: "('s, Export) kind_api"
  aa_Secret :: "('s, Secret) kind_api"
  aa_Pod :: "('s, Pod) kind_api"

record authz_objects =
  ao_AccessPolicy :: "NamespacedName \<Rightarrow> AccessPolicyCR option"
  ao_PrivilegedAccessPolicy :: "NamespacedName \<Rightarrow> PrivilegedAccessPolicyCR option"
  ao_Peer :: "NamespacedName \<Rightarrow> Peer option"
  ao_Pod :: "NamespacedName \<Rightarrow> Pod option"

definition get_ok ::
    "('s, 'o) kind_api \<Rightarrow> ('o \<Rightarrow> ObjectMeta) \<Rightarrow> ('s \<Rightarrow> NamespacedName \<Rightarrow> 'o option) \<Rightarrow> bool" where
  "get_ok A om read \<longleftrightarrow> (\<forall>k s. case k_Get A k s of Inr x \<Rightarrow> read s k = Some x \<and> object_key (om x) = k
     | Inl e \<Rightarrow> IsNotFound e \<longrightarrow> read s k = None)"

definition authz_api_ok :: "'s authz_api \<Rightarrow> ('s \<Rightarrow> authz_objects) \<Rightarrow> bool" where
  "authz_api_ok A view \<longleftrightarrow> get_ok (aa_AccessPolicy A) ap_Meta (\<lambda>s. ao_AccessPolicy (view s))
     \<and> get_ok (aa_PrivilegedAccessPolicy A) pap_Meta (\<lambda>s. ao_PrivilegedAccessPolicy (view s))
     \<and> get_ok (aa_Peer A) pr_Meta (\<lambda>s. ao_Peer (view s)) \<and> get_ok (aa_Pod A) pod_Meta (\<lambda>s. ao_Pod (view s))"

lemma get_okD:
  assumes "get_ok A om read"
  shows "k_Get A k s = Inr x \<Longrightarrow> read s k = Some x \<and> object_key (om x) = k"
    and "k_Get A k s = Inl e \<Longrightarrow> IsNotFound e \<Longrightarrow> read s k = None"
proof -
  have "case k_Get A k s of Inr x \<Rightarrow> read s k = Some x \<and> object_key (om x) = k
     | Inl e \<Rightarrow> IsNotFound e \<longrightarrow> read s k = None" using assms by (simp only: get_ok_def)
  then show "k_Get A k s = Inr x \<Longrightarrow> read s k = Some x \<and> object_key (om x) = k"
    and "k_Get A k s = Inl e \<Longrightarrow> IsNotFound e \<Longrightarrow> read s k = None" by simp_all
qed

text \<open>The policies the policy objects state; a privileged policy belongs to no namespace.\<close>

definition object_policies :: "authz_objects \<Rightarrow> policies" where
  "object_policies v = (\<lambda>(privileged, k).
     if privileged then (if nn_Namespace k = [] then map_option pap_Spec (ao_PrivilegedAccessPolicy v k) else None)
     else map_option ap_Spec (ao_AccessPolicy v k))"

definition pod_info :: "Pod \<Rightarrow> podInfo" where
  "pod_info pod = \<lparr>pi_name = om_Name (pod_Meta pod), pi_namespace = om_Namespace (pod_Meta pod),
     pi_serviceAccount = pod_ServiceAccountName pod, pi_labels = om_Labels (pod_Meta pod)\<rparr>"

locale authz_setting =
  fixes K :: apimachinery and A :: "'s authz_api" and view :: "'s \<Rightarrow> authz_objects" and ns :: string
  assumes api_ok: "authz_api_ok A view"

lemma policy_ops:
  "snd (AddAccessPolicy K p m) = snd (AddOrUpdatePolicy K p (am_connectivityPDP m))"
  "am_connectivityPDP (fst (AddAccessPolicy K p m)) = fst (AddOrUpdatePolicy K p (am_connectivityPDP m))"
  "snd (DeleteAccessPolicy K k b m) = snd (DeletePolicy K k b (am_connectivityPDP m))"
  "am_connectivityPDP (fst (DeleteAccessPolicy K k b m)) = fst (DeletePolicy K k b (am_connectivityPDP m))"
  by (simp_all add: AddAccessPolicy_def DeleteAccessPolicy_def split_beta)

lemma AddOrUpdatePolicy_err: "snd (AddOrUpdatePolicy K p pdp) = AccessPolicySpec_Validate K (pol_spec p)"
  by (auto simp: AddOrUpdatePolicy_def split: option.splits)

sublocale authz_setting \<subseteq> pols: reflector "aa_AccessPolicy A" ap_Meta "authz_policy_controller K"
  "\<lambda>s. ao_AccessPolicy (view s)" "\<lambda>_. True" "\<lambda>m k. pdp_policy (am_connectivityPDP m) (False, k)"
  "\<lambda>x v. v = map_option ap_Spec x"
proof
  have ok: "get_ok (aa_AccessPolicy A) ap_Meta (\<lambda>s. ao_AccessPolicy (view s))" using api_ok by (simp add: authz_api_ok_def)
  show "k_Get (aa_AccessPolicy A) k s = Inr x \<Longrightarrow> ao_AccessPolicy (view s) k = Some x \<and> object_key (ap_Meta x) = k" for k s x
    by (rule get_okD(1) [OF ok])
  show "k_Get (aa_AccessPolicy A) k s = Inl e \<Longrightarrow> IsNotFound e \<Longrightarrow> ao_AccessPolicy (view s) k = None" for k s e
    by (rule get_okD(2) [OF ok])
qed (auto simp: authz_policy_controller_def policy_ops pdp_policy_Add pdp_policy_Delete AddOrUpdatePolicy_err
    PolicyFromCR_def object_key_def prod_eq_iff [of "AddAccessPolicy _ _ _"] prod_eq_iff [of "DeleteAccessPolicy _ _ _ _"])

sublocale authz_setting \<subseteq> privs: reflector "aa_PrivilegedAccessPolicy A" pap_Meta "authz_privileged_controller K"
  "\<lambda>s. ao_PrivilegedAccessPolicy (view s)" "\<lambda>k. nn_Namespace k = []" "\<lambda>m k. pdp_policy (am_connectivityPDP m) (True, k)"
  "\<lambda>x v. v = map_option pap_Spec x"
proof
  have ok: "get_ok (aa_PrivilegedAccessPolicy A) pap_Meta (\<lambda>s. ao_PrivilegedAccessPolicy (view s))"
    using api_ok by (simp add: authz_api_ok_def)
  show "k_Get (aa_PrivilegedAccessPolicy A) k s = Inr x \<Longrightarrow>
      ao_PrivilegedAccessPolicy (view s) k = Some x \<and> object_key (pap_Meta x) = k" for k s x
    by (rule get_okD(1) [OF ok])
  show "k_Get (aa_PrivilegedAccessPolicy A) k s = Inl e \<Longrightarrow> IsNotFound e \<Longrightarrow>
      ao_PrivilegedAccessPolicy (view s) k = None" for k s e
    by (rule get_okD(2) [OF ok])
qed (auto simp: authz_privileged_controller_def policy_ops pdp_policy_Add pdp_policy_Delete AddOrUpdatePolicy_err
    PolicyFromPrivilegedCR_def object_key_def prod_eq_iff [of "AddAccessPolicy _ _ _"] prod_eq_iff [of "DeleteAccessPolicy _ _ _ _"])

sublocale authz_setting \<subseteq> apeers: reflector "aa_Peer A" pr_Meta authz_peer_controller
  "\<lambda>s. ao_Peer (view s)" "\<lambda>k. nn_Namespace k = ns" "\<lambda>m k. map_option pc_pr (mget (am_peerClient m) (nn_Name k))"
  "\<lambda>x v. v = x"
proof
  have ok: "get_ok (aa_Peer A) pr_Meta (\<lambda>s. ao_Peer (view s))" using api_ok by (simp add: authz_api_ok_def)
  show "k_Get (aa_Peer A) k s = Inr x \<Longrightarrow> ao_Peer (view s) k = Some x \<and> object_key (pr_Meta x) = k" for k s x
    by (rule get_okD(1) [OF ok])
  show "k_Get (aa_Peer A) k s = Inl e \<Longrightarrow> IsNotFound e \<Longrightarrow> ao_Peer (view s) k = None" for k s e
    by (rule get_okD(2) [OF ok])
  show "map_option pc_pr (mget (am_peerClient (fst (AddHandler authz_peer_controller x m))) (nn_Name k)) =
      map_option pc_pr (mget (am_peerClient m) (nn_Name k))"
    if "nn_Namespace (object_key (pr_Meta x)) = ns" "nn_Namespace k = ns" "k \<noteq> object_key (pr_Meta x)" for x m k
    using that by (cases k) (auto simp: authz_peer_controller_def authz_AddPeer_def object_key_def split: option.splits)
  show "map_option pc_pr (mget (am_peerClient (fst (DeleteHandler authz_peer_controller k' m))) (nn_Name k)) =
      map_option pc_pr (mget (am_peerClient m) (nn_Name k))"
    if "nn_Namespace k' = ns" "nn_Namespace k = ns" "k \<noteq> k'" for k' m k
    using that by (cases k; cases k') (auto simp: authz_peer_controller_def authz_DeletePeer_def)
qed (auto simp: authz_peer_controller_def authz_AddPeer_def authz_DeletePeer_def object_key_def split: option.splits)

sublocale authz_setting \<subseteq> apods: reflector "aa_Pod A" pod_Meta authz_pod_controller
  "\<lambda>s. ao_Pod (view s)" "\<lambda>_. True" "\<lambda>m k. mget (am_podList m) k" "\<lambda>x v. v = map_option pod_info x"
proof
  have ok: "get_ok (aa_Pod A) pod_Meta (\<lambda>s. ao_Pod (view s))" using api_ok by (simp add: authz_api_ok_def)
  show "k_Get (aa_Pod A) k s = Inr x \<Longrightarrow> ao_Pod (view s) k = Some x \<and> object_key (pod_Meta x) = k" for k s x
    by (rule get_okD(1) [OF ok])
  show "k_Get (aa_Pod A) k s = Inl e \<Longrightarrow> IsNotFound e \<Longrightarrow> ao_Pod (view s) k = None" for k s e
    by (rule get_okD(2) [OF ok])
qed (auto simp: authz_pod_controller_def addPod_def deletePod_def object_key_def pod_info_def Let_def)

subsection \<open>The running manager\<close>

record 's authz_sys =
  ay_api :: 's
  ay_mgr :: authz_Manager
  ay_policies :: "NamespacedName set"
  ay_privileged :: "NamespacedName set"
  ay_peers :: "NamespacedName set"
  ay_pods :: "NamespacedName set"

definition authz_start ::
    "('s \<Rightarrow> authz_objects) \<Rightarrow> string \<Rightarrow> labels \<Rightarrow> ParsedCertData \<Rightarrow> RawCertData \<Rightarrow> 's \<Rightarrow> 's authz_sys" where
  "authz_start view namespace peerLabels tls raw s =
     \<lparr>ay_api = s, ay_mgr = fst (authz_SetPeerCertificates tls raw (authz_NewManager namespace peerLabels)),
      ay_policies = dom (ao_AccessPolicy (view s)), ay_privileged = dom (ao_PrivilegedAccessPolicy (view s)),
      ay_peers = dom (ao_Peer (view s)), ay_pods = dom (ao_Pod (view s))\<rparr>"

inductive authz_step ::
    "apimachinery \<Rightarrow> jwt_lib \<Rightarrow> 's authz_api \<Rightarrow> ('s \<Rightarrow> authz_objects) \<Rightarrow> string \<Rightarrow> 's authz_sys \<Rightarrow> 's authz_sys \<Rightarrow> bool"
  for K J A view ns where
  objects_change: "authz_step K J A view ns st (st\<lparr>ay_api := s',
      ay_policies := ay_policies st \<union> changed (ao_AccessPolicy (view (ay_api st))) (ao_AccessPolicy (view s')),
      ay_privileged := ay_privileged st
        \<union> changed (ao_PrivilegedAccessPolicy (view (ay_api st))) (ao_PrivilegedAccessPolicy (view s')),
      ay_peers := ay_peers st \<union> changed (ao_Peer (view (ay_api st))) (ao_Peer (view s')),
      ay_pods := ay_pods st \<union> changed (ao_Pod (view (ay_api st))) (ao_Pod (view s'))\<rparr>)"
| policy_request: "k \<in> ay_policies st \<Longrightarrow>
    Reconcile (aa_AccessPolicy A) (authz_policy_controller K) k (ay_api st) (ay_mgr st) = (m', err) \<Longrightarrow>
    authz_step K J A view ns st (st\<lparr>ay_mgr := m', ay_policies := served k err (ay_policies st)\<rparr>)"
| privileged_request: "k \<in> ay_privileged st \<Longrightarrow> nn_Namespace k = [] \<Longrightarrow>
    Reconcile (aa_PrivilegedAccessPolicy A) (authz_privileged_controller K) k (ay_api st) (ay_mgr st) = (m', err) \<Longrightarrow>
    authz_step K J A view ns st (st\<lparr>ay_mgr := m', ay_privileged := served k err (ay_privileged st)\<rparr>)"
| peer_request: "k \<in> ay_peers st \<Longrightarrow> nn_Namespace k = ns \<Longrightarrow>
    Reconcile (aa_Peer A) authz_peer_controller k (ay_api st) (ay_mgr st) = (m', err) \<Longrightarrow>
    authz_step K J A view ns st (st\<lparr>ay_mgr := m', ay_peers := served k err (ay_peers st)\<rparr>)"
| pod_request: "k \<in> ay_pods st \<Longrightarrow>
    Reconcile (aa_Pod A) authz_pod_controller k (ay_api st) (ay_mgr st) = (m', err) \<Longrightarrow>
    authz_step K J A view ns st (st\<lparr>ay_mgr := m', ay_pods := served k err (ay_pods st)\<rparr>)"
| secret_request: "authz_step K J A view ns st
    (st\<lparr>ay_mgr := fst (Reconcile (aa_Secret A) (authz_secret_controller J) k (ay_api st) (ay_mgr st))\<rparr>)"
| new_certificates: "authz_step K J A view ns st (st\<lparr>ay_mgr := fst (authz_SetPeerCertificates tls raw (ay_mgr st))\<rparr>)"
| egress_request: "authorizeEgress (E :: 's egress_env) req (ay_mgr st) = Some (m', r) \<Longrightarrow>
    authz_step K J A view ns st (st\<lparr>ay_mgr := m'\<rparr>)"

text \<open>A request of one controller leaves what the others look after alone.\<close>

lemma policy_frame [simp]:
  "am_peerClient (fst (Reconcile X (authz_policy_controller K) k s m)) = am_peerClient m"
  "am_podList (fst (Reconcile X (authz_policy_controller K) k s m)) = am_podList m"
  "am_peerTLS (fst (Reconcile X (authz_policy_controller K) k s m)) = am_peerTLS m"
  "am_peerClient (fst (Reconcile Y (authz_privileged_controller K) k s m)) = am_peerClient m"
  "am_podList (fst (Reconcile Y (authz_privileged_controller K) k s m)) = am_podList m"
  "am_peerTLS (fst (Reconcile Y (authz_privileged_controller K) k s m)) = am_peerTLS m"
  by (auto simp: Reconcile_def authz_controller_defs AddAccessPolicy_def DeleteAccessPolicy_def split_beta split: sum.split)

lemma policy_tier_frame:
  "pdp_policy (am_connectivityPDP (fst (Reconcile X (authz_policy_controller K) k s m))) (True, n) =
     pdp_policy (am_connectivityPDP m) (True, n)"
  "pdp_policy (am_connectivityPDP (fst (Reconcile Y (authz_privileged_controller K) k s m))) (False, n) =
     pdp_policy (am_connectivityPDP m) (False, n)"
  by (auto simp: Reconcile_def authz_controller_defs policy_ops pdp_policy_Add pdp_policy_Delete PolicyFromCR_def
      PolicyFromPrivilegedCR_def split: sum.split)

lemma peer_frame [simp]:
  "am_connectivityPDP (fst (Reconcile X authz_peer_controller k s m)) = am_connectivityPDP m"
  "am_podList (fst (Reconcile X authz_peer_controller k s m)) = am_podList m"
  "am_peerTLS (fst (Reconcile X authz_peer_controller k s m)) = am_peerTLS m"
  by (auto simp: Reconcile_def authz_controller_defs authz_AddPeer_def authz_DeletePeer_def split: sum.split option.split)

lemma pod_frame [simp]:
  "am_connectivityPDP (fst (Reconcile X authz_pod_controller k s m)) = am_connectivityPDP m"
  "am_peerClient (fst (Reconcile X authz_pod_controller k s m)) = am_peerClient m"
  "am_peerTLS (fst (Reconcile X authz_pod_controller k s m)) = am_peerTLS m"
  by (auto simp: Reconcile_def authz_controller_defs addPod_def deletePod_def Let_def split: sum.split)

lemma secret_frame [simp]:
  "am_connectivityPDP (fst (Reconcile X (authz_secret_controller J) k s m)) = am_connectivityPDP m"
  "am_peerClient (fst (Reconcile X (authz_secret_controller J) k s m)) = am_peerClient m"
  "am_podList (fst (Reconcile X (authz_secret_controller J) k s m)) = am_podList m"
  "am_peerTLS (fst (Reconcile X (authz_secret_controller J) k s m)) = am_peerTLS m"
  by (auto simp: Reconcile_def authz_controller_defs authz_addSecret_def split: sum.split)

lemma certificates_keep [simp]:
  "am_connectivityPDP (fst (authz_SetPeerCertificates tls raw m)) = am_connectivityPDP m"
  "am_podList (fst (authz_SetPeerCertificates tls raw m)) = am_podList m"
  "map_option pc_pr (mget (am_peerClient (fst (authz_SetPeerCertificates tls raw m))) n) =
     map_option pc_pr (mget (am_peerClient m) n)"
  "am_peerTLS m \<noteq> None \<Longrightarrow> am_peerTLS (fst (authz_SetPeerCertificates tls raw m)) \<noteq> None"
  by (auto simp: authz_SetPeerCertificates_def mget_map_values option.map_comp comp_def split: list.split)

lemma reconcile_pdp_inv:
  "pdp_inv K (am_connectivityPDP m) \<Longrightarrow> pdp_inv K (am_connectivityPDP (fst (Reconcile X (authz_policy_controller K) k s m)))"
  "pdp_inv K (am_connectivityPDP m) \<Longrightarrow> pdp_inv K (am_connectivityPDP (fst (Reconcile Y (authz_privileged_controller K) k s m)))"
  by (auto simp: Reconcile_def authz_controller_defs policy_ops pdp_inv_Add pdp_inv_Delete split: sum.split)

text \<open>Privileged policies belong to no namespace.\<close>

definition privileged_global :: "authz_Manager \<Rightarrow> bool" where
  "privileged_global m \<longleftrightarrow> (\<forall>k. nn_Namespace k \<noteq> [] \<longrightarrow> pdp_policy (am_connectivityPDP m) (True, k) = None)"

lemma reconcile_privileged_global:
  "privileged_global m \<Longrightarrow> privileged_global (fst (Reconcile X (authz_policy_controller K) k s m))"
  "privileged_global m \<Longrightarrow> privileged_global (fst (Reconcile Y (authz_privileged_controller K) k s m))"
  by (auto simp: privileged_global_def Reconcile_def authz_controller_defs policy_ops pdp_policy_Add pdp_policy_Delete
      PolicyFromCR_def PolicyFromPrivilegedCR_def split: sum.split)

context authz_setting
begin

definition mgr_in_sync :: "'s authz_sys \<Rightarrow> bool" where
  "mgr_in_sync st \<longleftrightarrow> pols.up_to_date (ay_api st) (ay_mgr st) (ay_policies st)
     \<and> privs.up_to_date (ay_api st) (ay_mgr st) (ay_privileged st)
     \<and> apeers.up_to_date (ay_api st) (ay_mgr st) (ay_peers st)
     \<and> apods.up_to_date (ay_api st) (ay_mgr st) (ay_pods st)
     \<and> pdp_inv K (am_connectivityPDP (ay_mgr st)) \<and> privileged_global (ay_mgr st)"

lemma start_synced: "mgr_in_sync (authz_start view n pls tls raw s)"
  by (auto simp: mgr_in_sync_def pols.up_to_date_def privs.up_to_date_def apeers.up_to_date_def apods.up_to_date_def
      authz_start_def authz_SetPeerCertificates_def authz_NewManager_def pdp_inv_New pdp.policies_new domIff
      privileged_global_def split: list.split)

lemma step_synced:
  assumes "authz_step K J A view ns st st'" and "mgr_in_sync st"
  shows "mgr_in_sync st'"
proof -
  note sync = assms(2) [unfolded mgr_in_sync_def]
  note moved = pols.manager_changed [OF sync [THEN conjunct1]] privs.manager_changed [OF sync [THEN conjunct2, THEN conjunct1]]
    apeers.manager_changed [OF sync [THEN conjunct2, THEN conjunct2, THEN conjunct1]]
    apods.manager_changed [OF sync [THEN conjunct2, THEN conjunct2, THEN conjunct2, THEN conjunct1]]
  from assms(1) show ?thesis
  proof (cases rule: authz_step.cases)
    case (objects_change s')
    then show ?thesis using sync pols.objects_changed privs.objects_changed apeers.objects_changed apods.objects_changed
      by (simp add: mgr_in_sync_def)
  next
    case (policy_request k m' err)
    then have m': "m' = fst (Reconcile (aa_AccessPolicy A) (authz_policy_controller K) k (ay_api st) (ay_mgr st))" by simp
    show ?thesis unfolding policy_request(1) mgr_in_sync_def
      using sync pols.reconcile_served [OF _ _ policy_request(2,3)] moved(2-4) [of m']
      by (simp add: m' policy_tier_frame reconcile_pdp_inv reconcile_privileged_global)
  next
    case (privileged_request k m' err)
    then have m': "m' = fst (Reconcile (aa_PrivilegedAccessPolicy A) (authz_privileged_controller K) k (ay_api st) (ay_mgr st))"
      by simp
    show ?thesis unfolding privileged_request(1) mgr_in_sync_def
      using sync privs.reconcile_served [OF _ privileged_request(3,2,4)] moved(1,3,4) [of m']
      by (simp add: m' policy_tier_frame reconcile_pdp_inv reconcile_privileged_global)
  next
    case (peer_request k m' err)
    then have m': "m' = fst (Reconcile (aa_Peer A) authz_peer_controller k (ay_api st) (ay_mgr st))" by simp
    show ?thesis unfolding peer_request(1) mgr_in_sync_def
      using sync apeers.reconcile_served [OF _ peer_request(3,2,4)] moved(1,2,4) [of m'] by (simp add: m' privileged_global_def)
  next
    case (pod_request k m' err)
    then have m': "m' = fst (Reconcile (aa_Pod A) authz_pod_controller k (ay_api st) (ay_mgr st))" by simp
    show ?thesis unfolding pod_request(1) mgr_in_sync_def
      using sync apods.reconcile_served [OF _ _ pod_request(2,3)] moved(1-3) [of m'] by (simp add: m' privileged_global_def)
  next
    case (egress_request E req m' r)
    from authorizeEgress_frame [OF egress_request(2)] obtain lb where "m' = (ay_mgr st)\<lparr>am_loadBalancer := lb\<rparr>" by blast
    then show ?thesis unfolding egress_request(1) mgr_in_sync_def using sync moved [of m'] by (simp add: privileged_global_def)
  qed (use sync in \<open>simp_all add: mgr_in_sync_def pols.up_to_date_def privs.up_to_date_def apeers.up_to_date_def
        apods.up_to_date_def privileged_global_def\<close>)
qed

lemma runs_synced: "(authz_step K J A view ns)\<^sup>*\<^sup>* (authz_start view n pls tls raw s) st \<Longrightarrow> mgr_in_sync st"
  by (induction rule: rtranclp_induct) (auto intro: start_synced step_synced)

lemma step_has_tls:
  "authz_step K J A view ns st st' \<Longrightarrow> am_peerTLS (ay_mgr st) \<noteq> None \<Longrightarrow> am_peerTLS (ay_mgr st') \<noteq> None"
  by (erule authz_step.cases) (auto dest!: authorizeEgress_frame, (metis policy_frame peer_frame pod_frame fst_conv option.distinct(1))+)

lemma runs_have_tls:
  assumes "(authz_step K J A view ns)\<^sup>*\<^sup>* (authz_start view n pls tls raw s) st" and "DNSNames tls \<noteq> []"
  shows "am_peerTLS (ay_mgr st) \<noteq> None"
  using assms(1)
proof (induction rule: rtranclp_induct)
  case base
  then show ?case using assms(2) by (auto simp: authz_start_def authz_SetPeerCertificates_def split: list.split)
qed (use step_has_tls in blast)

lemma runs_policies:
  assumes "(authz_step K J A view ns)\<^sup>*\<^sup>* (authz_start view n pls tls raw s) st"
    and "ay_policies st = {}" and "ay_privileged st = {}"
  shows "pdp_policy (am_connectivityPDP (ay_mgr st)) = object_policies (view (ay_api st))"
proof -
  note sync = runs_synced [OF assms(1), unfolded mgr_in_sync_def]
  have "pdp_policy (am_connectivityPDP (ay_mgr st)) (privileged, k) = object_policies (view (ay_api st)) (privileged, k)"
    for privileged k
    using sync pols.none_pending [of "ay_api st" "ay_mgr st" "ay_policies st" k]
      privs.none_pending [of "ay_api st" "ay_mgr st" "ay_privileged st" k] assms(2,3)
    by (cases privileged) (auto simp: object_policies_def privileged_global_def)
  then show ?thesis by (auto simp: fun_eq_iff)
qed

lemma runs_follow:
  assumes "(authz_step K J A view ns)\<^sup>*\<^sup>* (authz_start view n pls tls raw s) st"
  shows "(ay_policies st = {} \<and> ay_privileged st = {} \<and> range_order rng \<longrightarrow>
        (\<exists>d. Decide K rng (am_connectivityPDP (ay_mgr st)) src dst namespace = Inr d
           \<and> dd_Decision d = spec_decide K (object_policies (view (ay_api st))) src dst namespace))
    \<and> (NamespacedName ns p \<notin> ay_peers st \<longrightarrow>
        map_option pc_pr (mget (am_peerClient (ay_mgr st)) p) = ao_Peer (view (ay_api st)) (NamespacedName ns p))
    \<and> (k \<notin> ay_pods st \<longrightarrow> mget (am_podList (ay_mgr st)) k = map_option pod_info (ao_Pod (view (ay_api st)) k))"
proof -
  note sync = runs_synced [OF assms, unfolded mgr_in_sync_def]
  have "\<exists>d. Decide K rng (am_connectivityPDP (ay_mgr st)) src dst namespace = Inr d
      \<and> dd_Decision d = spec_decide K (object_policies (view (ay_api st))) src dst namespace"
    if "ay_policies st = {}" "ay_privileged st = {}" "range_order rng"
    using Decide_refines [of K "am_connectivityPDP (ay_mgr st)" rng src dst namespace] sync
      runs_policies [OF assms that(1,2)] that(3) by auto
  then show ?thesis using sync apeers.none_pending [of _ _ _ "NamespacedName ns p"] apods.none_pending by auto
qed

end

subsection \<open>An in-memory instance\<close>

record amem =
  am_AccessPolicy :: "(NamespacedName, AccessPolicyCR) gomap"
  am_PrivilegedAccessPolicy :: "(NamespacedName, PrivilegedAccessPolicyCR) gomap"
  am_Pod :: "(NamespacedName, Pod) gomap"
  am_mem :: mem

definition amem_api :: "amem authz_api" where
  "amem_api = \<lparr>
     aa_AccessPolicy = mem_kind am_AccessPolicy (\<lambda>l. am_AccessPolicy_update (\<lambda>_. l)) ap_Meta (\<lambda>y x. x) (\<lambda>y x. y),
     aa_PrivilegedAccessPolicy = mem_kind am_PrivilegedAccessPolicy (\<lambda>l. am_PrivilegedAccessPolicy_update (\<lambda>_. l))
       pap_Meta (\<lambda>y x. x) (\<lambda>y x. y),
     aa_Peer = mem_kind (\<lambda>s. mem_Peer (am_mem s)) (\<lambda>l. am_mem_update (mem_Peer_update (\<lambda>_. l))) pr_Meta (\<lambda>y x. x) (\<lambda>y x. y),
     aa_Import = mem_kind (\<lambda>s. mem_Import (am_mem s)) (\<lambda>l. am_mem_update (mem_Import_update (\<lambda>_. l))) imp_Meta
       (\<lambda>y x. x) (\<lambda>y x. y),
     aa_Export = mem_kind (\<lambda>s. mem_Export (am_mem s)) (\<lambda>l. am_mem_update (mem_Export_update (\<lambda>_. l))) exp_Meta
       (\<lambda>y x. x) (\<lambda>y x. y),
     aa_Secret = mem_kind (\<lambda>s. mem_Secret (am_mem s)) (\<lambda>l. am_mem_update (mem_Secret_update (\<lambda>_. l))) sec_Meta
       (\<lambda>y x. x) (\<lambda>y x. y),
     aa_Pod = mem_kind am_Pod (\<lambda>l. am_Pod_update (\<lambda>_. l)) pod_Meta (\<lambda>y x. x) (\<lambda>y x. y)\<rparr>"

definition amem_view :: "amem \<Rightarrow> authz_objects" where
  "amem_view s = \<lparr>ao_AccessPolicy = mread ap_Meta (am_AccessPolicy s),
     ao_PrivilegedAccessPolicy = mread pap_Meta (am_PrivilegedAccessPolicy s),
     ao_Peer = mread pr_Meta (mem_Peer (am_mem s)), ao_Pod = mread pod_Meta (am_Pod s)\<rparr>"

lemma amem_api_ok: "authz_api_ok amem_api amem_view"
  by (auto simp: authz_api_ok_def get_ok_def amem_api_def amem_view_def mem_kind_def dest: mread_key split: option.split)

interpretation mem_authz: authz_setting K amem_api amem_view ns for K ns
  by unfold_locales (rule amem_api_ok)

text \<open>
  C5. Decisions are those of the policy objects. However changes of the cluster, requests of the
  controllers, failed requests, renewed certificates and connections interleave: when no
  change of a policy is pending, the policy decision point decides every connection as the
  policy objects of the cluster say; a peer without a pending change has a client built from
  its current object, or none if it was deleted; and so for the pods.
\<close>

theorem decisions_follow_objects:
  assumes "authz_api_ok A view"
    and "(authz_step K J A view ns)\<^sup>*\<^sup>* (authz_start view n pls tls raw s) st"
  shows "(ay_policies st = {} \<and> ay_privileged st = {} \<and> range_order rng \<longrightarrow>
        (\<exists>d. Decide K rng (am_connectivityPDP (ay_mgr st)) src dst namespace = Inr d
           \<and> dd_Decision d = spec_decide K (object_policies (view (ay_api st))) src dst namespace))
    \<and> (NamespacedName ns p \<notin> ay_peers st \<longrightarrow>
        map_option pc_pr (mget (am_peerClient (ay_mgr st)) p) = ao_Peer (view (ay_api st)) (NamespacedName ns p))
    \<and> (k \<notin> ay_pods st \<longrightarrow> mget (am_podList (ay_mgr st)) k = map_option pod_info (ao_Pod (view (ay_api st)) k))"
  by (rule authz_setting.runs_follow [OF authz_setting.intro [OF assms(1)] assms(2)])

text \<open>
  The deletion of a policy object whose policy was never accepted fails each time it is
  tried: its request never leaves the queue.
\<close>

lemma rejected_policy_retried:
  assumes "k_Get X k s = Inl e" and "IsNotFound e" and "pdp_policy (am_connectivityPDP m) (False, k) = None"
  shows "served k (snd (Reconcile X (authz_policy_controller K) k s m)) {k} = {k}"
    and "pdp_policy (am_connectivityPDP (fst (Reconcile X (authz_policy_controller K) k s m))) (False, k) = None"
  using assms DeletePolicy_err [of K k False "am_connectivityPDP m"]
  by (auto simp: Reconcile_def authz_controller_defs policy_ops pdp_policy_Delete served_def)

text \<open>A cluster with one policy that allows everything in its namespace, reconciled once.\<close>

definition demo_amem :: amem where
  "demo_amem = \<lparr>am_AccessPolicy = [(NamespacedName ''ns'' ''p'',
       \<lparr>ap_Meta = \<lparr>om_Name = ''p'', om_Namespace = ''ns'', om_Labels = []\<rparr>,
        ap_Spec = pol_spec (any_policy ''p'' False AccessPolicyActionAllow)\<rparr>)],
     am_PrivilegedAccessPolicy = [], am_Pod = [], am_mem = empty_mem\<rparr>"

abbreviation demo_authz_start :: "amem authz_sys" where
  "demo_authz_start \<equiv> authz_start amem_view ''sys'' [] demo_cert \<lparr>rcd_certificate = [], rcd_key = [], rcd_ca = []\<rparr> demo_amem"

definition demo_reconciled_policy :: "authz_Manager \<times> error option" where
  "demo_reconciled_policy = Reconcile (aa_AccessPolicy amem_api) (authz_policy_controller ref_apimachinery)
     (NamespacedName ''ns'' ''p'') demo_amem (ay_mgr demo_authz_start)"

theorem decisions_follow_objects_witness:
  "\<exists>d. Decide ref_apimachinery rev (am_connectivityPDP (fst demo_reconciled_policy)) [] [] ''ns'' = Inr d
     \<and> dd_Decision d = DecisionAllow"
proof -
  let ?k = "NamespacedName ''ns'' ''p''" and ?m = "fst demo_reconciled_policy"
  let ?st = "demo_authz_start\<lparr>ay_mgr := ?m, ay_policies := served ?k None (ay_policies demo_authz_start)\<rparr>"
  have ok: "snd demo_reconciled_policy = None"
    using any_policy_valid [of AccessPolicyActionAllow "''p''" False]
    by (simp add: demo_reconciled_policy_def Reconcile_def amem_api_def mem_kind_def mread_def demo_amem_def
        object_key_def authz_policy_controller_def policy_ops AddOrUpdatePolicy_err PolicyFromCR_def)
  have objs: "ao_AccessPolicy (amem_view demo_amem) = [?k \<mapsto> snd (hd (am_AccessPolicy demo_amem))]"
    "ao_PrivilegedAccessPolicy (amem_view demo_amem) = Map.empty"
    by (auto simp: amem_view_def demo_amem_def mread_def object_key_def fun_eq_iff)
  have "authz_step ref_apimachinery ref_jwt amem_api amem_view ''sys'' demo_authz_start ?st"
    by (rule policy_request) (use objs ok in \<open>auto simp: authz_start_def demo_reconciled_policy_def prod_eq_iff\<close>)
  then have run: "(authz_step ref_apimachinery ref_jwt amem_api amem_view ''sys'')\<^sup>*\<^sup>* demo_authz_start ?st" by blast
  have none: "ay_policies ?st = {}" "ay_privileged ?st = {}" using objs by (auto simp: authz_start_def served_def)
  let ?spec = "pol_spec (any_policy ''p'' False AccessPolicyActionAllow)"
  have "ap_Spec (snd (hd (am_AccessPolicy demo_amem))) = ?spec" by (simp add: demo_amem_def)
  then have pols: "object_policies (amem_view demo_amem) = [(False, ?k) \<mapsto> ?spec]"
    by (auto simp: object_policies_def objs fun_eq_iff)
  have act: "aps_Action ?spec = AccessPolicyActionAllow" by (simp add: any_policy_def)
  have "applies ref_apimachinery (object_policies (amem_view demo_amem)) False AccessPolicyActionAllow [] [] ''ns''"
    "\<not> applies ref_apimachinery (object_policies (amem_view demo_amem)) False AccessPolicyActionDeny [] [] ''ns''"
    "\<not> applies ref_apimachinery (object_policies (amem_view demo_amem)) True act [] [] ''ns''" for act
    using any_policy_matches act by (auto simp: applies_def pols split: if_splits)
  then have "spec_decide ref_apimachinery (object_policies (amem_view demo_amem)) [] [] ''ns'' = DecisionAllow"
    by (simp add: spec_decide_def)
  with decisions_follow_objects [OF amem_api_ok run, of rev "[]" "[]" "''ns''"] none show ?thesis
    by (simp add: authz_start_def)
qed

end
