(* ===== verification/AuthzServer.thy ===== *)
theory AuthzServer
  imports Authz
begin

text \<open>
  \<^verbatim>\<open>src/pkg/controlplane/authz/server.go\<close>: the external authorization service the dataplane
  asks about every connection. It answers egress checks (from local clients, through an
  internal listener) and ingress checks (from remote peers): heartbeats, authorization
  requests, and connections that present a token.
\<close>

record HttpRequest =
  http_Method :: string
  http_Path :: string
  http_Headers :: labels
  http_Body :: string

record CheckSource =
  src_Address :: "bool option"

record AttributeContext =
  ac_Source :: "CheckSource option"
  ac_Request :: "HttpRequest option option"

record CheckRequest =
  cr_Attributes :: "AttributeContext option"

datatype rpc_code = Code_OK | Code_INVALID_ARGUMENT | Code_NOT_FOUND | Code_PERMISSION_DENIED | Code_INTERNAL

record OkHttpResponse =
  ok_Headers :: labels
  ok_ResponseHeadersToAdd :: labels

record DeniedHttpResponse =
  den_Status :: nat
  den_Body :: string

datatype HttpResponse = OkResponse OkHttpResponse | DeniedResponse DeniedHttpResponse

record CheckResponse =
  resp_Code :: rpc_code
  resp_Message :: string
  resp_HttpResponse :: HttpResponse

definition bearerSchemaPrefix :: string where "bearerSchemaPrefix = ''Bearer ''"

definition buildAllowedResponse :: "OkHttpResponse \<Rightarrow> CheckResponse" where
  "buildAllowedResponse resp = \<lparr>resp_Code = Code_OK, resp_Message = [], resp_HttpResponse = OkResponse resp\<rparr>"

definition buildDeniedResponse :: "rpc_code \<Rightarrow> nat \<Rightarrow> string \<Rightarrow> CheckResponse" where
  "buildDeniedResponse rpcCode httpCode message = \<lparr>resp_Code = rpcCode, resp_Message = message,
     resp_HttpResponse = DeniedResponse \<lparr>den_Status = httpCode, den_Body = message\<rparr>\<rparr>"

definition quote :: "string \<Rightarrow> string" where
  "quote s = [CHR 0x27] @ s @ [CHR 0x27]"

text \<open>The environment of the server: API, policies' range order, network, tokens, JSON, clock.\<close>

record 's server_env =
  se_egress :: "'s egress_env"
  se_state :: 's
  se_jwt :: jwt_lib
  se_json :: json_codec
  se_now :: nat

type_synonym check_result = "(authz_Manager \<times> (panic + CheckResponse)) option"

definition checkEgress :: "'s server_env \<Rightarrow> HttpRequest \<Rightarrow> authz_Manager \<Rightarrow> check_result" where
  "checkEgress E httpReq m =
     (let headers = http_Headers httpReq
      in case List.find (\<lambda>header. mget headers header = None)
                [ClientIPHeader, ImportNameHeader, ImportNamespaceHeader] of
           Some header \<Rightarrow> Some (m, Inr (buildDeniedResponse Code_INVALID_ARGUMENT 400
                            (''Missing '' @ quote header @ '' header.'')))
         | None \<Rightarrow>
             (case authorizeEgress (se_egress E)
                     \<lparr>er_ImportName = NamespacedName (sget headers ImportNamespaceHeader) (sget headers ImportNameHeader),
                      er_IP = sget headers ClientIPHeader\<rparr> m of
                None \<Rightarrow> None
              | Some (m', Inl p) \<Rightarrow> Some (m', Inl p)
              | Some (m', Inr (Inl err)) \<Rightarrow>
                  Some (m', Inr (buildDeniedResponse Code_INTERNAL 500 (Error (ee_K (se_egress E)) err)))
              | Some (m', Inr (Inr resp)) \<Rightarrow>
                  if \<not> ea_Allowed resp
                  then Some (m', Inr (buildDeniedResponse Code_PERMISSION_DENIED 403
                         (''Access denied for '' @ quote (sget headers ImportNamespaceHeader @ ''/''
                            @ sget headers ImportNameHeader) @ ''.'')))
                  else Some (m', Inr (buildAllowedResponse \<lparr>
                         ok_Headers = [(TargetClusterHeader, ea_RemotePeerCluster resp),
                           (AuthorizationHeader, bearerSchemaPrefix @ ea_AccessToken resp)],
                         ok_ResponseHeadersToAdd = []\<rparr>))))"

definition encodePeerLabels :: "json_codec \<Rightarrow> authz_Manager \<Rightarrow> string" where
  "encodePeerLabels js m =
     b64_encode (bytes_of (case MarshalLabels js (am_peerLabels m) of Inl _ \<Rightarrow> ''{}'' | Inr data \<Rightarrow> data))"

definition checkServiceAccessRequest ::
    "'s server_env \<Rightarrow> HttpRequest \<Rightarrow> authz_Manager \<Rightarrow> panic + CheckResponse" where
  "checkServiceAccessRequest E req m =
     (case mget (http_Headers req) AuthorizationHeader of
        None \<Rightarrow> Inr (buildDeniedResponse Code_INVALID_ARGUMENT 400
                  (''Missing '' @ quote AuthorizationHeader @ '' header.''))
      | Some authorization \<Rightarrow>
          if \<not> HasPrefix authorization bearerSchemaPrefix
          then Inr (buildDeniedResponse Code_INVALID_ARGUMENT 400
                 ''Authorization header is not using the bearer scheme.'')
          else (case parseAuthorizationHeader (se_jwt E) (se_now E) m
                       (TrimPrefix authorization bearerSchemaPrefix) of
                  Inl p \<Rightarrow> Inl p
                | Inr (Inl err) \<Rightarrow>
                    Inr (buildDeniedResponse Code_PERMISSION_DENIED 403 (Error (ee_K (se_egress E)) err))
                | Inr (Inr targetCluster) \<Rightarrow>
                    Inr (buildAllowedResponse \<lparr>ok_Headers = [(TargetClusterHeader, targetCluster)],
                           ok_ResponseHeadersToAdd = []\<rparr>)))"

definition checkAuthorizationRequest ::
    "'s server_env \<Rightarrow> HttpRequest \<Rightarrow> authz_Manager \<Rightarrow> CheckResponse" where
  "checkAuthorizationRequest E req m =
     (case UnmarshalAuthz (se_json E) (http_Body req) of
        Inl err \<Rightarrow> buildDeniedResponse Code_INVALID_ARGUMENT 400 (Error (ee_K (se_egress E)) err)
      | Inr authzReq \<Rightarrow>
          (let shown = quote (areq_ServiceNamespace authzReq @ ''/'' @ areq_ServiceName authzReq)
           in case authorizeIngress (ee_K (se_egress E)) (ee_rng (se_egress E)) (ee_client (se_egress E))
                     (se_state E) (se_jwt E) (se_now E) m
                     \<lparr>ir_ServiceName = NamespacedName (areq_ServiceNamespace authzReq) (areq_ServiceName authzReq),
                      ir_SrcAttributes = areq_SrcAttributes authzReq\<rparr> of
                Inl err \<Rightarrow> buildDeniedResponse Code_INTERNAL 500 (Error (ee_K (se_egress E)) err)
              | Inr resp \<Rightarrow>
                  if \<not> ia_ServiceExists resp
                  then buildDeniedResponse Code_NOT_FOUND 404 (''Exported service '' @ shown @ '' not found.'')
                  else if \<not> ia_Allowed resp
                  then buildDeniedResponse Code_PERMISSION_DENIED 403 (''Permission denied for '' @ shown @ ''.'')
                  else buildAllowedResponse \<lparr>ok_Headers = [],
                         ok_ResponseHeadersToAdd = [(AccessTokenHeader, ia_AccessToken resp)]\<rparr>))"

definition checkIngress :: "'s server_env \<Rightarrow> HttpRequest \<Rightarrow> authz_Manager \<Rightarrow> panic + CheckResponse" where
  "checkIngress E httpReq m =
     (if http_Method httpReq = ''GET'' \<and> http_Path httpReq = HeartbeatPath
      then Inr (buildAllowedResponse \<lparr>ok_Headers = [],
             ok_ResponseHeadersToAdd = [(PeerLabelsCustomHeader, encodePeerLabels (se_json E) m)]\<rparr>)
      else if http_Method httpReq = ''POST'' \<and> http_Path httpReq = RemotePeerAuthorizationPath
      then Inr (checkAuthorizationRequest E httpReq m)
      else if http_Method httpReq = ''CONNECT'' then checkServiceAccessRequest E httpReq m
      else Inr (buildDeniedResponse Code_INVALID_ARGUMENT 400
             (''No handler defined for '' @ http_Method httpReq @ '' '' @ http_Path httpReq @ ''.'')))"

text \<open>
  \<^verbatim>\<open>Check\<close>: a request with a missing part is an error. \<open>src_Address\<close> is nil, or an address
  with whether it is Envoy-internal.
\<close>

definition Check :: "'s server_env \<Rightarrow> CheckRequest option \<Rightarrow> authz_Manager
    \<Rightarrow> (authz_Manager \<times> (panic + (error + CheckResponse))) option" where
  "Check E req m =
     (let invalid = Some (m, Inr (Inl (Errorf ''invalid check request'')))
      in case req of None \<Rightarrow> invalid
       | Some r \<Rightarrow>
      (case cr_Attributes r of None \<Rightarrow> invalid
       | Some attributes \<Rightarrow>
      (case ac_Source attributes of None \<Rightarrow> invalid
       | Some source \<Rightarrow>
      (case ac_Request attributes of None \<Rightarrow> invalid
       | Some None \<Rightarrow> invalid
       | Some (Some httpReq) \<Rightarrow>
           (case src_Address source of
              Some True \<Rightarrow> map_option (map_prod id (map_sum id Inr)) (checkEgress E httpReq m)
            | _ \<Rightarrow> Some (m, map_sum id Inr (checkIngress E httpReq m)))))))"

subsection \<open>Properties\<close>

definition is_allowed :: "CheckResponse \<Rightarrow> bool" where
  "is_allowed r \<longleftrightarrow> (\<exists>ok. resp_HttpResponse r = OkResponse ok)"

lemma built_allowed [simp]: "is_allowed (buildAllowedResponse ok)" "\<not> is_allowed (buildDeniedResponse c n msg)"
  by (simp_all add: is_allowed_def buildAllowedResponse_def buildDeniedResponse_def)

text \<open>
  C11. A remote peer's request gets through only in three ways: it is a heartbeat; it is an
  authorization request for an export this peer's policies allow, and it gets a token back;
  or it is a CONNECT with a bearer token this peer accepts, and it is routed to the cluster
  the token names. It never changes the manager.
\<close>

theorem ingress_gate:
  assumes "src_Address source \<noteq> Some True"
    and "Check E (Some \<lparr>cr_Attributes = Some \<lparr>ac_Source = Some source, ac_Request = Some (Some req)\<rparr>\<rparr>) m
      = Some (m', Inr (Inr resp))"
    and "is_allowed resp"
  shows "m' = m \<and>
    (http_Method req = ''GET'' \<and> http_Path req = HeartbeatPath
     \<or> (\<exists>a r. http_Method req = ''POST'' \<and> http_Path req = RemotePeerAuthorizationPath
          \<and> UnmarshalAuthz (se_json E) (http_Body req) = Inr a
          \<and> authorizeIngress (ee_K (se_egress E)) (ee_rng (se_egress E)) (ee_client (se_egress E)) (se_state E)
              (se_jwt E) (se_now E) m
              \<lparr>ir_ServiceName = NamespacedName (areq_ServiceNamespace a) (areq_ServiceName a),
               ir_SrcAttributes = areq_SrcAttributes a\<rparr> = Inr r
          \<and> ia_Allowed r
          \<and> resp = buildAllowedResponse \<lparr>ok_Headers = [], ok_ResponseHeadersToAdd = [(AccessTokenHeader, ia_AccessToken r)]\<rparr>)
     \<or> (\<exists>token cluster. http_Method req = ''CONNECT''
          \<and> mget (http_Headers req) AuthorizationHeader = Some (bearerSchemaPrefix @ token)
          \<and> parseAuthorizationHeader (se_jwt E) (se_now E) m token = Inr (Inr cluster)
          \<and> resp = buildAllowedResponse \<lparr>ok_Headers = [(TargetClusterHeader, cluster)], ok_ResponseHeadersToAdd = []\<rparr>))"
proof -
  have Check: "Check E (Some \<lparr>cr_Attributes = Some \<lparr>ac_Source = Some source, ac_Request = Some (Some req)\<rparr>\<rparr>) m =
      Some (m, map_sum id Inr (checkIngress E req m))"
    using assms(1) by (simp add: Check_def split: option.split bool.split)
  with assms(2) have m: "m' = m" by simp
  have ing: "checkIngress E req m = Inr resp"
    using Check assms(2) by (cases "checkIngress E req m") auto
  have bearer: "\<exists>t. a = bearerSchemaPrefix @ t \<and> TrimPrefix a bearerSchemaPrefix = t"
    if "HasPrefix a bearerSchemaPrefix" for a using that by (auto elim!: HasPrefixE)
  show ?thesis using m ing assms(3)
    by (auto simp: checkIngress_def checkAuthorizationRequest_def checkServiceAccessRequest_def Let_def
        dest!: bearer split: if_splits sum.splits option.splits)
qed


text \<open>A peer with a key and an allow-all policy, and the request of a remote peer with a token.\<close>

definition demo_server :: "mem server_env" where
  "demo_server = \<lparr>se_egress = \<lparr>ee_K = ref_apimachinery, ee_rng = rev, ee_client = mem_client,
       ee_state = (\<lambda>_. empty_mem), ee_rnd = (\<lambda>_. 0), ee_peer = (\<lambda>_. grant_env [])\<rparr>,
     se_state = empty_mem,
     se_jwt = \<lparr>jwk_New = (\<lambda>bs. Inr (SymmetricKey bs)), jwt_Build = Inr, jwt_Sign = (\<lambda>_ _. Inl (Errorf ''sign'')),
       jwt_ParseString = (\<lambda>now key s. if s = ''token'' then Inr \<lparr>tok_Expiration = Suc now,
         tok_PrivateClaims = [(ExportNameJWTClaim, ClaimString ''svc''), (ExportNamespaceJWTClaim, ClaimString ''ns'')]\<rparr>
         else Inl (Errorf ''bad signature''))\<rparr>,
     se_json = demo_json, se_now = 0\<rparr>"

definition demo_connect :: HttpRequest where
  "demo_connect = \<lparr>http_Method = ''CONNECT'', http_Path = [], http_Headers = [(AuthorizationHeader, ''Bearer token'')],
     http_Body = []\<rparr>"

definition demo_key_manager :: authz_Manager where
  "demo_key_manager = (authz_NewManager ''sys'' [])\<lparr>am_jwkKey := Some (SymmetricKey [1])\<rparr>"

lemma demo_check:
  "Check demo_server (Some \<lparr>cr_Attributes = Some \<lparr>ac_Source = Some \<lparr>src_Address = None\<rparr>,
      ac_Request = Some (Some demo_connect)\<rparr>\<rparr>) demo_key_manager =
   Some (demo_key_manager, Inr (Inr (buildAllowedResponse
     \<lparr>ok_Headers = [(TargetClusterHeader, ''export-ns/svc'')], ok_ResponseHeadersToAdd = []\<rparr>)))"
  by code_simp

theorem ingress_gate_witness:
  "\<exists>token cluster. mget (http_Headers demo_connect) AuthorizationHeader = Some (bearerSchemaPrefix @ token)
     \<and> parseAuthorizationHeader (se_jwt demo_server) 0 demo_key_manager token = Inr (Inr cluster)"
proof -
  have "http_Method demo_connect = ''CONNECT''" by (simp add: demo_connect_def)
  moreover have "se_now demo_server = 0" by (simp add: demo_server_def)
  ultimately show ?thesis using ingress_gate [OF _ demo_check] by auto
qed

text \<open>
  The labels a peer reports in its heartbeat are the labels the remote peer reads from
  it, over base64 and the header, for a JSON codec that decodes what it encodes.
\<close>

theorem heartbeat_labels_roundtrip:
  assumes "MarshalLabels js (am_peerLabels m) = Inr data" and "UnmarshalLabels js data = Inr (am_peerLabels m)"
    and "checkIngress E \<lparr>http_Method = ''GET'', http_Path = HeartbeatPath, http_Headers = [], http_Body = []\<rparr> m
      = Inr (buildAllowedResponse ok)"
    and "se_json E = js" and "pe_json N = js"
    and "getResponse (pe_arrival N) c (\<lambda>client. jsonapi_Get (pe_http N) client HeartbeatPath) = Inr (Some r)"
    and "resp_Status r = 200"
    and "Header_Get (resp_Headers r) PeerLabelsCustomHeader = sget (ok_ResponseHeadersToAdd ok) PeerLabelsCustomHeader"
  shows "GetHeartbeat N c = Inr (Inr (am_peerLabels m))"
proof -
  have ok: "sget (ok_ResponseHeadersToAdd ok) PeerLabelsCustomHeader = b64_encode (bytes_of data)"
    using assms(1,3,4) by (auto simp: checkIngress_def buildAllowedResponse_def encodePeerLabels_def sget_def)
  have "b64_decode (b64_encode (bytes_of data)) = Some (bytes_of data)"
    by (rule b64_decode_encode) (auto simp: bytes_of_def of_char_def)
  moreover have "bytes_to_string (bytes_of data) = data"
    by (simp add: bytes_to_string_def bytes_of_def)
  ultimately show ?thesis using assms(2,5-8) ok by (simp add: GetHeartbeat_def)
qed


text \<open>A codec that knows one set of labels, and a network that carries the heartbeat's header.\<close>

definition demo_labels_json :: json_codec where
  "demo_labels_json = demo_json\<lparr>MarshalLabels := (\<lambda>_. Inr ''{''), UnmarshalLabels := (\<lambda>_. Inr [(''zone'', ''eu'')])\<rparr>"

definition heartbeat_env :: "string \<Rightarrow> peer_env" where
  "heartbeat_env v = \<lparr>pe_http = \<lparr>env_NewRequest = (\<lambda>_ _. None),
       env_Do = (\<lambda>_ _ _. Inr \<lparr>hr_StatusCode = 200, hr_Header = [(''clusterlinkpeerlabels'', v)], hr_Body = Inr []\<rparr>)\<rparr>,
     pe_arrival = (\<lambda>xs. xs), pe_json = demo_labels_json\<rparr>"

lemma Header_Get_labels: "Header_Get [(''clusterlinkpeerlabels'', v)] PeerLabelsCustomHeader = v"
proof -
  have "map to_lower PeerLabelsCustomHeader = ''clusterlinkpeerlabels''" by code_simp
  then show ?thesis by (simp add: Header_Get_def sget_def)
qed

lemma demo_labels_json_simps:
  "MarshalLabels demo_labels_json ls = Inr ''{''" "UnmarshalLabels demo_labels_json d = Inr [(''zone'', ''eu'')]"
  by (simp_all add: demo_labels_json_def)

theorem heartbeat_labels_roundtrip_witness:
  "GetHeartbeat (heartbeat_env (encodePeerLabels demo_labels_json (authz_NewManager ''sys'' [(''zone'', ''eu'')])))
     (NewClient (demo_peer ''p'' [''h'']) (ClientConfig demo_cert ''p'')) = Inr (Inr [(''zone'', ''eu'')])"
proof -
  let ?m = "authz_NewManager ''sys'' [(''zone'', ''eu'')]"
  let ?v = "encodePeerLabels demo_labels_json ?m"
  let ?ok = "\<lparr>ok_Headers = [], ok_ResponseHeadersToAdd = [(PeerLabelsCustomHeader, ?v)]\<rparr>"
  let ?r = "\<lparr>resp_Status = 200, resp_Headers = [(''clusterlinkpeerlabels'', ?v)], resp_Body = []\<rparr>"
  have l: "am_peerLabels ?m = [(''zone'', ''eu'')]" by (simp add: authz_NewManager_def)
  have "GetHeartbeat (heartbeat_env ?v) (NewClient (demo_peer ''p'' [''h'']) (ClientConfig demo_cert ''p''))
      = Inr (Inr (am_peerLabels ?m))"
  proof (rule heartbeat_labels_roundtrip [where js = demo_labels_json and ok = ?ok and r = ?r
        and E = "demo_server\<lparr>se_json := demo_labels_json\<rparr>" and data = "''{''"])
    show "getResponse (pe_arrival (heartbeat_env ?v)) (NewClient (demo_peer ''p'' [''h'']) (ClientConfig demo_cert ''p''))
        (\<lambda>client. jsonapi_Get (pe_http (heartbeat_env ?v)) client HeartbeatPath) = Inr (Some ?r)"
      by (simp add: getResponse_def NewClient_def demo_peer_def jsonapi_Get_def jsonapi_do_def heartbeat_env_def)
  qed (simp_all add: demo_labels_json_simps l checkIngress_def Header_Get_labels sget_def heartbeat_env_def)
  then show ?thesis by (simp add: l)
qed

end
