(* ===== verification/Ports.thy ===== *)
theory Ports
  imports Types
begin

text \<open>
  \<^verbatim>\<open>src/pkg/controlplane/control/port.go\<close>: the manager that leases a listening port to every
  import. The state is the pair of maps of \<^verbatim>\<open>portManager\<close>; the results of \<^verbatim>\<open>rand.Intn\<close> are an
  argument \<open>rnd\<close> (the i-th call in one allocation returns \<open>rnd i\<close>). The interface the control
  manager relies on is the locale \<open>port_allocator\<close>, interpreted on the manager's own
  operations.
\<close>

definition startPort :: uint16 where "startPort = 1024"
definition endPort :: uint16 where "endPort = 49152"
definition portCount :: uint16 where "portCount = endPort - startPort"
definition maxRandomTries :: nat where "maxRandomTries = 40"

record portManager =
  leasesByPort :: "(uint16, NamespacedName) gomap"
  leasesByName :: "(NamespacedName, uint16) gomap"

definition newPortManager :: portManager where
  "newPortManager = \<lparr>leasesByPort = [], leasesByName = []\<rparr>"

text \<open>
  The first loop of \<^verbatim>\<open>getRandomFreePort\<close>. Its body declares a new variable \<^verbatim>\<open>port\<close>, so the
  outer one is still 0 when the second loop starts from it.
\<close>

definition randomPort :: "(nat \<Rightarrow> nat) \<Rightarrow> nat \<Rightarrow> uint16" where
  "randomPort rnd i = startPort + word_of_nat (rnd i)"

definition tryRandomPorts :: "(nat \<Rightarrow> nat) \<Rightarrow> portManager \<Rightarrow> uint16 option" where
  "tryRandomPorts rnd m =
     List.find (\<lambda>p. mget (leasesByPort m) p = None) (map (randomPort rnd) [0..<maxRandomTries])"

fun scanPorts :: "nat \<Rightarrow> uint16 \<Rightarrow> (uint16, NamespacedName) gomap \<Rightarrow> uint16" where
  "scanPorts 0 port l = port"
| "scanPorts (Suc k) port l =
     (let port' = port + 1; port'' = (if port' = endPort then startPort else port')
      in if mget l port'' = None then port'' else scanPorts k port'' l)"

definition getRandomFreePort :: "(nat \<Rightarrow> nat) \<Rightarrow> portManager \<Rightarrow> uint16" where
  "getRandomFreePort rnd m =
     (case tryRandomPorts rnd m of
        Some port \<Rightarrow> port
      | None \<Rightarrow> scanPorts (unat (portCount - 2)) 0 (leasesByPort m))"

text \<open>The common tail of both lease functions: free the old port, record the new one.\<close>

definition recordLease :: "NamespacedName \<Rightarrow> uint16 \<Rightarrow> portManager \<Rightarrow> portManager" where
  "recordLease name port m =
     (let byPort = (case mget (leasesByName m) name of
                      Some oldPort \<Rightarrow> mdel oldPort (leasesByPort m)
                    | None \<Rightarrow> leasesByPort m)
      in m\<lparr>leasesByPort := mput port name byPort, leasesByName := mput name port (leasesByName m)\<rparr>)"

definition leaseWithRandomPort ::
    "(nat \<Rightarrow> nat) \<Rightarrow> NamespacedName \<Rightarrow> portManager \<Rightarrow> portManager \<times> (error + uint16)" where
  "leaseWithRandomPort rnd name m =
     (if length (leasesByPort m) = unat portCount then (m, Inl (Errorf ''all ports are taken''))
      else let port = (case mget (leasesByName m) name of Some p \<Rightarrow> p | None \<Rightarrow> 0)
           in if port \<noteq> 0 then (m, Inr port)
              else let port = getRandomFreePort rnd m in (recordLease name port m, Inr port))"

definition leaseWithSpecificPort ::
    "NamespacedName \<Rightarrow> uint16 \<Rightarrow> portManager \<Rightarrow> portManager \<times> (error + uint16)" where
  "leaseWithSpecificPort name port m =
     (case mget (leasesByPort m) port of
        Some leaseName \<Rightarrow>
          (if leaseName \<noteq> name then (m, Inl (conflictingTargetPortError port leaseName))
           else (recordLease name port m, Inr port))
      | None \<Rightarrow> (recordLease name port m, Inr port))"

definition Lease ::
    "(nat \<Rightarrow> nat) \<Rightarrow> NamespacedName \<Rightarrow> uint16 \<Rightarrow> portManager \<Rightarrow> portManager \<times> (error + uint16)" where
  "Lease rnd name port m =
     (if port = 0 then leaseWithRandomPort rnd name m else leaseWithSpecificPort name port m)"

definition Release :: "NamespacedName \<Rightarrow> portManager \<Rightarrow> portManager" where
  "Release name m =
     (case mget (leasesByName m) name of
        Some port \<Rightarrow> m\<lparr>leasesByName := mdel name (leasesByName m),
                       leasesByPort := mdel port (leasesByPort m)\<rparr>
      | None \<Rightarrow> m)"

subsection \<open>The interface of a port allocator\<close>

text \<open>
  \<open>admissible r s n p\<close> says when a request is one the allocator promises to serve
  correctly (for the port manager: the random source is in range and the table has room).
\<close>

locale port_allocator =
  fixes new :: 'st
    and lease :: "'r \<Rightarrow> 'n \<Rightarrow> 'p \<Rightarrow> 'st \<Rightarrow> 'st \<times> ('e + 'p)"
    and release :: "'n \<Rightarrow> 'st \<Rightarrow> 'st"
    and port_of :: "'st \<Rightarrow> 'n \<Rightarrow> 'p option"
    and owner :: "'st \<Rightarrow> 'p \<Rightarrow> 'n option"
    and invar :: "'st \<Rightarrow> bool"
    and admissible :: "'r \<Rightarrow> 'n \<Rightarrow> 'p \<Rightarrow> 'st \<Rightarrow> bool"
  assumes invar_new: "invar new"
    and new_free: "port_of new n = None"
    and owner_iff: "invar s \<Longrightarrow> owner s p = Some n \<longleftrightarrow> port_of s n = Some p"
    and lease_invar: "invar s \<Longrightarrow> admissible r n p s \<Longrightarrow> invar (fst (lease r n p s))"
    and lease_Inr: "invar s \<Longrightarrow> admissible r n p s \<Longrightarrow> lease r n p s = (s', Inr q) \<Longrightarrow>
      port_of s' m = (if m = n then Some q else port_of s m)"
    and lease_Inl: "lease r n p s = (s', Inl e) \<Longrightarrow> s' = s"
    and release_invar: "invar s \<Longrightarrow> invar (release n s)"
    and port_of_release: "invar s \<Longrightarrow> port_of (release n s) m = (if m = n then None else port_of s m)"
begin

inductive reach :: "'st \<Rightarrow> bool" where
  reach_new: "reach new"
| reach_lease: "reach s \<Longrightarrow> admissible r n p s \<Longrightarrow> reach (fst (lease r n p s))"
| reach_release: "reach s \<Longrightarrow> reach (release n s)"

lemma reach_invar: "reach s \<Longrightarrow> invar s"
  by (induction rule: reach.induct) (auto intro: invar_new lease_invar release_invar)

lemma reach_exclusive:
  assumes "reach s" and "port_of s n = Some p" and "port_of s m = Some p"
  shows "n = m"
  using assms reach_invar by (metis option.inject owner_iff)

lemma lease_keeps_others:
  assumes "invar s" and "admissible r n p s" and "m \<noteq> n"
  shows "port_of (fst (lease r n p s)) m = port_of s m"
proof (cases "snd (lease r n p s)")
  case (Inl e)
  then show ?thesis using lease_Inl by (metis prod.collapse)
next
  case (Inr q)
  then show ?thesis using lease_Inr assms by (metis prod.collapse)
qed

lemma lease_release:
  assumes "invar s" and "admissible r n p s" and "port_of s n = None"
  shows "port_of (release n (fst (lease r n p s))) = port_of s"
proof
  fix m
  show "port_of (release n (fst (lease r n p s))) m = port_of s m"
    using assms lease_keeps_others port_of_release [OF lease_invar] by (cases "m = n") auto
qed

end

subsection \<open>Lemmas on the scan\<close>

lemma unat_endPort [simp]: "unat endPort = 49152"
  by (simp add: endPort_def)

lemma unat_portCount [simp]: "unat portCount = 48128" "unat (portCount - 2) = 48126"
  by (simp_all add: portCount_def endPort_def startPort_def)

lemma scan_step:
  assumes "unat (port :: uint16) + 1 < 49152"
  shows "port + 1 \<noteq> endPort" and "unat (port + 1) = unat port + 1"
proof -
  show eq: "unat (port + 1) = unat port + 1"
    using assms by (simp add: unat_word_ariths)
  with assms show "port + 1 \<noteq> endPort"
    by (metis less_irrefl unat_endPort)
qed

lemma scanPorts_spec:
  assumes "unat port + k < 49152"
  shows "unat port \<le> unat (scanPorts k port l) \<and> unat (scanPorts k port l) \<le> unat port + k
    \<and> (0 < k \<longrightarrow> unat port < unat (scanPorts k port l))
    \<and> (mget l (scanPorts k port l) = None
       \<or> (\<forall>j. unat port < j \<and> j \<le> unat port + k \<longrightarrow> mget l (word_of_nat j) \<noteq> None))"
  using assms
proof (induction k arbitrary: port)
  case (Suc k)
  note step = scan_step [of port]
  from Suc.prems have ne: "port + 1 \<noteq> endPort" and un: "unat (port + 1) = unat port + 1"
    using step by auto
  show ?case
  proof (cases "mget l (port + 1)")
    case None
    then show ?thesis using ne un by (simp add: Let_def)
  next
    case (Some n)
    have w: "mget l (word_of_nat (Suc (unat port))) = Some n"
      using Some un by (metis Suc_eq_plus1 of_nat_unat ucast_id)
    have "unat (port + 1) + k < 49152" using Suc.prems un by simp
    note IH = Suc.IH [OF this]
    have s: "scanPorts (Suc k) port l = scanPorts k (port + 1) l"
      using ne Some by (simp add: Let_def)
    have all: "\<forall>j. unat port < j \<and> j \<le> unat port + Suc k \<longrightarrow> mget l (word_of_nat j) \<noteq> None"
      if "\<forall>j. unat (port + 1) < j \<and> j \<le> unat (port + 1) + k \<longrightarrow> mget l (word_of_nat j) \<noteq> None"
    proof (intro allI impI)
      fix j assume "unat port < j \<and> j \<le> unat port + Suc k"
      then show "mget l (word_of_nat j) \<noteq> None"
        using that w un by (cases "j = Suc (unat port)") auto
    qed
    show ?thesis using IH un all unfolding s by auto
  qed
qed auto

text \<open>A table with fewer entries than there are ports in the scanned interval has a free one.\<close>

lemma occupied_interval_size:
  assumes "\<forall>j. 0 < j \<and> j \<le> n \<longrightarrow> mget l (word_of_nat j :: uint16) \<noteq> None" and "n < 65536"
  shows "n \<le> length l"
proof -
  have inj: "inj_on (word_of_nat :: nat \<Rightarrow> uint16) {1..n}"
  proof (rule inj_onI)
    fix x y :: nat
    assume "x \<in> {1..n}" and "y \<in> {1..n}" and "(word_of_nat x :: uint16) = word_of_nat y"
    then have "unat (word_of_nat x :: uint16) = unat (word_of_nat y :: uint16)"
      and "x < 65536" and "y < 65536" using assms(2) by auto
    then show "x = y" by (simp add: unat_of_nat)
  qed
  have "word_of_nat ` {1..n} \<subseteq> set (map fst l)"
  proof
    fix w :: uint16 assume "w \<in> word_of_nat ` {1..n}"
    then have "mget l w \<noteq> None" using assms(1) by auto
    then show "w \<in> set (map fst l)" by (metis list.set_map map_of_eq_None_iff)
  qed
  then have "card (word_of_nat ` {1..n} :: uint16 set) \<le> card (set (map fst l))"
    by (intro card_mono) auto
  also have "\<dots> \<le> length l" by (metis card_length length_map)
  finally show ?thesis using card_image [OF inj] by simp
qed

lemma tryRandomPorts_Some:
  assumes "tryRandomPorts rnd m = Some p" and "\<forall>i. rnd i < 48128"
  shows "mget (leasesByPort m) p = None" and "1024 \<le> unat p" and "unat p < 49152"
proof -
  from assms(1) obtain i where p: "p = randomPort rnd i" and free: "mget (leasesByPort m) p = None"
    by (auto simp: tryRandomPorts_def find_Some_iff)
  show "mget (leasesByPort m) p = None" by (fact free)
  have "unat p = (1024 + rnd i) mod 65536"
    by (simp add: p randomPort_def startPort_def unat_word_ariths unat_of_nat mod_simps)
  moreover have "rnd i < 48128" using assms(2) by simp
  ultimately show "1024 \<le> unat p" and "unat p < 49152" by simp_all
qed

lemma getRandomFreePort_free:
  assumes "\<forall>i. rnd i < 48128" and "length (leasesByPort m) < 48126"
  shows "mget (leasesByPort m) (getRandomFreePort rnd m) = None"
    and "0 < unat (getRandomFreePort rnd m)" and "unat (getRandomFreePort rnd m) < 49152"
proof -
  let ?q = "scanPorts 48126 0 (leasesByPort m)"
  have scan: "0 < unat ?q \<and> unat ?q \<le> 48126 \<and> mget (leasesByPort m) ?q = None"
  proof -
    have "mget (leasesByPort m) ?q = None \<or>
      (\<forall>j. 0 < j \<and> j \<le> 48126 \<longrightarrow> mget (leasesByPort m) (word_of_nat j) \<noteq> None)"
      and "unat ?q \<le> 48126" and "0 < unat ?q"
      using scanPorts_spec [of 0 48126 "leasesByPort m"] by auto
    then show ?thesis using occupied_interval_size [of 48126 "leasesByPort m"] assms(2) by auto
  qed
  show "mget (leasesByPort m) (getRandomFreePort rnd m) = None"
    and "0 < unat (getRandomFreePort rnd m)" and "unat (getRandomFreePort rnd m) < 49152"
    using scan tryRandomPorts_Some [OF _ assms(1)]
    by (fastforce simp: getRandomFreePort_def split: option.splits)+
qed

subsection \<open>The invariant of the two maps\<close>

definition ports_inv :: "portManager \<Rightarrow> bool" where
  "ports_inv m \<longleftrightarrow> mwf (leasesByPort m) \<and> mwf (leasesByName m)
     \<and> (\<forall>n p. mget (leasesByName m) n = Some p \<longleftrightarrow> mget (leasesByPort m) p = Some n)
     \<and> mget (leasesByPort m) 0 = None"

definition lease_admissible :: "(nat \<Rightarrow> nat) \<Rightarrow> NamespacedName \<Rightarrow> uint16 \<Rightarrow> portManager \<Rightarrow> bool" where
  "lease_admissible rnd n p m \<longleftrightarrow>
     (p = 0 \<longrightarrow> (\<forall>i. rnd i < 48128) \<and> length (leasesByPort m) < 48126)"

lemma ports_inv_iff:
  "ports_inv m \<Longrightarrow> mget (leasesByPort m) p = Some n \<longleftrightarrow> mget (leasesByName m) n = Some p"
  by (simp add: ports_inv_def)

lemma ports_inv_unique:
  "ports_inv m \<Longrightarrow> mget (leasesByName m) a = Some p \<Longrightarrow> mget (leasesByName m) b = Some p \<Longrightarrow> a = b"
  by (metis option.inject ports_inv_iff)

lemma ports_inv_free:
  "ports_inv m \<Longrightarrow> mget (leasesByPort m) p = None \<Longrightarrow> mget (leasesByName m) a \<noteq> Some p"
  by (metis option.distinct(1) ports_inv_iff)

lemma recordLease_inv:
  assumes "ports_inv m" and "p \<noteq> 0"
    and "mget (leasesByPort m) p = None \<or> mget (leasesByPort m) p = Some n"
  shows "ports_inv (recordLease n p m)"
proof -
  note iff = ports_inv_iff [OF assms(1)]
  have wf: "mwf (leasesByPort m)" "mwf (leasesByName m)" "mget (leasesByPort m) 0 = None"
    using assms(1) by (simp_all add: ports_inv_def)
  show ?thesis unfolding ports_inv_def
  proof (intro conjI allI)
    fix k q
    show "(mget (leasesByName (recordLease n p m)) k = Some q)
      = (mget (leasesByPort (recordLease n p m)) q = Some k)"
      using assms(3) by (auto simp: recordLease_def Let_def iff split: option.splits
          dest: ports_inv_unique [OF assms(1)] ports_inv_free [OF assms(1)])
  qed (use wf assms(2) in \<open>auto simp: recordLease_def Let_def split: option.splits\<close>)
qed

lemma Release_inv:
  assumes "ports_inv m"
  shows "ports_inv (Release n m)"
  unfolding ports_inv_def
proof (intro conjI allI)
  fix k q
  show "(mget (leasesByName (Release n m)) k = Some q) = (mget (leasesByPort (Release n m)) q = Some k)"
    by (auto simp: Release_def ports_inv_iff [OF assms] split: option.splits
        dest: ports_inv_unique [OF assms])
qed (use assms in \<open>auto simp: ports_inv_def Release_def split: option.splits\<close>)

lemma leasesByName_recordLease [simp]:
  "mget (leasesByName (recordLease n p m)) k = (if k = n then Some p else mget (leasesByName m) k)"
  by (simp add: recordLease_def Let_def)

lemma leasesByName_Release [simp]:
  "mget (leasesByName (Release n m)) k = (if k = n then None else mget (leasesByName m) k)"
  by (simp add: Release_def split: option.split)

lemma Lease_inv:
  assumes "ports_inv m" and "lease_admissible rnd n p m"
  shows "ports_inv (fst (Lease rnd n p m))"
proof (cases "p = 0")
  case True
  with assms(2) have "mget (leasesByPort m) (getRandomFreePort rnd m) = None"
    and "0 < unat (getRandomFreePort rnd m)"
    using getRandomFreePort_free [of rnd m] by (auto simp: lease_admissible_def)
  moreover from this have "getRandomFreePort rnd m \<noteq> 0" by auto
  ultimately show ?thesis
    using True assms(1) by (simp add: Lease_def leaseWithRandomPort_def Let_def recordLease_inv)
next
  case False
  with assms(1) show ?thesis
    by (auto simp: Lease_def leaseWithSpecificPort_def recordLease_inv split: option.split)
qed

lemma Lease_Inr:
  assumes "ports_inv m" and "Lease rnd n p m = (m', Inr q)"
  shows "mget (leasesByName m') k = (if k = n then Some q else mget (leasesByName m) k)"
  using assms
  by (auto simp: Lease_def leaseWithRandomPort_def leaseWithSpecificPort_def Let_def
        split: if_splits option.splits)

lemma Lease_Inl: "Lease rnd n p m = (m', Inl e) \<Longrightarrow> m' = m"
  by (auto simp: Lease_def leaseWithRandomPort_def leaseWithSpecificPort_def Let_def
        split: if_splits option.splits)

interpretation pm: port_allocator newPortManager Lease Release
  "\<lambda>m. mget (leasesByName m)" "\<lambda>m. mget (leasesByPort m)" ports_inv lease_admissible
proof unfold_locales
  show "ports_inv newPortManager"
    by (simp add: ports_inv_def newPortManager_def)
next
  fix m n p assume "ports_inv m"
  then show "mget (leasesByPort m) p = Some n \<longleftrightarrow> mget (leasesByName m) n = Some p"
    by (simp add: ports_inv_def)
qed (auto simp: newPortManager_def Lease_inv Lease_Inr Release_inv dest: Lease_Inl)

text \<open>
  Every state the manager can reach by leases and releases. Random leases are counted in
  while the table holds fewer than 48126 entries, the length of the scanned interval.
\<close>

inductive ports_reachable :: "portManager \<Rightarrow> bool" where
  ports_new: "ports_reachable newPortManager"
| ports_lease: "ports_reachable m \<Longrightarrow> lease_admissible rnd n p m \<Longrightarrow>
    ports_reachable (fst (Lease rnd n p m))"
| ports_release: "ports_reachable m \<Longrightarrow> ports_reachable (Release n m)"

lemma ports_reachable_reach: "ports_reachable m \<Longrightarrow> pm.reach m"
  by (induction rule: ports_reachable.induct) (auto intro: pm.reach.intros)

lemma ports_reachable_inv: "ports_reachable m \<Longrightarrow> ports_inv m"
  by (blast intro: pm.reach_invar ports_reachable_reach)

subsection \<open>Properties\<close>

text \<open>
  In every state the port manager can reach through leases and releases, two imports
  that hold a lease on the same port are the same import.
\<close>

theorem ports_exclusive:
  assumes "ports_reachable m" and "mget (leasesByName m) n1 = Some p"
    and "mget (leasesByName m) n2 = Some p"
  shows "n1 = n2"
  using assms by (blast intro: pm.reach_exclusive ports_reachable_reach)

theorem ports_exclusive_witness:
  "mget (leasesByName (fst (Lease (\<lambda>_. 0) (NamespacedName ''ns'' ''a'') 8080 newPortManager)))
     (NamespacedName ''ns'' ''a'') = Some 8080
   \<and> NamespacedName ''ns'' ''a'' = NamespacedName ''ns'' ''a''"
proof -
  let ?n = "NamespacedName ''ns'' ''a''"
  let ?m = "fst (Lease (\<lambda>_. 0) ?n 8080 newPortManager)"
  have r: "ports_reachable ?m"
    by (rule ports_lease [OF ports_new]) (simp add: lease_admissible_def)
  have l: "mget (leasesByName ?m) ?n = Some 8080"
    by (simp add: Lease_def leaseWithSpecificPort_def newPortManager_def)
  show ?thesis using ports_exclusive [OF r l l] l by simp
qed

text \<open>
  What a successful \<^verbatim>\<open>Lease\<close> does, in a state with the invariant: the returned port is
  the requested one if one was requested, it is not 0, no other import held it before, it is
  recorded for the import, and no other import's lease changes.
\<close>

theorem Lease_correct:
  assumes "ports_inv m" and "lease_admissible rnd n p m" and "Lease rnd n p m = (m', Inr q)"
  shows "(p \<noteq> 0 \<longrightarrow> q = p) \<and> q \<noteq> 0
    \<and> (mget (leasesByPort m) q = None \<or> mget (leasesByPort m) q = Some n)
    \<and> mget (leasesByName m') n = Some q
    \<and> (\<forall>k. k \<noteq> n \<longrightarrow> mget (leasesByName m') k = mget (leasesByName m) k)
    \<and> ports_inv m'"
proof -
  have inv: "ports_inv m'" using pm.lease_invar [OF assms(1,2)] assms(3) by simp
  have names: "mget (leasesByName m') k = (if k = n then Some q else mget (leasesByName m) k)" for k
    using pm.lease_Inr [OF assms] .
  have "mget (leasesByPort m') q = Some n" using inv names [of n] by (simp add: ports_inv_def)
  then have nz: "q \<noteq> 0" using inv by (auto simp: ports_inv_def)
  have free: "mget (leasesByPort m) q = None \<or> mget (leasesByPort m) q = Some n"
    using assms getRandomFreePort_free(1) [of rnd m]
    by (auto simp: Lease_def leaseWithRandomPort_def leaseWithSpecificPort_def Let_def
          lease_admissible_def ports_inv_def split: if_splits option.splits)
  have "p \<noteq> 0 \<longrightarrow> q = p"
    using assms(3) by (auto simp: Lease_def leaseWithSpecificPort_def split: option.splits if_splits)
  with inv names nz free show ?thesis by simp
qed

theorem Lease_correct_witness:
  "mget (leasesByName (fst (Lease (\<lambda>_. 7) (NamespacedName ''ns'' ''a'') 0 newPortManager)))
     (NamespacedName ''ns'' ''a'') = Some 1031"
proof -
  let ?n = "NamespacedName ''ns'' ''a''"
  have inv: "ports_inv newPortManager" by (rule pm.invar_new)
  have adm: "lease_admissible (\<lambda>_. 7) ?n 0 newPortManager"
    by (simp add: lease_admissible_def newPortManager_def)
  have "getRandomFreePort (\<lambda>_. 7) newPortManager = 1031"
    by (simp add: getRandomFreePort_def tryRandomPorts_def maxRandomTries_def newPortManager_def
          randomPort_def startPort_def upt_conv_Cons)
  then have "Lease (\<lambda>_. 7) ?n 0 newPortManager = (recordLease ?n 1031 newPortManager, Inr 1031)"
    by (simp add: Lease_def leaseWithRandomPort_def newPortManager_def Let_def)
  from Lease_correct [OF inv adm this] this show ?thesis by simp
qed

lemma scanPorts_first: "0 < k \<Longrightarrow> mget l 1 = None \<Longrightarrow> scanPorts k 0 l = 1"
  by (cases k) (simp_all add: Let_def endPort_def)

text \<open>
  C40. When the random tries find no free port, the scan of \<^verbatim>\<open>getRandomFreePort\<close> starts at port
  1 and not at a random offset of the port range, so as long as nobody leases port 1 the
  function returns port 1, below \<^verbatim>\<open>startPort\<close>, whatever the range from \<^verbatim>\<open>startPort\<close> to
  \<^verbatim>\<open>endPort\<close> holds.
\<close>

theorem getRandomFreePort_scan_below_range:
  assumes "tryRandomPorts rnd m = None" and "mget (leasesByPort m) 1 = None"
  shows "getRandomFreePort rnd m = 1 \<and> getRandomFreePort rnd m < startPort"
  using assms scanPorts_first [of "48126" "leasesByPort m"]
  by (simp add: getRandomFreePort_def startPort_def)

theorem getRandomFreePort_scan_below_range_witness:
  "getRandomFreePort (\<lambda>_. 0) (recordLease (NamespacedName ''ns'' ''a'') 1024 newPortManager) = 1"
proof -
  let ?m = "recordLease (NamespacedName ''ns'' ''a'') 1024 newPortManager"
  have "tryRandomPorts (\<lambda>_. 0) ?m = None"
    by (auto simp: tryRandomPorts_def find_None_iff randomPort_def startPort_def recordLease_def
          newPortManager_def)
  moreover have "mget (leasesByPort ?m) 1 = None"
    by (simp add: recordLease_def newPortManager_def)
  ultimately show ?thesis using getRandomFreePort_scan_below_range by blast
qed

end
