(* ===== verification/Control.thy ===== *)
theory Control
  imports Names K8s Ports
begin

text \<open>
  The control manager, \<^verbatim>\<open>src/pkg/controlplane/control/manager.go\<close>: it leases a listening port
  to each import, keeps the Kubernetes services and endpoint slices of imports, checks
  exports, and keeps the JWK secret. The state \<open>'s control\<close> is the manager's own state and the
  API server state it reads and writes through the client.

  A handler returns the error controller-runtime gets: \<open>Retry\<close> is a plain error, \<open>Terminal\<close>
  one wrapped by \<^verbatim>\<open>reconcile.TerminalError\<close>, which is not retried.
\<close>

definition AppName :: string where "AppName = ''clusterlink.net''"
definition LabelManagedBy :: string where "LabelManagedBy = ''app.kubernetes.io/managed-by''"
definition LabelImportName :: string where "LabelImportName = ''clusterlink.net/import-name''"
definition LabelImportNamespace :: string where "LabelImportNamespace = ''clusterlink.net/import-namespace''"
definition LabelDPEndpointSliceName :: string where
  "LabelDPEndpointSliceName = ''clusterlink.net/dataplane-endpointslice-name''"
definition disc_LabelServiceName :: string where "disc_LabelServiceName = ''kubernetes.io/service-name''"
definition disc_LabelManagedBy :: string where "disc_LabelManagedBy = ''endpointslice.kubernetes.io/managed-by''"
definition IngressSvcName :: string where "IngressSvcName = ''clusterlink''"
definition dataplane_Name :: string where "dataplane_Name = ''cl-dataplane''"

datatype handler_error = Retry error | Terminal error

record 's control =
  c_namespace :: string
  c_ports :: portManager
  c_serviceToImport :: "(string, NamespacedName) gomap"
  c_api :: 's

record 's control_env =
  ce_K :: apimachinery
  ce_client :: "'s k8s_client"
  ce_rnd :: "nat \<Rightarrow> nat"
  ce_randRead :: "error + nat list"

definition control_NewManager :: "string \<Rightarrow> 's \<Rightarrow> 's control" where
  "control_NewManager namespace s = \<lparr>c_namespace = namespace, c_ports = newPortManager,
     c_serviceToImport = [], c_api = s\<rparr>"

text \<open>A write through the client.\<close>

definition api_write :: "('s \<Rightarrow> 's \<times> api_error option) \<Rightarrow> 's control \<Rightarrow> 's control \<times> error option" where
  "api_write f c = (let (s', e) = f (c_api c) in (c\<lparr>c_api := s'\<rparr>, map_option api e))"

subsection \<open>Comparisons\<close>

definition checkServiceLabels :: "Service \<Rightarrow> NamespacedName \<Rightarrow> bool" where
  "checkServiceLabels service importName =
     (let ls = om_Labels (svc_Meta service)
      in if mget ls LabelManagedBy \<noteq> Some AppName then False
         else if mget ls LabelImportName \<noteq> Some (nn_Name importName) then False
         else if mget ls LabelImportNamespace \<noteq> Some (nn_Namespace importName) then False
         else True)"

definition serviceChanged :: "Service \<Rightarrow> Service \<Rightarrow> bool" where
  "serviceChanged svc1 svc2 =
     (let s1 = svc_Spec svc1; s2 = svc_Spec svc2
      in if ss_Type s1 \<noteq> ss_Type s2 then True
         else if ss_ExternalName s1 \<noteq> ss_ExternalName s2 then True
         else if length (ss_Selector s1) \<noteq> length (ss_Selector s2) then True
         else if list_ex (\<lambda>(key, value1). mget (ss_Selector s2) key \<noteq> Some value1) (ss_Selector s1) then True
         else if length (ss_Ports s1) \<noteq> length (ss_Ports s2) then True
         else list_ex (\<lambda>(p1, p2). sp_Protocol p1 \<noteq> sp_Protocol p2 \<or> sp_Port p1 \<noteq> sp_Port p2
                \<or> sp_TargetPort p1 \<noteq> sp_TargetPort p2) (zip (ss_Ports s1) (ss_Ports s2)))"

definition conditionChanged :: "apimachinery \<Rightarrow> Condition list \<Rightarrow> Condition \<Rightarrow> bool" where
  "conditionChanged K conditions cond =
     (case FindStatusCondition K conditions (cond_Type cond) of
        None \<Rightarrow> True
      | Some oldCond \<Rightarrow>
          if cond_Status oldCond \<noteq> cond_Status cond then True
          else if cond_Reason oldCond \<noteq> cond_Reason cond then True
          else cond_Message oldCond \<noteq> cond_Message cond)"

definition boolPointerChanged :: "bool option \<Rightarrow> bool option \<Rightarrow> bool" where
  "boolPointerChanged bool1 bool2 =
     (case bool1 of
        Some b1 \<Rightarrow> (case bool2 of None \<Rightarrow> True | Some b2 \<Rightarrow> b1 \<noteq> b2)
      | None \<Rightarrow> bool2 \<noteq> None)"

definition endpointChanged :: "SliceEndpoint \<Rightarrow> SliceEndpoint \<Rightarrow> bool" where
  "endpointChanged e1 e2 =
     (if length (se_Addresses e1) \<noteq> length (se_Addresses e2) then True
      else if list_ex (\<lambda>(a1, a2). a1 \<noteq> a2) (zip (se_Addresses e1) (se_Addresses e2)) then True
      else if boolPointerChanged (ec_Ready (se_Conditions e1)) (ec_Ready (se_Conditions e2)) then True
      else if boolPointerChanged (ec_Serving (se_Conditions e1)) (ec_Serving (se_Conditions e2)) then True
      else boolPointerChanged (ec_Terminating (se_Conditions e1)) (ec_Terminating (se_Conditions e2)))"

definition endpointSliceChanged :: "EndpointSlice \<Rightarrow> EndpointSlice \<Rightarrow> bool" where
  "endpointSliceChanged es1 es2 =
     (if es_AddressType es1 \<noteq> es_AddressType es2 then True
      else if \<not> maps_equal (om_Labels (es_Meta es1)) (om_Labels (es_Meta es2)) then True
      else if length (es_Endpoints es1) \<noteq> length (es_Endpoints es2) then True
      else list_ex (\<lambda>(e1, e2). endpointChanged e1 e2) (zip (es_Endpoints es1) (es_Endpoints es2)))"

subsection \<open>Ports and services of an import\<close>

text \<open>\<^verbatim>\<open>allocateTargetPort\<close> writes the leased port into the import it is given.\<close>

definition allocateTargetPort ::
    "'s control_env \<Rightarrow> Import \<Rightarrow> 's control \<Rightarrow> Import \<times> 's control \<times> error option" where
  "allocateTargetPort E imp c =
     (let name = NamespacedName (imp_Namespace imp) (imp_Name imp)
      in case Lease (ce_rnd E) name (imp_TargetPort (imp_Spec imp)) (c_ports c) of
           (ports, Inl err) \<Rightarrow>
             (imp, c\<lparr>c_ports := ports\<rparr>, Some (Wrapf ''cannot generate listening port: '' err))
         | (ports, Inr leasedPort) \<Rightarrow>
             let c = c\<lparr>c_ports := ports\<rparr>
             in if imp_TargetPort (imp_Spec imp) = 0
                then let imp = imp\<lparr>imp_Spec := (imp_Spec imp)\<lparr>imp_TargetPort := leasedPort\<rparr>\<rparr>
                     in case api_write (k_Update (cl_Import (ce_client E)) imp) c of
                          (c, Some err) \<Rightarrow> (imp, c\<lparr>c_ports := Release name (c_ports c)\<rparr>, Some err)
                        | (c, None) \<Rightarrow> (imp, c, None)
                else (imp, c, None))"

definition withImportLabels :: "Import \<Rightarrow> Service \<Rightarrow> Service" where
  "withImportLabels imp service = service\<lparr>svc_Meta := (svc_Meta service)\<lparr>om_Labels :=
     mput LabelImportNamespace (imp_Namespace imp)
       (mput LabelImportName (imp_Name imp) (mput LabelManagedBy AppName (om_Labels (svc_Meta service))))\<rparr>\<rparr>"

definition addImportService ::
    "'s control_env \<Rightarrow> Import \<Rightarrow> Service \<Rightarrow> 's control \<Rightarrow> 's control \<times> error option" where
  "addImportService E imp service0 c0 =
     (let service = withImportLabels imp service0;
          importName = NamespacedName (imp_Namespace imp) (imp_Name imp);
          c = (if imp_Namespace imp \<noteq> om_Namespace (svc_Meta service)
               then c0\<lparr>c_serviceToImport := mput (om_Name (svc_Meta service)) importName (c_serviceToImport c0)\<rparr>
               else c0);
          serviceName = NamespacedName (om_Namespace (svc_Meta service)) (om_Name (svc_Meta service))
      in case k_Get (cl_Service (ce_client E)) serviceName (c_api c) of
           Inl err \<Rightarrow>
             if \<not> IsNotFound err then (c, Some (api err))
             else api_write (k_Create (cl_Service (ce_client E)) service) c
         | Inr oldService \<Rightarrow>
             if \<not> checkServiceLabels oldService importName
             then (c, Some (conflictingServiceError serviceName
                      (sget (om_Labels (svc_Meta oldService)) LabelManagedBy)))
             else if \<not> serviceChanged oldService service then (c, None)
             else api_write (k_Update (cl_Service (ce_client E)) service) c)"

definition deleteImportService ::
    "'s control_env \<Rightarrow> NamespacedName \<Rightarrow> NamespacedName \<Rightarrow> 's control \<Rightarrow> 's control \<times> error option" where
  "deleteImportService E service imp c =
     (case k_Get (cl_Service (ce_client E)) service (c_api c) of
        Inl err \<Rightarrow> if \<not> IsNotFound err then (c, Some (api err)) else (c, None)
      | Inr oldService \<Rightarrow>
          if \<not> checkServiceLabels oldService imp then (c, None)
          else (case api_write (k_Delete (cl_Service (ce_client E)) service) c of
                  (c, Some err) \<Rightarrow> (c, Some err)
                | (c, None) \<Rightarrow>
                    if sget (om_Labels (svc_Meta oldService)) LabelImportNamespace \<noteq> nn_Namespace imp
                    then (c\<lparr>c_serviceToImport := mdel (nn_Name service) (c_serviceToImport c)\<rparr>, None)
                    else (c, None)))"

subsection \<open>Endpoint slices of merged imports\<close>

definition importSlice :: "Import \<Rightarrow> EndpointSlice \<Rightarrow> EndpointSlice" where
  "importSlice imp dataplaneEndpointSlice =
     (let dpName = om_Name (es_Meta dataplaneEndpointSlice)
      in \<lparr>es_Meta = \<lparr>
            om_Name = importEndpointSliceName_Get \<lparr>ies_importName = imp_Name imp, ies_dataplaneEndpointSliceName = dpName\<rparr>,
            om_Namespace = imp_Namespace imp,
            om_Labels = [(disc_LabelServiceName, imp_Name imp), (disc_LabelManagedBy, AppName),
                         (LabelDPEndpointSliceName, dpName)]\<rparr>,
          es_AddressType = ''IPv4'',
          es_Endpoints = es_Endpoints dataplaneEndpointSlice,
          es_Ports = [\<lparr>epp_Port = Some (ucast (imp_TargetPort (imp_Spec imp))), epp_Protocol = Some ''TCP''\<rparr>]\<rparr>)"

definition checkImportEndpointSlice ::
    "'s control_env \<Rightarrow> Import \<Rightarrow> EndpointSlice \<Rightarrow> 's control \<Rightarrow> 's control \<times> error option" where
  "checkImportEndpointSlice E imp dataplaneEndpointSlice c =
     (let importEndpointSlice = importSlice imp dataplaneEndpointSlice
      in case k_Get (cl_EndpointSlice (ce_client E)) (object_key (es_Meta importEndpointSlice)) (c_api c) of
           Inl err \<Rightarrow>
             if \<not> IsNotFound err then (c, Some (api err))
             else api_write (k_Create (cl_EndpointSlice (ce_client E)) importEndpointSlice) c
         | Inr oldImportEndpointSlice \<Rightarrow>
             if \<not> endpointSliceChanged importEndpointSlice oldImportEndpointSlice then (c, None)
             else api_write (k_Update (cl_EndpointSlice (ce_client E)) importEndpointSlice) c)"

definition addImportEndpointSlices ::
    "'s control_env \<Rightarrow> Import \<Rightarrow> 's control \<Rightarrow> 's control \<times> error option" where
  "addImportEndpointSlices E imp c =
     (let importName = NamespacedName (imp_Namespace imp) (imp_Name imp)
      in case k_Get (cl_Service (ce_client E)) importName (c_api c) of
           Inl err \<Rightarrow> if IsNotFound err then (c, Some (importServiceNotExistError importName))
                      else (c, Some (api err))
         | Inr _ \<Rightarrow>
             (case k_List (cl_EndpointSlice (ce_client E)) [(disc_LabelServiceName, IngressSvcName)]
                     (Some (c_namespace c)) (c_api c) of
                Inl err \<Rightarrow> (c, Some (api err))
              | Inr dataplaneEndpointSlices \<Rightarrow>
                  forE (checkImportEndpointSlice E imp) dataplaneEndpointSlices c))"

text \<open>Deleting one slice, where an object that is already gone is no error.\<close>

definition deleteSlice ::
    "'s control_env \<Rightarrow> NamespacedName \<Rightarrow> 's control \<Rightarrow> 's control \<times> error option" where
  "deleteSlice E k c =
     (let (s', err) = k_Delete (cl_EndpointSlice (ce_client E)) k (c_api c)
      in (c\<lparr>c_api := s'\<rparr>, case err of None \<Rightarrow> None
                          | Some e \<Rightarrow> if IsNotFound e then None else Some (api e)))"

definition deleteImportEndpointSlices ::
    "'s control_env \<Rightarrow> NamespacedName \<Rightarrow> 's control \<Rightarrow> 's control \<times> error option" where
  "deleteImportEndpointSlices E imp c =
     (case k_List (cl_EndpointSlice (ce_client E))
             [(disc_LabelManagedBy, AppName), (disc_LabelServiceName, nn_Name imp)]
             (Some (nn_Namespace imp)) (c_api c) of
        Inl err \<Rightarrow> (c, Some (api err))
      | Inr endpointSlices \<Rightarrow> forE (\<lambda>es. deleteSlice E (object_key (es_Meta es))) endpointSlices c)"

definition checkEndpointSlice ::
    "'s control_env \<Rightarrow> string \<Rightarrow> string \<Rightarrow> 's control \<Rightarrow> 's control \<times> error option" where
  "checkEndpointSlice E namespace endpointSliceName c =
     (case importEndpointSliceName_Parse \<lparr>ies_importName = [], ies_dataplaneEndpointSliceName = []\<rparr> endpointSliceName of
        (_, False) \<Rightarrow> (c, None)
      | (parsed, True) \<Rightarrow>
          (let del = deleteSlice E (NamespacedName namespace endpointSliceName) c
           in case k_Get (cl_Import (ce_client E)) (NamespacedName namespace (ies_importName parsed)) (c_api c) of
                Inl err \<Rightarrow> if \<not> IsNotFound err then (c, Some (api err)) else del
              | Inr imp \<Rightarrow>
                  if sget (om_Labels (imp_Meta imp)) LabelImportMerge \<noteq> ''true'' then del
                  else (case k_Get (cl_EndpointSlice (ce_client E))
                               (NamespacedName (c_namespace c) (ies_dataplaneEndpointSliceName parsed)) (c_api c) of
                          Inl err \<Rightarrow> if \<not> IsNotFound err then (c, Some (api err)) else del
                        | Inr dataplaneEndpointSlice \<Rightarrow>
                            checkImportEndpointSlice E imp dataplaneEndpointSlice c)))"

definition addEndpointSlice ::
    "'s control_env \<Rightarrow> EndpointSlice \<Rightarrow> 's control \<Rightarrow> 's control \<times> error option" where
  "addEndpointSlice E endpointSlice c =
     (if sget (om_Labels (es_Meta endpointSlice)) disc_LabelServiceName = IngressSvcName
         \<and> om_Namespace (es_Meta endpointSlice) = c_namespace c
      then (case k_List (cl_Import (ce_client E)) [(LabelImportMerge, ''true'')] None (c_api c) of
              Inl err \<Rightarrow> (c, Some (api err))
            | Inr mergeImports \<Rightarrow>
                forE (\<lambda>imp. checkImportEndpointSlice E imp endpointSlice) mergeImports c)
      else checkEndpointSlice E (om_Namespace (es_Meta endpointSlice)) (om_Name (es_Meta endpointSlice)) c)"

definition deleteEndpointSlice ::
    "'s control_env \<Rightarrow> NamespacedName \<Rightarrow> 's control \<Rightarrow> 's control \<times> error option" where
  "deleteEndpointSlice E name c0 =
     (case checkEndpointSlice E (nn_Namespace name) (nn_Name name) c0 of
        (c, Some err) \<Rightarrow> (c, Some err)
      | (c, None) \<Rightarrow>
          if nn_Namespace name \<noteq> c_namespace c then (c, None)
          else (case k_List (cl_EndpointSlice (ce_client E))
                       [(disc_LabelManagedBy, AppName), (LabelDPEndpointSliceName, nn_Name name)] None (c_api c) of
                  Inl err \<Rightarrow> (c, Some (api err))
                | Inr slices \<Rightarrow> forE (\<lambda>es. deleteSlice E (object_key (es_Meta es))) slices c))"


subsection \<open>Imports\<close>

definition new_condition :: "string \<Rightarrow> ConditionStatus \<Rightarrow> string \<Rightarrow> string \<Rightarrow> Condition" where
  "new_condition ty st reason msg = \<lparr>cond_Type = ty, cond_Status = st, cond_ObservedGeneration = 0,
     cond_LastTransitionTime = 0, cond_Reason = reason, cond_Message = msg\<rparr>"

definition validity_condition :: "apimachinery \<Rightarrow> string \<Rightarrow> string \<Rightarrow> error option \<Rightarrow> Condition" where
  "validity_condition K ty reason err =
     (case err of None \<Rightarrow> new_condition ty ConditionTrue reason []
      | Some e \<Rightarrow> new_condition ty ConditionFalse ''Error'' (Error K e))"

text \<open>The deferred function of \<^verbatim>\<open>addImport\<close>: report the outcome in the import's status.\<close>

definition importStatus ::
    "'s control_env \<Rightarrow> Condition \<Rightarrow> Import \<Rightarrow> 's control \<Rightarrow> error option \<Rightarrow> 's control \<times> handler_error option" where
  "importStatus E targetPortValidCond imp c err =
     (let K = ce_K E;
          serviceValidCond = validity_condition K ImportServiceValid ''Valid'' err;
          conditions = imp_Conditions (imp_Status imp);
          final = map_option (\<lambda>e. if Is_conflictingServiceError e \<or> Is_conflictingTargetPortError e
                                     \<or> Is_importServiceNotExistError e then Terminal e else Retry e) err
      in if conditionChanged K conditions serviceValidCond \<or> conditionChanged K conditions targetPortValidCond
         then (case api_write (k_StatusUpdate (cl_Import (ce_client E)) (imp\<lparr>imp_Status := (imp_Status imp)\<lparr>
                       imp_Conditions := SetStatusCondition K (SetStatusCondition K conditions targetPortValidCond)
                         serviceValidCond\<rparr>\<rparr>)) c of
                 (c, Some statusError) \<Rightarrow>
                   (c, Some (Retry (case err of None \<Rightarrow> statusError | Some e \<Rightarrow> e)))
               | (c, None) \<Rightarrow> (c, final))
         else (c, final))"

definition systemServiceFor :: "string \<Rightarrow> string \<Rightarrow> Import \<Rightarrow> Service" where
  "systemServiceFor serviceName namespace imp = \<lparr>
     svc_Meta = \<lparr>om_Name = serviceName, om_Namespace = namespace, om_Labels = []\<rparr>,
     svc_Spec = \<lparr>ss_Type = ''ClusterIP'', ss_ExternalName = [], ss_Selector = [(''app'', dataplane_Name)],
       ss_Ports = [\<lparr>sp_Protocol = ''TCP'', sp_Port = ucast (imp_Port (imp_Spec imp)),
                    sp_TargetPort = IntVal (ucast (imp_TargetPort (imp_Spec imp)))\<rparr>]\<rparr>\<rparr>"

definition userServiceFor :: "string \<Rightarrow> string \<Rightarrow> Import \<Rightarrow> Service" where
  "userServiceFor serviceName namespace imp = \<lparr>
     svc_Meta = \<lparr>om_Name = imp_Name imp, om_Namespace = imp_Namespace imp, om_Labels = []\<rparr>,
     svc_Spec = \<lparr>ss_Type = ''ExternalName'',
       ss_ExternalName = serviceName @ ''.'' @ namespace @ ''.svc.cluster.local'', ss_Selector = [], ss_Ports = []\<rparr>\<rparr>"

text \<open>The services of an import that is not merged into an existing service.\<close>

definition addImportServices :: "'s control_env \<Rightarrow> Import \<Rightarrow> 's control \<Rightarrow> 's control \<times> error option" where
  "addImportServices E imp =
     seqE (deleteImportEndpointSlices E (NamespacedName (imp_Namespace imp) (imp_Name imp))) (\<lambda>c.
       let serviceName = (if imp_Namespace imp \<noteq> c_namespace c
                          then SystemServiceName (ce_K E) (NamespacedName (imp_Namespace imp) (imp_Name imp))
                          else imp_Name imp)
       in seqE (addImportService E imp (systemServiceFor serviceName (c_namespace c) imp)) (\<lambda>c'.
            if imp_Namespace imp = c_namespace c' then (c', None)
            else addImportService E imp (userServiceFor serviceName (c_namespace c') imp) c') c)"

definition addImport ::
    "'s control_env \<Rightarrow> Import \<Rightarrow> 's control \<Rightarrow> 's control \<times> handler_error option" where
  "addImport E imp c =
     (case allocateTargetPort E imp c of
        (imp, c, Some err) \<Rightarrow>
          importStatus E (new_condition ImportTargetPortValid ConditionFalse ''Error'' (Error (ce_K E) err))
            imp c (Some err)
      | (imp, c, None) \<Rightarrow>
          (case (if sget (om_Labels (imp_Meta imp)) LabelImportMerge = ''true''
                 then addImportEndpointSlices E imp c
                 else addImportServices E imp c) of
             (c, err) \<Rightarrow> importStatus E (new_condition ImportTargetPortValid ConditionTrue ''Leased'' [])
                           imp c err))"

definition deleteImport ::
    "'s control_env \<Rightarrow> NamespacedName \<Rightarrow> 's control \<Rightarrow> 's control \<times> error option" where
  "deleteImport E name c0 =
     (let (c1, err0) = deleteImportService E name name c0;
          (c2, err1) = (if nn_Namespace name \<noteq> c_namespace c1
                        then deleteImportService E (NamespacedName (c_namespace c1) (SystemServiceName (ce_K E) name)) name c1
                        else (c1, None));
          (c3, err2) = deleteImportEndpointSlices E name c2
      in (c3\<lparr>c_ports := Release name (c_ports c3)\<rparr>, errors_Join [err0, err1, err2]))"

subsection \<open>Exports\<close>

definition exportStatus ::
    "'s control_env \<Rightarrow> Export \<Rightarrow> 's control \<Rightarrow> error option \<Rightarrow> 's control \<times> handler_error option" where
  "exportStatus E export c err =
     (let K = ce_K E;
          validCond = validity_condition K ExportValid ''Verified'' err;
          conditions = exp_Conditions (exp_Status export);
          final = map_option (\<lambda>e. if Is_exportServiceNotExistError e then Terminal e else Retry e) err
      in if conditionChanged K conditions validCond
         then (case api_write (k_StatusUpdate (cl_Export (ce_client E)) (export\<lparr>exp_Status := (exp_Status export)\<lparr>
                       exp_Conditions := SetStatusCondition K conditions validCond\<rparr>\<rparr>)) c of
                 (c, Some statusError) \<Rightarrow>
                   (c, Some (Retry (case err of None \<Rightarrow> statusError | Some e \<Rightarrow> e)))
               | (c, None) \<Rightarrow> (c, final))
         else (c, final))"

definition addExport ::
    "'s control_env \<Rightarrow> Export \<Rightarrow> 's control \<Rightarrow> 's control \<times> handler_error option" where
  "addExport E export c =
     (if exp_Host (exp_Spec export) \<noteq> [] then exportStatus E export c None
      else let name = NamespacedName (om_Namespace (exp_Meta export)) (om_Name (exp_Meta export))
           in case k_Get (cl_Service (ce_client E)) name (c_api c) of
                Inl err \<Rightarrow>
                  if \<not> IsNotFound err then exportStatus E export c (Some (api err))
                  else exportStatus E export c (Some (exportServiceNotExistError name))
              | Inr _ \<Rightarrow> exportStatus E export c None)"

definition checkExportService ::
    "'s control_env \<Rightarrow> NamespacedName \<Rightarrow> 's control \<Rightarrow> 's control \<times> handler_error option" where
  "checkExportService E name c =
     (case k_Get (cl_Export (ce_client E)) name (c_api c) of
        Inl err \<Rightarrow> if \<not> IsNotFound err then (c, Some (Retry (api err))) else (c, None)
      | Inr export \<Rightarrow> addExport E export c)"

definition checkImportService ::
    "'s control_env \<Rightarrow> NamespacedName \<Rightarrow> 's control \<Rightarrow> 's control \<times> handler_error option" where
  "checkImportService E name =
     seqE (\<lambda>c. case k_Get (cl_Import (ce_client E)) name (c_api c) of
                 Inl err \<Rightarrow> if \<not> IsNotFound err then (c, Some (Retry (api err))) else (c, None)
               | Inr imp \<Rightarrow> addImport E imp c)
       (\<lambda>c. if nn_Namespace name \<noteq> c_namespace c then (c, None)
             else (case mget (c_serviceToImport c) (nn_Name name) of
                     None \<Rightarrow> (c, None)
                   | Some name' \<Rightarrow>
                       (case k_Get (cl_Import (ce_client E)) name' (c_api c) of
                          Inl err \<Rightarrow> if \<not> IsNotFound err then (c, Some (Retry (api err))) else (c, None)
                        | Inr imp \<Rightarrow> addImport E imp c)))"

definition deleteService ::
    "'s control_env \<Rightarrow> NamespacedName \<Rightarrow> 's control \<Rightarrow> 's control \<times> handler_error option" where
  "deleteService E name = seqE (checkImportService E name) (checkExportService E name)"

definition addService ::
    "'s control_env \<Rightarrow> Service \<Rightarrow> 's control \<Rightarrow> 's control \<times> handler_error option" where
  "addService E service =
     seqE (checkImportService E (NamespacedName (om_Namespace (svc_Meta service)) (om_Name (svc_Meta service))))
       (checkExportService E (NamespacedName (om_Namespace (svc_Meta service)) (om_Name (svc_Meta service))))"

subsection \<open>The JWK secret\<close>

definition generateJWKSecret :: "'s control_env \<Rightarrow> error + string" where
  "generateJWKSecret E =
     (case ce_randRead E of
        Inl err \<Rightarrow> Inl (Wrapf ''unable to generate JWK key: '' err)
      | Inr keyBytes \<Rightarrow> Inr (b64_encode keyBytes))"

definition jwkSecret :: "string \<Rightarrow> string \<Rightarrow> Secret" where
  "jwkSecret namespace data = \<lparr>sec_Meta = \<lparr>om_Name = JWKSecretName, om_Namespace = namespace, om_Labels = []\<rparr>,
     sec_Data = [(JWKSecretKeyName, data)]\<rparr>"

definition CreateJWKSSecret :: "'s control_env \<Rightarrow> 's control \<Rightarrow> 's control \<times> error option" where
  "CreateJWKSSecret E c =
     (case generateJWKSecret E of
        Inl err \<Rightarrow> (c, Some (Wrapf ''cannot generate JWKS secret: '' err))
      | Inr jwksSecretData \<Rightarrow>
          (let (s', err) = k_Create (cl_Secret (ce_client E)) (jwkSecret (c_namespace c) jwksSecretData) (c_api c)
           in (c\<lparr>c_api := s'\<rparr>, case err of None \<Rightarrow> None
                               | Some e \<Rightarrow> if \<not> IsAlreadyExists e then Some (api e) else None)))"

text \<open>
  \<^verbatim>\<open>checkJWKSecret\<close> as written: the test of the error of \<^verbatim>\<open>Get\<close> is inverted, so the first
  branch has a nil error and returns it, and the second parses the zero secret.
\<close>

definition checkJWKSecret ::
    "'s control_env \<Rightarrow> NamespacedName \<Rightarrow> 's control \<Rightarrow> 's control \<times> error option" where
  "checkJWKSecret E name c =
     (if nn_Namespace name \<noteq> c_namespace c \<or> nn_Name name \<noteq> JWKSecretName then (c, None)
      else (case k_Get (cl_Secret (ce_client E)) (NamespacedName (c_namespace c) JWKSecretName) (c_api c) of
              Inr secret \<Rightarrow> (c, None)
            | Inl _ \<Rightarrow>
                (case ParseJWKSSecret \<lparr>sec_Meta = \<lparr>om_Name = [], om_Namespace = [], om_Labels = []\<rparr>, sec_Data = []\<rparr> of
                   Inr _ \<Rightarrow> (c, None)
                 | Inl _ \<Rightarrow>
                     (case generateJWKSecret E of
                        Inl err \<Rightarrow> (c, Some (Wrapf ''cannot generate JWK secret: '' err))
                      | Inr jwksSecretData \<Rightarrow>
                          api_write (k_Update (cl_Secret (ce_client E)) (jwkSecret (c_namespace c) jwksSecretData)) c))))"

definition control_addSecret :: "'s control_env \<Rightarrow> Secret \<Rightarrow> 's control \<Rightarrow> 's control \<times> error option" where
  "control_addSecret E secret c =
     checkJWKSecret E (NamespacedName (om_Namespace (sec_Meta secret)) (om_Name (sec_Meta secret))) c"

definition control_deleteSecret ::
    "'s control_env \<Rightarrow> NamespacedName \<Rightarrow> 's control \<Rightarrow> 's control \<times> error option" where
  "control_deleteSecret E name c = checkJWKSecret E name c"

end
