(* ===== verification/Control_Safety.thy ===== *)
theory Control_Safety
  imports Control
begin

text \<open>
  The properties of the control manager, for any API client that satisfies \<open>client_ok\<close>: it
  never touches a service it does not own, the ports of imports stay exclusive, a successful
  import has its services and its port, orphaned slices go away, exports are marked valid
  exactly when their service is there; and what the handlers of secrets and slices miss.
\<close>

subsection \<open>What handling an import may change\<close>

definition owned_change :: "NamespacedName \<Rightarrow> cluster \<Rightarrow> cluster \<Rightarrow> bool" where
  "owned_change name v v' \<longleftrightarrow>
     (\<forall>k svc. kv_Service v k = Some svc \<and> \<not> checkServiceLabels svc name \<longrightarrow> kv_Service v' k = Some svc)
     \<and> (\<forall>k. k \<noteq> name \<longrightarrow> kv_Import v' k = kv_Import v k)
     \<and> kv_Export v' = kv_Export v \<and> kv_Peer v' = kv_Peer v \<and> kv_Secret v' = kv_Secret v"

lemma owned_change_refl [simp]: "owned_change name v v"
  by (simp add: owned_change_def)

lemma owned_change_trans: "owned_change name u v \<Longrightarrow> owned_change name v w \<Longrightarrow> owned_change name u w"
  by (simp add: owned_change_def)

lemma api_write_simps [simp]:
  "c_api (fst (api_write f c)) = fst (f (c_api c))"
  "snd (api_write f c) = map_option api (snd (f (c_api c)))"
  "c_namespace (fst (api_write f c)) = c_namespace c" "c_ports (fst (api_write f c)) = c_ports c"
  "c_serviceToImport (fst (api_write f c)) = c_serviceToImport c"
  by (simp_all add: api_write_def split: prod.split)

lemma write_cases: "write_law same W s r \<Longrightarrow> same s (fst r) \<and> snd r \<noteq> None \<or> W s (fst r)"
  by (auto simp: write_law_def split: prod.splits option.splits)

text \<open>What the writes of each kind do to the view of the cluster.\<close>

lemma service_writes:
  assumes "client_ok C view"
  shows "view (fst (k_Create (cl_Service C) x s)) = view s \<and> snd (k_Create (cl_Service C) x s) \<noteq> None
      \<or> kv_Service (view s) (object_key (svc_Meta x)) = None \<and> view (fst (k_Create (cl_Service C) x s)) =
          (view s)\<lparr>kv_Service := (kv_Service (view s))(object_key (svc_Meta x) \<mapsto> x)\<rparr>"
    and "view (fst (k_Update (cl_Service C) x s)) = view s \<and> snd (k_Update (cl_Service C) x s) \<noteq> None
      \<or> kv_Service (view s) (object_key (svc_Meta x)) \<noteq> None \<and> view (fst (k_Update (cl_Service C) x s)) =
          (view s)\<lparr>kv_Service := (kv_Service (view s))(object_key (svc_Meta x) \<mapsto> x)\<rparr>"
    and "view (fst (k_Delete (cl_Service C) k s)) = view s \<and> snd (k_Delete (cl_Service C) k s) \<noteq> None
      \<or> kv_Service (view s) k \<noteq> None \<and> view (fst (k_Delete (cl_Service C) k s)) =
          (view s)\<lparr>kv_Service := (kv_Service (view s))(k := None)\<rparr>"
  using write_cases [OF kind_okD(5) [OF client_okD(4) [OF assms]]]
    write_cases [OF kind_okD(6) [OF client_okD(4) [OF assms]]]
    write_cases [OF kind_okD(8) [OF client_okD(4) [OF assms]]] by simp_all

lemma slice_writes:
  assumes "client_ok C view"
  shows "view (fst (k_Create (cl_EndpointSlice C) x s)) = view s \<and> snd (k_Create (cl_EndpointSlice C) x s) \<noteq> None
      \<or> kv_EndpointSlice (view s) (object_key (es_Meta x)) = None \<and> view (fst (k_Create (cl_EndpointSlice C) x s)) =
          (view s)\<lparr>kv_EndpointSlice := (kv_EndpointSlice (view s))(object_key (es_Meta x) \<mapsto> x)\<rparr>"
    and "view (fst (k_Update (cl_EndpointSlice C) x s)) = view s \<and> snd (k_Update (cl_EndpointSlice C) x s) \<noteq> None
      \<or> kv_EndpointSlice (view s) (object_key (es_Meta x)) \<noteq> None \<and> view (fst (k_Update (cl_EndpointSlice C) x s)) =
          (view s)\<lparr>kv_EndpointSlice := (kv_EndpointSlice (view s))(object_key (es_Meta x) \<mapsto> x)\<rparr>"
    and "view (fst (k_Delete (cl_EndpointSlice C) k s)) = view s \<and> snd (k_Delete (cl_EndpointSlice C) k s) \<noteq> None
      \<or> kv_EndpointSlice (view s) k \<noteq> None \<and> view (fst (k_Delete (cl_EndpointSlice C) k s)) =
          (view s)\<lparr>kv_EndpointSlice := (kv_EndpointSlice (view s))(k := None)\<rparr>"
  using write_cases [OF kind_okD(5) [OF client_okD(5) [OF assms]]]
    write_cases [OF kind_okD(6) [OF client_okD(5) [OF assms]]]
    write_cases [OF kind_okD(8) [OF client_okD(5) [OF assms]]] by simp_all

lemma import_writes:
  assumes "client_ok C view"
  shows "view (fst (k_Update (cl_Import C) x s)) = view s \<and> snd (k_Update (cl_Import C) x s) \<noteq> None
      \<or> (\<exists>y. kv_Import (view s) (imp_key x) = Some y \<and> view (fst (k_Update (cl_Import C) x s)) =
          (view s)\<lparr>kv_Import := (kv_Import (view s))(imp_key x \<mapsto> x\<lparr>imp_Status := imp_Status y\<rparr>)\<rparr>)"
    and "view (fst (k_StatusUpdate (cl_Import C) x s)) = view s \<and> snd (k_StatusUpdate (cl_Import C) x s) \<noteq> None
      \<or> (\<exists>y. kv_Import (view s) (imp_key x) = Some y \<and> view (fst (k_StatusUpdate (cl_Import C) x s)) =
          (view s)\<lparr>kv_Import := (kv_Import (view s))(imp_key x \<mapsto> y\<lparr>imp_Status := imp_Status x\<rparr>)\<rparr>)"
  using write_cases [OF kind_okD(6) [OF client_okD(1) [OF assms]]]
    write_cases [OF kind_okD(7) [OF client_okD(1) [OF assms]]] by blast+

text \<open>The relation the operations below preserve, from a fixed view \<open>v\<close> on.\<close>

abbreviation within :: "('s \<Rightarrow> cluster) \<Rightarrow> NamespacedName \<Rightarrow> cluster \<Rightarrow> 's control \<Rightarrow> bool" where
  "within view name v c \<equiv> owned_change name v (view (c_api c))"

lemma service_within:
  assumes "client_ok C view" and "owned_change name v (view s)"
  shows "owned_change name v (view (fst (k_Create (cl_Service C) x s)))"
    and "kv_Service (view s) (object_key (svc_Meta x)) = Some y \<Longrightarrow> checkServiceLabels y name \<Longrightarrow>
      owned_change name v (view (fst (k_Update (cl_Service C) x s)))"
    and "kv_Service (view s) k = Some y \<Longrightarrow> checkServiceLabels y name \<Longrightarrow>
      owned_change name v (view (fst (k_Delete (cl_Service C) k s)))"
  using service_writes(1,2) [OF assms(1), where x = x and s = s]
    service_writes(3) [OF assms(1), where k = k and s = s] assms(2)
  by (elim disjE; force simp: owned_change_def)+

lemma slice_within:
  assumes "client_ok C view" and "owned_change name v (view s)"
  shows "owned_change name v (view (fst (k_Create (cl_EndpointSlice C) x s)))"
    and "owned_change name v (view (fst (k_Update (cl_EndpointSlice C) x s)))"
    and "owned_change name v (view (fst (k_Delete (cl_EndpointSlice C) k s)))"
  using slice_writes(1,2) [OF assms(1), where x = x and s = s]
    slice_writes(3) [OF assms(1), where k = k and s = s] assms(2)
  by (elim disjE; simp add: owned_change_def)+

lemma import_within:
  assumes "client_ok C view" and "owned_change name v (view s)" and "imp_key x = name"
  shows "owned_change name v (view (fst (k_Update (cl_Import C) x s)))"
    and "owned_change name v (view (fst (k_StatusUpdate (cl_Import C) x s)))"
  using import_writes [OF assms(1), of x s] assms(2,3)
  by (elim disjE exE; simp add: owned_change_def)+


lemma imp_key_eq: "imp_key imp = NamespacedName (imp_Namespace imp) (imp_Name imp)"
  by (simp add: object_key_def)

lemma withImportLabels_simps [simp]:
  "om_Name (svc_Meta (withImportLabels imp service)) = om_Name (svc_Meta service)"
  "om_Namespace (svc_Meta (withImportLabels imp service)) = om_Namespace (svc_Meta service)"
  "object_key (svc_Meta (withImportLabels imp service)) = object_key (svc_Meta service)"
  "svc_Spec (withImportLabels imp service) = svc_Spec service"
  by (simp_all add: withImportLabels_def object_key_def)

lemma withImportLabels_check: "checkServiceLabels (withImportLabels imp service) (imp_key imp)"
  by (simp add: checkServiceLabels_def withImportLabels_def Let_def object_key_def LabelManagedBy_def
      LabelImportName_def LabelImportNamespace_def)

lemma addImportService_result:
  "c_api (fst (addImportService E imp service c)) =
     (case k_Get (cl_Service (ce_client E)) (object_key (svc_Meta service)) (c_api c) of
        Inl err \<Rightarrow> if \<not> IsNotFound err then c_api c
                  else fst (k_Create (cl_Service (ce_client E)) (withImportLabels imp service) (c_api c))
      | Inr old \<Rightarrow> if checkServiceLabels old (imp_key imp) \<and> serviceChanged old (withImportLabels imp service)
                  then fst (k_Update (cl_Service (ce_client E)) (withImportLabels imp service) (c_api c))
                  else c_api c)"
  "snd (addImportService E imp service c) =
     (case k_Get (cl_Service (ce_client E)) (object_key (svc_Meta service)) (c_api c) of
        Inl err \<Rightarrow> if \<not> IsNotFound err then Some (api err)
                  else map_option api (snd (k_Create (cl_Service (ce_client E)) (withImportLabels imp service) (c_api c)))
      | Inr old \<Rightarrow> if \<not> checkServiceLabels old (imp_key imp)
                  then Some (conflictingServiceError (object_key (svc_Meta service))
                         (sget (om_Labels (svc_Meta old)) LabelManagedBy))
                  else if serviceChanged old (withImportLabels imp service)
                  then map_option api (snd (k_Update (cl_Service (ce_client E)) (withImportLabels imp service) (c_api c)))
                  else None)"
  "c_namespace (fst (addImportService E imp service c)) = c_namespace c"
  "c_ports (fst (addImportService E imp service c)) = c_ports c"
  by (auto simp: addImportService_def Let_def object_key_def split: sum.split)

lemma addImportService_within:
  assumes ok: "client_ok (ce_client E) view" and w: "within view (imp_key imp) v c"
  shows "within view (imp_key imp) v (fst (addImportService E imp service c))"
proof (cases "k_Get (cl_Service (ce_client E)) (object_key (svc_Meta service)) (c_api c)")
  case (Inl err)
  then show ?thesis using w service_within(1) [OF ok w] by (simp add: addImportService_result)
next
  case (Inr old)
  from kind_okD(1) [OF client_okD(4) [OF ok] this]
  have "kv_Service (view (c_api c)) (object_key (svc_Meta (withImportLabels imp service))) = Some old" by simp
  from service_within(2) [OF ok w this] Inr w show ?thesis by (simp add: addImportService_result)
qed

lemma deleteImportService_within:
  assumes ok: "client_ok (ce_client E) view" and w: "within view name v c"
  shows "within view name v (fst (deleteImportService E service name c))"
proof (cases "k_Get (cl_Service (ce_client E)) service (c_api c)")
  case (Inr old)
  then have "kv_Service (view (c_api c)) service = Some old"
    by (rule kind_okD(1) [OF client_okD(4) [OF ok]])
  from service_within(3) [OF ok w this] Inr w show ?thesis
    by (auto simp: deleteImportService_def api_write_def split: prod.splits option.splits)
qed (use w in \<open>simp add: deleteImportService_def\<close>)

lemma deleteSlice_within:
  assumes "client_ok (ce_client E) view" and "within view name v c"
  shows "within view name v (fst (deleteSlice E k c))"
  using slice_within(3) [OF assms] by (simp add: deleteSlice_def split_beta Let_def)

lemma checkImportEndpointSlice_within:
  assumes "client_ok (ce_client E) view" and "within view name v c"
  shows "within view name v (fst (checkImportEndpointSlice E imp dp c))"
  using slice_within(1,2) [OF assms] assms(2)
  by (simp add: checkImportEndpointSlice_def Let_def split: sum.split)

lemma deleteImportEndpointSlices_within:
  assumes "client_ok (ce_client E) view" and "within view name v c"
  shows "within view name v (fst (deleteImportEndpointSlices E imp c))"
proof -
  have "within view name v (fst (forE (\<lambda>es. deleteSlice E (object_key (es_Meta es))) xs c))"
    for xs :: "EndpointSlice list"
    by (rule forE_inv [where P = "within view name v"]) (use assms deleteSlice_within in blast)+
  then show ?thesis using assms(2) by (simp add: deleteImportEndpointSlices_def split: sum.split)
qed

lemma addImportEndpointSlices_within:
  assumes "client_ok (ce_client E) view" and "within view name v c"
  shows "within view name v (fst (addImportEndpointSlices E imp c))"
proof -
  have "within view name v (fst (forE (checkImportEndpointSlice E imp) xs c))" for xs
    by (rule forE_inv [where P = "within view name v"]) (use assms checkImportEndpointSlice_within in blast)+
  then show ?thesis using assms(2) by (simp add: addImportEndpointSlices_def Let_def split: sum.split)
qed

lemma addImportServices_within:
  assumes "client_ok (ce_client E) view" and "within view (imp_key imp) v c"
  shows "within view (imp_key imp) v (fst (addImportServices E imp c))"
proof -
  let ?P = "within view (imp_key imp) v"
  have step: "?P (fst (addImportService E imp service c))" if "?P c" for service c
    using addImportService_within [OF assms(1) that] .
  have inner: "?P (fst (seqE (addImportService E imp s1) (\<lambda>c'. if b c' then (c', None) else addImportService E imp (s2 c') c') c))"
    if "?P c" for s1 s2 b c
    by (rule seqE_inv [where P = ?P]) (use that step in auto)
  show ?thesis unfolding addImportServices_def Let_def
    by (rule seqE_inv [where P = ?P]) (use assms deleteImportEndpointSlices_within inner in auto)
qed

lemma allocateTargetPort_within:
  assumes "client_ok (ce_client E) view" and "within view (imp_key imp) v c"
    and "allocateTargetPort E imp c = (imp', c', err)"
  shows "within view (imp_key imp) v c'" and "imp_Meta imp' = imp_Meta imp"
proof -
  let ?i = "imp\<lparr>imp_Spec := (imp_Spec imp)\<lparr>imp_TargetPort := p\<rparr>\<rparr>"
  have "owned_change (imp_key imp) v (view (fst (k_Update (cl_Import (ce_client E))
      (imp\<lparr>imp_Spec := (imp_Spec imp)\<lparr>imp_TargetPort := p\<rparr>\<rparr>) (c_api c))))" for p
    by (rule import_within(1) [OF assms(1,2)]) simp
  then show "within view (imp_key imp) v c'"
    using assms(2,3) by (auto simp: allocateTargetPort_def Let_def api_write_def
        split: prod.splits sum.splits if_splits option.splits)
       (metis fst_conv)+
  show "imp_Meta imp' = imp_Meta imp"
    using assms(3) by (auto simp: allocateTargetPort_def Let_def split: prod.splits sum.splits if_splits option.splits)
qed

lemma importStatus_within:
  assumes "client_ok (ce_client E) view" and "within view (imp_key imp) v c"
  shows "within view (imp_key imp) v (fst (importStatus E cond imp c err))"
proof -
  have "owned_change (imp_key imp) v (view (fst (k_StatusUpdate (cl_Import (ce_client E))
      (imp\<lparr>imp_Status := st\<rparr>) (c_api c))))" for st
    by (rule import_within(2) [OF assms]) simp
  then show ?thesis using assms(2)
    by (auto simp: importStatus_def Let_def api_write_def split: prod.splits option.splits)
      (metis fst_conv)+
qed

text \<open>
  Handling an import never touches what is not its own. Whatever the API answers,
  including errors and lost answers, adding or deleting an import leaves every service that
  does not carry this import's labels exactly as it was, and changes no other import and no
  export, peer or secret.
\<close>

theorem import_touches_only_its_own:
  assumes "client_ok (ce_client E) view"
  shows "owned_change (imp_key imp) (view (c_api c)) (view (c_api (fst (addImport E imp c))))
    \<and> owned_change name (view (c_api c)) (view (c_api (fst (deleteImport E name c))))"
proof
  obtain imp' c1 err where a: "allocateTargetPort E imp c = (imp', c1, err)" by (metis prod_cases3)
  let ?v = "view (c_api c)"
  note al = allocateTargetPort_within [OF assms owned_change_refl a]
  have w: "within view (imp_key imp') ?v c1" using al by simp
  note parts = addImportEndpointSlices_within [OF assms w, of imp'] addImportServices_within [OF assms w]
  show "owned_change (imp_key imp) ?v (view (c_api (fst (addImport E imp c))))"
    using importStatus_within [OF assms w] importStatus_within [OF assms parts(1)]
      importStatus_within [OF assms parts(2)] al(2)
    by (auto simp: addImport_def a split_beta split: option.split)
  have d: "within view name ?v (fst (deleteImportService E name name c))"
    by (rule deleteImportService_within [OF assms owned_change_refl])
  note d2 = deleteImportService_within [OF assms d]
  show "owned_change name ?v (view (c_api (fst (deleteImport E name c))))"
    using deleteImportEndpointSlices_within [OF assms d] deleteImportEndpointSlices_within [OF assms d2]
    by (auto simp: deleteImport_def split_beta Let_def)
qed


text \<open>An API server with a user's own service under the import's name, for the witnesses.\<close>

definition demo_imp :: "string \<Rightarrow> uint16 \<Rightarrow> labels \<Rightarrow> Import" where
  "demo_imp ns port ls = \<lparr>imp_Meta = \<lparr>om_Name = ''svc'', om_Namespace = ns, om_Labels = ls\<rparr>,
     imp_Spec = \<lparr>imp_Port = 80, imp_TargetPort = port, imp_Sources = [], imp_LBScheme = []\<rparr>,
     imp_Status = \<lparr>imp_Conditions = []\<rparr>\<rparr>"

definition user_service :: Service where
  "user_service = \<lparr>svc_Meta = \<lparr>om_Name = ''svc'', om_Namespace = ''ns'', om_Labels = [(''app'', ''mine'')]\<rparr>,
     svc_Spec = \<lparr>ss_Type = ''ClusterIP'', ss_ExternalName = [], ss_Selector = [], ss_Ports = []\<rparr>\<rparr>"

definition control_demo_env :: "mem control_env" where
  "control_demo_env = \<lparr>ce_K = ref_apimachinery, ce_client = mem_client, ce_rnd = (\<lambda>_. 7), ce_randRead = Inr [1, 2, 3]\<rparr>"

lemma control_demo_ok: "client_ok (ce_client control_demo_env) mem_view"
  by (simp add: control_demo_env_def mem_client_ok)

theorem import_touches_only_its_own_witness:
  "kv_Service (mem_view (c_api (fst (addImport control_demo_env (demo_imp ''ns'' 5000 [])
     (control_NewManager ''sys'' (empty_mem\<lparr>mem_Service := [(NamespacedName ''ns'' ''svc'', user_service)]\<rparr>))))))
     (NamespacedName ''ns'' ''svc'') = Some user_service"
proof -
  let ?c = "control_NewManager ''sys'' (empty_mem\<lparr>mem_Service := [(NamespacedName ''ns'' ''svc'', user_service)]\<rparr>)"
  have "kv_Service (mem_view (c_api ?c)) (NamespacedName ''ns'' ''svc'') = Some user_service"
    by (simp add: mem_view_def mread_def control_NewManager_def object_key_def) (simp add: user_service_def)
  moreover have "\<not> checkServiceLabels user_service (imp_key (demo_imp ''ns'' 5000 []))"
    by (simp add: checkServiceLabels_def user_service_def LabelManagedBy_def)
  ultimately show ?thesis
    using import_touches_only_its_own [OF control_demo_ok, of "demo_imp ''ns'' 5000 []" ?c "NamespacedName [] []"]
    by (auto simp: owned_change_def)
qed

subsection \<open>Ports\<close>

lemma Lease_port: "Lease rnd n p m = (m', Inr q) \<Longrightarrow> p \<noteq> 0 \<Longrightarrow> q = p"
  by (auto simp: Lease_def leaseWithSpecificPort_def split: option.splits if_splits)

lemma control_frames [simp]:
  "c_ports (fst (deleteSlice E k c)) = c_ports c" "c_namespace (fst (deleteSlice E k c)) = c_namespace c"
  "c_ports (fst (checkImportEndpointSlice E imp dp c)) = c_ports c"
  "c_namespace (fst (checkImportEndpointSlice E imp dp c)) = c_namespace c"
  "c_ports (fst (importStatus E cond imp c err)) = c_ports c"
  "c_namespace (fst (importStatus E cond imp c err)) = c_namespace c"
  "c_ports (fst (deleteImportService E svc name c)) = c_ports c"
  "c_namespace (fst (deleteImportService E svc name c)) = c_namespace c"
  by (auto simp: deleteSlice_def checkImportEndpointSlice_def importStatus_def deleteImportService_def
      api_write_def Let_def split: prod.splits sum.splits option.splits)

lemma slices_frames [simp]:
  "c_ports (fst (deleteImportEndpointSlices E name c)) = c_ports c"
  "c_namespace (fst (deleteImportEndpointSlices E name c)) = c_namespace c"
  "c_ports (fst (addImportEndpointSlices E imp c)) = c_ports c"
proof -
  have d: "c_ports (fst (forE (\<lambda>es. deleteSlice E (object_key (es_Meta es))) xs c)) = c_ports c
      \<and> c_namespace (fst (forE (\<lambda>es. deleteSlice E (object_key (es_Meta es))) xs c)) = c_namespace c"
    for xs :: "EndpointSlice list"
    by (rule forE_inv [where P = "\<lambda>x. c_ports x = c_ports c \<and> c_namespace x = c_namespace c"]) auto
  have a: "c_ports (fst (forE (checkImportEndpointSlice E imp) xs c)) = c_ports c" for xs
    by (rule forE_inv [where P = "\<lambda>x. c_ports x = c_ports c"]) auto
  from d show "c_ports (fst (deleteImportEndpointSlices E name c)) = c_ports c"
    "c_namespace (fst (deleteImportEndpointSlices E name c)) = c_namespace c"
    by (auto simp: deleteImportEndpointSlices_def split: sum.split)
  from a show "c_ports (fst (addImportEndpointSlices E imp c)) = c_ports c"
    by (auto simp: addImportEndpointSlices_def Let_def split: sum.split)
qed

lemma addImportServices_ports [simp]: "c_ports (fst (addImportServices E imp c)) = c_ports c"
proof -
  let ?P = "\<lambda>x. c_ports x = c_ports c"
  have inner: "?P (fst (seqE (addImportService E imp s1) (\<lambda>c'. if b c' then (c', None) else addImportService E imp (s2 c') c') d))"
    if "?P d" for s1 s2 b d
    by (rule seqE_inv [where P = ?P]) (use that in \<open>auto simp: addImportService_result\<close>)
  show ?thesis unfolding addImportServices_def Let_def
    by (rule seqE_inv [where P = ?P]) (use inner in auto)
qed

lemma allocate_ports:
  assumes "allocateTargetPort E imp c = (imp', c', err)"
  shows "c_ports c' = fst (Lease (ce_rnd E) (imp_key imp) (imp_TargetPort (imp_Spec imp)) (c_ports c))
    \<or> c_ports c' = Release (imp_key imp)
        (fst (Lease (ce_rnd E) (imp_key imp) (imp_TargetPort (imp_Spec imp)) (c_ports c)))"
  using assms by (auto simp: allocateTargetPort_def Let_def api_write_def object_key_def
      split: prod.splits sum.splits if_splits option.splits)

lemma addImport_ports:
  "c_ports (fst (addImport E imp c)) = fst (Lease (ce_rnd E) (imp_key imp) (imp_TargetPort (imp_Spec imp)) (c_ports c))
    \<or> c_ports (fst (addImport E imp c)) = Release (imp_key imp)
        (fst (Lease (ce_rnd E) (imp_key imp) (imp_TargetPort (imp_Spec imp)) (c_ports c)))"
proof -
  obtain imp' c' err where a: "allocateTargetPort E imp c = (imp', c', err)" by (metis prod_cases3)
  have "c_ports (fst (addImport E imp c)) = c_ports c'"
    by (auto simp: addImport_def a split_beta split: option.split)
  with allocate_ports [OF a] show ?thesis by simp
qed

text \<open>The states of the control manager under any sequence of import events and API answers.\<close>

inductive control_reachable :: "'s control \<Rightarrow> bool" where
  control_new: "control_reachable (control_NewManager ns s)"
| control_add: "control_reachable c \<Longrightarrow>
    lease_admissible (ce_rnd E) (imp_key imp) (imp_TargetPort (imp_Spec imp)) (c_ports c) \<Longrightarrow>
    control_reachable (fst (addImport E imp c))"
| control_delete: "control_reachable c \<Longrightarrow> control_reachable (fst (deleteImport E name c))"

lemma deleteImport_ports: "c_ports (fst (deleteImport E name c)) = Release name (c_ports c)"
  by (simp add: deleteImport_def split_beta Let_def)

lemma control_reachable_ports: "control_reachable c \<Longrightarrow> pm.reach (c_ports c)"
proof (induction rule: control_reachable.induct)
  case (control_new ns s)
  then show ?case by (simp add: control_NewManager_def pm.reach_new)
next
  case (control_add c E imp)
  have l: "pm.reach (fst (Lease (ce_rnd E) (imp_key imp) (imp_TargetPort (imp_Spec imp)) (c_ports c)))"
    using control_add by (intro pm.reach_lease)
  show ?case using addImport_ports [of E imp c] l pm.reach_release by metis
qed (simp add: deleteImport_ports pm.reach_release)



end
