(* ===== verification/Control_Results.thy ===== *)
theory Control_Results
  imports Control_Safety
begin

text \<open>
  What a successful handler of the control manager guarantees about the cluster (services of
  an import, slices of a merged import, validity of an export), and three behaviours of the
  handlers that are not what the code means: the JWK secret is never repaired, the map from
  services to imports is never cleaned, and a merged import's port change is not carried
  over to its slices.
\<close>

subsection \<open>Services of a successful import\<close>

definition in_place :: "NamespacedName \<Rightarrow> Service \<Rightarrow> cluster \<Rightarrow> bool" where
  "in_place name service v \<longleftrightarrow> (\<exists>svc. kv_Service v (object_key (svc_Meta service)) = Some svc
     \<and> checkServiceLabels svc name \<and> \<not> serviceChanged svc service)"

lemma serviceChanged_spec: "svc_Spec b = svc_Spec b' \<Longrightarrow> serviceChanged a b = serviceChanged a b'"
  by (simp add: serviceChanged_def Let_def)

lemma serviceChanged_refl:
  assumes "mwf (ss_Selector (svc_Spec a))" and "svc_Spec a = svc_Spec b"
  shows "\<not> serviceChanged a b"
  using assms by (auto simp: serviceChanged_def Let_def list_ex_iff mget_mem [OF assms(1)] set_zip)

lemma addImportService_in_place:
  assumes ok: "client_ok (ce_client E) view" and "snd (addImportService E imp service c) = None"
    and wf: "mwf (ss_Selector (svc_Spec service))"
  shows "in_place (imp_key imp) service (view (c_api (fst (addImportService E imp service c))))"
proof -
  let ?x = "withImportLabels imp service" and ?k = "object_key (svc_Meta service)"
  have x: "checkServiceLabels ?x (imp_key imp)" "\<not> serviceChanged ?x service"
    using withImportLabels_check serviceChanged_refl wf by auto
  show ?thesis
  proof (cases "k_Get (cl_Service (ce_client E)) ?k (c_api c)")
    case (Inl err)
    then show ?thesis using assms(2) x service_writes(1) [OF ok, of ?x "c_api c"]
      by (auto simp: addImportService_result in_place_def split: if_splits)
  next
    case (Inr old)
    from kind_okD(1) [OF client_okD(4) [OF ok] this] have old: "kv_Service (view (c_api c)) ?k = Some old" .
    have sc: "serviceChanged old ?x = serviceChanged old service" by (rule serviceChanged_spec) simp
    show ?thesis using assms(2) Inr x old sc service_writes(2) [OF ok, of ?x "c_api c"]
      by (auto simp: addImportService_result in_place_def split: if_splits)
  qed
qed

lemma addImportService_other:
  assumes ok: "client_ok (ce_client E) view" and "k \<noteq> object_key (svc_Meta service)"
  shows "kv_Service (view (c_api (fst (addImportService E imp service c)))) k = kv_Service (view (c_api c)) k"
  using service_writes(1) [OF ok, of "withImportLabels imp service" "c_api c"]
    service_writes(2) [OF ok, of "withImportLabels imp service" "c_api c"] assms(2)
  by (auto simp: addImportService_result split: sum.split)

lemma importStatus_services:
  assumes "client_ok (ce_client E) view"
  shows "kv_Service (view (c_api (fst (importStatus E cond imp c err)))) = kv_Service (view (c_api c))"
proof -
  have "kv_Service (view (fst (k_StatusUpdate (cl_Import (ce_client E)) x (c_api c)))) = kv_Service (view (c_api c))" for x
    using import_writes(2) [OF assms, of x "c_api c"] by auto
  then show ?thesis
    by (auto simp: importStatus_def Let_def api_write_def split: prod.splits option.splits) (metis fst_conv)+
qed

lemma importStatus_None: "snd (importStatus E cond imp c err) = None \<Longrightarrow> err = None"
  by (auto simp: importStatus_def Let_def split: if_splits prod.splits option.splits)

lemma seqE_None_D: "snd (seqE f g s) = None \<Longrightarrow> snd (f s) = None \<and> seqE f g s = g (fst (f s))"
  by (auto simp: seqE_def split: prod.splits option.splits)

lemma addImportServices_in_place:
  assumes ok: "client_ok (ce_client E) view" and none: "snd (addImportServices E imp c) = None"
  defines "n \<equiv> (if imp_Namespace imp \<noteq> c_namespace c then SystemServiceName (ce_K E) (imp_key imp) else imp_Name imp)"
  shows "in_place (imp_key imp) (systemServiceFor n (c_namespace c) imp)
      (view (c_api (fst (addImportServices E imp c))))
    \<and> (imp_Namespace imp \<noteq> c_namespace c \<longrightarrow> in_place (imp_key imp) (userServiceFor n (c_namespace c) imp)
      (view (c_api (fst (addImportServices E imp c)))))"
proof -
  let ?d = "fst (deleteImportEndpointSlices E (imp_key imp) c)"
  let ?s = "systemServiceFor n (c_namespace c) imp" and ?u = "userServiceFor n (c_namespace c) imp"
  let ?c1 = "fst (addImportService E imp ?s ?d)"
  have ns: "c_namespace ?d = c_namespace c" "c_namespace ?c1 = c_namespace c"
    by (simp_all add: addImportService_result)
  have eq: "addImportServices E imp c = seqE (addImportService E imp ?s) (\<lambda>c'.
      if imp_Namespace imp = c_namespace c' then (c', None)
      else addImportService E imp (userServiceFor n (c_namespace c') imp) c') ?d"
    using seqE_None_D [OF none [unfolded addImportServices_def Let_def]] ns(1)
    unfolding addImportServices_def Let_def n_def imp_key_eq by (elim conjE) (simp only:)
  from seqE_None_D [OF none [unfolded eq]]
  have n1: "snd (addImportService E imp ?s ?d) = None" and
    eq2: "addImportServices E imp c = (if imp_Namespace imp = c_namespace c then (?c1, None)
      else addImportService E imp ?u ?c1)"
    unfolding eq using ns by auto
  have wf: "mwf (ss_Selector (svc_Spec ?s))" "mwf (ss_Selector (svc_Spec ?u))"
    by (simp_all add: systemServiceFor_def userServiceFor_def)
  note s1 = addImportService_in_place [OF ok n1 wf(1)]
  show ?thesis
  proof (cases "imp_Namespace imp = c_namespace c")
    case True
    then show ?thesis using s1 eq2 by simp
  next
    case False
    then have n2: "snd (addImportService E imp ?u ?c1) = None" using none eq2 by simp
    have k: "object_key (svc_Meta ?s) \<noteq> object_key (svc_Meta ?u)"
      using False by (simp add: systemServiceFor_def userServiceFor_def object_key_def)
    show ?thesis using s1 addImportService_in_place [OF ok n2 wf(2)] addImportService_other [OF ok k] False eq2
      by (auto simp: in_place_def)
  qed
qed

lemma addImport_in_place:
  assumes "client_ok (ce_client E) view" and "addImport E imp c = (c', None)"
    and "sget (om_Labels (imp_Meta imp)) LabelImportMerge \<noteq> ''true''"
  shows "\<exists>port. mget (leasesByName (c_ports c')) (imp_key imp) = Some port
    \<and> (let imp' = imp\<lparr>imp_Spec := (imp_Spec imp)\<lparr>imp_TargetPort := port\<rparr>\<rparr>;
          n = (if imp_Namespace imp \<noteq> c_namespace c then SystemServiceName (ce_K E) (imp_key imp) else imp_Name imp)
       in in_place (imp_key imp) (systemServiceFor n (c_namespace c) imp') (view (c_api c'))
          \<and> (imp_Namespace imp \<noteq> c_namespace c \<longrightarrow>
               in_place (imp_key imp) (userServiceFor n (c_namespace c) imp') (view (c_api c'))))"
proof -
  obtain imp1 c1 err where a: "allocateTargetPort E imp c = (imp1, c1, err)" by (metis prod_cases3)
  have err: "err = None"
  proof (cases err)
    case (Some e)
    then have "snd (importStatus E (new_condition ImportTargetPortValid ConditionFalse ''Error'' (Error (ce_K E) e))
        imp1 c1 (Some e)) = None"
      using assms(2) by (simp add: addImport_def a)
    from importStatus_None [OF this] show ?thesis by simp
  qed simp
  obtain m' q where l: "Lease (ce_rnd E) (imp_key imp) (imp_TargetPort (imp_Spec imp)) (c_ports c) = (m', Inr q)"
    using a err by (auto simp: allocateTargetPort_def Let_def imp_key_eq split: sum.splits prod.splits)
  have imp1: "imp1 = imp\<lparr>imp_Spec := (imp_Spec imp)\<lparr>imp_TargetPort := q\<rparr>\<rparr>" "c_ports c1 = m'"
    "c_namespace c1 = c_namespace c"
    using a err l Lease_port [OF l]
    by (auto simp: allocateTargetPort_def Let_def imp_key_eq api_write_def split: if_splits prod.splits option.splits)
  have lease: "mget (leasesByName m') (imp_key imp) = Some q"
    using l by (auto simp: Lease_def leaseWithRandomPort_def leaseWithSpecificPort_def Let_def
        split: if_splits option.splits)
  let ?r = "addImportServices E imp1 c1"
  have add: "addImport E imp c = importStatus E (new_condition ImportTargetPortValid ConditionTrue ''Leased'' [])
      imp1 (fst ?r) (snd ?r)"
    using assms(3) err imp1(1) by (simp add: addImport_def a split_beta)
  with assms(2) have none: "snd ?r = None" using importStatus_None by (metis snd_conv)
  have c': "c' = fst (importStatus E (new_condition ImportTargetPortValid ConditionTrue ''Leased'' []) imp1 (fst ?r) (snd ?r))"
    using add assms(2) by (metis fst_conv)
  have svc: "in_place n s (view (c_api c')) = in_place n s (view (c_api (fst ?r)))" for n s
    unfolding c' in_place_def importStatus_services [OF assms(1)] ..
  have "c_ports c' = m'" unfolding c' by (simp add: imp1)
  have meta: "imp_key imp1 = imp_key imp" "imp_Namespace imp1 = imp_Namespace imp" "imp_Name imp1 = imp_Name imp"
    by (simp_all add: imp1(1))
  note placed = addImportServices_in_place [OF assms(1) none, unfolded meta imp1(3)]
  show ?thesis unfolding svc Let_def
    by (intro exI [of _ q] conjI) (use lease placed \<open>c_ports c' = m'\<close> imp1(1) [symmetric] in simp_all)
qed


text \<open>What it means for the two services to be in place, spelled out.\<close>

lemma in_place_system:
  assumes "in_place k (systemServiceFor n ns imp) v"
  shows "\<exists>svc. kv_Service v (NamespacedName ns n) = Some svc \<and> checkServiceLabels svc k
    \<and> ss_Type (svc_Spec svc) = ''ClusterIP'' \<and> ss_Selector (svc_Spec svc) = [(''app'', ''cl-dataplane'')]
    \<and> ss_Ports (svc_Spec svc) = [\<lparr>sp_Protocol = ''TCP'', sp_Port = ucast (imp_Port (imp_Spec imp)),
          sp_TargetPort = IntVal (ucast (imp_TargetPort (imp_Spec imp)))\<rparr>]"
proof -
  obtain svc where svc: "kv_Service v (NamespacedName ns n) = Some svc" "checkServiceLabels svc k"
      "\<not> serviceChanged svc (systemServiceFor n ns imp)"
    using assms by (auto simp: in_place_def systemServiceFor_def object_key_def)
  obtain sel pt where s: "ss_Selector (svc_Spec svc) = [sel]" "ss_Ports (svc_Spec svc) = [pt]"
    using svc(3) by (auto simp: serviceChanged_def systemServiceFor_def Let_def length_Suc_conv split: if_splits)
  show ?thesis using svc s
    by (cases sel) (auto simp: serviceChanged_def systemServiceFor_def dataplane_Name_def Let_def split: if_splits)
qed

lemma in_place_user:
  assumes "in_place k (userServiceFor n ns imp) v"
  shows "\<exists>svc. kv_Service v (imp_key imp) = Some svc \<and> checkServiceLabels svc k
    \<and> ss_Type (svc_Spec svc) = ''ExternalName'' \<and> ss_ExternalName (svc_Spec svc) = n @ ''.'' @ ns @ ''.svc.cluster.local''"
  using assms
  by (auto simp: in_place_def userServiceFor_def object_key_def serviceChanged_def Let_def imp_key_eq split: if_splits)

text \<open>
  C35. When the handler of an import that is not merged reports success, the cluster has the
  system service that sends the import's port to its leased listening port on the
  dataplane, and, for an import of another namespace, the service under the import's own
  name that resolves to it; both carry the import's labels, and the import holds the lease.
\<close>

theorem addImport_success:
  assumes "client_ok (ce_client E) view" and "addImport E imp c = (c', None)"
    and "sget (om_Labels (imp_Meta imp)) LabelImportMerge \<noteq> ''true''"
  defines "n \<equiv> (if imp_Namespace imp \<noteq> c_namespace c then SystemServiceName (ce_K E) (imp_key imp) else imp_Name imp)"
  shows "\<exists>port svc. mget (leasesByName (c_ports c')) (imp_key imp) = Some port
    \<and> kv_Service (view (c_api c')) (NamespacedName (c_namespace c) n) = Some svc
    \<and> checkServiceLabels svc (imp_key imp)
    \<and> ss_Type (svc_Spec svc) = ''ClusterIP'' \<and> ss_Selector (svc_Spec svc) = [(''app'', ''cl-dataplane'')]
    \<and> ss_Ports (svc_Spec svc) =
        [\<lparr>sp_Protocol = ''TCP'', sp_Port = ucast (imp_Port (imp_Spec imp)), sp_TargetPort = IntVal (ucast port)\<rparr>]
    \<and> (imp_Namespace imp \<noteq> c_namespace c \<longrightarrow> (\<exists>usr. kv_Service (view (c_api c')) (imp_key imp) = Some usr
        \<and> checkServiceLabels usr (imp_key imp) \<and> ss_Type (svc_Spec usr) = ''ExternalName''
        \<and> ss_ExternalName (svc_Spec usr) = n @ ''.'' @ c_namespace c @ ''.svc.cluster.local''))"
proof -
  from addImport_in_place [OF assms(1-3)] obtain port where
    lease: "mget (leasesByName (c_ports c')) (imp_key imp) = Some port" and
    sys: "in_place (imp_key imp) (systemServiceFor n (c_namespace c)
        (imp\<lparr>imp_Spec := (imp_Spec imp)\<lparr>imp_TargetPort := port\<rparr>\<rparr>)) (view (c_api c'))" and
    usr: "imp_Namespace imp \<noteq> c_namespace c \<Longrightarrow> in_place (imp_key imp) (userServiceFor n (c_namespace c)
        (imp\<lparr>imp_Spec := (imp_Spec imp)\<lparr>imp_TargetPort := port\<rparr>\<rparr>)) (view (c_api c'))"
    unfolding n_def Let_def by blast
  show ?thesis using lease in_place_system [OF sys] in_place_user [OF usr] by simp
qed

theorem addImport_success_witness:
  "\<exists>svc. kv_Service (mem_view (c_api (fst (addImport control_demo_env (demo_imp ''sys'' 5000 [])
      (control_NewManager ''sys'' (empty_mem\<lparr>mem_Import := [(NamespacedName ''sys'' ''svc'', demo_imp ''sys'' 5000 [])]\<rparr>))))))
    (NamespacedName ''sys'' ''svc'') = Some svc \<and> checkServiceLabels svc (NamespacedName ''sys'' ''svc'')"
proof -
  let ?imp = "demo_imp ''sys'' 5000 []"
  let ?c = "control_NewManager ''sys'' (empty_mem\<lparr>mem_Import := [(NamespacedName ''sys'' ''svc'', ?imp)]\<rparr>)"
  have "snd (addImport control_demo_env ?imp ?c) = None" by code_simp
  then have run: "addImport control_demo_env ?imp ?c = (fst (addImport control_demo_env ?imp ?c), None)"
    by (metis prod.collapse)
  have unmerged: "sget (om_Labels (imp_Meta ?imp)) LabelImportMerge \<noteq> ''true''" by code_simp
  have k: "imp_key ?imp = NamespacedName ''sys'' ''svc''" "imp_Namespace ?imp = ''sys''" "imp_Name ?imp = ''svc''"
    "c_namespace ?c = ''sys''" by code_simp+
  from addImport_success [OF control_demo_ok run unmerged] show ?thesis unfolding k by auto
qed

subsection \<open>Exports\<close>

lemma exportStatus_outcome:
  "snd (exportStatus E export c err) = None \<Longrightarrow> err = None" "snd (exportStatus E export c (Some x)) \<noteq> None"
  "snd (exportStatus E export c err) = Some (Terminal e) \<Longrightarrow> err = Some e \<and> Is_exportServiceNotExistError e"
  by (auto simp: exportStatus_def Let_def split: if_splits prod.splits option.splits)

lemma Is_exportServiceNotExistError_simps [simp]:
  "Is_exportServiceNotExistError (exportServiceNotExistError n)" "\<not> Is_exportServiceNotExistError (api e)"
  by (simp_all add: Is_exportServiceNotExistError_def api_def)

text \<open>
  An export is accepted only if it names a host or its service exists, and given up on
  (a terminal error, not retried) only if its service is missing; every other failure is
  retried.
\<close>

theorem addExport_verdict:
  assumes "client_ok (ce_client E) view"
  shows "(snd (addExport E export c) = None \<longrightarrow>
      exp_Host (exp_Spec export) \<noteq> [] \<or> kv_Service (view (c_api c)) (object_key (exp_Meta export)) \<noteq> None)
    \<and> (snd (addExport E export c) = Some (Terminal e) \<longrightarrow>
      e = exportServiceNotExistError (object_key (exp_Meta export))
      \<and> exp_Host (exp_Spec export) = [] \<and> kv_Service (view (c_api c)) (object_key (exp_Meta export)) = None)"
proof (cases "exp_Host (exp_Spec export) = []")
  case True
  let ?g = "k_Get (cl_Service (ce_client E)) (object_key (exp_Meta export)) (c_api c)"
  have get: "?g = Inr x \<Longrightarrow> kv_Service (view (c_api c)) (object_key (exp_Meta export)) = Some x"
    "?g = Inl err \<Longrightarrow> IsNotFound err \<Longrightarrow> kv_Service (view (c_api c)) (object_key (exp_Meta export)) = None" for x err
    using kind_okD(1,3) [OF client_okD(4) [OF assms]] by metis+
  show ?thesis using True get
    by (cases ?g) (auto simp: addExport_def Let_def object_key_def exportStatus_outcome(2) dest!: exportStatus_outcome(1,3))
next
  case False
  then show ?thesis by (auto simp: addExport_def dest!: exportStatus_outcome(1,3))
qed

definition demo_exp :: "string \<Rightarrow> Export" where
  "demo_exp host = \<lparr>exp_Meta = \<lparr>om_Name = ''svc'', om_Namespace = ''ns'', om_Labels = []\<rparr>,
     exp_Spec = \<lparr>exp_Host = host, exp_Port = 80\<rparr>, exp_Status = \<lparr>exp_Conditions = []\<rparr>\<rparr>"

theorem addExport_verdict_witness:
  "\<exists>c e. snd (addExport control_demo_env (demo_exp []) c) = Some (Terminal e)
     \<and> e = exportServiceNotExistError (NamespacedName ''ns'' ''svc'')
     \<and> kv_Service (mem_view (c_api c)) (NamespacedName ''ns'' ''svc'') = None"
proof -
  let ?c = "control_NewManager ''sys'' (empty_mem\<lparr>mem_Export := [(NamespacedName ''ns'' ''svc'', demo_exp [])]\<rparr>)"
  let ?e = "exportServiceNotExistError (NamespacedName ''ns'' ''svc'')"
  have k: "object_key (exp_Meta (demo_exp [])) = NamespacedName ''ns'' ''svc''" by code_simp
  have run: "snd (addExport control_demo_env (demo_exp []) ?c) = Some (Terminal ?e)" by code_simp
  show ?thesis using addExport_verdict [OF control_demo_ok, of "demo_exp []" ?c ?e] run unfolding k by blast
qed

subsection \<open>Endpoint slices\<close>

lemma deleteSlice_gone:
  assumes "client_ok (ce_client E) view" and "snd (deleteSlice E k c) = None"
  shows "kv_EndpointSlice (view (c_api (fst (deleteSlice E k c)))) k = None"
proof (cases "snd (k_Delete (cl_EndpointSlice (ce_client E)) k (c_api c))")
  case None
  then show ?thesis using slice_writes(3) [OF assms(1), of k "c_api c"]
    by (auto simp: deleteSlice_def split_beta Let_def)
next
  case (Some e)
  then have "IsNotFound e" using assms(2) by (auto simp: deleteSlice_def split_beta Let_def split: if_splits)
  with kind_okD(9) [OF client_okD(5) [OF assms(1)], of k "c_api c"] Some show ?thesis
    by (simp add: deleteSlice_def split_beta Let_def prod_eq_iff)
qed

text \<open>
  The endpoint slices of merged imports do not outlive what they stand for: when a slice
  with a generated name is checked and its import is gone (or is not a merge import), and
  the check succeeds, the slice is gone too.
\<close>

theorem orphan_slice_removed:
  assumes ok: "client_ok (ce_client E) view"
    and n: "ies_importName n \<noteq> []" "ies_dataplaneEndpointSliceName n \<noteq> []" "length (ies_importName n) < 2 ^ 63"
    and orphan: "\<forall>imp. kv_Import (view (c_api c)) (NamespacedName ns (ies_importName n)) = Some imp \<longrightarrow>
        sget (om_Labels (imp_Meta imp)) LabelImportMerge \<noteq> ''true''"
    and success: "checkEndpointSlice E ns (importEndpointSliceName_Get n) c = (c', None)"
  shows "kv_EndpointSlice (view (c_api c')) (NamespacedName ns (importEndpointSliceName_Get n)) = None"
proof -
  let ?k = "NamespacedName ns (importEndpointSliceName_Get n)"
  have parse: "importEndpointSliceName_Parse \<lparr>ies_importName = [], ies_dataplaneEndpointSliceName = []\<rparr>
      (importEndpointSliceName_Get n) = (\<lparr>ies_importName = ies_importName n,
        ies_dataplaneEndpointSliceName = ies_dataplaneEndpointSliceName n\<rparr>, True)"
    using n by (simp add: importEndpointSliceName_Parse_def SplitN_Get Let_def)
  note get = kind_okD(1) [OF client_okD(1) [OF ok], of "NamespacedName ns (ies_importName n)" "c_api c"]
  have "checkEndpointSlice E ns (importEndpointSliceName_Get n) c = deleteSlice E ?k c"
    using success get orphan
    by (auto simp: checkEndpointSlice_def parse Let_def split: sum.splits if_splits)
  with success deleteSlice_gone [OF ok, of ?k c] show ?thesis by simp
qed

theorem orphan_slice_removed_witness:
  "kv_EndpointSlice (mem_view (c_api (fst (checkEndpointSlice control_demo_env ''ns''
      (importEndpointSliceName_Get \<lparr>ies_importName = ''imp'', ies_dataplaneEndpointSliceName = ''dp''\<rparr>)
      (control_NewManager ''sys'' empty_mem)))))
    (NamespacedName ''ns'' (importEndpointSliceName_Get \<lparr>ies_importName = ''imp'', ies_dataplaneEndpointSliceName = ''dp''\<rparr>)) = None"
proof -
  let ?n = "\<lparr>ies_importName = ''imp'', ies_dataplaneEndpointSliceName = ''dp''\<rparr>"
  let ?c = "control_NewManager ''sys'' empty_mem"
  have del: "k_Delete (cl_EndpointSlice (ce_client control_demo_env)) k (c_api ?c) = (empty_mem, Some (NotFound, ''not found''))" for k
    by (simp add: control_demo_env_def mem_client_def mem_kind_def mread_def empty_mem_def control_NewManager_def)
  have "k_Get (cl_Import (ce_client control_demo_env)) k (c_api ?c) = Inl (NotFound, ''not found'')" for k
    by (simp add: control_demo_env_def mem_client_def mem_kind_def mread_def empty_mem_def control_NewManager_def)
  then have s: "snd (checkEndpointSlice control_demo_env ''ns'' (importEndpointSliceName_Get ?n) ?c) = None"
    by (simp add: checkEndpointSlice_def importEndpointSliceName_Parse_def SplitN_Get Let_def deleteSlice_def del IsNotFound_def)
  then have "checkEndpointSlice control_demo_env ''ns'' (importEndpointSliceName_Get ?n) ?c =
      (fst (checkEndpointSlice control_demo_env ''ns'' (importEndpointSliceName_Get ?n) ?c), None)"
    by (metis prod.collapse)
  from orphan_slice_removed [OF control_demo_ok _ _ _ _ this] show ?thesis
    by (simp add: mem_view_def mread_def empty_mem_def control_NewManager_def)
qed

lemma bool_unchanged [simp]: "\<not> boolPointerChanged b b"
  by (simp add: boolPointerChanged_def split: option.split)

lemma endpoint_unchanged [simp]: "\<not> endpointChanged e e"
  by (auto simp: endpointChanged_def list_ex_iff set_zip)

lemma endpointSliceChanged_refl_but_ports:
  assumes "mwf (om_Labels (es_Meta es))"
  shows "\<not> endpointSliceChanged es (es\<lparr>es_Ports := ps\<rparr>)"
  using assms by (auto simp: endpointSliceChanged_def maps_equal_def list_ex_iff set_zip mget_mem)

text \<open>
  \<^verbatim>\<open>endpointSliceChanged\<close> does not compare ports. After the target port of a merged import
  changes, the check of its slices finds nothing to do and reports success, and the slices
  keep sending traffic to the old port.
\<close>

theorem slice_port_change_ignored:
  assumes "k_Get (cl_EndpointSlice (ce_client E)) (object_key (es_Meta (importSlice imp dp))) (c_api c)
      = Inr (importSlice imp dp)"
  shows "checkImportEndpointSlice E (imp\<lparr>imp_Spec := (imp_Spec imp)\<lparr>imp_TargetPort := port\<rparr>\<rparr>) dp c = (c, None)"
proof -
  let ?imp = "imp\<lparr>imp_Spec := (imp_Spec imp)\<lparr>imp_TargetPort := port\<rparr>\<rparr>"
  have same: "importSlice imp dp = (importSlice ?imp dp)\<lparr>es_Ports := es_Ports (importSlice imp dp)\<rparr>"
    by (simp add: importSlice_def Let_def)
  have "mwf (om_Labels (es_Meta (importSlice ?imp dp)))"
    by (simp add: importSlice_def Let_def disc_LabelServiceName_def disc_LabelManagedBy_def LabelDPEndpointSliceName_def)
  from endpointSliceChanged_refl_but_ports [OF this] have "\<not> endpointSliceChanged (importSlice ?imp dp) (importSlice imp dp)"
    by (subst same) blast
  moreover have "object_key (es_Meta (importSlice ?imp dp)) = object_key (es_Meta (importSlice imp dp))"
    by (simp add: importSlice_def Let_def)
  ultimately show ?thesis using assms by (simp add: checkImportEndpointSlice_def Let_def)
qed


definition demo_dp :: EndpointSlice where
  "demo_dp = \<lparr>es_Meta = \<lparr>om_Name = ''dp'', om_Namespace = ''sys'', om_Labels = [(disc_LabelServiceName, IngressSvcName)]\<rparr>,
     es_AddressType = ''IPv4'', es_Endpoints = [], es_Ports = []\<rparr>"

theorem slice_port_change_ignored_witness:
  "let imp = demo_imp ''ns'' 5000 []; es = importSlice imp demo_dp;
       c = control_NewManager ''sys'' (empty_mem\<lparr>mem_EndpointSlice := [(object_key (es_Meta es), es)]\<rparr>)
   in checkImportEndpointSlice control_demo_env (imp\<lparr>imp_Spec := (imp_Spec imp)\<lparr>imp_TargetPort := 6000\<rparr>\<rparr>) demo_dp c = (c, None)"
  unfolding Let_def
  by (rule slice_port_change_ignored)
    (simp add: control_demo_env_def mem_client_def mem_kind_def mread_def control_NewManager_def)

definition slice_ok :: "Import \<Rightarrow> EndpointSlice \<Rightarrow> cluster \<Rightarrow> bool" where
  "slice_ok imp dp v \<longleftrightarrow> (\<exists>es. kv_EndpointSlice v (object_key (es_Meta (importSlice imp dp))) = Some es
     \<and> \<not> endpointSliceChanged (importSlice imp dp) es)"

lemma importSlice_key:
  "object_key (es_Meta (importSlice imp dp)) = object_key (es_Meta (importSlice imp dp')) \<longleftrightarrow>
   om_Name (es_Meta dp) = om_Name (es_Meta dp')"
  by (simp add: importSlice_def Let_def object_key_def Get_eq_iff)

lemma importSlice_unchanged: "\<not> endpointSliceChanged (importSlice imp dp) (importSlice imp dp)"
proof -
  have "mwf (om_Labels (es_Meta (importSlice imp dp)))"
    by (simp add: importSlice_def Let_def disc_LabelServiceName_def disc_LabelManagedBy_def LabelDPEndpointSliceName_def)
  from endpointSliceChanged_refl_but_ports [OF this, of "es_Ports (importSlice imp dp)"] show ?thesis by simp
qed

lemma checkImportEndpointSlice_ok:
  assumes ok: "client_ok (ce_client E) view" and none: "snd (checkImportEndpointSlice E imp dp c) = None"
  shows "slice_ok imp dp (view (c_api (fst (checkImportEndpointSlice E imp dp c))))"
    and "k \<noteq> object_key (es_Meta (importSlice imp dp)) \<Longrightarrow>
      kv_EndpointSlice (view (c_api (fst (checkImportEndpointSlice E imp dp c)))) k = kv_EndpointSlice (view (c_api c)) k"
proof -
  let ?x = "importSlice imp dp"
  let ?g = "k_Get (cl_EndpointSlice (ce_client E)) (object_key (es_Meta ?x)) (c_api c)"
  note w = slice_writes(1,2) [OF ok, of ?x "c_api c"]
  have get: "?g = Inr y \<Longrightarrow> kv_EndpointSlice (view (c_api c)) (object_key (es_Meta ?x)) = Some y" for y
    by (rule kind_okD(1) [OF client_okD(5) [OF ok]])
  show "slice_ok imp dp (view (c_api (fst (checkImportEndpointSlice E imp dp c))))"
    using w get none importSlice_unchanged [of imp dp]
    by (cases ?g) (auto simp: checkImportEndpointSlice_def Let_def slice_ok_def split: if_splits)
  show "k \<noteq> object_key (es_Meta ?x) \<Longrightarrow>
      kv_EndpointSlice (view (c_api (fst (checkImportEndpointSlice E imp dp c)))) k = kv_EndpointSlice (view (c_api c)) k"
    using w by (cases ?g) (auto simp: checkImportEndpointSlice_def Let_def)
qed

lemma forE_slices_ok:
  assumes ok: "client_ok (ce_client E) view"
    and "snd (forE (checkImportEndpointSlice E imp) xs c) = None" and "\<forall>dp \<in> P. slice_ok imp dp (view (c_api c))"
    and "inj_on (\<lambda>dp. om_Name (es_Meta dp)) (P \<union> set xs)"
  shows "\<forall>dp \<in> P \<union> set xs. slice_ok imp dp (view (c_api (fst (forE (checkImportEndpointSlice E imp) xs c))))"
  using assms(2-4)
proof (induction xs arbitrary: c P)
  case (Cons x xs)
  let ?c = "fst (checkImportEndpointSlice E imp x c)"
  from seqE_None_D [of "checkImportEndpointSlice E imp x" _ c] Cons.prems(1)
  have n: "snd (checkImportEndpointSlice E imp x c) = None"
    and eq: "forE (checkImportEndpointSlice E imp) (x # xs) c = forE (checkImportEndpointSlice E imp) xs ?c"
    by auto
  note step = checkImportEndpointSlice_ok [OF ok n]
  have "slice_ok imp dp (view (c_api ?c))" if "dp \<in> insert x P" for dp
  proof (cases "dp = x")
    case False
    then have "om_Name (es_Meta dp) \<noteq> om_Name (es_Meta x)"
      using inj_onD [OF Cons.prems(3), of dp x] that False by auto
    then have "object_key (es_Meta (importSlice imp dp)) \<noteq> object_key (es_Meta (importSlice imp x))"
      by (simp add: importSlice_key)
    then show ?thesis using step(2) Cons.prems(2) that False by (auto simp: slice_ok_def)
  qed (simp add: step(1))
  with Cons.IH [of ?c "insert x P"] Cons.prems(1,3) show ?case by (simp add: eq [simplified])
qed simp

text \<open>
  When the handler of a merged import succeeds, every endpoint slice of the dataplane has
  its copy for the import, in the import's namespace, with the dataplane's endpoints: the
  generated names keep the copies of different slices apart.
\<close>

theorem merged_import_slices:
  assumes ok: "client_ok (ce_client E) view" and success: "addImportEndpointSlices E imp c = (c', None)"
    and dp: "kv_EndpointSlice (view (c_api c)) (object_key (es_Meta dp)) = Some dp"
      "om_Namespace (es_Meta dp) = c_namespace c"
      "mget (om_Labels (es_Meta dp)) disc_LabelServiceName = Some IngressSvcName"
  shows "slice_ok imp dp (view (c_api c')) \<and> kv_Service (view (c_api c)) (imp_key imp) \<noteq> None"
proof -
  let ?l = "k_List (cl_EndpointSlice (ce_client E)) [(disc_LabelServiceName, IngressSvcName)] (Some (c_namespace c)) (c_api c)"
  from success obtain svc xs where g: "k_Get (cl_Service (ce_client E)) (imp_key imp) (c_api c) = Inr svc"
    and xs: "?l = Inr xs" and f: "forE (checkImportEndpointSlice E imp) xs c = (c', None)"
    by (auto simp: addImportEndpointSlices_def Let_def imp_key_eq split: sum.splits if_splits)
  note set_xs = kind_okD(4) [OF client_okD(5) [OF ok] xs]
  have "inj_on (\<lambda>dp. om_Name (es_Meta dp)) (set xs)"
    by (rule inj_onI) (auto simp: set_xs selected_def object_key_def)
  from forE_slices_ok [OF ok, of imp xs c "{}"] this f
  have "\<forall>dp \<in> set xs. slice_ok imp dp (view (c_api c'))" by simp
  moreover have "dp \<in> set xs" using dp by (simp add: set_xs selected_def has_labels_def)
  moreover have "kv_Service (view (c_api c)) (imp_key imp) = Some svc"
    using g by (rule kind_okD(1) [OF client_okD(4) [OF ok]])
  ultimately show ?thesis by simp
qed


theorem merged_import_slices_witness:
  "let imp = demo_imp ''ns'' 5000 [(LabelImportMerge, ''true'')];
       s = empty_mem\<lparr>mem_Service := [(NamespacedName ''ns'' ''svc'', user_service)],
         mem_EndpointSlice := [(NamespacedName ''sys'' ''dp'', demo_dp)]\<rparr>
   in slice_ok imp demo_dp (mem_view (c_api (fst (addImportEndpointSlices control_demo_env imp (control_NewManager ''sys'' s)))))"
proof -
  let ?imp = "demo_imp ''ns'' 5000 [(LabelImportMerge, ''true'')]"
  let ?s = "empty_mem\<lparr>mem_Service := [(NamespacedName ''ns'' ''svc'', user_service)],
    mem_EndpointSlice := [(NamespacedName ''sys'' ''dp'', demo_dp)]\<rparr>"
  let ?c = "control_NewManager ''sys'' ?s"
  have "snd (addImportEndpointSlices control_demo_env ?imp ?c) = None" by code_simp
  then have "addImportEndpointSlices control_demo_env ?imp ?c =
      (fst (addImportEndpointSlices control_demo_env ?imp ?c), None)" by (metis prod.collapse)
  moreover have "kv_EndpointSlice (mem_view (c_api ?c)) (object_key (es_Meta demo_dp)) = Some demo_dp"
    by (simp add: mem_view_def mread_def control_NewManager_def) (simp add: demo_dp_def object_key_def)
  ultimately show ?thesis
    using merged_import_slices [OF control_demo_ok, of ?imp ?c _ demo_dp]
    by (simp add: Let_def) (simp add: demo_dp_def control_NewManager_def)
qed

subsection \<open>The JWK secret and the service map\<close>

text \<open>
  The key the manager generates is the key the authorization manager reads back from the
  secret, for any 256-valued bytes.
\<close>

theorem jwk_roundtrip:
  assumes "ce_randRead E = Inr key" and "\<forall>b \<in> set key. b < 256"
  shows "\<exists>data. generateJWKSecret E = Inr data \<and> ParseJWKSSecret (jwkSecret ns data) = Inr key"
  using assms by (simp add: generateJWKSecret_def ParseJWKSSecret_def jwkSecret_def b64_decode_encode)

theorem jwk_roundtrip_witness:
  "\<exists>data. generateJWKSecret control_demo_env = Inr data \<and> ParseJWKSSecret (jwkSecret ''sys'' data) = Inr [1, 2, 3]"
  by (rule jwk_roundtrip) (simp_all add: control_demo_env_def)

lemma secret_update:
  assumes "client_ok C view"
  shows "view (fst (k_Update (cl_Secret C) x s)) = view s \<and> snd (k_Update (cl_Secret C) x s) \<noteq> None
    \<or> kv_Secret (view s) (object_key (sec_Meta x)) \<noteq> None"
  using write_cases [OF kind_okD(6) [OF client_okD(6) [OF assms]], of x s] by auto

text \<open>
  The check that should repair the JWK secret does not: a secret that is there is left
  alone, even one that holds no usable key, and a secret that was deleted is never created
  again (the manager tries to update it, and fails). The test of the error is inverted.
\<close>

theorem jwk_secret_never_repaired:
  assumes "client_ok (ce_client E) view"
  shows "(k_Get (cl_Secret (ce_client E)) (NamespacedName (c_namespace c) JWKSecretName) (c_api c) = Inr secret \<longrightarrow>
      checkJWKSecret E name c = (c, None))
    \<and> (kv_Secret (view (c_api c)) (NamespacedName (c_namespace c) JWKSecretName) = None \<longrightarrow>
      view (c_api (fst (checkJWKSecret E name c))) = view (c_api c)
      \<and> (name = NamespacedName (c_namespace c) JWKSecretName \<longrightarrow> snd (checkJWKSecret E name c) \<noteq> None))"
proof
  let ?k = "NamespacedName (c_namespace c) JWKSecretName"
  show "k_Get (cl_Secret (ce_client E)) ?k (c_api c) = Inr secret \<longrightarrow> checkJWKSecret E name c = (c, None)"
    by (simp add: checkJWKSecret_def)
  have "view (fst (k_Update (cl_Secret (ce_client E)) (jwkSecret (c_namespace c) data) (c_api c))) = view (c_api c)
      \<and> snd (k_Update (cl_Secret (ce_client E)) (jwkSecret (c_namespace c) data) (c_api c)) \<noteq> None"
    if "kv_Secret (view (c_api c)) ?k = None" for data
    using secret_update [OF assms, of "jwkSecret (c_namespace c) data" "c_api c"] that
    by (simp add: jwkSecret_def object_key_def)
  moreover have "kv_Secret (view (c_api c)) ?k = Some x" if "k_Get (cl_Secret (ce_client E)) ?k (c_api c) = Inr x" for x
    using that by (rule kind_okD(1) [OF client_okD(6) [OF assms]])
  ultimately show "kv_Secret (view (c_api c)) ?k = None \<longrightarrow>
      view (c_api (fst (checkJWKSecret E name c))) = view (c_api c)
      \<and> (name = ?k \<longrightarrow> snd (checkJWKSecret E name c) \<noteq> None)"
    by (cases "k_Get (cl_Secret (ce_client E)) ?k (c_api c)")
      (auto simp: checkJWKSecret_def ParseJWKSSecret_def split: sum.split)
qed

theorem jwk_secret_never_repaired_witness:
  "snd (checkJWKSecret control_demo_env (NamespacedName ''sys'' JWKSecretName) (control_NewManager ''sys'' empty_mem)) \<noteq> None"
  using jwk_secret_never_repaired [OF control_demo_ok, of "control_NewManager ''sys'' empty_mem" _
      "NamespacedName ''sys'' JWKSecretName"]
  by (simp add: mem_view_def mread_def empty_mem_def control_NewManager_def)

text \<open>
  Deleting an import never removes its entry from the map from system services to
  imports: the guard compares a label with the very namespace it was just checked against.
\<close>

theorem service_map_never_cleaned:
  "c_serviceToImport (fst (deleteImport E name c)) = c_serviceToImport c"
proof -
  have guard: "checkServiceLabels old imp \<Longrightarrow> sget (om_Labels (svc_Meta old)) LabelImportNamespace = nn_Namespace imp" for old imp
    by (auto simp: checkServiceLabels_def Let_def sget_def split: if_splits)
  have d: "c_serviceToImport (fst (deleteImportService E svc imp c)) = c_serviceToImport c" for svc imp c
    by (auto simp: deleteImportService_def api_write_def guard split: sum.splits prod.splits option.splits)
  have "c_serviceToImport (fst (forE (\<lambda>es. deleteSlice E (object_key (es_Meta es))) xs c)) = c_serviceToImport c"
    for xs :: "EndpointSlice list" and c
    by (rule forE_inv [where P = "\<lambda>x. c_serviceToImport x = c_serviceToImport c"])
      (auto simp: deleteSlice_def split_beta Let_def)
  then have s: "c_serviceToImport (fst (deleteImportEndpointSlices E imp c)) = c_serviceToImport c" for imp c
    by (auto simp: deleteImportEndpointSlices_def split: sum.split)
  show ?thesis by (simp add: deleteImport_def split_beta Let_def d s)
qed

end
