(* ===== verification/Monitor.thy ===== *)
theory Monitor
  imports K8s PeerClient
begin

text \<open>
  \<^verbatim>\<open>pkg/controlplane/control/peer.go\<close>: the manager that watches whether peers are
  reachable. One goroutine per peer sends heartbeats and reports a change of status once
  enough consecutive heartbeats contradict the current one; one updater goroutine writes
  the reported statuses to the API. \<open>monitor_round\<close> is one turn of a monitor's loop on the
  result of its heartbeat; \<open>pm_step\<close> is the manager's operations interleaved with the steps of
  the goroutines, which synchronise over an unbuffered channel and the manager's lock.
\<close>

subsection \<open>One monitor\<close>

definition healthyInterval :: nat where "healthyInterval = 1"
definition unhealthyInterval :: nat where "unhealthyInterval = 10"
definition healthyThreshold :: nat where "healthyThreshold = 3"
definition unhealthyThreshold :: nat where "unhealthyThreshold = 5"

text \<open>The local variables of \<^verbatim>\<open>peerMonitor.Start\<close>; \<open>ml_interval\<close> is the period of the ticker in seconds.\<close>

record monitor_loop =
  ml_healthy :: bool
  ml_strikeCount :: nat
  ml_threshold :: nat
  ml_interval :: nat

definition monitor_start :: "apimachinery \<Rightarrow> Peer \<Rightarrow> monitor_loop" where
  "monitor_start K pr = \<lparr>ml_healthy = IsStatusConditionTrue K (pr_Conditions (pr_Status pr)) PeerReachable,
     ml_strikeCount = 0, ml_threshold = 1, ml_interval = healthyInterval\<rparr>"

definition reachableCond :: "bool \<Rightarrow> Condition" where
  "reachableCond ok = \<lparr>cond_Type = PeerReachable, cond_Status = (if ok then ConditionTrue else ConditionFalse),
     cond_ObservedGeneration = 0, cond_LastTransitionTime = 0, cond_Reason = ''Heartbeat'', cond_Message = []\<rparr>"

text \<open>One turn: the new variables and the peer to report, if its status changed.\<close>

definition monitor_round ::
    "apimachinery \<Rightarrow> error + labels \<Rightarrow> monitor_loop \<Rightarrow> Peer \<Rightarrow> monitor_loop \<times> Peer option" where
  "monitor_round K heartbeat l pr =
     (let heartbeatOK = (case heartbeat of Inl _ \<Rightarrow> False | Inr _ \<Rightarrow> True);
          peerLabels = (case heartbeat of Inl _ \<Rightarrow> [] | Inr ls \<Rightarrow> ls);
          l1 = (if ml_healthy l = heartbeatOK
                then l\<lparr>ml_interval := if \<not> ml_healthy l then unhealthyInterval else ml_interval l,
                       ml_strikeCount := 0\<rparr>
                else l\<lparr>ml_interval := if heartbeatOK then healthyInterval else ml_interval l,
                       ml_strikeCount := ml_strikeCount l + 1\<rparr>)
      in if ml_strikeCount l1 < ml_threshold l1 then (l1, None)
         else (\<lparr>ml_healthy = heartbeatOK, ml_strikeCount = 0,
                ml_threshold = (if heartbeatOK then unhealthyThreshold else healthyThreshold),
                ml_interval = (if heartbeatOK then ml_interval l1 else unhealthyInterval)\<rparr>,
               Some (pr\<lparr>pr_Status := (pr_Status pr)\<lparr>
                 pr_Conditions := SetStatusCondition K (pr_Conditions (pr_Status pr)) (reachableCond heartbeatOK),
                 pr_Labels := peerLabels\<rparr>\<rparr>)))"

text \<open>A run of the loop over the results of consecutive heartbeats, with the peers reported.\<close>

fun monitor_run ::
    "apimachinery \<Rightarrow> (error + labels) list \<Rightarrow> monitor_loop \<Rightarrow> Peer \<Rightarrow> monitor_loop \<times> Peer \<times> Peer list" where
  "monitor_run K [] l pr = (l, pr, [])"
| "monitor_run K (h # hs) l pr =
     (case monitor_round K h l pr of
        (l', None) \<Rightarrow> monitor_run K hs l' pr
      | (l', Some pr') \<Rightarrow> (case monitor_run K hs l' pr' of (l'', pr'', reports) \<Rightarrow> (l'', pr'', pr' # reports)))"

subsection \<open>Hysteresis\<close>

definition alive :: "error + labels \<Rightarrow> bool" where
  "alive h \<longleftrightarrow> (\<exists>ls. h = Inr ls)"

lemma alive_simps [simp]: "\<not> alive (Inl e)" "alive (Inr ls)"
  by (simp_all add: alive_def)

text \<open>\<open>streak b n hs\<close>: the results start with, or contain further on, \<open>n\<close> consecutive ones other than \<open>b\<close>.\<close>

definition streak :: "bool \<Rightarrow> nat \<Rightarrow> (error + labels) list \<Rightarrow> bool" where
  "streak b n hs \<longleftrightarrow> (\<exists>i. i + n \<le> length hs \<and> (\<forall>j < n. alive (hs ! (i + j)) \<noteq> b))"

definition starts_with :: "bool \<Rightarrow> nat \<Rightarrow> (error + labels) list \<Rightarrow> bool" where
  "starts_with b n hs \<longleftrightarrow> n \<le> length hs \<and> (\<forall>j < n. alive (hs ! j) \<noteq> b)"

lemma streak_Cons: "streak b n (h # hs) \<longleftrightarrow> starts_with b n (h # hs) \<or> streak b n hs"
proof
  assume "streak b n (h # hs)"
  then obtain i where i: "i + n \<le> length (h # hs)" "\<forall>j < n. alive ((h # hs) ! (i + j)) \<noteq> b"
    by (auto simp: streak_def)
  show "starts_with b n (h # hs) \<or> streak b n hs"
  proof (cases i)
    case 0
    then show ?thesis using i by (simp add: starts_with_def)
  next
    case (Suc i')
    then show ?thesis using i by (auto simp: streak_def intro!: exI [of _ i'])
  qed
next
  assume "starts_with b n (h # hs) \<or> streak b n hs"
  then show "streak b n (h # hs)"
  proof
    assume "starts_with b n (h # hs)"
    then show ?thesis by (auto simp: streak_def starts_with_def intro!: exI [of _ 0])
  next
    assume "streak b n hs"
    then obtain i where "i + n \<le> length hs" "\<forall>j < n. alive (hs ! (i + j)) \<noteq> b" by (auto simp: streak_def)
    then show ?thesis by (auto simp: streak_def intro!: exI [of _ "Suc i"])
  qed
qed

lemma starts_with_Cons: "starts_with b (Suc n) (h # hs) \<longleftrightarrow> alive h \<noteq> b \<and> starts_with b n hs"
  by (auto simp: starts_with_def nth_Cons' less_Suc_eq_0_disj)

lemma starts_streak: "starts_with b n hs \<Longrightarrow> streak b n hs"
  by (auto simp: streak_def starts_with_def intro!: exI [of _ 0])

lemma streak_1: "streak b (Suc 0) hs \<longleftrightarrow> (\<exists>h \<in> set hs. alive h \<noteq> b)"
  by (force simp: streak_def in_set_conv_nth Suc_le_eq)

lemma streak_Nil [simp]: "\<not> streak b (Suc n) []" "\<not> starts_with b (Suc n) []"
  by (simp_all add: streak_def starts_with_def)

lemma starts_with_0 [simp]: "starts_with b 0 hs"
  by (simp add: starts_with_def)

lemma starts_with_mono: "starts_with b n hs \<Longrightarrow> m \<le> n \<Longrightarrow> starts_with b m hs"
  by (simp add: starts_with_def)

lemma monitor_round_quiet:
  assumes "ml_strikeCount l < ml_threshold l"
  shows "snd (monitor_round K h l pr) = None \<longleftrightarrow>
      \<not> (alive h \<noteq> ml_healthy l \<and> Suc (ml_strikeCount l) = ml_threshold l)"
    and "snd (monitor_round K h l pr) = None \<Longrightarrow>
      ml_healthy (fst (monitor_round K h l pr)) = ml_healthy l
      \<and> ml_threshold (fst (monitor_round K h l pr)) = ml_threshold l
      \<and> ml_strikeCount (fst (monitor_round K h l pr)) = (if alive h = ml_healthy l then 0 else Suc (ml_strikeCount l))"
  using assms by (auto simp: monitor_round_def Let_def split: sum.splits if_splits)

lemma monitor_round_report:
  assumes "monitor_round K h l pr = (l', Some pr')"
  shows "ml_healthy l' = alive h \<and> ml_strikeCount l' = 0
      \<and> ml_threshold l' = (if alive h then unhealthyThreshold else healthyThreshold)"
    and "pr_Conditions (pr_Status pr') = SetStatusCondition K (pr_Conditions (pr_Status pr)) (reachableCond (alive h))"
    and "pr_Labels (pr_Status pr') = (case h of Inl _ \<Rightarrow> [] | Inr ls \<Rightarrow> ls)"
    and "pr_Spec pr' = pr_Spec pr" and "pr_Meta pr' = pr_Meta pr"
  using assms by (auto simp: monitor_round_def Let_def split: sum.splits if_splits)

text \<open>No report as long as no long enough streak, counting the strikes so far.\<close>

lemma monitor_run_quiet:
  assumes "ml_strikeCount l < ml_threshold l"
  shows "snd (snd (monitor_run K hs l pr)) = [] \<longleftrightarrow>
    \<not> (starts_with (ml_healthy l) (ml_threshold l - ml_strikeCount l) hs \<or> streak (ml_healthy l) (ml_threshold l) hs)"
  using assms
proof (induction hs arbitrary: l)
  case Nil
  then show ?case by (auto simp: starts_with_def streak_def)
next
  case (Cons h hs)
  let ?r = "monitor_round K h l pr"
  note q = monitor_round_quiet [OF Cons.prems, of K h pr]
  show ?case
  proof (cases "snd ?r")
    case (Some pr')
    then have "alive h \<noteq> ml_healthy l" "Suc (ml_strikeCount l) = ml_threshold l" using q(1) by auto
    then have "starts_with (ml_healthy l) (ml_threshold l - ml_strikeCount l) (h # hs)"
      by (simp add: starts_with_Cons flip: \<open>Suc (ml_strikeCount l) = ml_threshold l\<close>)
    then show ?thesis using Some by (cases ?r) (simp add: split_beta)
  next
    case None
    note q2 = q(2) [OF None]
    have lt: "ml_strikeCount (fst ?r) < ml_threshold (fst ?r)"
      using q(1) None q2 Cons.prems by (auto split: if_splits)
    have run: "monitor_run K (h # hs) l pr = monitor_run K hs (fst ?r) pr"
      using None by (cases ?r) simp
    obtain t where t: "ml_threshold l = Suc t" using Cons.prems by (cases "ml_threshold l") auto
    show ?thesis
    proof (cases "alive h = ml_healthy l")
      case True
      then show ?thesis using Cons.IH [OF lt] q2 run t Cons.prems
        by (auto simp: streak_Cons starts_with_Cons Suc_diff_le dest: starts_streak)
    next
      case False
      then have "ml_threshold l - ml_strikeCount l = Suc (ml_threshold l - Suc (ml_strikeCount l))"
        using Cons.prems by simp
      moreover have "starts_with (ml_healthy l) (ml_threshold l) (h # hs) \<Longrightarrow>
          starts_with (ml_healthy l) (ml_threshold l - Suc (ml_strikeCount l)) hs"
        using t starts_with_mono [of _ t hs "ml_threshold l - Suc (ml_strikeCount l)"] by (simp add: starts_with_Cons)
      ultimately show ?thesis using Cons.IH [OF lt] q2 run False
        by (auto simp: streak_Cons starts_with_Cons)
    qed
  qed
qed


abbreviation mon_demo_peer :: Peer where
  "mon_demo_peer \<equiv> demo_peer ''p'' [''gateway'']"


text \<open>
  A monitor starts with a threshold of one, and keeps it until its first report: a peer that
  was recorded reachable when the monitor started, and has answered every heartbeat since,
  is declared unreachable by a single failed one, not by five.
\<close>

theorem first_report_needs_one:
  assumes "IsStatusConditionTrue K (pr_Conditions (pr_Status pr)) PeerReachable"
    and "\<forall>h \<in> set hs. alive h"
  shows "snd (snd (monitor_run K hs (monitor_start K pr) pr)) = []
    \<and> snd (snd (monitor_run K (hs @ [Inl e]) (monitor_start K pr) pr)) \<noteq> []"
proof -
  have b: "snd (snd (monitor_run K xs (monitor_start K pr) pr)) = [] \<longleftrightarrow> (\<forall>x \<in> set xs. alive x)" for xs
    using monitor_run_quiet [of "monitor_start K pr" K xs pr] starts_streak [of True "Suc 0" xs] assms(1)
    by (auto simp: monitor_start_def streak_1)
  show ?thesis using assms(2) by (simp add: b)
qed

theorem first_report_needs_one_witness:
  "let K = ref_apimachinery;
       pr = mon_demo_peer\<lparr>pr_Status := \<lparr>pr_Conditions = [reachableCond True], pr_Labels = []\<rparr>\<rparr>
   in snd (snd (monitor_run K ([Inr [], Inr []] @ [Inl (Errorf [])]) (monitor_start K pr) pr)) \<noteq> []"
proof -
  let ?pr = "mon_demo_peer\<lparr>pr_Status := \<lparr>pr_Conditions = [reachableCond True], pr_Labels = []\<rparr>\<rparr>"
  have c: "IsStatusConditionTrue ref_apimachinery (pr_Conditions (pr_Status ?pr)) PeerReachable" by code_simp
  show ?thesis unfolding Let_def using first_report_needs_one [OF c, of "[Inr [], Inr []]" "Errorf []"] by simp
qed

end
