(* ===== verification/PeerManager.thy ===== *)
theory PeerManager
  imports Monitor
begin

text \<open>
  The peer manager of \<^verbatim>\<open>control/peer.go\<close> with its goroutines. Monitors are goroutines that
  outlive their entry in the map of monitors, so they are kept in a list (\<open>pm_heap\<close>) and the
  map holds positions of that list. A monitor is at the top of its loop (\<open>Polling\<close>), blocked
  sending a report on the unbuffered channel (\<open>Reporting\<close>), or gone. The updater waits for a
  report (\<open>Idle\<close>), looks up the monitor of a peer under the manager's lock (\<open>Looking\<close>), writes
  its peer to the API (\<open>Writing\<close>), or is gone. \<^verbatim>\<open>Stop\<close> holds the manager's lock while it waits
  for the goroutines (\<open>pm_stopping\<close>).
\<close>

datatype monitor_phase = Polling | Reporting | Exited

record peerMonitor =
  mon_pr :: Peer
  mon_client :: peer_Client
  mon_stopCh :: bool
  mon_loop :: monitor_loop
  mon_phase :: monitor_phase

datatype updater = Idle | Looking string | Writing string nat | UpdaterExited

record peerManager =
  pm_peerTLS :: "ParsedCertData option"
  pm_monitors :: "(string, nat) gomap"
  pm_heap :: "peerMonitor list"
  pm_updater :: updater
  pm_stopping :: bool
  pm_stopCh :: bool
  pm_stopped :: bool

subsection \<open>Operations\<close>

definition newPeerManager :: peerManager where
  "newPeerManager = \<lparr>pm_peerTLS = None, pm_monitors = [], pm_heap = [], pm_updater = Idle,
     pm_stopping = False, pm_stopCh = False, pm_stopped = False\<rparr>"

definition peerChanged :: "Peer \<Rightarrow> Peer \<Rightarrow> bool" where
  "peerChanged pr1 pr2 =
     (let g1 = pr_Gateways (pr_Spec pr1); g2 = pr_Gateways (pr_Spec pr2);
          c1 = pr_Conditions (pr_Status pr1); c2 = pr_Conditions (pr_Status pr2);
          l1 = pr_Labels (pr_Status pr1); l2 = pr_Labels (pr_Status pr2)
      in if length g1 \<noteq> length g2 then True
         else if list_ex (\<lambda>(a, b). ep_Host a \<noteq> ep_Host b \<or> ep_Port a \<noteq> ep_Port b) (zip g1 g2) then True
         else if length c1 \<noteq> length c2 then True
         else if list_ex (\<lambda>(a, b). a \<noteq> b) (zip c1 c2) then True
         else if length l1 \<noteq> length l2 then True
         else list_ex (\<lambda>(key, val). val \<noteq> sget l2 key) l1)"

definition newPeerMonitor :: "apimachinery \<Rightarrow> Peer \<Rightarrow> peerManager \<Rightarrow> panic + peerMonitor" where
  "newPeerMonitor K pr m =
     (case pm_peerTLS m of
        None \<Rightarrow> Inl NilDereference
      | Some peerTLS \<Rightarrow> Inr \<lparr>mon_pr = pr, mon_client = NewClient pr (ClientConfig peerTLS (pr_Name pr)),
          mon_stopCh = False, mon_loop = monitor_start K pr, mon_phase = Polling\<rparr>)"

definition monitor_Stop :: "nat \<Rightarrow> peerManager \<Rightarrow> peerManager" where
  "monitor_Stop i m = m\<lparr>pm_heap := (pm_heap m)[i := (pm_heap m ! i)\<lparr>mon_stopCh := True\<rparr>]\<rparr>"

definition SetPeer :: "nat \<Rightarrow> Peer \<Rightarrow> peerManager \<Rightarrow> peerManager" where
  "SetPeer i pr m = m\<lparr>pm_heap := (pm_heap m)[i := (pm_heap m ! i)\<lparr>mon_pr := pr\<rparr>]\<rparr>"

definition pm_AddPeer :: "apimachinery \<Rightarrow> Peer \<Rightarrow> peerManager \<Rightarrow> panic + peerManager" where
  "pm_AddPeer K pr m =
     (if pm_stopped m then Inr m
      else
     (let monitor = mget (pm_monitors m) (pr_Name pr)
      in case monitor of
           Some i \<Rightarrow>
             if \<not> peerChanged (mon_pr (pm_heap m ! i)) pr then Inr (SetPeer i pr m)
             else map_sum id (\<lambda>mon. let m' = monitor_Stop i m
                    in m'\<lparr>pm_heap := pm_heap m' @ [mon],
                          pm_monitors := mput (pr_Name pr) (length (pm_heap m)) (pm_monitors m')\<rparr>)
                  (newPeerMonitor K pr m)
         | None \<Rightarrow>
             map_sum id (\<lambda>mon. m\<lparr>pm_heap := pm_heap m @ [mon],
                     pm_monitors := mput (pr_Name pr) (length (pm_heap m)) (pm_monitors m)\<rparr>)
               (newPeerMonitor K pr m)))"

definition pm_DeletePeer :: "string \<Rightarrow> peerManager \<Rightarrow> peerManager" where
  "pm_DeletePeer name m = m\<lparr>pm_monitors := mdel name (pm_monitors m)\<rparr>"

definition SetClientCertificates :: "ParsedCertData \<Rightarrow> peerMonitor \<Rightarrow> peerMonitor" where
  "SetClientCertificates peerTLS mon =
     mon\<lparr>mon_client := NewClient (mon_pr mon) (ClientConfig peerTLS (pr_Name (mon_pr mon)))\<rparr>"

definition pm_SetPeerCertificates :: "ParsedCertData \<Rightarrow> peerManager \<Rightarrow> peerManager" where
  "pm_SetPeerCertificates peerTLS m =
     (let m' = m\<lparr>pm_peerTLS := Some peerTLS\<rparr>
      in m'\<lparr>pm_heap := fold (\<lambda>(_, i) heap. heap[i := SetClientCertificates peerTLS (heap ! i)])
                           (pm_monitors m') (pm_heap m')\<rparr>)"

text \<open>\<^verbatim>\<open>Stop\<close> up to the point where it waits for the monitors, holding the lock.\<close>

definition pm_Stop_begin :: "peerManager \<Rightarrow> peerManager" where
  "pm_Stop_begin m = (fold (\<lambda>(_, i). monitor_Stop i) (pm_monitors m) m)\<lparr>pm_stopping := True\<rparr>"

subsection \<open>Goroutines\<close>

text \<open>
  Events: an operation called by a controller or the certificate watcher, a turn of a
  monitor, a step of the updater, a stage of \<^verbatim>\<open>Stop\<close>.
\<close>

datatype pm_event = EvAdd Peer | EvDelete string | EvCertificates ParsedCertData | EvMonitor nat | EvUpdater | EvStop

definition set_monitor :: "nat \<Rightarrow> peerMonitor \<Rightarrow> peerManager \<Rightarrow> peerManager" where
  "set_monitor i mon m = m\<lparr>pm_heap := (pm_heap m)[i := mon]\<rparr>"

inductive pm_step ::
    "apimachinery \<Rightarrow> 's k8s_client \<Rightarrow> pm_event \<Rightarrow> 's \<times> peerManager \<Rightarrow> 's \<times> peerManager \<Rightarrow> bool"
  for K C where
  add: "\<not> pm_stopping m \<Longrightarrow> pm_AddPeer K pr m = Inr m' \<Longrightarrow> pm_step K C (EvAdd pr) (s, m) (s, m')"
| delete: "\<not> pm_stopping m \<Longrightarrow> pm_step K C (EvDelete n) (s, m) (s, pm_DeletePeer n m)"
| set_certificates: "\<not> pm_stopping m \<Longrightarrow> pm_step K C (EvCertificates tls) (s, m) (s, pm_SetPeerCertificates tls m)"
| heartbeat: "i < length (pm_heap m) \<Longrightarrow> mon = pm_heap m ! i \<Longrightarrow> mon_phase mon = Polling \<Longrightarrow> \<not> mon_stopCh mon \<Longrightarrow>
    GetHeartbeat E (mon_client mon) = Inr h \<Longrightarrow> monitor_round K h (mon_loop mon) (mon_pr mon) = (l, None) \<Longrightarrow>
    pm_step K C (EvMonitor i) (s, m) (s, set_monitor i (mon\<lparr>mon_loop := l\<rparr>) m)"
| status_change: "i < length (pm_heap m) \<Longrightarrow> mon = pm_heap m ! i \<Longrightarrow> mon_phase mon = Polling \<Longrightarrow> \<not> mon_stopCh mon \<Longrightarrow>
    GetHeartbeat E (mon_client mon) = Inr h \<Longrightarrow> monitor_round K h (mon_loop mon) (mon_pr mon) = (l, Some pr) \<Longrightarrow>
    pm_step K C (EvMonitor i) (s, m) (s, set_monitor i (mon\<lparr>mon_loop := l, mon_pr := pr, mon_phase := Reporting\<rparr>) m)"
| monitor_exit: "i < length (pm_heap m) \<Longrightarrow> mon = pm_heap m ! i \<Longrightarrow> mon_phase mon = Polling \<Longrightarrow> mon_stopCh mon \<Longrightarrow>
    pm_step K C (EvMonitor i) (s, m) (s, set_monitor i (mon\<lparr>mon_phase := Exited\<rparr>) m)"
| handover: "i < length (pm_heap m) \<Longrightarrow> mon = pm_heap m ! i \<Longrightarrow> mon_phase mon = Reporting \<Longrightarrow> pm_updater m = Idle \<Longrightarrow>
    pm_step K C EvUpdater (s, m)
      (s, (set_monitor i (mon\<lparr>mon_phase := Polling\<rparr>) m)\<lparr>pm_updater := Looking (pr_Name (mon_pr mon))\<rparr>)"
| lookup: "pm_updater m = Looking n \<Longrightarrow> \<not> pm_stopping m \<Longrightarrow>
    pm_step K C EvUpdater (s, m) (s, case mget (pm_monitors m) n of None \<Rightarrow> m | Some i \<Rightarrow> m\<lparr>pm_updater := Writing n i\<rparr>)"
| write_failed: "pm_updater m = Writing n i \<Longrightarrow> k_StatusUpdate (cl_Peer C) (mon_pr (pm_heap m ! i)) s = (s', Some e) \<Longrightarrow>
    pm_step K C EvUpdater (s, m) (s', m\<lparr>pm_updater := Looking n\<rparr>)"
| write_done: "pm_updater m = Writing n i \<Longrightarrow> k_StatusUpdate (cl_Peer C) (mon_pr (pm_heap m ! i)) s = (s', None) \<Longrightarrow>
    pm_step K C EvUpdater (s, m) (s', m\<lparr>pm_updater := Idle\<rparr>)"
| updater_exit: "pm_updater m = Idle \<Longrightarrow> pm_stopCh m \<Longrightarrow>
    pm_step K C EvUpdater (s, m) (s, m\<lparr>pm_updater := UpdaterExited\<rparr>)"
| stop_begin: "\<not> pm_stopping m \<Longrightarrow> \<not> pm_stopped m \<Longrightarrow> pm_step K C EvStop (s, m) (s, pm_Stop_begin m)"
| stop_monitors_done: "pm_stopping m \<Longrightarrow> \<not> pm_stopCh m \<Longrightarrow> list_all (\<lambda>mon. mon_phase mon = Exited) (pm_heap m) \<Longrightarrow>
    pm_step K C EvStop (s, m) (s, m\<lparr>pm_stopCh := True\<rparr>)"
| stop_done: "pm_stopping m \<Longrightarrow> pm_stopCh m \<Longrightarrow> pm_updater m = UpdaterExited \<Longrightarrow>
    pm_step K C EvStop (s, m) (s, m\<lparr>pm_stopping := False, pm_stopped := True\<rparr>)"

inductive pm_run ::
    "apimachinery \<Rightarrow> 's k8s_client \<Rightarrow> pm_event list \<Rightarrow> 's \<times> peerManager \<Rightarrow> 's \<times> peerManager \<Rightarrow> bool"
  for K C where
  no_event: "pm_run K C [] x x"
| event: "pm_run K C evs x y \<Longrightarrow> pm_step K C ev y z \<Longrightarrow> pm_run K C (evs @ [ev]) x z"

subsection \<open>Every peer has a current monitor\<close>

text \<open>
  The invariant of the map of monitors: the monitor of a peer probes the gateways of that
  peer with the manager's current certificate, expecting the peer's name, and has not been
  told to stop unless the manager is stopping.
\<close>

definition monitor_current :: "peerManager \<Rightarrow> string \<Rightarrow> peerMonitor \<Rightarrow> bool" where
  "monitor_current m n mon \<longleftrightarrow> pr_Name (mon_pr mon) = n
     \<and> (\<exists>tls. pm_peerTLS m = Some tls
          \<and> pc_clients (mon_client mon) = pc_clients (NewClient (mon_pr mon) (ClientConfig tls n)))
     \<and> (mon_stopCh mon \<longrightarrow> pm_stopping m \<or> pm_stopped m)"

definition pm_inv :: "peerManager \<Rightarrow> bool" where
  "pm_inv m \<longleftrightarrow> mwf (pm_monitors m) \<and> (\<forall>n i. mget (pm_monitors m) n = Some i \<longrightarrow>
     i < length (pm_heap m) \<and> monitor_current m n (pm_heap m ! i))"

lemma pm_invD:
  assumes "pm_inv m" and "mget (pm_monitors m) n = Some i"
  shows "i < length (pm_heap m)" and "monitor_current m n (pm_heap m ! i)"
  using assms by (simp_all add: pm_inv_def)

lemma pm_invI:
  assumes "mwf (pm_monitors m)"
    and "\<And>n i. mget (pm_monitors m) n = Some i \<Longrightarrow> i < length (pm_heap m) \<and> monitor_current m n (pm_heap m ! i)"
  shows "pm_inv m"
  using assms by (simp add: pm_inv_def)

lemma pm_inv_wf: "pm_inv m \<Longrightarrow> mwf (pm_monitors m)"
  by (simp add: pm_inv_def)

lemma monitor_current_cong:
  assumes "monitor_current m n mon" and "pr_Name (mon_pr mon') = pr_Name (mon_pr mon)"
    and "pr_Gateways (pr_Spec (mon_pr mon')) = pr_Gateways (pr_Spec (mon_pr mon))"
    and "pc_clients (mon_client mon') = pc_clients (mon_client mon)"
    and "mon_stopCh mon' = mon_stopCh mon" and "pm_peerTLS m' = pm_peerTLS m"
    and "pm_stopping m \<or> pm_stopped m \<Longrightarrow> pm_stopping m' \<or> pm_stopped m'"
  shows "monitor_current m' n mon'"
  using assms by (auto simp: monitor_current_def NewClient_def)

lemma pm_inv_inj:
  assumes "pm_inv m" and "mget (pm_monitors m) n = Some i" and "mget (pm_monitors m) n' = Some i"
  shows "n = n'"
  using pm_invD(2) [OF assms(1,2)] pm_invD(2) [OF assms(1,3)] by (simp add: monitor_current_def)

lemma peerChanged_gateways:
  assumes "\<not> peerChanged a b"
  shows "pr_Gateways (pr_Spec a) = pr_Gateways (pr_Spec b)" (is "?g1 = ?g2")
proof (rule nth_equalityI)
  show len: "length ?g1 = length ?g2" using assms by (auto simp: peerChanged_def Let_def split: if_splits)
  fix j assume "j < length ?g1"
  then have "(?g1 ! j, ?g2 ! j) \<in> set (zip ?g1 ?g2)" using len by (auto simp: set_zip)
  moreover have "\<not> list_ex (\<lambda>(a, b). ep_Host a \<noteq> ep_Host b \<or> ep_Port a \<noteq> ep_Port b) (zip ?g1 ?g2)"
    using assms by (auto simp: peerChanged_def Let_def split: if_splits)
  ultimately have "ep_Host (?g1 ! j) = ep_Host (?g2 ! j) \<and> ep_Port (?g1 ! j) = ep_Port (?g2 ! j)"
    by (auto simp: list_ex_iff)
  then show "?g1 ! j = ?g2 ! j" by simp
qed

lemma certificates_idem: "SetClientCertificates tls (SetClientCertificates tls mon) = SetClientCertificates tls mon"
  by (simp add: SetClientCertificates_def)

lemma certificates_heap:
  fixes xs :: "(string \<times> nat) list" and tls :: ParsedCertData
  defines "renew \<equiv> fold (\<lambda>(_, i) heap. heap[i := SetClientCertificates tls (heap ! i)])"
  shows "length (renew xs heap) = length heap"
    and "j < length heap \<Longrightarrow> renew xs heap ! j =
      (if j \<in> snd ` set xs then SetClientCertificates tls (heap ! j) else heap ! j)"
proof -
  show "length (renew xs heap) = length heap"
    unfolding renew_def by (induction xs arbitrary: heap) (auto simp: split_beta)
  show "renew xs heap ! j = (if j \<in> snd ` set xs then SetClientCertificates tls (heap ! j) else heap ! j)"
    if "j < length heap" using that unfolding renew_def
  proof (induction xs arbitrary: heap)
    case (Cons x xs)
    then show ?case using Cons.IH [of "heap[snd x := SetClientCertificates tls (heap ! snd x)]"]
      by (cases "j = snd x") (simp_all add: certificates_idem split_beta)
  qed simp
qed

lemma stop_heap:
  fixes xs :: "(string \<times> nat) list" and m :: peerManager
  defines "m' \<equiv> fold (\<lambda>(_, i). monitor_Stop i) xs m"
  shows "length (pm_heap m') = length (pm_heap m)"
    and "j < length (pm_heap m) \<Longrightarrow> pm_heap m' ! j =
      (if j \<in> snd ` set xs then (pm_heap m ! j)\<lparr>mon_stopCh := True\<rparr> else pm_heap m ! j)"
    and "pm_monitors m' = pm_monitors m \<and> pm_peerTLS m' = pm_peerTLS m \<and> pm_updater m' = pm_updater m
      \<and> pm_stopCh m' = pm_stopCh m \<and> pm_stopped m' = pm_stopped m"
proof -
  show "length (pm_heap m') = length (pm_heap m)"
    unfolding m'_def by (induction xs arbitrary: m) (auto simp: monitor_Stop_def split_beta)
  show "pm_heap m' ! j = (if j \<in> snd ` set xs then (pm_heap m ! j)\<lparr>mon_stopCh := True\<rparr> else pm_heap m ! j)"
    if "j < length (pm_heap m)" using that unfolding m'_def
  proof (induction xs arbitrary: m)
    case (Cons x xs)
    then show ?case using Cons.IH [of "monitor_Stop (snd x) m"]
      by (cases "j = snd x") (simp_all add: monitor_Stop_def split_beta)
  qed simp
  show "pm_monitors m' = pm_monitors m \<and> pm_peerTLS m' = pm_peerTLS m \<and> pm_updater m' = pm_updater m
      \<and> pm_stopCh m' = pm_stopCh m \<and> pm_stopped m' = pm_stopped m"
    unfolding m'_def by (induction xs arbitrary: m) (auto simp: monitor_Stop_def split_beta)
qed

lemma mget_snd: "mget xs k = Some i \<Longrightarrow> i \<in> snd ` set xs"
  by (metis map_of_SomeD image_eqI snd_conv)

lemma pm_inv_new: "pm_inv newPeerManager"
  by (simp add: pm_inv_def newPeerManager_def)

lemma pm_inv_monitor:
  assumes "pm_inv m" and "pr_Name (mon_pr mon') = pr_Name (mon_pr (pm_heap m ! i))"
    and "pr_Gateways (pr_Spec (mon_pr mon')) = pr_Gateways (pr_Spec (mon_pr (pm_heap m ! i)))"
    and "pc_clients (mon_client mon') = pc_clients (mon_client (pm_heap m ! i))"
    and "mon_stopCh mon' = mon_stopCh (pm_heap m ! i)"
  shows "pm_inv (set_monitor i mon' m)"
proof (rule pm_invI)
  fix n j assume "mget (pm_monitors (set_monitor i mon' m)) n = Some j"
  then have j: "mget (pm_monitors m) n = Some j" by (simp add: set_monitor_def)
  note D = pm_invD [OF assms(1) j]
  have eq: "pm_heap (set_monitor i mon' m) ! j = (if j = i then mon' else pm_heap m ! j)"
    using D(1) by (auto simp: set_monitor_def)
  have "monitor_current (set_monitor i mon' m) n (if j = i then mon' else pm_heap m ! j)"
    by (rule monitor_current_cong [OF D(2)]) (use assms in \<open>auto simp: set_monitor_def\<close>)
  then show "j < length (pm_heap (set_monitor i mon' m)) \<and>
      monitor_current (set_monitor i mon' m) n (pm_heap (set_monitor i mon' m) ! j)"
    unfolding eq using D(1) by (simp add: set_monitor_def)
qed (use assms(1) in \<open>simp add: set_monitor_def pm_inv_wf\<close>)

lemma newPeerMonitor_current:
  assumes "newPeerMonitor K pr m = Inr mon" and "pm_peerTLS m' = pm_peerTLS m"
  shows "monitor_current m' (pr_Name pr) mon"
  using assms by (auto simp: newPeerMonitor_def monitor_current_def split: option.splits)

lemma pm_inv_add_monitor:
  assumes inv: "pm_inv m" and new: "newPeerMonitor K pr m = Inr mon"
    and len: "length heap = length (pm_heap m)"
    and others: "\<And>n j. mget (pm_monitors m) n = Some j \<Longrightarrow> n \<noteq> pr_Name pr \<Longrightarrow> heap ! j = pm_heap m ! j"
  shows "pm_inv (m\<lparr>pm_heap := heap @ [mon], pm_monitors := mput (pr_Name pr) (length (pm_heap m)) (pm_monitors m)\<rparr>)"
    (is "pm_inv ?m")
proof (rule pm_invI)
  show "mwf (pm_monitors ?m)" using inv by (simp add: pm_inv_wf)
  fix n j assume j: "mget (pm_monitors ?m) n = Some j"
  show "j < length (pm_heap ?m) \<and> monitor_current ?m n (pm_heap ?m ! j)"
  proof (cases "n = pr_Name pr")
    case True
    then show ?thesis using j len newPeerMonitor_current [OF new, of ?m] by (auto simp: nth_append)
  next
    case False
    then have j': "mget (pm_monitors m) n = Some j" using j by simp
    note D = pm_invD [OF inv j']
    have "monitor_current ?m n (pm_heap m ! j)" by (rule monitor_current_cong [OF D(2)]) auto
    then show ?thesis using D(1) len others [OF j' False] by (simp add: nth_append)
  qed
qed

lemma pm_AddPeer_inv:
  assumes inv: "pm_inv m" and add: "pm_AddPeer K pr m = Inr m'"
  shows "pm_inv m'"
proof (cases "mget (pm_monitors m) (pr_Name pr)")
  case None
  then show ?thesis using add inv pm_inv_add_monitor [OF inv]
    by (cases "newPeerMonitor K pr m") (auto simp: pm_AddPeer_def split: if_splits)
next
  case (Some i)
  have i: "i < length (pm_heap m)" "pr_Name (mon_pr (pm_heap m ! i)) = pr_Name pr"
    using inv Some by (auto simp: pm_inv_def monitor_current_def)
  show ?thesis
  proof (cases "peerChanged (mon_pr (pm_heap m ! i)) pr")
    case True
    let ?heap = "(pm_heap m)[i := (pm_heap m ! i)\<lparr>mon_stopCh := True\<rparr>]"
    have others: "?heap ! j = pm_heap m ! j" if "mget (pm_monitors m) n = Some j" "n \<noteq> pr_Name pr" for n j
      using pm_inv_inj [OF inv Some] that by (metis nth_list_update_neq)
    show ?thesis
    proof (cases "newPeerMonitor K pr m")
      case (Inr mon)
      have "pm_inv (m\<lparr>pm_heap := ?heap @ [mon], pm_monitors := mput (pr_Name pr) (length (pm_heap m)) (pm_monitors m)\<rparr>)"
        by (rule pm_inv_add_monitor [OF inv Inr]) (use others in auto)
      then show ?thesis using True add Some inv Inr by (auto simp: pm_AddPeer_def monitor_Stop_def split: if_splits)
    qed (use True add Some inv in \<open>auto simp: pm_AddPeer_def split: if_splits\<close>)
  next
    case False
    then have "m' = (if pm_stopped m then m else set_monitor i ((pm_heap m ! i)\<lparr>mon_pr := pr\<rparr>) m)"
      using add Some by (simp add: pm_AddPeer_def SetPeer_def set_monitor_def split: if_splits)
    then show ?thesis using inv i(2) peerChanged_gateways [OF False]
      by (auto intro!: pm_inv_monitor)
  qed
qed

lemma pm_SetPeerCertificates_inv:
  assumes "pm_inv m"
  shows "pm_inv (pm_SetPeerCertificates tls m)"
proof -
  have "i < length (pm_heap m) \<and> monitor_current (pm_SetPeerCertificates tls m) n (pm_heap (pm_SetPeerCertificates tls m) ! i)"
    if "mget (pm_monitors m) n = Some i" for n i
    using assms that mget_snd [OF that] certificates_heap(2) [of i "pm_heap m" tls "pm_monitors m"]
    by (auto simp: pm_inv_def monitor_current_def pm_SetPeerCertificates_def Let_def SetClientCertificates_def)
  then show ?thesis using assms certificates_heap(1)
    by (simp add: pm_inv_def pm_SetPeerCertificates_def Let_def)
qed

lemma pm_Stop_begin_inv:
  assumes "pm_inv m"
  shows "pm_inv (pm_Stop_begin m)"
  using assms stop_heap [where xs = "pm_monitors m" and m = m]
  by (auto simp: pm_inv_def pm_Stop_begin_def monitor_current_def)

lemma pm_inv_fields:
  assumes "pm_inv m" and "pm_heap m' = pm_heap m" and "pm_peerTLS m' = pm_peerTLS m"
    and "pm_stopping m \<or> pm_stopped m \<Longrightarrow> pm_stopping m' \<or> pm_stopped m'"
    and "\<And>n i. mget (pm_monitors m') n = Some i \<Longrightarrow> mget (pm_monitors m) n = Some i" and "mwf (pm_monitors m')"
  shows "pm_inv m'"
proof (rule pm_invI)
  fix n i assume "mget (pm_monitors m') n = Some i"
  note D = pm_invD [OF assms(1) assms(5) [OF this]]
  have "monitor_current m' n (pm_heap m ! i)"
    by (rule monitor_current_cong [OF D(2)]) (use assms(3,4) in auto)
  then show "i < length (pm_heap m') \<and> monitor_current m' n (pm_heap m' ! i)" using D(1) assms(2) by simp
qed (rule assms(6))

lemma pm_step_inv:
  assumes "pm_step K C ev x y" and "pm_inv (snd x)"
  shows "pm_inv (snd y)"
  using assms
proof (induction rule: pm_step.induct)
  case (add m pr m' s)
  then show ?case using pm_AddPeer_inv by simp
next
  case (delete m n s)
  then show ?case by (auto intro!: pm_inv_fields [of m] simp: pm_DeletePeer_def pm_inv_wf split: if_splits)
next
  case (set_certificates m tls s)
  then show ?case by (simp add: pm_SetPeerCertificates_inv)
next
  case (status_change i m mon E h l pr s)
  then show ?case using monitor_round_report(4,5) [OF status_change(6)] by (auto intro!: pm_inv_monitor)
next
  case (handover i m mon s)
  then have "pm_inv (set_monitor i (mon\<lparr>mon_phase := Polling\<rparr>) m)" by (auto intro!: pm_inv_monitor)
  then show ?case by (auto intro!: pm_inv_fields [of "set_monitor i (mon\<lparr>mon_phase := Polling\<rparr>) m"] simp: pm_inv_wf)
next
  case (lookup m n s)
  then show ?case by (auto intro!: pm_inv_fields [of m] simp: pm_inv_wf split: option.split)
next
  case (stop_begin m s)
  then show ?case by (simp add: pm_Stop_begin_inv)
next
  case (stop_done m s)
  then show ?case by (auto intro!: pm_inv_fields [of m] simp: pm_inv_wf)
qed (simp_all add: pm_inv_monitor, (rule pm_inv_fields, assumption, simp_all add: pm_inv_wf)+)

lemma pm_run_inv: "pm_run K C evs x y \<Longrightarrow> pm_inv (snd x) \<Longrightarrow> pm_inv (snd y)"
  by (induction rule: pm_run.induct) (auto intro: pm_step_inv)


definition pm_demo :: peerManager where
  "pm_demo = (case pm_AddPeer ref_apimachinery mon_demo_peer (pm_SetPeerCertificates demo_cert newPeerManager) of
     Inr m \<Rightarrow> m | Inl _ \<Rightarrow> newPeerManager)"

lemma pm_demo_run:
  "pm_run ref_apimachinery C ([EvCertificates demo_cert] @ [EvAdd mon_demo_peer]) (s, newPeerManager) (s, pm_demo)"
proof -
  have start: "pm_run ref_apimachinery C [] (s, newPeerManager) (s, newPeerManager)" by (rule no_event)
  have certs: "pm_step ref_apimachinery C (EvCertificates demo_cert) (s, newPeerManager)
      (s, pm_SetPeerCertificates demo_cert newPeerManager)"
    by (rule set_certificates) (simp add: newPeerManager_def)
  have added: "pm_step ref_apimachinery C (EvAdd mon_demo_peer)
      (s, pm_SetPeerCertificates demo_cert newPeerManager) (s, pm_demo)"
    by (rule add) (simp_all add: pm_SetPeerCertificates_def newPeerManager_def pm_demo_def pm_AddPeer_def
        newPeerMonitor_def)
  show ?thesis using event [OF event [OF start certs] added] by simp
qed

lemma pm_demo_monitor: "mget (pm_monitors pm_demo) ''p'' = Some 0"
  by (simp add: pm_demo_def pm_AddPeer_def newPeerMonitor_def pm_SetPeerCertificates_def newPeerManager_def demo_peer_def)


subsection \<open>Deleted peers\<close>

lemma pm_AddPeer_frame:
  assumes "pm_AddPeer K pr m = Inr m'"
  shows "pm_updater m' = pm_updater m \<and> pm_stopping m' = pm_stopping m \<and> pm_stopCh m' = pm_stopCh m
      \<and> pm_stopped m' = pm_stopped m \<and> (n \<noteq> pr_Name pr \<longrightarrow> mget (pm_monitors m') n = mget (pm_monitors m) n)"
  using assms
  by (cases "newPeerMonitor K pr m")
    (auto simp: pm_AddPeer_def SetPeer_def monitor_Stop_def Let_def split: if_splits option.splits)

lemma stalled_step:
  assumes "pm_step K C ev x y" and "pm_updater (snd x) = Looking n" and "mget (pm_monitors (snd x)) n = None"
    and "\<And>pr. ev = EvAdd pr \<Longrightarrow> pr_Name pr \<noteq> n"
  shows "fst y = fst x \<and> pm_updater (snd y) = Looking n \<and> mget (pm_monitors (snd y)) n = None"
  using assms
proof (induction rule: pm_step.induct)
  case (add m pr m' s)
  then show ?case using pm_AddPeer_frame [OF add(2), of n] by auto
next
  case (stop_begin m s)
  then show ?case using stop_heap(3) [where xs = "pm_monitors m" and m = m] by (simp add: pm_Stop_begin_def)
qed (auto simp: pm_DeletePeer_def pm_SetPeerCertificates_def set_monitor_def Let_def)

text \<open>
  Deleting a peer removes its monitor from the map but does not stop it. When that monitor
  next reports a change, the updater looks the deleted peer up for ever: until a peer of
  that name is added again, it never writes any status to the API, whatever else the
  manager and the other monitors do.
\<close>

theorem deleted_peer_stalls_updates:
  assumes "pm_run K C evs (s, m) (s', m')" and "pm_updater m = Looking n" and "mget (pm_monitors m) n = None"
    and "\<forall>pr. EvAdd pr \<in> set evs \<longrightarrow> pr_Name pr \<noteq> n"
  shows "s' = s \<and> pm_updater m' = Looking n"
proof -
  have "pm_run K C evs x y \<Longrightarrow> pm_updater (snd x) = Looking n \<Longrightarrow> mget (pm_monitors (snd x)) n = None \<Longrightarrow>
      \<forall>pr. EvAdd pr \<in> set evs \<longrightarrow> pr_Name pr \<noteq> n \<Longrightarrow>
      fst y = fst x \<and> pm_updater (snd y) = Looking n \<and> mget (pm_monitors (snd y)) n = None" for x y evs
  proof (induction rule: pm_run.induct)
    case (event evs x y ev z)
    then show ?case using stalled_step [OF event(2), of n] by auto
  qed simp
  from this [OF assms(1)] show ?thesis using assms(2-4) by simp
qed

lemma GetHeartbeat_grant: "pc_clients c = [cl] \<Longrightarrow> GetHeartbeat (grant_env t) c = Inr (Inr [])"
proof -
  have "Header_Get [(''x-access-token'', t)] PeerLabelsCustomHeader = []"
    by (simp add: Header_Get_def PeerLabelsCustomHeader_def to_lower_def sget_def less_eq_char_def)
  moreover assume "pc_clients c = [cl]"
  ultimately show ?thesis
    by (simp add: GetHeartbeat_def getResponse_def jsonapi_Get_def jsonapi_do_def grant_env_def demo_json_def
        b64_decode_def)
qed

text \<open>Such a state is reached by adding a peer, deleting it, and one heartbeat that changes its status.\<close>

lemma stalled_reachable:
  "\<exists>evs m. pm_run ref_apimachinery C evs (s, newPeerManager) (s, m)
     \<and> pm_updater m = Looking ''p'' \<and> mget (pm_monitors m) ''p'' = None \<and> \<not> pm_stopping m"
proof -
  let ?m = "pm_DeletePeer ''p'' pm_demo"
  let ?mon = "pm_heap ?m ! 0"
  have fields: "0 < length (pm_heap ?m)" "mon_phase ?mon = Polling" "\<not> mon_stopCh ?mon" "pr_Name (mon_pr ?mon) = ''p''"
    "pm_updater ?m = Idle" "\<not> pm_stopping pm_demo" "mget (pm_monitors ?m) ''p'' = None"
    by (simp_all add: pm_demo_def pm_AddPeer_def newPeerMonitor_def pm_SetPeerCertificates_def newPeerManager_def
        pm_DeletePeer_def demo_peer_def)
  have "pc_clients (mon_client ?mon) = [jsonapi_NewClient ''gateway'' 443 (ClientConfig demo_cert ''p'')]"
    by (simp add: pm_demo_def pm_AddPeer_def newPeerMonitor_def pm_SetPeerCertificates_def newPeerManager_def
        pm_DeletePeer_def NewClient_def demo_peer_def)
  note hb = GetHeartbeat_grant [OF this, of "[]"]
  have "snd (monitor_round ref_apimachinery (Inr []) (mon_loop ?mon) (mon_pr ?mon)) \<noteq> None" by code_simp
  then obtain l pr where r: "monitor_round ref_apimachinery (Inr []) (mon_loop ?mon) (mon_pr ?mon) = (l, Some pr)"
    by (metis not_None_eq prod.collapse)
  let ?m' = "set_monitor 0 (?mon\<lparr>mon_loop := l, mon_pr := pr, mon_phase := Reporting\<rparr>) ?m"
  let ?m'' = "(set_monitor 0 ((pm_heap ?m' ! 0)\<lparr>mon_phase := Polling\<rparr>) ?m')\<lparr>pm_updater := Looking (pr_Name (mon_pr (pm_heap ?m' ! 0)))\<rparr>"
  have "pm_run ref_apimachinery C ((([EvCertificates demo_cert] @ [EvAdd mon_demo_peer]) @ [EvDelete ''p'']) @ [EvMonitor 0])
      (s, newPeerManager) (s, ?m')"
    by (rule event [OF event [OF pm_demo_run delete] status_change [OF fields(1) refl fields(2,3) hb r]]) (rule fields(6))
  moreover have "pm_step ref_apimachinery C EvUpdater (s, ?m') (s, ?m'')"
    by (rule handover) (use fields in \<open>auto simp: set_monitor_def\<close>)
  moreover have "pr_Name pr = ''p''" using monitor_round_report(5) [OF r] fields(4) by simp
  ultimately show ?thesis using fields
    by (intro exI conjI) (erule (1) event, auto simp: set_monitor_def pm_DeletePeer_def)
qed

theorem deleted_peer_stalls_updates_witness:
  "\<exists>evs m m'. pm_run ref_apimachinery mem_client evs (empty_mem, newPeerManager) (empty_mem, m)
     \<and> pm_run ref_apimachinery mem_client [EvUpdater] (empty_mem, m) (empty_mem, m') \<and> pm_updater m' = Looking ''p''"
proof -
  obtain evs m where m: "pm_run ref_apimachinery mem_client evs (empty_mem, newPeerManager) (empty_mem, m)"
      "pm_updater m = Looking ''p''" "mget (pm_monitors m) ''p'' = None" "\<not> pm_stopping m"
    using stalled_reachable [of mem_client empty_mem] by blast
  have run: "pm_run ref_apimachinery mem_client ([] @ [EvUpdater]) (empty_mem, m) (empty_mem, m)"
    by (rule event [OF no_event]) (use lookup [OF m(2,4), of ref_apimachinery mem_client empty_mem] m(3) in simp)
  show ?thesis using m(1) run deleted_peer_stalls_updates [OF run m(2,3)] by auto
qed

lemma stopCh_step:
  "pm_step K C ev x y \<Longrightarrow> pm_stopCh (snd x) \<longrightarrow> pm_stopping (snd x) \<or> pm_stopped (snd x) \<Longrightarrow>
    pm_stopCh (snd y) \<longrightarrow> pm_stopping (snd y) \<or> pm_stopped (snd y)"
proof (induction rule: pm_step.induct)
  case (add m pr m' s)
  then show ?case using pm_AddPeer_frame [OF add(2)] by auto
qed (auto simp: pm_DeletePeer_def pm_SetPeerCertificates_def set_monitor_def pm_Stop_begin_def Let_def
    split: option.splits)

lemma stopCh_run:
  "pm_run K C evs x y \<Longrightarrow> pm_stopCh (snd x) \<longrightarrow> pm_stopping (snd x) \<or> pm_stopped (snd x) \<Longrightarrow>
    pm_stopCh (snd y) \<longrightarrow> pm_stopping (snd y) \<or> pm_stopped (snd y)"
  by (induction rule: pm_run.induct) (auto dest: stopCh_step)

text \<open>A monitor that is running but not in the map: nobody will ever stop it.\<close>

definition leaked :: "nat \<Rightarrow> peerManager \<Rightarrow> bool" where
  "leaked i m \<longleftrightarrow> i < length (pm_heap m) \<and> \<not> mon_stopCh (pm_heap m ! i) \<and> mon_phase (pm_heap m ! i) \<noteq> Exited
     \<and> (\<forall>n. mget (pm_monitors m) n \<noteq> Some i) \<and> mwf (pm_monitors m) \<and> \<not> pm_stopCh m \<and> \<not> pm_stopped m"

lemma not_in_map: "mwf xs \<Longrightarrow> (\<forall>n. mget xs n \<noteq> Some i) \<longleftrightarrow> i \<notin> snd ` set xs"
  by (auto simp: mget_mem image_iff)

lemma leaked_AddPeer:
  assumes "leaked i m" and "pm_AddPeer K pr m = Inr m'"
  shows "leaked i m'"
proof (cases "mget (pm_monitors m) (pr_Name pr)")
  case None
  then show ?thesis using assms
    by (cases "newPeerMonitor K pr m") (auto simp: leaked_def pm_AddPeer_def nth_append split: if_splits)
next
  case (Some j)
  have "i \<noteq> j" using assms(1) Some by (auto simp: leaked_def)
  then show ?thesis using assms Some
    by (cases "newPeerMonitor K pr m")
      (auto simp: leaked_def pm_AddPeer_def SetPeer_def monitor_Stop_def Let_def nth_append split: if_splits)
qed

lemma leaked_step: "pm_step K C ev x y \<Longrightarrow> leaked i (snd x) \<Longrightarrow> leaked i (snd y)"
proof (induction rule: pm_step.induct)
  case (add m pr m' s)
  then show ?case using leaked_AddPeer by simp
next
  case (delete m n s)
  then show ?case by (auto simp: leaked_def pm_DeletePeer_def)
next
  case (set_certificates m tls s)
  then show ?case using certificates_heap(1) [where xs = "pm_monitors m" and heap = "pm_heap m" and tls = tls]
      certificates_heap(2) [where xs = "pm_monitors m" and heap = "pm_heap m" and tls = tls and j = i]
    by (simp add: leaked_def pm_SetPeerCertificates_def SetClientCertificates_def Let_def)
next
  case (stop_begin m s)
  then have "i \<notin> snd ` set (pm_monitors m)" using not_in_map [of "pm_monitors m" i] by (simp add: leaked_def)
  then show ?case using stop_begin stop_heap(1,3) [where xs = "pm_monitors m" and m = m]
      stop_heap(2) [where xs = "pm_monitors m" and m = m and j = i]
    by (simp add: leaked_def pm_Stop_begin_def)
next
  case (stop_monitors_done m s)
  then show ?case by (auto simp: leaked_def list_all_length)
qed (auto simp: leaked_def set_monitor_def nth_list_update split: option.splits)

text \<open>
  Once a running peer was deleted, stopping the manager never ends: \<^verbatim>\<open>Stop\<close> waits for the
  monitor of the deleted peer, which nobody tells to stop.
\<close>

theorem deleted_peer_blocks_stop:
  assumes "pm_run K C evs (s, newPeerManager) (s1, m)" and "mget (pm_monitors m) n = Some i"
    and "mon_phase (pm_heap m ! i) \<noteq> Exited" and "\<not> pm_stopping m" and "\<not> pm_stopped m"
    and "pm_run K C evs' (s1, pm_DeletePeer n m) (s2, m2)"
  shows "\<not> pm_stopped m2"
proof -
  have inv: "pm_inv m" using pm_run_inv [OF assms(1)] pm_inv_new by simp
  have "\<not> pm_stopCh m" using stopCh_run [OF assms(1)] assms(4,5) by (simp add: newPeerManager_def)
  then have "leaked i (pm_DeletePeer n m)"
    using pm_invD [OF inv assms(2)] pm_inv_inj [OF inv assms(2)] pm_inv_wf [OF inv] assms(3-5)
    by (auto simp: leaked_def pm_DeletePeer_def monitor_current_def)
  moreover have "pm_run K C evs' x y \<Longrightarrow> leaked i (snd x) \<Longrightarrow> leaked i (snd y)" for x y
    by (induction rule: pm_run.induct) (auto intro: leaked_step)
  ultimately have "leaked i m2" using assms(6) by (metis snd_conv)
  then show ?thesis by (simp add: leaked_def)
qed

theorem deleted_peer_blocks_stop_witness:
  "\<exists>m. pm_run ref_apimachinery mem_client [EvStop] (empty_mem, pm_DeletePeer ''p'' pm_demo) (empty_mem, m) \<and> \<not> pm_stopped m"
proof -
  let ?d = "pm_DeletePeer ''p'' pm_demo"
  have f: "mon_phase (pm_heap pm_demo ! 0) \<noteq> Exited" "\<not> pm_stopping pm_demo" "\<not> pm_stopped pm_demo"
    by (simp_all add: pm_demo_def pm_AddPeer_def newPeerMonitor_def pm_SetPeerCertificates_def newPeerManager_def)
  have run: "pm_run ref_apimachinery mem_client ([] @ [EvStop]) (empty_mem, ?d) (empty_mem, pm_Stop_begin ?d)"
    by (rule event [OF no_event stop_begin]) (use f in \<open>simp_all add: pm_DeletePeer_def\<close>)
  show ?thesis using run deleted_peer_blocks_stop [OF pm_demo_run pm_demo_monitor f run] by auto
qed

end
