(* ===== verification/Control_Controllers.thy ===== *)
theory Control_Controllers
  imports Control_Safety PeerManager Reconciler
begin

text \<open>
  The controllers of the control manager (\<^verbatim>\<open>pkg/controlplane/control/controllers.go\<close>) and the
  reach of their requests: which objects of the cluster a request can change at most,
  whatever the API answers. The peer controller works on the peer manager, which is embedded
  in the control manager; the others on the control manager itself.
\<close>

text \<open>\<^verbatim>\<open>reconcile.TerminalError\<close> wraps an error that is not to be retried.\<close>

fun handler_result :: "handler_error \<Rightarrow> error" where
  "handler_result (Retry err) = err"
| "handler_result (Terminal err) = Wrapf ''terminal error: '' err"

definition control_peer_controller :: "apimachinery \<Rightarrow> (Peer, peerManager) controller_Spec" where
  "control_peer_controller K = \<lparr>Spec_Name = ''control.peer'', NeedsLeaderElection = True,
     AddHandler = (\<lambda>object m. case pm_AddPeer K object m of
        Inl _ \<Rightarrow> (m, Some (Errorf ''invalid memory address or nil pointer dereference'')) | Inr m' \<Rightarrow> (m', None)),
     DeleteHandler = (\<lambda>name m. (pm_DeletePeer (nn_Name name) m, None))\<rparr>"

definition control_service_controller :: "'s control_env \<Rightarrow> (Service, 's control) controller_Spec" where
  "control_service_controller E = \<lparr>Spec_Name = ''control.service'', NeedsLeaderElection = True,
     AddHandler = (\<lambda>object c. apsnd (map_option handler_result) (addService E object c)),
     DeleteHandler = (\<lambda>name c. apsnd (map_option handler_result) (deleteService E name c))\<rparr>"

definition control_export_controller :: "'s control_env \<Rightarrow> (Export, 's control) controller_Spec" where
  "control_export_controller E = \<lparr>Spec_Name = ''control.export'', NeedsLeaderElection = True,
     AddHandler = (\<lambda>object c. apsnd (map_option handler_result) (addExport E object c)),
     DeleteHandler = (\<lambda>_ c. (c, None))\<rparr>"

definition control_import_controller :: "'s control_env \<Rightarrow> (Import, 's control) controller_Spec" where
  "control_import_controller E = \<lparr>Spec_Name = ''control.import'', NeedsLeaderElection = True,
     AddHandler = (\<lambda>object c. apsnd (map_option handler_result) (addImport E object c)),
     DeleteHandler = deleteImport E\<rparr>"

definition control_secret_controller :: "'s control_env \<Rightarrow> (Secret, 's control) controller_Spec" where
  "control_secret_controller E = \<lparr>Spec_Name = ''control.secret'', NeedsLeaderElection = False,
     AddHandler = control_addSecret E, DeleteHandler = control_deleteSecret E\<rparr>"

definition control_endpointslice_controller :: "'s control_env \<Rightarrow> (EndpointSlice, 's control) controller_Spec" where
  "control_endpointslice_controller E = \<lparr>Spec_Name = ''control.endpointslice'', NeedsLeaderElection = True,
     AddHandler = addEndpointSlice E, DeleteHandler = deleteEndpointSlice E\<rparr>"

lemmas control_controller_defs = control_peer_controller_def control_service_controller_def control_export_controller_def
  control_import_controller_def control_secret_controller_def control_endpointslice_controller_def

subsection \<open>The reach of a request\<close>

text \<open>At most the status of the export \<open>k\<close>, or the JWK secret of the namespace \<open>ns\<close>, changes.\<close>

definition export_change :: "NamespacedName \<Rightarrow> cluster \<Rightarrow> cluster \<Rightarrow> bool" where
  "export_change k v v' \<longleftrightarrow> v' = v \<or> (\<exists>x st. kv_Export v k = Some x
     \<and> v' = v\<lparr>kv_Export := (kv_Export v)(k \<mapsto> x\<lparr>exp_Status := st\<rparr>)\<rparr>)"

definition secret_change :: "string \<Rightarrow> cluster \<Rightarrow> cluster \<Rightarrow> bool" where
  "secret_change ns v v' \<longleftrightarrow> v' = v
     \<or> (\<exists>data. v' = v\<lparr>kv_Secret := (kv_Secret v)(NamespacedName ns JWKSecretName \<mapsto> jwkSecret ns data)\<rparr>)"

lemma export_writes:
  assumes "client_ok C view"
  shows "view (fst (k_StatusUpdate (cl_Export C) x s)) = view s
      \<or> (\<exists>y. kv_Export (view s) (object_key (exp_Meta x)) = Some y \<and> view (fst (k_StatusUpdate (cl_Export C) x s)) =
          (view s)\<lparr>kv_Export := (kv_Export (view s))(object_key (exp_Meta x) \<mapsto> y\<lparr>exp_Status := exp_Status x\<rparr>)\<rparr>)"
  using write_cases [OF kind_okD(7) [OF client_okD(2) [OF assms]]] by blast

lemma secret_writes:
  assumes "client_ok C view"
  shows "view (fst (k_Update (cl_Secret C) x s)) = view s
      \<or> view (fst (k_Update (cl_Secret C) x s)) = (view s)\<lparr>kv_Secret := (kv_Secret (view s))(object_key (sec_Meta x) \<mapsto> x)\<rparr>"
  using write_cases [OF kind_okD(6) [OF client_okD(6) [OF assms]]] by blast

lemma exportStatus_change:
  assumes "client_ok (ce_client E) view"
  shows "export_change (object_key (exp_Meta x)) (view (c_api c)) (view (c_api (fst (exportStatus E x c err))))"
proof -
  have "export_change (object_key (exp_Meta x)) (view (c_api c))
      (view (fst (k_StatusUpdate (cl_Export (ce_client E)) (x\<lparr>exp_Status := st\<rparr>) (c_api c))))" for st
    using export_writes [OF assms, of "x\<lparr>exp_Status := st\<rparr>" "c_api c"] by (auto simp: export_change_def)
  then show ?thesis
    by (auto simp: exportStatus_def Let_def api_write_def export_change_def split: prod.splits option.splits) (metis fst_conv)+
qed

lemma addExport_change:
  assumes "client_ok (ce_client E) view"
  shows "export_change (object_key (exp_Meta x)) (view (c_api c)) (view (c_api (fst (addExport E x c))))"
  using exportStatus_change [OF assms] by (auto simp: addExport_def Let_def split: sum.split)

lemma checkJWKSecret_change:
  assumes "client_ok (ce_client E) view"
  shows "secret_change (c_namespace c) (view (c_api c)) (view (c_api (fst (checkJWKSecret E name c))))"
  using secret_writes [OF assms, of "jwkSecret (c_namespace c) _" "c_api c"]
  by (auto simp: checkJWKSecret_def secret_change_def jwkSecret_def object_key_def split: sum.split)

text \<open>
  C33. Requests change only what they are about. Whatever the API answers to its calls, including
  errors and lost answers, a request for an import leaves all services that do not carry
  this import's labels, all other imports, and all exports, peers and secrets as they are,
  whether the import exists or was deleted; a request for an export changes at most the
  status of that export; a request for a secret changes at most the JWK secret of the
  control plane's namespace.
\<close>

theorem request_scope:
  assumes "client_ok (ce_client E) view" and "C = ce_client E" and "s = c_api c"
  shows "owned_change k (view s) (view (c_api (fst (Reconcile (cl_Import C) (control_import_controller E) k s c))))
    \<and> export_change k (view s) (view (c_api (fst (Reconcile (cl_Export C) (control_export_controller E) k s c))))
    \<and> secret_change (c_namespace c) (view s)
        (view (c_api (fst (Reconcile (cl_Secret C) (control_secret_controller E) k s c))))"
proof (intro conjI)
  have found: "k_Get (cl_Import C) k s = Inr imp \<Longrightarrow> imp_key imp = k" for imp
    using kind_okD(1,2) [OF client_okD(1) [OF assms(1)]] assms(2) by blast
  show "owned_change k (view s) (view (c_api (fst (Reconcile (cl_Import C) (control_import_controller E) k s c))))"
    using import_touches_only_its_own [OF assms(1), of _ c k] found assms(3)
    by (auto simp: Reconcile_def control_import_controller_def split: sum.split)
  have found: "k_Get (cl_Export C) k s = Inr x \<Longrightarrow> object_key (exp_Meta x) = k" for x
    using kind_okD(1,2) [OF client_okD(2) [OF assms(1)]] assms(2) by blast
  show "export_change k (view s) (view (c_api (fst (Reconcile (cl_Export C) (control_export_controller E) k s c))))"
    using addExport_change [OF assms(1), of _ c] found assms(3)
    by (fastforce simp: Reconcile_def control_export_controller_def export_change_def split: sum.split)
  show "secret_change (c_namespace c) (view s) (view (c_api (fst (Reconcile (cl_Secret C) (control_secret_controller E) k s c))))"
    using checkJWKSecret_change [OF assms(1), of c] assms(3)
    by (auto simp: Reconcile_def control_secret_controller_def control_addSecret_def control_deleteSecret_def
        secret_change_def split: sum.split)
qed

theorem request_scope_witness:
  "kv_Service (mem_view (c_api (fst (Reconcile (cl_Import mem_client) (control_import_controller control_demo_env)
     (NamespacedName ''ns'' ''svc'') (empty_mem\<lparr>mem_Service := [(NamespacedName ''ns'' ''svc'', user_service)]\<rparr>)
     (control_NewManager ''sys'' (empty_mem\<lparr>mem_Service := [(NamespacedName ''ns'' ''svc'', user_service)]\<rparr>))))))
     (NamespacedName ''ns'' ''svc'') = Some user_service"
proof -
  let ?k = "NamespacedName ''ns'' ''svc''" and ?s = "empty_mem\<lparr>mem_Service := [(NamespacedName ''ns'' ''svc'', user_service)]\<rparr>"
  let ?c = "control_NewManager ''sys'' ?s"
  have svc: "kv_Service (mem_view ?s) ?k = Some user_service"
    by (simp add: mem_view_def mread_def object_key_def) (simp add: user_service_def)
  have "\<not> checkServiceLabels user_service ?k" by code_simp
  then show ?thesis using request_scope [OF control_demo_ok, of mem_client ?s ?c ?k] svc
    by (simp add: control_demo_env_def control_NewManager_def owned_change_def)
qed

end
