(* ===== verification/Xds.thy ===== *)
theory Xds
  imports Names Certs Reconciler
begin

text \<open>
  \<^verbatim>\<open>pkg/controlplane/xds\<close>: the manager that turns peers and exports into Envoy clusters,
  imports into listeners and the peer certificates into secrets, and its three controllers.
  The linear caches of go-control-plane and protobuf's \<^verbatim>\<open>anypb\<close> are third-party code: a
  \<open>linear_cache\<close> and an \<open>xds_lib\<close> are parameters, with their documented behaviour as
  \<open>linear_cache_ok\<close> and \<open>xds_lib_ok\<close>. Only the fields the code sets are modelled; an
  \<^verbatim>\<open>anypb.Any\<close> is its bytes.
\<close>

subsection \<open>Envoy resources\<close>

record SocketAddress =
  sa_Address :: string
  sa_PortValue :: uint32

record LbEndpoint =
  lbe_Address :: SocketAddress
  lbe_Hostname :: string

record ClusterLoadAssignment =
  cla_ClusterName :: string
  cla_Endpoints :: "LbEndpoint list list"

record TransportSocket =
  ts_Name :: string
  ts_TypedConfig :: string

datatype DiscoveryType = STATIC | STRICT_DNS

record Cluster =
  xc_Name :: string
  xc_ConnectTimeout :: nat
  xc_DnsRefreshRate :: nat
  xc_Type :: DiscoveryType
  xc_DnsResolver :: "string \<times> string"
  xc_LoadAssignment :: ClusterLoadAssignment
  xc_TransportSocket :: "TransportSocket option"

record SdsSecretConfig =
  sds_Name :: string
  sds_Ads :: bool
  sds_InitialFetchTimeout :: nat

record UpstreamTlsContext =
  utc_Sni :: string
  utc_TlsCertificateSdsSecretConfigs :: "SdsSecretConfig list"
  utc_ValidationContextSdsSecretConfig :: SdsSecretConfig

record HeaderValueOption =
  hv_Key :: string
  hv_Value :: string
  hv_KeepEmptyValue :: bool

record TunnelingConfig =
  tun_Hostname :: string
  tun_HeadersToAdd :: "HeaderValueOption list"

record TcpProxy =
  tcp_StatPrefix :: string
  tcp_Cluster :: string
  tcp_TunnelingConfig :: TunnelingConfig

record Filter =
  fl_Name :: string
  fl_TypedConfig :: string

record Listener =
  xl_Name :: string
  xl_Address :: SocketAddress
  xl_FilterChains :: "Filter list list"

datatype DataSource = InlineBytes string | OtherSource

datatype SecretType =
    Secret_TlsCertificate "DataSource option" "DataSource option"
  | Secret_ValidationContext "DataSource option"
  | Secret_OtherType

record tls_Secret =
  xs_Name :: string
  xs_Type :: SecretType

subsection \<open>Third-party code\<close>

datatype message =
    DnsResolverConfigMsg
  | UpstreamTlsContextMsg UpstreamTlsContext
  | TcpProxyMsg TcpProxy
  | ClusterMsg Cluster
  | ListenerMsg Listener
  | SecretMsg tls_Secret

record xds_lib =
  anypb_New :: "message \<Rightarrow> error + string"
  anypb_UnmarshalNew :: "string \<Rightarrow> error + message"
  wellknown_TransportSocketTLS :: string
  wellknown_TCPProxy :: string

definition xds_lib_ok :: "xds_lib \<Rightarrow> bool" where
  "xds_lib_ok X \<longleftrightarrow> (\<forall>msg b. anypb_New X msg = Inr b \<longrightarrow> anypb_UnmarshalNew X b = Inr msg)"

record ('c, 'r) linear_cache =
  NewLinearCache :: 'c
  GetResources :: "'c \<Rightarrow> string \<Rightarrow> 'r option"
  UpdateResource :: "string \<Rightarrow> 'r \<Rightarrow> 'c \<Rightarrow> 'c \<times> error option"
  DeleteResource :: "string \<Rightarrow> 'c \<Rightarrow> 'c \<times> error option"

definition linear_cache_ok :: "('c, 'r) linear_cache \<Rightarrow> bool" where
  "linear_cache_ok L \<longleftrightarrow>
     GetResources L (NewLinearCache L) = Map.empty
     \<and> (\<forall>n x c. GetResources L (fst (UpdateResource L n x c)) =
          (if snd (UpdateResource L n x c) = None then (GetResources L c)(n \<mapsto> x) else GetResources L c))
     \<and> (\<forall>n c. GetResources L (fst (DeleteResource L n c)) =
          (if snd (DeleteResource L n c) = None then (GetResources L c)(n := None) else GetResources L c))"

record ('cc, 'lc, 'sc) xds_env =
  xe_K :: apimachinery
  xe_lib :: xds_lib
  xe_clusters :: "('cc, Cluster) linear_cache"
  xe_listeners :: "('lc, Listener) linear_cache"
  xe_secrets :: "('sc, tls_Secret) linear_cache"

subsection \<open>The manager\<close>

record ('cc, 'lc, 'sc) xds_Manager =
  xm_clusters :: 'cc
  xm_listeners :: 'lc
  xm_secrets :: 'sc

definition xds_NewManager :: "('cc, 'lc, 'sc) xds_env \<Rightarrow> ('cc, 'lc, 'sc) xds_Manager" where
  "xds_NewManager E = \<lparr>xm_clusters = NewLinearCache (xe_clusters E),
     xm_listeners = NewLinearCache (xe_listeners E), xm_secrets = NewLinearCache (xe_secrets E)\<rparr>"

definition updateCluster ::
    "('cc, 'lc, 'sc) xds_env \<Rightarrow> string \<Rightarrow> Cluster \<Rightarrow> ('cc, 'lc, 'sc) xds_Manager
       \<Rightarrow> ('cc, 'lc, 'sc) xds_Manager \<times> error option" where
  "updateCluster E n c m = (case UpdateResource (xe_clusters E) n c (xm_clusters m) of
     (cc, err) \<Rightarrow> (m\<lparr>xm_clusters := cc\<rparr>, err))"

definition deleteCluster ::
    "('cc, 'lc, 'sc) xds_env \<Rightarrow> string \<Rightarrow> ('cc, 'lc, 'sc) xds_Manager
       \<Rightarrow> ('cc, 'lc, 'sc) xds_Manager \<times> error option" where
  "deleteCluster E n m = (case DeleteResource (xe_clusters E) n (xm_clusters m) of
     (cc, err) \<Rightarrow> (m\<lparr>xm_clusters := cc\<rparr>, err))"

definition makeEndpointsCluster ::
    "xds_lib \<Rightarrow> string \<Rightarrow> Endpoint list \<Rightarrow> string \<Rightarrow> error + Cluster" where
  "makeEndpointsCluster X name endpoints hostname =
     (let lbEndpoints = map (\<lambda>e. \<lparr>lbe_Address = \<lparr>sa_Address = ep_Host e, sa_PortValue = ucast (ep_Port e)\<rparr>,
                                  lbe_Hostname = hostname\<rparr>) endpoints
      in case anypb_New X DnsResolverConfigMsg of
           Inl err \<Rightarrow> Inl err
         | Inr pb \<Rightarrow> Inr \<lparr>xc_Name = name, xc_ConnectTimeout = 1, xc_DnsRefreshRate = 1, xc_Type = STRICT_DNS,
             xc_DnsResolver = (''envoy.network.dns_resolver.getaddrinfo'', pb),
             xc_LoadAssignment = \<lparr>cla_ClusterName = name, cla_Endpoints = [lbEndpoints]\<rparr>,
             xc_TransportSocket = None\<rparr>)"

definition makeAddressCluster :: "xds_lib \<Rightarrow> string \<Rightarrow> string \<Rightarrow> uint16 \<Rightarrow> string \<Rightarrow> error + Cluster" where
  "makeAddressCluster X name addr port hostname =
     makeEndpointsCluster X name [\<lparr>ep_Host = addr, ep_Port = port\<rparr>] hostname"

definition makeTCPProxyFilter :: "xds_lib \<Rightarrow> string \<Rightarrow> string \<Rightarrow> TunnelingConfig \<Rightarrow> error + Filter" where
  "makeTCPProxyFilter X clusterName statPrefix tunnelingConfig =
     (case anypb_New X (TcpProxyMsg \<lparr>tcp_StatPrefix = ''tcp-proxy-'' @ statPrefix, tcp_Cluster = clusterName,
             tcp_TunnelingConfig = tunnelingConfig\<rparr>) of
        Inl err \<Rightarrow> Inl err
      | Inr pb \<Rightarrow> Inr \<lparr>fl_Name = wellknown_TCPProxy X, fl_TypedConfig = pb\<rparr>)"

definition peerTlsContext :: "string \<Rightarrow> UpstreamTlsContext" where
  "peerTlsContext name = \<lparr>utc_Sni = name,
     utc_TlsCertificateSdsSecretConfigs =
       [\<lparr>sds_Name = CertificateSecret, sds_Ads = True, sds_InitialFetchTimeout = 1\<rparr>],
     utc_ValidationContextSdsSecretConfig =
       \<lparr>sds_Name = ValidationSecret, sds_Ads = True, sds_InitialFetchTimeout = 1\<rparr>\<rparr>"

definition xds_AddPeer ::
    "('cc, 'lc, 'sc) xds_env \<Rightarrow> Peer \<Rightarrow> ('cc, 'lc, 'sc) xds_Manager
       \<Rightarrow> ('cc, 'lc, 'sc) xds_Manager \<times> error option" where
  "xds_AddPeer E pr m =
     (let clusterName = RemotePeerClusterName (pr_Name pr)
      in case makeEndpointsCluster (xe_lib E) clusterName (pr_Gateways (pr_Spec pr)) (pr_Name pr @ '':443'') of
           Inl err \<Rightarrow> (m, Some err)
         | Inr epc \<Rightarrow>
             (case anypb_New (xe_lib E) (UpstreamTlsContextMsg (peerTlsContext (pr_Name pr))) of
                Inl err \<Rightarrow> (m, Some err)
              | Inr pb \<Rightarrow> updateCluster E clusterName
                  (epc\<lparr>xc_TransportSocket := Some \<lparr>ts_Name = wellknown_TransportSocketTLS (xe_lib E),
                        ts_TypedConfig = pb\<rparr>\<rparr>) m))"

definition xds_DeletePeer ::
    "('cc, 'lc, 'sc) xds_env \<Rightarrow> string \<Rightarrow> ('cc, 'lc, 'sc) xds_Manager
       \<Rightarrow> ('cc, 'lc, 'sc) xds_Manager \<times> error option" where
  "xds_DeletePeer E name m = deleteCluster E (RemotePeerClusterName name) m"

definition exportHost :: "Export \<Rightarrow> string" where
  "exportHost export =
     (let host = exp_Host (exp_Spec export)
      in if host = [] then om_Name (exp_Meta export) @ ''.'' @ om_Namespace (exp_Meta export) @ ''.svc.cluster.local''
         else host)"

definition xds_AddExport ::
    "('cc, 'lc, 'sc) xds_env \<Rightarrow> Export \<Rightarrow> ('cc, 'lc, 'sc) xds_Manager
       \<Rightarrow> ('cc, 'lc, 'sc) xds_Manager \<times> error option" where
  "xds_AddExport E export m =
     (let host = exportHost export;
          clusterName = ExportClusterName (om_Name (exp_Meta export)) (om_Namespace (exp_Meta export))
      in case makeAddressCluster (xe_lib E) clusterName host (exp_Port (exp_Spec export)) [] of
           Inl err \<Rightarrow> (m, Some err)
         | Inr cc \<Rightarrow> updateCluster E clusterName cc m)"

definition xds_DeleteExport ::
    "('cc, 'lc, 'sc) xds_env \<Rightarrow> NamespacedName \<Rightarrow> ('cc, 'lc, 'sc) xds_Manager
       \<Rightarrow> ('cc, 'lc, 'sc) xds_Manager \<times> error option" where
  "xds_DeleteExport E name m = deleteCluster E (ExportClusterName (nn_Name name) (nn_Namespace name)) m"

definition importTunnelingConfig :: "Import \<Rightarrow> TunnelingConfig" where
  "importTunnelingConfig imp = \<lparr>tun_Hostname = ''egress-router:443'',
     tun_HeadersToAdd = [
       \<lparr>hv_Key = ImportNameHeader, hv_Value = imp_Name imp, hv_KeepEmptyValue = True\<rparr>,
       \<lparr>hv_Key = ImportNamespaceHeader, hv_Value = imp_Namespace imp, hv_KeepEmptyValue = True\<rparr>,
       \<lparr>hv_Key = ClientIPHeader, hv_Value = ''%DOWNSTREAM_REMOTE_ADDRESS_WITHOUT_PORT%'', hv_KeepEmptyValue = True\<rparr>]\<rparr>"

definition xds_AddImport ::
    "('cc, 'lc, 'sc) xds_env \<Rightarrow> Import \<Rightarrow> ('cc, 'lc, 'sc) xds_Manager
       \<Rightarrow> ('cc, 'lc, 'sc) xds_Manager \<times> error option" where
  "xds_AddImport E imp m =
     (if \<not> IsStatusConditionTrue (xe_K E) (imp_Conditions (imp_Status imp)) ImportTargetPortValid then (m, None)
      else
     (let listenerName = ImportListenerName (imp_Name imp) (imp_Namespace imp)
      in case makeTCPProxyFilter (xe_lib E) EgressRouterCluster (imp_Name imp) (importTunnelingConfig imp) of
           Inl err \<Rightarrow> (m, Some err)
         | Inr tcpProxyFilter \<Rightarrow>
             (case UpdateResource (xe_listeners E) listenerName
                     \<lparr>xl_Name = listenerName,
                      xl_Address = \<lparr>sa_Address = ''0.0.0.0'', sa_PortValue = ucast (imp_TargetPort (imp_Spec imp))\<rparr>,
                      xl_FilterChains = [[tcpProxyFilter]]\<rparr> (xm_listeners m) of
                (lc, err) \<Rightarrow> (m\<lparr>xm_listeners := lc\<rparr>, err))))"

definition xds_DeleteImport ::
    "('cc, 'lc, 'sc) xds_env \<Rightarrow> NamespacedName \<Rightarrow> ('cc, 'lc, 'sc) xds_Manager
       \<Rightarrow> ('cc, 'lc, 'sc) xds_Manager \<times> error option" where
  "xds_DeleteImport E name m =
     (case DeleteResource (xe_listeners E) (ImportListenerName (nn_Name name) (nn_Namespace name)) (xm_listeners m) of
        (lc, err) \<Rightarrow> (m\<lparr>xm_listeners := lc\<rparr>, err))"

definition xds_updateSecret ::
    "('cc, 'lc, 'sc) xds_env \<Rightarrow> string \<Rightarrow> tls_Secret \<Rightarrow> ('cc, 'lc, 'sc) xds_Manager
       \<Rightarrow> ('cc, 'lc, 'sc) xds_Manager \<times> error option" where
  "xds_updateSecret E what secret m =
     (case UpdateResource (xe_secrets E) (xs_Name secret) secret (xm_secrets m) of
        (sc, err) \<Rightarrow> (m\<lparr>xm_secrets := sc\<rparr>, map_option (Wrapf (''error setting '' @ what @ '' secret: '')) err))"

definition certificateSecret :: "RawCertData \<Rightarrow> tls_Secret" where
  "certificateSecret raw = \<lparr>xs_Name = CertificateSecret, xs_Type = Secret_TlsCertificate
     (Some (InlineBytes (RawCertData_Certificate raw))) (Some (InlineBytes (RawCertData_Key raw)))\<rparr>"

definition validationSecret :: "RawCertData \<Rightarrow> tls_Secret" where
  "validationSecret raw = \<lparr>xs_Name = ValidationSecret,
     xs_Type = Secret_ValidationContext (Some (InlineBytes (RawCertData_CA raw)))\<rparr>"

definition xds_SetPeerCertificates ::
    "('cc, 'lc, 'sc) xds_env \<Rightarrow> RawCertData \<Rightarrow> ('cc, 'lc, 'sc) xds_Manager
       \<Rightarrow> ('cc, 'lc, 'sc) xds_Manager \<times> error option" where
  "xds_SetPeerCertificates E rawCertData =
     seqE (xds_updateSecret E ''certificate'' (certificateSecret rawCertData))
       (xds_updateSecret E ''validation'' (validationSecret rawCertData))"

subsection \<open>The controllers\<close>

definition xds_export_controller ::
    "('cc, 'lc, 'sc) xds_env \<Rightarrow> (Export, ('cc, 'lc, 'sc) xds_Manager) controller_Spec" where
  "xds_export_controller E = \<lparr>Spec_Name = ''xds.export'', NeedsLeaderElection = False,
     AddHandler = xds_AddExport E, DeleteHandler = xds_DeleteExport E\<rparr>"

definition xds_peer_controller ::
    "('cc, 'lc, 'sc) xds_env \<Rightarrow> (Peer, ('cc, 'lc, 'sc) xds_Manager) controller_Spec" where
  "xds_peer_controller E = \<lparr>Spec_Name = ''xds.peer'', NeedsLeaderElection = False,
     AddHandler = xds_AddPeer E, DeleteHandler = (\<lambda>name. xds_DeletePeer E (nn_Name name))\<rparr>"

definition xds_import_controller ::
    "('cc, 'lc, 'sc) xds_env \<Rightarrow> (Import, ('cc, 'lc, 'sc) xds_Manager) controller_Spec" where
  "xds_import_controller E = \<lparr>Spec_Name = ''xds.import'', NeedsLeaderElection = False,
     AddHandler = xds_AddImport E, DeleteHandler = xds_DeleteImport E\<rparr>"


subsection \<open>What the resources mean\<close>

text \<open>
  The specification of the three kinds of resources: what a cluster or listener must say for
  an export, peer or import (\<open>None\<close> for an object that does not exist). An import whose
  target port is not valid puts no demand on its listener.
\<close>

definition export_resource :: "Export option \<Rightarrow> Cluster option \<Rightarrow> bool" where
  "export_resource x v \<longleftrightarrow> (case x of None \<Rightarrow> v = None | Some e \<Rightarrow>
     (\<exists>c. v = Some c \<and> xc_Name c = ExportClusterName (om_Name (exp_Meta e)) (om_Namespace (exp_Meta e))
        \<and> cla_Endpoints (xc_LoadAssignment c) =
            [[\<lparr>lbe_Address = \<lparr>sa_Address = exportHost e, sa_PortValue = ucast (exp_Port (exp_Spec e))\<rparr>,
               lbe_Hostname = []\<rparr>]]
        \<and> xc_TransportSocket c = None))"

definition peer_resource :: "xds_lib \<Rightarrow> Peer option \<Rightarrow> Cluster option \<Rightarrow> bool" where
  "peer_resource X x v \<longleftrightarrow> (case x of None \<Rightarrow> v = None | Some p \<Rightarrow>
     (\<exists>c sock. v = Some c \<and> xc_Name c = RemotePeerClusterName (pr_Name p)
        \<and> map (map (\<lambda>e. (sa_Address (lbe_Address e), sa_PortValue (lbe_Address e), lbe_Hostname e)))
              (cla_Endpoints (xc_LoadAssignment c)) =
            [map (\<lambda>g. (ep_Host g, ucast (ep_Port g), pr_Name p @ '':443'')) (pr_Gateways (pr_Spec p))]
        \<and> xc_TransportSocket c = Some sock
        \<and> anypb_UnmarshalNew X (ts_TypedConfig sock) = Inr (UpstreamTlsContextMsg (peerTlsContext (pr_Name p)))))"

definition import_resource :: "apimachinery \<Rightarrow> xds_lib \<Rightarrow> Import option \<Rightarrow> Listener option \<Rightarrow> bool" where
  "import_resource K X x v \<longleftrightarrow> (case x of None \<Rightarrow> v = None | Some imp \<Rightarrow>
     (IsStatusConditionTrue K (imp_Conditions (imp_Status imp)) ImportTargetPortValid \<longrightarrow>
      (\<exists>l fl. v = Some l \<and> xl_Name l = ImportListenerName (imp_Name imp) (imp_Namespace imp)
        \<and> sa_PortValue (xl_Address l) = ucast (imp_TargetPort (imp_Spec imp)) \<and> xl_FilterChains l = [[fl]]
        \<and> (\<exists>t. anypb_UnmarshalNew X (fl_TypedConfig fl) = Inr (TcpProxyMsg t) \<and> tcp_Cluster t = EgressRouterCluster
             \<and> tcp_TunnelingConfig t = importTunnelingConfig imp))))"

subsection \<open>The controllers reflect the cluster\<close>

definition xds_env_ok :: "('cc, 'lc, 'sc) xds_env \<Rightarrow> bool" where
  "xds_env_ok E \<longleftrightarrow> xds_lib_ok (xe_lib E) \<and> linear_cache_ok (xe_clusters E)
     \<and> linear_cache_ok (xe_listeners E) \<and> linear_cache_ok (xe_secrets E)"

definition dns_name :: "NamespacedName \<Rightarrow> bool" where
  "dns_name k \<longleftrightarrow> CHR ''/'' \<notin> set (nn_Namespace k)"

definition export_proj :: "('cc, 'lc, 'sc) xds_env \<Rightarrow> ('cc, 'lc, 'sc) xds_Manager \<Rightarrow> NamespacedName \<Rightarrow> Cluster option" where
  "export_proj E m k = GetResources (xe_clusters E) (xm_clusters m) (ExportClusterName (nn_Name k) (nn_Namespace k))"

definition peer_proj :: "('cc, 'lc, 'sc) xds_env \<Rightarrow> ('cc, 'lc, 'sc) xds_Manager \<Rightarrow> NamespacedName \<Rightarrow> Cluster option" where
  "peer_proj E m k = GetResources (xe_clusters E) (xm_clusters m) (RemotePeerClusterName (nn_Name k))"

definition import_proj :: "('cc, 'lc, 'sc) xds_env \<Rightarrow> ('cc, 'lc, 'sc) xds_Manager \<Rightarrow> NamespacedName \<Rightarrow> Listener option" where
  "import_proj E m k = GetResources (xe_listeners E) (xm_listeners m) (ImportListenerName (nn_Name k) (nn_Namespace k))"

lemmas xds_proj_defs = export_proj_def peer_proj_def import_proj_def

lemma linear_cache_okD:
  assumes "linear_cache_ok L"
  shows "GetResources L (fst (UpdateResource L n x c)) =
      (if snd (UpdateResource L n x c) = None then (GetResources L c)(n \<mapsto> x) else GetResources L c)"
    and "GetResources L (fst (DeleteResource L n c)) =
      (if snd (DeleteResource L n c) = None then (GetResources L c)(n := None) else GetResources L c)"
    and "GetResources L (NewLinearCache L) = Map.empty"
  using assms unfolding linear_cache_ok_def by simp_all

lemma cluster_ops_frame [simp]:
  "xm_listeners (fst (updateCluster E n c m)) = xm_listeners m"
  "xm_secrets (fst (updateCluster E n c m)) = xm_secrets m"
  "xm_listeners (fst (deleteCluster E n m)) = xm_listeners m"
  "xm_secrets (fst (deleteCluster E n m)) = xm_secrets m"
  by (simp_all add: updateCluster_def deleteCluster_def split_beta)

lemma cluster_ops_effect:
  assumes "linear_cache_ok (xe_clusters E)"
  shows "GetResources (xe_clusters E) (xm_clusters (fst (updateCluster E n c m))) =
      (if snd (updateCluster E n c m) = None then (GetResources (xe_clusters E) (xm_clusters m))(n \<mapsto> c)
       else GetResources (xe_clusters E) (xm_clusters m))"
    and "GetResources (xe_clusters E) (xm_clusters (fst (deleteCluster E n m))) =
      (if snd (deleteCluster E n m) = None then (GetResources (xe_clusters E) (xm_clusters m))(n := None)
       else GetResources (xe_clusters E) (xm_clusters m))"
  using linear_cache_okD(1,2) [OF assms] by (simp_all add: updateCluster_def deleteCluster_def split_beta)

text \<open>Each operation either fails and changes no resource, or puts its own resource in place.\<close>

lemma xds_AddExport_effect:
  assumes "linear_cache_ok (xe_clusters E)"
  shows "snd (xds_AddExport E x m) \<noteq> None \<and> GetResources (xe_clusters E) (xm_clusters (fst (xds_AddExport E x m)))
          = GetResources (xe_clusters E) (xm_clusters m)
    \<or> (\<exists>c. export_resource (Some x) (Some c) \<and> snd (xds_AddExport E x m) = None
        \<and> GetResources (xe_clusters E) (xm_clusters (fst (xds_AddExport E x m))) =
          (GetResources (xe_clusters E) (xm_clusters m))
            (ExportClusterName (om_Name (exp_Meta x)) (om_Namespace (exp_Meta x)) \<mapsto> c))"
proof -
  let ?n = "ExportClusterName (om_Name (exp_Meta x)) (om_Namespace (exp_Meta x))"
  let ?mk = "makeAddressCluster (xe_lib E) ?n (exportHost x) (exp_Port (exp_Spec x)) []"
  have res: "?mk = Inr c \<Longrightarrow> export_resource (Some x) (Some c)" for c
    by (auto simp: makeAddressCluster_def makeEndpointsCluster_def export_resource_def split: sum.splits)
  show ?thesis using res cluster_ops_effect(1) [OF assms, of ?n _ m]
    by (cases ?mk) (auto simp: xds_AddExport_def)
qed

lemma xds_AddPeer_effect:
  assumes "linear_cache_ok (xe_clusters E)" and "xds_lib_ok (xe_lib E)"
  shows "snd (xds_AddPeer E x m) \<noteq> None \<and> GetResources (xe_clusters E) (xm_clusters (fst (xds_AddPeer E x m)))
          = GetResources (xe_clusters E) (xm_clusters m)
    \<or> (\<exists>c. peer_resource (xe_lib E) (Some x) (Some c) \<and> snd (xds_AddPeer E x m) = None
        \<and> GetResources (xe_clusters E) (xm_clusters (fst (xds_AddPeer E x m))) =
          (GetResources (xe_clusters E) (xm_clusters m))(RemotePeerClusterName (pr_Name x) \<mapsto> c))"
proof -
  let ?n = "RemotePeerClusterName (pr_Name x)"
  let ?mk = "makeEndpointsCluster (xe_lib E) ?n (pr_Gateways (pr_Spec x)) (pr_Name x @ '':443'')"
    and ?pb = "anypb_New (xe_lib E) (UpstreamTlsContextMsg (peerTlsContext (pr_Name x)))"
    and ?sock = "\<lambda>pb. Some \<lparr>ts_Name = wellknown_TransportSocketTLS (xe_lib E), ts_TypedConfig = pb\<rparr>"
  have res: "?mk = Inr c \<Longrightarrow> ?pb = Inr pb \<Longrightarrow>
      peer_resource (xe_lib E) (Some x) (Some (c\<lparr>xc_TransportSocket := ?sock pb\<rparr>))" for c pb
    using assms(2) by (auto simp: makeEndpointsCluster_def peer_resource_def xds_lib_ok_def split: sum.splits)
  show ?thesis using res cluster_ops_effect(1) [OF assms(1), of ?n _ m]
    by (cases ?mk; cases ?pb) (auto simp: xds_AddPeer_def)
qed

lemma xds_AddImport_effect:
  fixes E :: "('cc, 'lc, 'sc) xds_env" and x :: Import and m :: "('cc, 'lc, 'sc) xds_Manager"
  assumes "linear_cache_ok (xe_listeners E)" and "xds_lib_ok (xe_lib E)"
  defines "listeners \<equiv> \<lambda>m. GetResources (xe_listeners E) (xm_listeners m)"
    and "r \<equiv> xds_AddImport E x m"
  shows "listeners (fst r) = listeners m
      \<and> (snd r = None \<longrightarrow>
          \<not> IsStatusConditionTrue (xe_K E) (imp_Conditions (imp_Status x)) ImportTargetPortValid)
    \<or> (\<exists>l. import_resource (xe_K E) (xe_lib E) (Some x) (Some l) \<and> snd r = None
        \<and> listeners (fst r) = (listeners m)(ImportListenerName (imp_Name x) (imp_Namespace x) \<mapsto> l))"
proof (cases "makeTCPProxyFilter (xe_lib E) EgressRouterCluster (imp_Name x) (importTunnelingConfig x)")
  case (Inl e)
  then show ?thesis by (simp add: r_def xds_AddImport_def Let_def)
next
  case (Inr f)
  then obtain t where t: "anypb_UnmarshalNew (xe_lib E) (fl_TypedConfig f) = Inr (TcpProxyMsg t)"
      "tcp_Cluster t = EgressRouterCluster" "tcp_TunnelingConfig t = importTunnelingConfig x"
    using assms(2) by (auto simp: makeTCPProxyFilter_def xds_lib_ok_def split: sum.splits)
  let ?l = "\<lparr>xl_Name = ImportListenerName (imp_Name x) (imp_Namespace x),
      xl_Address = \<lparr>sa_Address = ''0.0.0.0'', sa_PortValue = ucast (imp_TargetPort (imp_Spec x))\<rparr>,
      xl_FilterChains = [[f]]\<rparr>"
  have "import_resource (xe_K E) (xe_lib E) (Some x) (Some ?l)"
    using t by (auto simp: import_resource_def)
  then show ?thesis
    using Inr linear_cache_okD(1) [OF assms(1), of "ImportListenerName (imp_Name x) (imp_Namespace x)" ?l "xm_listeners m"]
    unfolding r_def listeners_def
    by (auto simp: xds_AddImport_def Let_def split_beta)
qed

lemma cluster_ops_frame_others [simp]:
  "xm_listeners (fst (xds_AddExport E x m)) = xm_listeners m"
  "xm_listeners (fst (xds_DeleteExport E k m)) = xm_listeners m"
  "xm_listeners (fst (xds_AddPeer E p m)) = xm_listeners m"
  "xm_listeners (fst (xds_DeletePeer E n m)) = xm_listeners m"
  "xm_clusters (fst (xds_AddImport E i m)) = xm_clusters m"
  "xm_clusters (fst (xds_DeleteImport E k m)) = xm_clusters m"
  by (auto simp: xds_AddExport_def xds_DeleteExport_def xds_AddPeer_def xds_DeletePeer_def xds_AddImport_def
      xds_DeleteImport_def Let_def split_beta split: sum.split)

lemma certificates_frame [simp]:
  "xm_clusters (fst (xds_SetPeerCertificates E raw m)) = xm_clusters m"
  "xm_listeners (fst (xds_SetPeerCertificates E raw m)) = xm_listeners m"
  by (auto simp: xds_SetPeerCertificates_def seqE_def xds_updateSecret_def split: prod.splits option.splits)

locale xds_setting =
  fixes E :: "('cc, 'lc, 'sc) xds_env" and C :: "'s k8s_client" and view :: "'s \<Rightarrow> cluster" and ns :: string
  assumes env_ok: "xds_env_ok E" and api_ok: "client_ok C view"

sublocale xds_setting \<subseteq> exps: reflector "cl_Export C" exp_Meta "xds_export_controller E"
  "\<lambda>s. kv_Export (view s)" dns_name "export_proj E" export_resource
proof
  have L: "linear_cache_ok (xe_clusters E)" using env_ok by (simp add: xds_env_ok_def)
  note eff = xds_AddExport_effect [OF L] and del = cluster_ops_effect(2) [OF L]
    and inj = ExportClusterName_inject
  show "k_Get (cl_Export C) k s = Inr x \<Longrightarrow> kv_Export (view s) k = Some x \<and> object_key (exp_Meta x) = k" for k s x
    using kind_okD(1,2) [OF client_okD(2) [OF api_ok]] by blast
  show "k_Get (cl_Export C) k s = Inl e \<Longrightarrow> IsNotFound e \<Longrightarrow> kv_Export (view s) k = None" for k s e
    by (rule kind_okD(3) [OF client_okD(2) [OF api_ok]])
  show "export_resource (Some x) (export_proj E m' (object_key (exp_Meta x)))"
    if "AddHandler (xds_export_controller E) x m = (m', None)" for x m m'
    using that eff [of x m] by (auto simp: xds_export_controller_def export_proj_def object_key_def)
  show "export_proj E (fst (AddHandler (xds_export_controller E) x m)) k = export_proj E m k"
    if "dns_name (object_key (exp_Meta x))" "dns_name k" "k \<noteq> object_key (exp_Meta x)" for x m k
    using that eff [of x m] inj [of "nn_Namespace k" "om_Namespace (exp_Meta x)" "nn_Name k" "om_Name (exp_Meta x)"]
    by (cases k) (auto simp: xds_export_controller_def export_proj_def object_key_def dns_name_def)
  show "export_resource None (export_proj E m' k)"
    if "DeleteHandler (xds_export_controller E) k m = (m', None)" for k m m'
    using that del [of "ExportClusterName (nn_Name k) (nn_Namespace k)" m]
    by (simp add: xds_export_controller_def xds_DeleteExport_def export_proj_def export_resource_def)
  show "export_proj E (fst (DeleteHandler (xds_export_controller E) k' m)) k = export_proj E m k"
    if "dns_name k'" "dns_name k" "k \<noteq> k'" for k' k m
    using that del [of "ExportClusterName (nn_Name k') (nn_Namespace k')" m]
      inj [of "nn_Namespace k" "nn_Namespace k'" "nn_Name k" "nn_Name k'"]
    by (cases k; cases k') (auto simp: xds_export_controller_def xds_DeleteExport_def export_proj_def dns_name_def)
qed

sublocale xds_setting \<subseteq> prs: reflector "cl_Peer C" pr_Meta "xds_peer_controller E"
  "\<lambda>s. kv_Peer (view s)" "\<lambda>k. nn_Namespace k = ns" "peer_proj E" "peer_resource (xe_lib E)"
proof
  have L: "linear_cache_ok (xe_clusters E)" and X: "xds_lib_ok (xe_lib E)"
    using env_ok by (simp_all add: xds_env_ok_def)
  note eff = xds_AddPeer_effect [OF L X] and del = cluster_ops_effect(2) [OF L]
  show "k_Get (cl_Peer C) k s = Inr x \<Longrightarrow> kv_Peer (view s) k = Some x \<and> object_key (pr_Meta x) = k" for k s x
    using kind_okD(1,2) [OF client_okD(3) [OF api_ok]] by blast
  show "k_Get (cl_Peer C) k s = Inl e \<Longrightarrow> IsNotFound e \<Longrightarrow> kv_Peer (view s) k = None" for k s e
    by (rule kind_okD(3) [OF client_okD(3) [OF api_ok]])
  show "peer_resource (xe_lib E) (Some x) (peer_proj E m' (object_key (pr_Meta x)))"
    if "AddHandler (xds_peer_controller E) x m = (m', None)" for x m m'
    using that eff [of x m] by (auto simp: xds_peer_controller_def peer_proj_def object_key_def)
  show "peer_proj E (fst (AddHandler (xds_peer_controller E) x m)) k = peer_proj E m k"
    if "nn_Namespace (object_key (pr_Meta x)) = ns" "nn_Namespace k = ns" "k \<noteq> object_key (pr_Meta x)" for x m k
    using that eff [of x m] by (cases k) (auto simp: xds_peer_controller_def peer_proj_def object_key_def)
  show "peer_resource (xe_lib E) None (peer_proj E m' k)"
    if "DeleteHandler (xds_peer_controller E) k m = (m', None)" for k m m'
    using that del [of "RemotePeerClusterName (nn_Name k)" m]
    by (simp add: xds_peer_controller_def xds_DeletePeer_def peer_proj_def peer_resource_def)
  show "peer_proj E (fst (DeleteHandler (xds_peer_controller E) k' m)) k = peer_proj E m k"
    if "nn_Namespace k' = ns" "nn_Namespace k = ns" "k \<noteq> k'" for k' k m
    using that del [of "RemotePeerClusterName (nn_Name k')" m]
    by (cases k; cases k') (auto simp: xds_peer_controller_def xds_DeletePeer_def peer_proj_def)
qed

sublocale xds_setting \<subseteq> imps: reflector "cl_Import C" imp_Meta "xds_import_controller E"
  "\<lambda>s. kv_Import (view s)" dns_name "import_proj E" "import_resource (xe_K E) (xe_lib E)"
proof
  have L: "linear_cache_ok (xe_listeners E)" and X: "xds_lib_ok (xe_lib E)"
    using env_ok by (simp_all add: xds_env_ok_def)
  note eff = xds_AddImport_effect [OF L X] and del = linear_cache_okD(2) [OF L]
    and inj = ImportListenerName_inject
  show "k_Get (cl_Import C) k s = Inr x \<Longrightarrow> kv_Import (view s) k = Some x \<and> object_key (imp_Meta x) = k" for k s x
    using kind_okD(1,2) [OF client_okD(1) [OF api_ok]] by blast
  show "k_Get (cl_Import C) k s = Inl e \<Longrightarrow> IsNotFound e \<Longrightarrow> kv_Import (view s) k = None" for k s e
    by (rule kind_okD(3) [OF client_okD(1) [OF api_ok]])
  show "import_resource (xe_K E) (xe_lib E) (Some x) (import_proj E m' (object_key (imp_Meta x)))"
    if "AddHandler (xds_import_controller E) x m = (m', None)" for x m m'
    using that eff [of x m] by (auto simp: xds_import_controller_def import_proj_def object_key_def import_resource_def)
  show "import_proj E (fst (AddHandler (xds_import_controller E) x m)) k = import_proj E m k"
    if "dns_name (object_key (imp_Meta x))" "dns_name k" "k \<noteq> object_key (imp_Meta x)" for x m k
    using that eff [of x m] inj [of "nn_Namespace k" "imp_Namespace x" "nn_Name k" "imp_Name x"]
    by (cases k) (auto simp: xds_import_controller_def import_proj_def object_key_def dns_name_def)
  show "import_resource (xe_K E) (xe_lib E) None (import_proj E m' k)"
    if "DeleteHandler (xds_import_controller E) k m = (m', None)" for k m m'
    using that del [of "ImportListenerName (nn_Name k) (nn_Namespace k)" "xm_listeners m"]
    by (auto simp: xds_import_controller_def xds_DeleteImport_def import_proj_def import_resource_def split: prod.splits)
  show "import_proj E (fst (DeleteHandler (xds_import_controller E) k' m)) k = import_proj E m k"
    if "dns_name k'" "dns_name k" "k \<noteq> k'" for k' k m
    using that del [of "ImportListenerName (nn_Name k') (nn_Namespace k')" "xm_listeners m"]
      inj [of "nn_Namespace k" "nn_Namespace k'" "nn_Name k" "nn_Name k'"]
    by (cases k; cases k')
      (auto simp: xds_import_controller_def xds_DeleteImport_def import_proj_def dns_name_def split_beta)
qed

end
