(* ===== verification/Xds_Sync.thy ===== *)
theory Xds_Sync
  imports Xds
begin

text \<open>
  The xDS manager at work. A state is the API server, the manager and, per controller, the
  names with a pending reconcile request. controller-runtime queues the objects that exist
  when it starts, then the name of every object that changes, and again each name whose
  reconciliation fails. Requests of the three controllers and certificate updates
  interleave in any order with changes of the cluster.
\<close>

record ('s, 'cc, 'lc, 'sc) xds_sys =
  xy_api :: 's
  xy_mgr :: "('cc, 'lc, 'sc) xds_Manager"
  xy_exports :: "NamespacedName set"
  xy_peers :: "NamespacedName set"
  xy_imports :: "NamespacedName set"

definition xds_start ::
    "('cc, 'lc, 'sc) xds_env \<Rightarrow> ('s \<Rightarrow> cluster) \<Rightarrow> 's \<Rightarrow> ('s, 'cc, 'lc, 'sc) xds_sys" where
  "xds_start E view s = \<lparr>xy_api = s, xy_mgr = xds_NewManager E,
     xy_exports = dom (kv_Export (view s)), xy_peers = dom (kv_Peer (view s)), xy_imports = dom (kv_Import (view s))\<rparr>"

inductive xds_step ::
    "('cc, 'lc, 'sc) xds_env \<Rightarrow> 's k8s_client \<Rightarrow> ('s \<Rightarrow> cluster) \<Rightarrow> string
       \<Rightarrow> ('s, 'cc, 'lc, 'sc) xds_sys \<Rightarrow> ('s, 'cc, 'lc, 'sc) xds_sys \<Rightarrow> bool"
  for E C view ns where
  cluster_changes: "xds_step E C view ns st (st\<lparr>xy_api := s',
      xy_exports := xy_exports st \<union> changed (kv_Export (view (xy_api st))) (kv_Export (view s')),
      xy_peers := xy_peers st \<union> changed (kv_Peer (view (xy_api st))) (kv_Peer (view s')),
      xy_imports := xy_imports st \<union> changed (kv_Import (view (xy_api st))) (kv_Import (view s'))\<rparr>)"
| export_request: "k \<in> xy_exports st \<Longrightarrow> dns_name k \<Longrightarrow>
    Reconcile (cl_Export C) (xds_export_controller E) k (xy_api st) (xy_mgr st) = (m', err) \<Longrightarrow>
    xds_step E C view ns st (st\<lparr>xy_mgr := m', xy_exports := served k err (xy_exports st)\<rparr>)"
| peer_request: "k \<in> xy_peers st \<Longrightarrow> nn_Namespace k = ns \<Longrightarrow>
    Reconcile (cl_Peer C) (xds_peer_controller E) k (xy_api st) (xy_mgr st) = (m', err) \<Longrightarrow>
    xds_step E C view ns st (st\<lparr>xy_mgr := m', xy_peers := served k err (xy_peers st)\<rparr>)"
| import_request: "k \<in> xy_imports st \<Longrightarrow> dns_name k \<Longrightarrow>
    Reconcile (cl_Import C) (xds_import_controller E) k (xy_api st) (xy_mgr st) = (m', err) \<Longrightarrow>
    xds_step E C view ns st (st\<lparr>xy_mgr := m', xy_imports := served k err (xy_imports st)\<rparr>)"
| certificates: "xds_step E C view ns st (st\<lparr>xy_mgr := fst (xds_SetPeerCertificates E raw (xy_mgr st))\<rparr>)"

subsection \<open>Frames\<close>

text \<open>A request of one controller does not disturb the resources of the other two.\<close>

lemma request_listeners [simp]:
  "xm_listeners (fst (Reconcile A (xds_export_controller E) k s m)) = xm_listeners m"
  "xm_listeners (fst (Reconcile A' (xds_peer_controller E) k s m)) = xm_listeners m"
  by (auto simp: Reconcile_def xds_export_controller_def xds_peer_controller_def split: sum.split)

lemma request_clusters [simp]: "xm_clusters (fst (Reconcile A (xds_import_controller E) k s m)) = xm_clusters m"
  by (auto simp: Reconcile_def xds_import_controller_def split: sum.split)

lemma export_request_peers:
  assumes "linear_cache_ok (xe_clusters E)"
  shows "peer_proj E (fst (Reconcile A (xds_export_controller E) k s m)) p = peer_proj E m p"
proof -
  have "peer_proj E (fst (xds_AddExport E x m)) p = peer_proj E m p" for x
    using xds_AddExport_effect [OF assms, of x m] by (auto simp: peer_proj_def)
  moreover have "peer_proj E (fst (xds_DeleteExport E k m)) p = peer_proj E m p"
    by (simp add: peer_proj_def xds_DeleteExport_def cluster_ops_effect [OF assms])
  ultimately show ?thesis by (auto simp: Reconcile_def xds_export_controller_def split: sum.split)
qed

lemma peer_request_exports:
  assumes "linear_cache_ok (xe_clusters E)" and "xds_lib_ok (xe_lib E)"
  shows "export_proj E (fst (Reconcile A (xds_peer_controller E) k s m)) p = export_proj E m p"
proof -
  have "export_proj E (fst (xds_AddPeer E x m)) p = export_proj E m p" for x
    using xds_AddPeer_effect [OF assms, of x m] by (auto simp: export_proj_def)
  moreover have "export_proj E (fst (xds_DeletePeer E n m)) p = export_proj E m p" for n
    by (simp add: export_proj_def xds_DeletePeer_def cluster_ops_effect [OF assms(1)])
  ultimately show ?thesis by (auto simp: Reconcile_def xds_peer_controller_def split: sum.split)
qed

text \<open>A cluster is always kept under its own name.\<close>

definition own_names :: "('cc, 'lc, 'sc) xds_env \<Rightarrow> ('cc, 'lc, 'sc) xds_Manager \<Rightarrow> bool" where
  "own_names E m \<longleftrightarrow> (\<forall>n c. GetResources (xe_clusters E) (xm_clusters m) n = Some c \<longrightarrow> xc_Name c = n)"

lemma own_names_ops:
  assumes "linear_cache_ok (xe_clusters E)" and "xds_lib_ok (xe_lib E)" and "own_names E m"
  shows "own_names E (fst (xds_AddExport E x m))" and "own_names E (fst (xds_DeleteExport E k m))"
    and "own_names E (fst (xds_AddPeer E p m))" and "own_names E (fst (xds_DeletePeer E n m))"
  using assms(3) xds_AddExport_effect [OF assms(1), of x m] xds_AddPeer_effect [OF assms(1,2), of p m]
    cluster_ops_effect(2) [OF assms(1), of "ExportClusterName (nn_Name k) (nn_Namespace k)" m]
    cluster_ops_effect(2) [OF assms(1), of "RemotePeerClusterName n" m]
  by (auto simp: own_names_def xds_DeleteExport_def xds_DeletePeer_def export_resource_def peer_resource_def split: if_splits)

lemma own_names_requests:
  assumes "linear_cache_ok (xe_clusters E)" and "xds_lib_ok (xe_lib E)" and "own_names E m"
  shows "own_names E (fst (Reconcile A (xds_export_controller E) k s m))"
    and "own_names E (fst (Reconcile A' (xds_peer_controller E) k s m))"
    and "own_names E (fst (Reconcile A'' (xds_import_controller E) k s m))"
  using own_names_ops [OF assms] assms(3) request_clusters [of A'' E k s m]
  by (auto simp: Reconcile_def xds_export_controller_def xds_peer_controller_def own_names_def split: sum.split)

subsection \<open>Convergence\<close>

context xds_setting
begin

definition in_sync :: "('s, 'cc, 'lc, 'sc) xds_sys \<Rightarrow> bool" where
  "in_sync st \<longleftrightarrow> exps.up_to_date (xy_api st) (xy_mgr st) (xy_exports st)
     \<and> prs.up_to_date (xy_api st) (xy_mgr st) (xy_peers st)
     \<and> imps.up_to_date (xy_api st) (xy_mgr st) (xy_imports st)"

lemma start_in_sync: "in_sync (xds_start E view s)"
  using env_ok
  by (auto simp: linear_cache_okD(3) in_sync_def exps.up_to_date_def prs.up_to_date_def imps.up_to_date_def xds_start_def
      xds_NewManager_def xds_proj_defs export_resource_def peer_resource_def import_resource_def
      domIff xds_env_ok_def)

lemma caches: "linear_cache_ok (xe_clusters E)" "xds_lib_ok (xe_lib E)"
  using env_ok by (simp_all add: xds_env_ok_def)

lemma others_in_sync:
  "Reconcile (cl_Export C) (xds_export_controller E) k s m = (m', err) \<Longrightarrow> prs.up_to_date s m P \<Longrightarrow> prs.up_to_date s m' P"
  "Reconcile (cl_Export C) (xds_export_controller E) k s m = (m', err) \<Longrightarrow> imps.up_to_date s m P \<Longrightarrow> imps.up_to_date s m' P"
  "Reconcile (cl_Peer C) (xds_peer_controller E) k s m = (m', err) \<Longrightarrow> exps.up_to_date s m P \<Longrightarrow> exps.up_to_date s m' P"
  "Reconcile (cl_Peer C) (xds_peer_controller E) k s m = (m', err) \<Longrightarrow> imps.up_to_date s m P \<Longrightarrow> imps.up_to_date s m' P"
  "Reconcile (cl_Import C) (xds_import_controller E) k s m = (m', err) \<Longrightarrow> exps.up_to_date s m P \<Longrightarrow> exps.up_to_date s m' P"
  "Reconcile (cl_Import C) (xds_import_controller E) k s m = (m', err) \<Longrightarrow> prs.up_to_date s m P \<Longrightarrow> prs.up_to_date s m' P"
  using export_request_peers [OF caches(1), of "cl_Export C" k s m]
    peer_request_exports [OF caches, of "cl_Peer C" k s m]
    request_listeners(1) [of "cl_Export C" E k s m] request_listeners(2) [of "cl_Peer C" E k s m]
    request_clusters [of "cl_Import C" E k s m]
  by (auto intro!: prs.manager_changed [of s m] imps.manager_changed [of s m] exps.manager_changed [of s m]
      simp: xds_proj_defs)

lemma step_in_sync:
  assumes "xds_step E C view ns st st'" and "in_sync st"
  shows "in_sync st'"
  using assms(1)
proof (cases rule: xds_step.cases)
  case (cluster_changes s')
  then show ?thesis using assms(2) exps.objects_changed prs.objects_changed imps.objects_changed
    by (simp add: in_sync_def)
next
  case (export_request k m' err)
  then show ?thesis using assms(2) exps.reconcile_served [OF _ export_request(3,2,4)] others_in_sync(1,2) [OF export_request(4)]
    by (simp add: in_sync_def)
next
  case (peer_request k m' err)
  then show ?thesis using assms(2) prs.reconcile_served [OF _ peer_request(3,2,4)] others_in_sync(3,4) [OF peer_request(4)]
    by (simp add: in_sync_def)
next
  case (import_request k m' err)
  then show ?thesis using assms(2) imps.reconcile_served [OF _ import_request(3,2,4)] others_in_sync(5,6) [OF import_request(4)]
    by (simp add: in_sync_def)
next
  case (certificates raw)
  then show ?thesis using assms(2)
    by (simp add: in_sync_def exps.up_to_date_def prs.up_to_date_def imps.up_to_date_def xds_proj_defs)
qed

lemma runs_own_names: "(xds_step E C view ns)\<^sup>*\<^sup>* (xds_start E view s) st \<Longrightarrow> own_names E (xy_mgr st)"
proof (induction rule: rtranclp_induct)
  case base
  then show ?case using linear_cache_okD(3) [OF caches(1)]
    by (simp add: own_names_def xds_start_def xds_NewManager_def)
next
  case (step y z)
  from step(2) show ?case
  proof (cases rule: xds_step.cases)
    case (export_request k m' err)
    then show ?thesis using own_names_requests(1) [OF caches step.IH, of "cl_Export C" k "xy_api y"] by simp
  next
    case (peer_request k m' err)
    then show ?thesis using own_names_requests(2) [OF caches step.IH, of "cl_Peer C" k "xy_api y"] by simp
  next
    case (import_request k m' err)
    then show ?thesis using own_names_requests(3) [OF caches step.IH, of "cl_Import C" k "xy_api y"] by simp
  qed (use step.IH in \<open>simp_all add: own_names_def\<close>)
qed

lemma runs_in_sync: "(xds_step E C view ns)\<^sup>*\<^sup>* (xds_start E view s) st \<Longrightarrow> in_sync st"
  by (induction rule: rtranclp_induct) (auto intro: start_in_sync step_in_sync)

lemma runs_converge:
  assumes "(xds_step E C view ns)\<^sup>*\<^sup>* (xds_start E view s) st"
  shows "(dns_name k \<and> k \<notin> xy_exports st \<longrightarrow>
        export_resource (kv_Export (view (xy_api st)) k) (export_proj E (xy_mgr st) k))
    \<and> (nn_Namespace k = ns \<and> k \<notin> xy_peers st \<longrightarrow>
        peer_resource (xe_lib E) (kv_Peer (view (xy_api st)) k) (peer_proj E (xy_mgr st) k))
    \<and> (dns_name k \<and> k \<notin> xy_imports st \<longrightarrow>
        import_resource (xe_K E) (xe_lib E) (kv_Import (view (xy_api st)) k) (import_proj E (xy_mgr st) k))"
  using runs_in_sync [OF assms] exps.none_pending prs.none_pending imps.none_pending
  unfolding in_sync_def by blast

end

subsection \<open>An in-memory instance\<close>

definition gomap_cache :: "((string, 'r) gomap, 'r) linear_cache" where
  "gomap_cache = \<lparr>NewLinearCache = [], GetResources = mget, UpdateResource = (\<lambda>n x c. (mput n x c, None)),
     DeleteResource = (\<lambda>n c. (mdel n c, None))\<rparr>"

text \<open>Messages of a table, each marshalled as its position.\<close>

definition table_lib :: "message list \<Rightarrow> xds_lib" where
  "table_lib msgs = \<lparr>
     anypb_New = (\<lambda>msg. if msg \<in> set msgs then Inr (replicate (length (takeWhile (\<lambda>x. x \<noteq> msg) msgs)) CHR ''x'')
                        else Inl (Errorf ''cannot marshal'')),
     anypb_UnmarshalNew = (\<lambda>b. if length b < length msgs then Inr (msgs ! length b) else Inl (Errorf ''bad message'')),
     wellknown_TransportSocketTLS = ''envoy.transport_sockets.tls'',
     wellknown_TCPProxy = ''envoy.filters.network.tcp_proxy''\<rparr>"

definition table_env :: "message list \<Rightarrow>
    ((string, Cluster) gomap, (string, Listener) gomap, (string, tls_Secret) gomap) xds_env" where
  "table_env msgs = \<lparr>xe_K = ref_apimachinery, xe_lib = table_lib msgs, xe_clusters = gomap_cache,
     xe_listeners = gomap_cache, xe_secrets = gomap_cache\<rparr>"

lemma gomap_cache_ok: "linear_cache_ok gomap_cache"
  by (auto simp: linear_cache_ok_def gomap_cache_def fun_eq_iff)

lemma table_lib_ok: "xds_lib_ok (table_lib msgs)"
proof -
  have "length (takeWhile (\<lambda>x. x \<noteq> m) msgs) < length msgs
      \<and> msgs ! length (takeWhile (\<lambda>x. x \<noteq> m) msgs) = m" if "m \<in> set msgs" for m
    using that nth_length_takeWhile [of "\<lambda>x. x \<noteq> m" msgs]
    by (metis (mono_tags, lifting) length_takeWhile_le nat_less_le takeWhile_eq_all_conv takeWhile_eq_take take_all_iff)
  then show ?thesis by (auto simp: xds_lib_ok_def table_lib_def)
qed

lemma table_env_ok: "xds_env_ok (table_env msgs)"
  by (simp add: xds_env_ok_def table_env_def gomap_cache_ok table_lib_ok)

interpretation mem_xds: xds_setting "table_env msgs" mem_client mem_view ns for msgs ns
  by unfold_locales (rule table_env_ok mem_client_ok)+


text \<open>One export, reconciled once.\<close>

definition demo_api :: mem where
  "demo_api = empty_mem\<lparr>mem_Export := [(NamespacedName ''ns'' ''svc'',
     \<lparr>exp_Meta = \<lparr>om_Name = ''svc'', om_Namespace = ''ns'', om_Labels = []\<rparr>,
      exp_Spec = \<lparr>exp_Host = [], exp_Port = 80\<rparr>, exp_Status = \<lparr>exp_Conditions = []\<rparr>\<rparr>)]\<rparr>"

abbreviation demo_xds ::
    "((string, Cluster) gomap, (string, Listener) gomap, (string, tls_Secret) gomap) xds_env" where
  "demo_xds \<equiv> table_env [DnsResolverConfigMsg]"

definition demo_reconciled ::
    "((string, Cluster) gomap, (string, Listener) gomap, (string, tls_Secret) gomap) xds_Manager \<times> error option" where
  "demo_reconciled = Reconcile (cl_Export mem_client) (xds_export_controller demo_xds) (NamespacedName ''ns'' ''svc'')
     demo_api (xds_NewManager demo_xds)"


end
