(* ===== verification/Dataplane.thy ===== *)
theory Dataplane
  imports Xds_Sync
begin

text \<open>
  \<^verbatim>\<open>pkg/dataplane/server/dataplane.go\<close> and \<^verbatim>\<open>pkg/dataplane/client/fetcher.go\<close>: the dataplane's
  tables of clusters and secrets, and the handlers that bring them in line with the resources
  fetched from the control plane. Listeners, which start and stop goroutines, are in the
  theory \<open>Listeners\<close>. The parsing of key pairs and CA certificates is the parameter \<open>tls_env\<close>
  of \<open>Certs\<close>.
\<close>

subsection \<open>State\<close>

record Dataplane =
  dp_ID :: string
  dp_clusters :: "(string, Cluster) gomap"
  dp_tlsConfig :: tls_Config

definition NewDataplane :: "string \<Rightarrow> Dataplane" where
  "NewDataplane dataplaneID = \<lparr>dp_ID = dataplaneID, dp_clusters = [],
     dp_tlsConfig = \<lparr>cfg_MinVersion = VersionTLS12, cfg_SessionCache = Some 64, cfg_Certificates = [],
       cfg_ClientCAs = None, cfg_RootCAs = None, cfg_ClientAuth = RequireAndVerifyClientCert, cfg_ServerName = []\<rparr>\<rparr>"

subsection \<open>Clusters\<close>

definition firstEndpoint :: "Cluster \<Rightarrow> panic + LbEndpoint" where
  "firstEndpoint c =
     (case cla_Endpoints (xc_LoadAssignment c) of
        (e # _) # _ \<Rightarrow> Inr e
      | _ \<Rightarrow> Inl IndexOutOfRange)"

definition GetClusterTarget :: "Dataplane \<Rightarrow> string \<Rightarrow> panic + (error + string)" where
  "GetClusterTarget d name =
     (case mget (dp_clusters d) name of
        None \<Rightarrow> Inr (Inl (Errorf (''unable to find '' @ name @ '' in cluster map'')))
      | Some c \<Rightarrow>
          map_sum id (\<lambda>e. Inr (sa_Address (lbe_Address e) @ '':'' @ Itoa (unat (sa_PortValue (lbe_Address e)))))
            (firstEndpoint c))"

definition GetClusterHostname :: "Dataplane \<Rightarrow> string \<Rightarrow> panic + (error + string)" where
  "GetClusterHostname d name =
     (case mget (dp_clusters d) name of
        None \<Rightarrow> Inr (Inl (Errorf (''unable to find '' @ name @ '' in cluster map'')))
      | Some c \<Rightarrow> map_sum id (\<lambda>e. Inr (lbe_Hostname e)) (firstEndpoint c))"

text \<open>\<^verbatim>\<open>net.SplitHostPort\<close>.\<close>

definition before_last :: "char \<Rightarrow> string \<Rightarrow> string" where
  "before_last ch s = rev (drop 1 (dropWhile (\<lambda>x. x \<noteq> ch) (rev s)))"

definition after_last :: "char \<Rightarrow> string \<Rightarrow> string" where
  "after_last ch s = rev (takeWhile (\<lambda>x. x \<noteq> ch) (rev s))"

definition addr_error :: "string \<Rightarrow> string \<Rightarrow> error" where
  "addr_error hostport why = Errorf (''address '' @ hostport @ '': '' @ why)"

definition SplitHostPort :: "string \<Rightarrow> error + string \<times> string" where
  "SplitHostPort hostport =
     (let i = length (before_last CHR '':'' hostport)
      in if CHR '':'' \<notin> set hostport then Inl (addr_error hostport ''missing port in address'')
         else if hd hostport = CHR ''[''
         then (let endpos = length (takeWhile (\<lambda>x. x \<noteq> CHR '']'') hostport)
               in if CHR '']'' \<notin> set hostport then Inl (addr_error hostport ''missing ] in address'')
                  else if endpos + 1 = length hostport then Inl (addr_error hostport ''missing port in address'')
                  else if endpos + 1 \<noteq> i
                  then Inl (addr_error hostport (if hostport ! (endpos + 1) = CHR '':'' then ''too many colons in address''
                                                 else ''missing port in address''))
                  else if CHR ''['' \<in> set (drop 1 hostport) then Inl (addr_error hostport ''unexpected [ in address'')
                  else if CHR '']'' \<in> set (drop (endpos + 1) hostport) then Inl (addr_error hostport ''unexpected ] in address'')
                  else Inr (take (endpos - 1) (drop 1 hostport), after_last CHR '':'' hostport))
         else (let host = before_last CHR '':'' hostport
               in if CHR '':'' \<in> set host then Inl (addr_error hostport ''too many colons in address'')
                  else if CHR ''['' \<in> set hostport then Inl (addr_error hostport ''unexpected [ in address'')
                  else if CHR '']'' \<in> set hostport then Inl (addr_error hostport ''unexpected ] in address'')
                  else Inr (host, after_last CHR '':'' hostport)))"

definition GetClusterHost :: "Dataplane \<Rightarrow> string \<Rightarrow> panic + (error + string)" where
  "GetClusterHost d name =
     (case GetClusterHostname d name of
        Inl p \<Rightarrow> Inl p
      | Inr (Inl err) \<Rightarrow> Inr (Inl err)
      | Inr (Inr hostname) \<Rightarrow>
          (case SplitHostPort hostname of
             Inl err \<Rightarrow> Inr (Inl (Wrapf (''cluster hostname '' @ [CHR 0x27] @ hostname @ [CHR 0x27]
                          @ '' cannot be parsed: '') err))
           | Inr (host, _) \<Rightarrow> Inr (Inr host)))"

definition AddCluster :: "Cluster \<Rightarrow> Dataplane \<Rightarrow> Dataplane" where
  "AddCluster c d = d\<lparr>dp_clusters := mput (xc_Name c) c (dp_clusters d)\<rparr>"

definition RemoveCluster :: "string \<Rightarrow> Dataplane \<Rightarrow> Dataplane" where
  "RemoveCluster name d = d\<lparr>dp_clusters := mdel name (dp_clusters d)\<rparr>"

definition GetClusters :: "Dataplane \<Rightarrow> (string, Cluster) gomap" where
  "GetClusters d = dp_clusters d"

subsection \<open>Secrets\<close>

fun GetInlineBytes :: "DataSource \<Rightarrow> string option" where
  "GetInlineBytes (InlineBytes b) = Some b"
| "GetInlineBytes OtherSource = None"

definition addCertificateSecret :: "tls_env \<Rightarrow> tls_Secret \<Rightarrow> Dataplane \<Rightarrow> Dataplane \<times> error option" where
  "addCertificateSecret T secret d =
     (case xs_Type secret of
        Secret_TlsCertificate certChain privateKey \<Rightarrow>
     (case certChain of None \<Rightarrow> (d, Some (Errorf ''no certificate chain'')) | Some cc \<Rightarrow>
     (case GetInlineBytes cc of None \<Rightarrow> (d, Some (Errorf ''no certificate chain bytes embedded'')) | Some certBytes \<Rightarrow>
     (case privateKey of None \<Rightarrow> (d, Some (Errorf ''no private key'')) | Some pk \<Rightarrow>
     (case GetInlineBytes pk of None \<Rightarrow> (d, Some (Errorf ''no private key bytes embedded'')) | Some keyBytes \<Rightarrow>
     (case X509KeyPair T certBytes keyBytes of
        Inl err \<Rightarrow> (d, Some (Wrapf ''error parsing certificate: '' err))
      | Inr certificate \<Rightarrow> (d\<lparr>dp_tlsConfig := (dp_tlsConfig d)\<lparr>cfg_Certificates := [certificate]\<rparr>\<rparr>, None))))))
      | _ \<Rightarrow> (d, Some (Errorf ''not a TLS certificate secret'')))"

definition addValidationSecret :: "tls_env \<Rightarrow> tls_Secret \<Rightarrow> Dataplane \<Rightarrow> Dataplane \<times> error option" where
  "addValidationSecret T secret d =
     (case xs_Type secret of
        Secret_ValidationContext trustedCa \<Rightarrow>
     (case trustedCa of None \<Rightarrow> (d, Some (Errorf ''no trusted CA'')) | Some ca \<Rightarrow>
     (case GetInlineBytes ca of None \<Rightarrow> (d, Some (Errorf ''no CA bytes embedded'')) | Some caBytes \<Rightarrow>
     (case AppendCertsFromPEM T caBytes of
        None \<Rightarrow> (d, Some (Errorf ''error parsing CA''))
      | Some caCertPool \<Rightarrow>
          (d\<lparr>dp_tlsConfig := (dp_tlsConfig d)\<lparr>cfg_ClientCAs := Some caCertPool, cfg_RootCAs := Some caCertPool\<rparr>\<rparr>, None))))
      | _ \<Rightarrow> (d, Some (Errorf ''not a validation context secret'')))"

definition AddSecret :: "tls_env \<Rightarrow> tls_Secret \<Rightarrow> Dataplane \<Rightarrow> Dataplane \<times> error option" where
  "AddSecret T secret d =
     (if xs_Name secret = CertificateSecret then addCertificateSecret T secret d
      else if xs_Name secret = ValidationSecret then addValidationSecret T secret d
      else (d, Some (Errorf (''unknown secret: '' @ xs_Name secret))))"

subsection \<open>Fetched resources\<close>

definition UnmarshalCluster :: "xds_lib \<Rightarrow> string \<Rightarrow> error + Cluster" where
  "UnmarshalCluster X r = (case anypb_UnmarshalNew X r of
     Inl err \<Rightarrow> Inl err | Inr (ClusterMsg c) \<Rightarrow> Inr c | Inr _ \<Rightarrow> Inl (Errorf ''mismatched message type''))"

definition UnmarshalListener :: "xds_lib \<Rightarrow> string \<Rightarrow> error + Listener" where
  "UnmarshalListener X r = (case anypb_UnmarshalNew X r of
     Inl err \<Rightarrow> Inl err | Inr (ListenerMsg l) \<Rightarrow> Inr l | Inr _ \<Rightarrow> Inl (Errorf ''mismatched message type''))"

definition UnmarshalSecret :: "xds_lib \<Rightarrow> string \<Rightarrow> error + tls_Secret" where
  "UnmarshalSecret X r = (case anypb_UnmarshalNew X r of
     Inl err \<Rightarrow> Inl err | Inr (SecretMsg s) \<Rightarrow> Inr s | Inr _ \<Rightarrow> Inl (Errorf ''mismatched message type''))"

text \<open>The loop over the fetched clusters: the names seen, or the first error.\<close>

fun addClusters :: "xds_lib \<Rightarrow> string list \<Rightarrow> string list \<Rightarrow> Dataplane \<Rightarrow> Dataplane \<times> (error + string list)" where
  "addClusters X [] clusters d = (d, Inr clusters)"
| "addClusters X (r # rs) clusters d =
     (case UnmarshalCluster X r of
        Inl err \<Rightarrow> (d, Inl err)
      | Inr c \<Rightarrow> addClusters X rs (xc_Name c # clusters) (AddCluster c d))"

definition handleClusters ::
    "xds_lib \<Rightarrow> ((string, Cluster) gomap \<Rightarrow> (string, Cluster) gomap) \<Rightarrow> string list \<Rightarrow> Dataplane
       \<Rightarrow> Dataplane \<times> error option" where
  "handleClusters X rng resources d =
     (case addClusters X resources [] d of
        (d', Inl err) \<Rightarrow> (d', Some err)
      | (d', Inr clusters) \<Rightarrow>
          (fold (\<lambda>(cn, _) d. if cn \<in> set clusters then d else RemoveCluster cn d) (rng (GetClusters d')) d', None))"

definition handleSecret :: "xds_lib \<Rightarrow> tls_env \<Rightarrow> string \<Rightarrow> Dataplane \<Rightarrow> Dataplane \<times> error option" where
  "handleSecret X T res d =
     (case UnmarshalSecret X res of
        Inl err \<Rightarrow> (d, Some err)
      | Inr secret \<Rightarrow>
          (case AddSecret T secret d of
             (d', Some err) \<Rightarrow> (d', Some (Wrapf (''error adding secret '' @ xs_Name secret @ '': '') err))
           | (d', None) \<Rightarrow> (d', None)))"

definition handleSecrets :: "xds_lib \<Rightarrow> tls_env \<Rightarrow> string list \<Rightarrow> Dataplane \<Rightarrow> Dataplane \<times> error option" where
  "handleSecrets X T = forE (handleSecret X T)"

subsection \<open>The cluster table follows what was fetched\<close>

lemma addClusters_all:
  assumes "map (UnmarshalCluster X) rs = map Inr cs"
  shows "addClusters X rs seen d = (fold AddCluster cs d, Inr (rev (map xc_Name cs) @ seen))"
  using assms
proof (induction rs arbitrary: cs seen d)
  case (Cons r rs)
  then obtain c cs' where "cs = c # cs'" by (cases cs) auto
  with Cons show ?case by auto
qed auto

lemma addClusters_error:
  assumes "map (UnmarshalCluster X) rs = map Inr cs @ Inl err # rest"
  shows "addClusters X rs seen d = (fold AddCluster cs d, Inl err)"
  using assms
proof (induction rs arbitrary: cs seen d)
  case (Cons r rs)
  then show ?case by (cases cs) auto
qed auto

lemma fold_AddCluster:
  "mget (dp_clusters (fold AddCluster cs d)) = mget (dp_clusters d) ++ map_of (rev (map (\<lambda>c. (xc_Name c, c)) cs))"
  "dp_tlsConfig (fold AddCluster cs d) = dp_tlsConfig d"
  "dp_ID (fold AddCluster cs d) = dp_ID d"
  "mwf (dp_clusters d) \<Longrightarrow> mwf (dp_clusters (fold AddCluster cs d))"
  by (induction cs arbitrary: d) (auto simp: AddCluster_def fun_eq_iff map_add_def split: option.split)

lemma fold_RemoveCluster:
  "mget (dp_clusters (fold (\<lambda>(cn, _) d. if cn \<in> A then d else RemoveCluster cn d) xs d)) =
     (\<lambda>n. if n \<in> fst ` set xs \<and> n \<notin> A then None else mget (dp_clusters d) n)"
  "dp_tlsConfig (fold (\<lambda>(cn, _) d. if cn \<in> A then d else RemoveCluster cn d) xs d) = dp_tlsConfig d"
  by (induction xs arbitrary: d) (auto simp: RemoveCluster_def fun_eq_iff image_iff)

lemma handleClusters_all:
  assumes "range_order rng" and "map (UnmarshalCluster X) rs = map Inr cs"
  shows "snd (handleClusters X rng rs d) = None"
    and "mget (dp_clusters (fst (handleClusters X rng rs d))) = map_of (rev (map (\<lambda>c. (xc_Name c, c)) cs))"
    and "dp_tlsConfig (fst (handleClusters X rng rs d)) = dp_tlsConfig d"
proof -
  let ?d = "fold AddCluster cs d" and ?m = "map_of (rev (map (\<lambda>c. (xc_Name c, c)) cs))"
  have names: "n \<in> set (map xc_Name cs) \<longleftrightarrow> ?m n \<noteq> None" for n
    by (auto simp: map_of_eq_None_iff image_iff)
  have keys: "n \<in> fst ` set (rng (dp_clusters ?d)) \<longleftrightarrow> mget (dp_clusters ?d) n \<noteq> None" for n
    by (simp add: range_orderD(1) [OF assms(1)] map_of_eq_None_iff)
  have eq: "handleClusters X rng rs d = (fold (\<lambda>(cn, _) d. if cn \<in> set (rev (map xc_Name cs)) then d
      else RemoveCluster cn d) (rng (dp_clusters ?d)) ?d, None)"
    using addClusters_all [OF assms(2), of "[]" d] by (simp add: handleClusters_def GetClusters_def)
  show "snd (handleClusters X rng rs d) = None" by (simp add: eq)
  show "dp_tlsConfig (fst (handleClusters X rng rs d)) = dp_tlsConfig d"
    unfolding eq fst_conv fold_RemoveCluster by (rule fold_AddCluster)
  have "mget (dp_clusters (fst (handleClusters X rng rs d))) n = ?m n" for n
    unfolding eq fst_conv fold_RemoveCluster keys using names [of n]
    by (auto simp: fold_AddCluster(1) map_add_def split: option.splits)
  then show "mget (dp_clusters (fst (handleClusters X rng rs d))) = ?m" ..
qed

text \<open>
  After a fetch whose clusters can all be decoded, the dataplane routes to exactly the
  fetched clusters (the last one of a name counts), whatever it had before and whatever
  order Go ranges over its table in. If one cannot be decoded, those before it are added,
  nothing is removed and the error is reported. The TLS configuration is never touched.
\<close>

theorem handleClusters_exact:
  assumes "range_order rng"
  shows "(map (UnmarshalCluster X) rs = map Inr cs \<longrightarrow>
      snd (handleClusters X rng rs d) = None
      \<and> mget (dp_clusters (fst (handleClusters X rng rs d))) = map_of (rev (map (\<lambda>c. (xc_Name c, c)) cs))
      \<and> dp_tlsConfig (fst (handleClusters X rng rs d)) = dp_tlsConfig d)
    \<and> (map (UnmarshalCluster X) rs = map Inr cs @ Inl err # rest \<longrightarrow>
      handleClusters X rng rs d = (fold AddCluster cs d, Some err))"
  using handleClusters_all [OF assms] addClusters_error by (simp add: handleClusters_def)

definition demo_cluster :: "string \<Rightarrow> string \<Rightarrow> uint32 \<Rightarrow> Cluster" where
  "demo_cluster n host port = \<lparr>xc_Name = n, xc_ConnectTimeout = 1, xc_DnsRefreshRate = 1, xc_Type = STRICT_DNS,
     xc_DnsResolver = ([], []), xc_LoadAssignment = \<lparr>cla_ClusterName = n, cla_Endpoints =
       [[\<lparr>lbe_Address = \<lparr>sa_Address = host, sa_PortValue = port\<rparr>, lbe_Hostname = n @ '':443''\<rparr>]]\<rparr>,
     xc_TransportSocket = None\<rparr>"

theorem handleClusters_exact_witness:
  "mget (dp_clusters (fst (handleClusters (table_lib [ClusterMsg (demo_cluster ''b'' ''h'' 1)]) rev [[]]
      (AddCluster (demo_cluster ''a'' ''h'' 1) (NewDataplane ''id''))))) = [''b'' \<mapsto> demo_cluster ''b'' ''h'' 1]"
proof -
  let ?X = "table_lib [ClusterMsg (demo_cluster ''b'' ''h'' 1)]"
  have "map (UnmarshalCluster ?X) [[]] = map Inr [demo_cluster ''b'' ''h'' 1]"
    by (simp add: UnmarshalCluster_def table_lib_def)
  then show ?thesis using handleClusters_exact [OF range_order_rev, of ?X "[[]]" "[demo_cluster ''b'' ''h'' 1]"]
    by (simp add: demo_cluster_def)
qed

subsection \<open>The TLS configuration\<close>

definition tls_fixed :: "tls_Config \<Rightarrow> tls_Config \<Rightarrow> bool" where
  "tls_fixed a b \<longleftrightarrow> cfg_ClientAuth a = cfg_ClientAuth b \<and> cfg_MinVersion a = cfg_MinVersion b
     \<and> cfg_ServerName a = cfg_ServerName b"

lemma AddSecret_effect:
  "tls_fixed (dp_tlsConfig (fst (AddSecret T s d))) (dp_tlsConfig d)"
  "snd (AddSecret T s d) \<noteq> None \<Longrightarrow> fst (AddSecret T s d) = d"
  "dp_clusters (fst (AddSecret T s d)) = dp_clusters d"
  by (auto simp: AddSecret_def addCertificateSecret_def addValidationSecret_def tls_fixed_def
      split: SecretType.split option.split sum.split)

lemma fst_handleSecret:
  "fst (handleSecret X T r d) = (case UnmarshalSecret X r of Inl _ \<Rightarrow> d | Inr s \<Rightarrow> fst (AddSecret T s d))"
  by (simp add: handleSecret_def split: sum.split prod.split option.split)

lemma handleSecret_effect:
  "tls_fixed (dp_tlsConfig (fst (handleSecret X T r d))) (dp_tlsConfig d)"
  "dp_clusters (fst (handleSecret X T r d)) = dp_clusters d"
  using AddSecret_effect by (simp_all add: fst_handleSecret tls_fixed_def split: sum.split)

lemma handleSecrets_effect:
  "tls_fixed (dp_tlsConfig (fst (handleSecrets X T rs d))) (dp_tlsConfig d)
     \<and> dp_clusters (fst (handleSecrets X T rs d)) = dp_clusters d"
  unfolding handleSecrets_def
  by (rule forE_inv [where P = "\<lambda>d'. tls_fixed (dp_tlsConfig d') (dp_tlsConfig d) \<and> dp_clusters d' = dp_clusters d"])
    (use handleSecret_effect in \<open>auto simp: tls_fixed_def\<close>)

lemma deliver_secret:
  assumes "xds_lib_ok X" and "anypb_New X (SecretMsg s) = Inr r" and "AddSecret T s d = (d', None)"
  shows "handleSecret X T r d = (d', None)"
proof -
  have "UnmarshalSecret X r = Inr s" using assms(1,2) by (simp add: UnmarshalSecret_def xds_lib_ok_def)
  then show ?thesis by (simp add: handleSecret_def assms(3))
qed

text \<open>
  C18. The certificate the control plane publishes is the one the dataplane uses: when the two
  secrets of a certificate arrive, in either order, and can be parsed, connections are
  served and opened with exactly that certificate and checked against exactly that CA.
  Whatever secrets arrive otherwise, the dataplane goes on requiring and verifying client
  certificates with TLS 1.2 or later.
\<close>

theorem certificate_delivery:
  assumes "xds_lib_ok X"
    and "anypb_New X (SecretMsg (certificateSecret raw)) = Inr r1"
    and "anypb_New X (SecretMsg (validationSecret raw)) = Inr r2"
    and "X509KeyPair T (RawCertData_Certificate raw) (RawCertData_Key raw) = Inr cert"
    and "AppendCertsFromPEM T (RawCertData_CA raw) = Some pool"
    and "rs \<in> {[r1, r2], [r2, r1]}"
  shows "handleSecrets X T rs d = (d\<lparr>dp_tlsConfig := (dp_tlsConfig d)\<lparr>cfg_Certificates := [cert],
        cfg_ClientCAs := Some pool, cfg_RootCAs := Some pool\<rparr>\<rparr>, None)
    \<and> (let cfg = dp_tlsConfig (fst (handleSecrets X T rs' (NewDataplane n)))
       in cfg_ClientAuth cfg = RequireAndVerifyClientCert \<and> cfg_MinVersion cfg = VersionTLS12)"
proof -
  have c: "AddSecret T (certificateSecret raw) d = (d\<lparr>dp_tlsConfig := (dp_tlsConfig d)\<lparr>cfg_Certificates := [cert]\<rparr>\<rparr>, None)" for d
    using assms(4) by (simp add: AddSecret_def addCertificateSecret_def certificateSecret_def)
  have v: "AddSecret T (validationSecret raw) d =
      (d\<lparr>dp_tlsConfig := (dp_tlsConfig d)\<lparr>cfg_ClientCAs := Some pool, cfg_RootCAs := Some pool\<rparr>\<rparr>, None)" for d
    using assms(5)
    by (simp add: AddSecret_def addValidationSecret_def validationSecret_def ValidationSecret_def CertificateSecret_def)
  note del = deliver_secret [OF assms(1,2) c] deliver_secret [OF assms(1,3) v]
  have "handleSecrets X T rs d = (d\<lparr>dp_tlsConfig := (dp_tlsConfig d)\<lparr>cfg_Certificates := [cert],
        cfg_ClientCAs := Some pool, cfg_RootCAs := Some pool\<rparr>\<rparr>, None)"
    using assms(6) by (auto simp: handleSecrets_def seqE_def del)
  moreover have "tls_fixed (dp_tlsConfig (fst (handleSecrets X T rs' (NewDataplane n)))) (dp_tlsConfig (NewDataplane n))"
    using handleSecrets_effect by blast
  ultimately show ?thesis by (simp add: tls_fixed_def NewDataplane_def Let_def)
qed

definition demo_raw :: RawCertData where
  "demo_raw = \<lparr>rcd_certificate = ''cert'', rcd_key = ''key'', rcd_ca = ''ca''\<rparr>"

definition demo_tls :: tls_env where
  "demo_tls = \<lparr>ReadFile = (\<lambda>f. Inl (Errorf f)),
     X509KeyPair = (\<lambda>c k. if c = ''cert'' then Inr \<lparr>tc_Certificate = [c], tc_PrivateKey = k\<rparr> else Inl (Errorf c)),
     AppendCertsFromPEM = Some, ParseCertificate = (\<lambda>c. Inl (Errorf c))\<rparr>"

theorem certificate_delivery_witness:
  "cfg_RootCAs (dp_tlsConfig (fst (handleSecrets
      (table_lib [SecretMsg (certificateSecret demo_raw), SecretMsg (validationSecret demo_raw)]) demo_tls
      [''x'', []] (NewDataplane ''id'')))) = Some ''ca''"
proof -
  let ?X = "table_lib [SecretMsg (certificateSecret demo_raw), SecretMsg (validationSecret demo_raw)]"
  have m: "anypb_New ?X (SecretMsg (certificateSecret demo_raw)) = Inr []"
    "anypb_New ?X (SecretMsg (validationSecret demo_raw)) = Inr ''x''"
    by (simp_all add: table_lib_def certificateSecret_def validationSecret_def)
  have p: "X509KeyPair demo_tls (RawCertData_Certificate demo_raw) (RawCertData_Key demo_raw) =
      Inr \<lparr>tc_Certificate = [''cert''], tc_PrivateKey = ''key''\<rparr>"
    "AppendCertsFromPEM demo_tls (RawCertData_CA demo_raw) = Some ''ca''"
    by (simp_all add: demo_tls_def demo_raw_def RawCertData_Certificate_def RawCertData_Key_def RawCertData_CA_def)
  show ?thesis using certificate_delivery [OF table_lib_ok m p, of "[''x'', []]"] by simp
qed

end
