(* ===== verification/Listeners.thy ===== *)
theory Listeners
  imports Dataplane
begin

text \<open>
  The listeners of the dataplane: \<^verbatim>\<open>AddListener\<close>, \<^verbatim>\<open>RemoveListener\<close> and \<^verbatim>\<open>CreateListener\<close>
  (\<^verbatim>\<open>dataplane.go\<close>, \<^verbatim>\<open>listener.go\<close>) and the fetcher's \<^verbatim>\<open>handleListeners\<close>. Each listener is a
  goroutine that creates a channel, listens on its address, and closes its acceptor when
  something arrives on the channel; the channel is unbuffered, so whoever ends a listener
  waits until the goroutine takes the message. The fetcher works through a list of commands:
  add the fetched listeners, then remove the ones that were not fetched. To end a listener it
  reads the channel from the map once and sends on it (\<open>CmdSendOn\<close>); a missing entry is a nil
  channel, on which a send blocks for ever.
\<close>

datatype listener_phase = Starting | Serving nat | Ended

record listener_go =
  lg_name :: string
  lg_address :: SocketAddress
  lg_phase :: listener_phase

record listener_state =
  li_listeners :: "(string, Listener) gomap"
  li_listenerEnd :: "(string, nat) gomap"
  li_goroutines :: "listener_go list"
  li_channels :: nat

datatype listener_cmd =
    CmdAdd Listener
  | CmdPrune "string list"
  | CmdRemove string
  | CmdSendOn "nat option"
  | CmdStart Listener

definition NewListeners :: listener_state where
  "NewListeners = \<lparr>li_listeners = [], li_listenerEnd = [], li_goroutines = [], li_channels = 0\<rparr>"

definition listenerName :: "Listener \<Rightarrow> string" where
  "listenerName ln = TrimPrefix (xl_Name ln) ImportListenerPrefix"

text \<open>The commands of \<^verbatim>\<open>handleListeners\<close>: resources are decoded one by one as they are added.\<close>

fun listenerCommands :: "xds_lib \<Rightarrow> string list \<Rightarrow> string list \<Rightarrow> listener_cmd list" where
  "listenerCommands X [] names = [CmdPrune names]"
| "listenerCommands X (r # rs) names =
     (case UnmarshalListener X r of
        Inl err \<Rightarrow> []
      | Inr l \<Rightarrow> CmdAdd l # listenerCommands X rs (listenerName l # names))"

definition handleListeners :: "xds_lib \<Rightarrow> string list \<Rightarrow> listener_cmd list" where
  "handleListeners X resources = listenerCommands X resources []"

text \<open>\<^verbatim>\<open>AddListener\<close> keeps a listener whose address did not change.\<close>

definition sameAddress :: "Listener \<Rightarrow> Listener \<Rightarrow> bool" where
  "sameAddress ln le \<longleftrightarrow> sa_Address (xl_Address ln) = sa_Address (xl_Address le)
     \<and> sa_PortValue (xl_Address ln) = sa_PortValue (xl_Address le)"

definition startListener :: "Listener \<Rightarrow> listener_state \<Rightarrow> listener_state" where
  "startListener ln st = st\<lparr>li_listeners := mput (listenerName ln) ln (li_listeners st),
     li_goroutines := li_goroutines st @ [\<lparr>lg_name = listenerName ln, lg_address = xl_Address ln, lg_phase = Starting\<rparr>]\<rparr>"

definition setPhase :: "nat \<Rightarrow> listener_phase \<Rightarrow> listener_state \<Rightarrow> listener_state" where
  "setPhase i p st = st\<lparr>li_goroutines := (li_goroutines st)[i := (li_goroutines st ! i)\<lparr>lg_phase := p\<rparr>]\<rparr>"

definition newChannel :: "string \<Rightarrow> listener_state \<Rightarrow> listener_state" where
  "newChannel name st = st\<lparr>li_listenerEnd := mput name (li_channels st) (li_listenerEnd st),
     li_channels := Suc (li_channels st)\<rparr>"

text \<open>
  \<^verbatim>\<open>CreateListener\<close> up to its wait for the end: it makes a channel, puts it into the map and
  listens, after which it waits on the channel or, when listening failed, returns.
\<close>

definition CreateListener :: "nat \<Rightarrow> bool \<Rightarrow> listener_state \<Rightarrow> listener_state" where
  "CreateListener i listens st =
     newChannel (lg_name (li_goroutines st ! i)) (setPhase i (if listens then Serving (li_channels st) else Ended) st)"

inductive listener_step ::
    "listener_cmd list \<times> listener_state \<Rightarrow> listener_cmd list \<times> listener_state \<Rightarrow> bool" where
  add_unchanged: "mget (li_listeners st) (listenerName ln) = Some le \<Longrightarrow> sameAddress ln le \<Longrightarrow>
    listener_step (CmdAdd ln # cmds, st) (cmds, st)"
| add_moved: "mget (li_listeners st) (listenerName ln) = Some le \<Longrightarrow> \<not> sameAddress ln le \<Longrightarrow>
    listener_step (CmdAdd ln # cmds, st) (CmdSendOn (mget (li_listenerEnd st) (listenerName ln)) # CmdStart ln # cmds, st)"
| add_new: "mget (li_listeners st) (listenerName ln) = None \<Longrightarrow>
    listener_step (CmdAdd ln # cmds, st) (cmds, startListener ln st)"
| start: "listener_step (CmdStart ln # cmds, st) (cmds, startListener ln st)"
| prune: "mset gone = mset (filter (\<lambda>n. n \<notin> set names) (map fst (li_listeners st))) \<Longrightarrow>
    listener_step (CmdPrune names # cmds, st) (map CmdRemove gone @ cmds, st)"
| remove: "listener_step (CmdRemove name # cmds, st)
    (CmdSendOn (mget (li_listenerEnd st) name) # cmds, st\<lparr>li_listeners := mdel name (li_listeners st)\<rparr>)"
| send: "i < length (li_goroutines st) \<Longrightarrow> lg_phase (li_goroutines st ! i) = Serving ch \<Longrightarrow>
    listener_step (CmdSendOn (Some ch) # cmds, st) (cmds, setPhase i Ended st)"
| listening: "i < length (li_goroutines st) \<Longrightarrow> lg_phase (li_goroutines st ! i) = Starting \<Longrightarrow>
    listener_step (cmds, st) (cmds, CreateListener i True st)"
| listen_failed: "i < length (li_goroutines st) \<Longrightarrow> lg_phase (li_goroutines st ! i) = Starting \<Longrightarrow>
    listener_step (cmds, st) (cmds, CreateListener i False st)"

subsection \<open>The table of listeners\<close>

text \<open>What a command does to the table, seen as a partial function; it forgets the goroutines.\<close>

fun cmd_effect :: "listener_cmd \<Rightarrow> (string \<Rightarrow> Listener option) \<Rightarrow> string \<Rightarrow> Listener option" where
  "cmd_effect (CmdAdd ln) m = (case m (listenerName ln) of
     Some le \<Rightarrow> if sameAddress ln le then m else m(listenerName ln \<mapsto> ln) | None \<Rightarrow> m(listenerName ln \<mapsto> ln))"
| "cmd_effect (CmdPrune names) m = m |` set names"
| "cmd_effect (CmdRemove n) m = m(n := None)"
| "cmd_effect (CmdSendOn c) m = m"
| "cmd_effect (CmdStart ln) m = m(listenerName ln \<mapsto> ln)"

lemma fold_remove_effect: "fold cmd_effect (map CmdRemove gone) m = m |` (- set gone)"
  by (induction gone arbitrary: m) (auto simp: restrict_map_def fun_eq_iff)

lemma prune_effect:
  assumes "mset gone = mset (filter (\<lambda>n. n \<notin> set names) (map fst l))"
  shows "fold cmd_effect (map CmdRemove gone) (mget l) = cmd_effect (CmdPrune names) (mget l)"
proof -
  have gone: "set gone = {n \<in> fst ` set l. n \<notin> set names}"
    using arg_cong [OF assms, where f = set_mset] by auto
  have "(mget l |` (- set gone)) n = (mget l |` set names) n" for n
  proof (cases "mget l n")
    case (Some v)
    then have "n \<in> fst ` set l" by (metis dom_map_of_conv_image_fst domI)
    with gone show ?thesis by (auto simp: restrict_map_def)
  qed (simp add: restrict_map_def)
  then show ?thesis by (simp add: fold_remove_effect fun_eq_iff)
qed

lemma step_effect:
  "listener_step x y \<Longrightarrow> fold cmd_effect (fst y) (mget (li_listeners (snd y))) = fold cmd_effect (fst x) (mget (li_listeners (snd x)))"
proof (induction rule: listener_step.induct)
  case (prune gone names st cmds)
  then show ?case using prune_effect [OF prune] by simp
qed (auto simp: startListener_def CreateListener_def setPhase_def newChannel_def fun_upd_def intro!: arg_cong [where f = "fold cmd_effect _"])

lemma run_effect:
  "listener_step\<^sup>*\<^sup>* x y \<Longrightarrow> fold cmd_effect (fst y) (mget (li_listeners (snd y))) = fold cmd_effect (fst x) (mget (li_listeners (snd x)))"
  by (induction rule: rtranclp_induct) (auto dest: step_effect)

lemma listenerCommands_all:
  "map (UnmarshalListener X) rs = map Inr ls \<Longrightarrow>
    listenerCommands X rs names = map CmdAdd ls @ [CmdPrune (rev (map listenerName ls) @ names)]"
proof (induction rs arbitrary: ls names)
  case (Cons r rs)
  then obtain l ls' where "ls = l # ls'" by (cases ls) auto
  with Cons show ?case by auto
qed auto

lemma add_effect_other:
  "n \<notin> listenerName ` set ls \<Longrightarrow> fold cmd_effect (map CmdAdd ls) m n = m n"
  by (induction ls arbitrary: m) (auto split: option.split)

lemma add_effect:
  assumes "distinct (map listenerName ls)" and "ln \<in> set ls"
  shows "\<exists>le. fold cmd_effect (map CmdAdd ls) m (listenerName ln) = Some le \<and> sameAddress ln le"
  using assms
proof (induction ls arbitrary: m)
  case (Cons l ls)
  show ?case
  proof (cases "ln = l")
    case True
    then have "listenerName ln \<notin> listenerName ` set ls" using Cons.prems by auto
    then show ?thesis using True by (auto simp: add_effect_other sameAddress_def split: option.split)
  next
    case False
    then show ?thesis using Cons by simp
  qed
qed simp

text \<open>
  C17. When the fetcher gets through a fetch, the table of listeners is exactly what was
  fetched: every fetched listener is in it, at its fetched address, and nothing else is.
\<close>

theorem listeners_exact:
  assumes "listener_step\<^sup>*\<^sup>* (handleListeners X rs, st) ([], st')"
    and "map (UnmarshalListener X) rs = map Inr ls" and "distinct (map listenerName ls)"
  shows "(\<forall>ln \<in> set ls. \<exists>le. mget (li_listeners st') (listenerName ln) = Some le \<and> sameAddress ln le)
    \<and> (\<forall>n. n \<notin> listenerName ` set ls \<longrightarrow> mget (li_listeners st') n = None)"
proof -
  have "mget (li_listeners st') = fold cmd_effect (map CmdAdd ls) (mget (li_listeners st)) |` (listenerName ` set ls)"
    using run_effect [OF assms(1)] listenerCommands_all [OF assms(2), of "[]"]
    by (simp add: handleListeners_def)
  then show ?thesis using add_effect [OF assms(3), of _ "mget (li_listeners st)"] by (auto simp: restrict_map_def)
qed

definition demo_listener :: "string \<Rightarrow> uint32 \<Rightarrow> Listener" where
  "demo_listener n port = \<lparr>xl_Name = ''import-'' @ n, xl_Address = \<lparr>sa_Address = ''0.0.0.0'', sa_PortValue = port\<rparr>,
     xl_FilterChains = []\<rparr>"

lemma demo_listener_name [simp]: "listenerName (demo_listener n port) = n"
  by (simp add: listenerName_def demo_listener_def TrimPrefix_def HasPrefix_def ImportListenerPrefix_def)

theorem listeners_exact_witness:
  "\<exists>st'. listener_step\<^sup>*\<^sup>* (handleListeners (table_lib [ListenerMsg (demo_listener ''ns/a'' 5)]) [[]], NewListeners) ([], st')
     \<and> (\<exists>le. mget (li_listeners st') ''ns/a'' = Some le \<and> sa_PortValue (xl_Address le) = 5)"
proof -
  let ?l = "demo_listener ''ns/a'' 5"
  let ?X = "table_lib [ListenerMsg ?l]" and ?st = "startListener ?l NewListeners"
  have u: "map (UnmarshalListener ?X) [[]] = map Inr [?l]" by (simp add: UnmarshalListener_def table_lib_def)
  have "handleListeners ?X [[]] = [CmdAdd ?l, CmdPrune [''ns/a'']]"
    using u by (simp add: handleListeners_def)
  moreover have "listener_step ([CmdAdd ?l, CmdPrune [''ns/a'']], NewListeners) ([CmdPrune [''ns/a'']], ?st)"
    by (rule add_new) (simp add: NewListeners_def)
  moreover have "listener_step ([CmdPrune [''ns/a'']], ?st) (map CmdRemove [] @ [], ?st)"
    by (rule prune) (simp add: startListener_def NewListeners_def)
  ultimately have run: "listener_step\<^sup>*\<^sup>* (handleListeners ?X [[]], NewListeners) ([], ?st)"
    by (simp add: converse_rtranclp_into_rtranclp)
  have port: "sa_PortValue (xl_Address ?l) = 5" by (simp add: demo_listener_def)
  from listeners_exact [OF run u] obtain le where "mget (li_listeners ?st) ''ns/a'' = Some le" "sameAddress ?l le"
    by auto
  then show ?thesis using run port by (intro exI [of _ ?st]) (auto simp: sameAddress_def)
qed

subsection \<open>Blocked sends\<close>

definition no_receiver :: "nat option \<Rightarrow> listener_state \<Rightarrow> bool" where
  "no_receiver c st \<longleftrightarrow> (\<forall>ch. c = Some ch \<longrightarrow> ch < li_channels st
     \<and> (\<forall>i < length (li_goroutines st). lg_phase (li_goroutines st ! i) \<noteq> Serving ch))"

lemma stuck_step:
  assumes "listener_step x y" and "fst x = CmdSendOn c # cmds" and "no_receiver c (snd x)"
  shows "fst y = CmdSendOn c # cmds \<and> no_receiver c (snd y) \<and> li_listeners (snd y) = li_listeners (snd x)"
  using assms
  by (induction rule: listener_step.induct)
    (auto simp: no_receiver_def CreateListener_def newChannel_def setPhase_def nth_list_update less_Suc_eq)

text \<open>
  A fetcher that ends a listener nobody serves waits for ever. That is the case when the
  listener could not be opened (its goroutine gave up without waiting on the channel), and
  also when its goroutine has not yet created its channel. From then on the commands never
  advance and no listener of the dataplane is added, moved or removed any more.
\<close>

theorem listener_fetcher_blocks:
  assumes "listener_step\<^sup>*\<^sup>* (CmdSendOn c # cmds, st) (cmds', st')" and "no_receiver c st"
  shows "cmds' = CmdSendOn c # cmds \<and> li_listeners st' = li_listeners st"
proof -
  have "listener_step\<^sup>*\<^sup>* x y \<Longrightarrow> fst x = CmdSendOn c # cmds \<Longrightarrow> no_receiver c (snd x) \<Longrightarrow>
      fst y = CmdSendOn c # cmds \<and> no_receiver c (snd y) \<and> li_listeners (snd y) = li_listeners (snd x)" for x y
  proof (induction rule: rtranclp_induct)
    case (step y z)
    then show ?case using stuck_step [OF step(2)] by auto
  qed simp
  from this [OF assms(1)] show ?thesis using assms(2) by simp
qed

text \<open>The state is reached when a listen fails and the import is deleted afterwards.\<close>

definition blocked_state :: listener_state where
  "blocked_state = \<lparr>li_listeners = [], li_listenerEnd = [(''ns/a'', 0)],
     li_goroutines = [\<lparr>lg_name = ''ns/a'', lg_address = xl_Address (demo_listener ''ns/a'' 5), lg_phase = Ended\<rparr>],
     li_channels = 1\<rparr>"

lemma blocked_reachable:
  "\<exists>st. listener_step\<^sup>*\<^sup>* ([CmdAdd (demo_listener ''ns/a'' 5)], NewListeners) ([], st)
     \<and> listener_step\<^sup>*\<^sup>* (handleListeners X [], st) ([CmdSendOn (Some 0)], blocked_state)"
proof -
  let ?l = "demo_listener ''ns/a'' 5" and ?failed = "blocked_state\<lparr>li_listeners := [(''ns/a'', demo_listener ''ns/a'' 5)]\<rparr>"
  let ?started = "startListener ?l NewListeners"
  have "listener_step ([CmdAdd ?l], NewListeners) ([], ?started)" by (rule add_new) (simp add: NewListeners_def)
  moreover have "listener_step ([], ?started) ([], CreateListener 0 False ?started)"
    by (rule listen_failed) (simp_all add: startListener_def NewListeners_def)
  moreover have "CreateListener 0 False ?started = ?failed"
    by (simp add: CreateListener_def newChannel_def setPhase_def startListener_def NewListeners_def blocked_state_def)
  ultimately have fail: "listener_step\<^sup>*\<^sup>* ([CmdAdd ?l], NewListeners) ([], ?failed)"
    by (simp add: converse_rtranclp_into_rtranclp)
  have "handleListeners X [] = [CmdPrune []]" by (simp add: handleListeners_def)
  moreover have "listener_step ([CmdPrune []], ?failed) (map CmdRemove [''ns/a''] @ [], ?failed)"
    by (rule prune) (simp add: blocked_state_def)
  moreover have "listener_step ([CmdRemove ''ns/a''], ?failed)
      ([CmdSendOn (mget (li_listenerEnd ?failed) ''ns/a'')], ?failed\<lparr>li_listeners := mdel ''ns/a'' (li_listeners ?failed)\<rparr>)"
    by (rule remove)
  ultimately have "listener_step\<^sup>*\<^sup>* (handleListeners X [], ?failed) ([CmdSendOn (Some 0)], blocked_state)"
    by (simp add: converse_rtranclp_into_rtranclp blocked_state_def)
  with fail show ?thesis by blast
qed

theorem listener_fetcher_blocks_witness:
  "\<exists>st st'. listener_step ([CmdSendOn (Some 0), CmdAdd (demo_listener ''ns/b'' 6)], st)
      ([CmdSendOn (Some 0), CmdAdd (demo_listener ''ns/b'' 6)], st') \<and> li_listeners st' = li_listeners st \<and> st' \<noteq> st"
proof -
  let ?b = "demo_listener ''ns/b'' 6"
  let ?st = "startListener ?b blocked_state"
  let ?st' = "CreateListener 1 True ?st"
  have step: "listener_step ([CmdSendOn (Some 0), CmdAdd ?b], ?st) ([CmdSendOn (Some 0), CmdAdd ?b], ?st')"
    by (rule listening) (simp_all add: startListener_def blocked_state_def)
  have ne: "li_channels ?st' \<noteq> li_channels ?st" by (simp add: CreateListener_def newChannel_def setPhase_def)
  have "no_receiver (Some 0) ?st" by (auto simp: no_receiver_def startListener_def blocked_state_def less_Suc_eq)
  from listener_fetcher_blocks [OF r_into_rtranclp [where r = listener_step, OF step] this]
  have "li_listeners ?st' = li_listeners ?st" by blast
  with step ne show ?thesis by metis
qed

end
