(* ===== verification/XdsClient.thy ===== *)
theory XdsClient
  imports Listeners
begin

text \<open>
  The xDS client of the dataplane (\<^verbatim>\<open>pkg/dataplane/client/xds.go\<close>) with the loops of its three
  fetchers (\<^verbatim>\<open>fetcher.go\<close>), which run as goroutines beside the listeners. A fetcher connects,
  exchanges a token with the other fetchers over the channel \<^verbatim>\<open>clustersReady\<close> (capacity one),
  and then fetches until its stream fails, after which it connects again. The stream of
  responses is up to the network; handling a response is what \<^verbatim>\<open>fetcher.Run\<close> does. Failed
  connects and failed acknowledgements are only logged.
\<close>

datatype resource_type = ClusterType | ListenerType | SecretType

datatype fetcher_phase = Connecting | Connected | Running | Handling "listener_cmd list"

record fetcher =
  f_resourceType :: resource_type
  f_ready :: bool
  f_phase :: fetcher_phase

record XDSClient =
  xd_dataplane :: Dataplane
  xd_listeners :: listener_state
  xd_clustersReady :: bool
  xd_fetchers :: "(resource_type, fetcher) gomap"

definition resources :: "resource_type list" where
  "resources = [ClusterType, ListenerType, SecretType]"

definition newFetcher :: "resource_type \<Rightarrow> fetcher" where
  "newFetcher resourceType = \<lparr>f_resourceType = resourceType, f_ready = False, f_phase = Connecting\<rparr>"

definition NewXDSClient :: "Dataplane \<Rightarrow> XDSClient" where
  "NewXDSClient dataplane = \<lparr>xd_dataplane = dataplane, xd_listeners = NewListeners, xd_clustersReady = False,
     xd_fetchers = map (\<lambda>res. (res, newFetcher res)) resources\<rparr>"

definition client_IsReady :: "XDSClient \<Rightarrow> bool" where
  "client_IsReady x \<longleftrightarrow> (\<forall>(_, f) \<in> set (xd_fetchers x). f_ready f)"

text \<open>The turn of \<^verbatim>\<open>fetcher.Run\<close> after a successful fetch.\<close>

definition fetcher_response ::
    "xds_lib \<Rightarrow> ((string, Cluster) gomap \<Rightarrow> (string, Cluster) gomap) \<Rightarrow> tls_env \<Rightarrow> string list
       \<Rightarrow> fetcher \<Rightarrow> Dataplane \<Rightarrow> fetcher \<times> Dataplane" where
  "fetcher_response X rng T resps f d =
     (case f_resourceType f of
        ClusterType \<Rightarrow> (f\<lparr>f_ready := True\<rparr>, fst (handleClusters X rng resps d))
      | ListenerType \<Rightarrow> (f\<lparr>f_ready := True, f_phase := Handling (handleListeners X resps)\<rparr>, d)
      | SecretType \<Rightarrow> (f\<lparr>f_ready := True\<rparr>, fst (handleSecrets X T resps d)))"

definition set_fetcher :: "fetcher \<Rightarrow> XDSClient \<Rightarrow> XDSClient" where
  "set_fetcher f x = x\<lparr>xd_fetchers := mput (f_resourceType f) f (xd_fetchers x)\<rparr>"

text \<open>The steps of \<^verbatim>\<open>runFetcher\<close>; \<open>Some res\<close> marks the start of the fetch loop of a fetcher.\<close>

inductive client_step ::
    "xds_lib \<Rightarrow> ((string, Cluster) gomap \<Rightarrow> (string, Cluster) gomap) \<Rightarrow> tls_env
       \<Rightarrow> XDSClient \<Rightarrow> resource_type option \<Rightarrow> XDSClient \<Rightarrow> bool" for X rng T where
  InitConnect: "mget (xd_fetchers x) res = Some f \<Longrightarrow> f_phase f = Connecting \<Longrightarrow>
    client_step X rng T x None (set_fetcher (f\<lparr>f_phase := Connected\<rparr>) x)"
| send_ready: "mget (xd_fetchers x) ClusterType = Some f \<Longrightarrow> f_phase f = Connected \<Longrightarrow> \<not> xd_clustersReady x \<Longrightarrow>
    client_step X rng T x (Some ClusterType) ((set_fetcher (f\<lparr>f_phase := Running\<rparr>) x)\<lparr>xd_clustersReady := True\<rparr>)"
| receive_ready: "mget (xd_fetchers x) ListenerType = Some f \<Longrightarrow> f_phase f = Connected \<Longrightarrow> xd_clustersReady x \<Longrightarrow>
    client_step X rng T x (Some ListenerType) ((set_fetcher (f\<lparr>f_phase := Running\<rparr>) x)\<lparr>xd_clustersReady := False\<rparr>)"
| secret_ready: "mget (xd_fetchers x) SecretType = Some f \<Longrightarrow> f_phase f = Connected \<Longrightarrow>
    client_step X rng T x (Some SecretType) (set_fetcher (f\<lparr>f_phase := Running\<rparr>) x)"
| Fetch: "mget (xd_fetchers x) res = Some f \<Longrightarrow> f_phase f = Running \<Longrightarrow>
    fetcher_response X rng T resps f (xd_dataplane x) = (f', d) \<Longrightarrow>
    client_step X rng T x None ((set_fetcher f' x)\<lparr>xd_dataplane := d\<rparr>)"
| Fetch_fails: "mget (xd_fetchers x) res = Some f \<Longrightarrow> f_phase f = Running \<Longrightarrow>
    client_step X rng T x None (set_fetcher (f\<lparr>f_phase := Connecting\<rparr>) x)"
| listeners: "mget (xd_fetchers x) ListenerType = Some f \<Longrightarrow> f_phase f = Handling cmds \<Longrightarrow>
    listener_step (cmds, xd_listeners x) (cmds', ls) \<Longrightarrow>
    client_step X rng T x None ((set_fetcher (f\<lparr>f_phase := Handling cmds'\<rparr>) x)\<lparr>xd_listeners := ls\<rparr>)"
| handled: "mget (xd_fetchers x) ListenerType = Some f \<Longrightarrow> f_phase f = Handling [] \<Longrightarrow>
    client_step X rng T x None (set_fetcher (f\<lparr>f_phase := Running\<rparr>) x)"
| listener_goroutine: "listener_step ([], xd_listeners x) ([], ls) \<Longrightarrow>
    client_step X rng T x None (x\<lparr>xd_listeners := ls\<rparr>)"

inductive client_run ::
    "xds_lib \<Rightarrow> ((string, Cluster) gomap \<Rightarrow> (string, Cluster) gomap) \<Rightarrow> tls_env
       \<Rightarrow> XDSClient \<Rightarrow> resource_type option list \<Rightarrow> XDSClient \<Rightarrow> bool" for X rng T where
  start: "client_run X rng T x [] x"
| extend: "client_run X rng T x ls y \<Longrightarrow> client_step X rng T y l z \<Longrightarrow> client_run X rng T x (ls @ [l]) z"

subsection \<open>The token\<close>

definition fetchers_wf :: "XDSClient \<Rightarrow> bool" where
  "fetchers_wf x \<longleftrightarrow> (\<forall>res f. mget (xd_fetchers x) res = Some f \<longrightarrow> f_resourceType f = res)"

lemma set_fetcher_simps [simp]:
  "xd_clustersReady (set_fetcher f x) = xd_clustersReady x"
  "mget (xd_fetchers (set_fetcher f x)) res = (if res = f_resourceType f then Some f else mget (xd_fetchers x) res)"
  by (simp_all add: set_fetcher_def)

lemma fetcher_response_type: "fetcher_response X rng T rs f d = (f', d') \<Longrightarrow> f_resourceType f' = f_resourceType f"
  by (auto simp: fetcher_response_def split: resource_type.splits)

lemma step_token:
  assumes "client_step X rng T x l y"
  shows "fetchers_wf x \<Longrightarrow> fetchers_wf y"
    and "of_bool (l = Some ClusterType) + of_bool (xd_clustersReady x) =
      of_bool (l = Some ListenerType) + (of_bool (xd_clustersReady y) :: nat)"
  using assms by (induction rule: client_step.induct)
    (auto simp: fetchers_wf_def fetcher_response_type split: if_splits)

lemma count_list_snoc: "count_list (ls @ [l]) a = count_list ls a + of_bool (l = a)"
  by simp

lemma run_token:
  "client_run X rng T x ls y \<Longrightarrow>
     count_list ls (Some ClusterType) + of_bool (xd_clustersReady x) =
       count_list ls (Some ListenerType) + of_bool (xd_clustersReady y)"
proof (induction rule: client_run.induct)
  case (extend x ls y l z)
  then show ?case unfolding count_list_snoc using step_token(2) [OF extend(2)] by linarith
qed simp

text \<open>
  The listener fetcher never gets ahead of the cluster fetcher. In every run of the client,
  each start of the listeners' fetch loop consumes a start of the clusters' fetch loop of its
  own, and the cluster fetcher is never more than one start ahead. So the first listener is
  opened only after the cluster fetcher is connected; but also a listener fetcher that lost
  its stream cannot start again before the cluster fetcher does, and a cluster fetcher that
  reconnects twice has to wait for a restart of the listener fetcher.
\<close>

theorem fetcher_lockstep:
  assumes "client_run X rng T (NewXDSClient d) starts x"
  shows "count_list starts (Some ListenerType) \<le> count_list starts (Some ClusterType)
    \<and> count_list starts (Some ClusterType) \<le> Suc (count_list starts (Some ListenerType))"
  using run_token [OF assms] by (auto simp: NewXDSClient_def of_bool_def split: if_splits)

text \<open>A run: both fetchers start once, then the stream of the listeners fails.\<close>

definition listener_waits :: "XDSClient \<Rightarrow> bool" where
  "listener_waits x \<longleftrightarrow> fetchers_wf x \<and> \<not> xd_clustersReady x
     \<and> (\<exists>f. mget (xd_fetchers x) ListenerType = Some f \<and> f_phase f = Connected)"

lemma step_listener_waits:
  assumes "client_step X rng T x l y" and "listener_waits x" and "l \<noteq> Some ClusterType"
  shows "listener_waits y"
proof -
  obtain f where f: "mget (xd_fetchers x) ListenerType = Some f" "f_phase f = Connected" "\<not> xd_clustersReady x"
    and wf: "fetchers_wf x" using assms(2) by (auto simp: listener_waits_def)
  have other: "f_resourceType g \<noteq> ListenerType" if "mget (xd_fetchers x) res = Some g" "f_phase g \<noteq> Connected" for res g
    using that f wf by (auto simp: fetchers_wf_def)
  have "mget (xd_fetchers y) ListenerType = Some f \<and> \<not> xd_clustersReady y"
    using assms(1)
  proof (cases rule: client_step.cases)
    case (Fetch res g resps g' d)
    then show ?thesis using f other [OF Fetch(3)] fetcher_response_type [OF Fetch(5)] by simp
  next
    case (secret_ready g)
    then show ?thesis using f wf by (auto simp: fetchers_wf_def)
  next
    case (InitConnect res g)
    then show ?thesis using f other [OF InitConnect(3)] by simp
  next
    case (Fetch_fails res g)
    then show ?thesis using f other [OF Fetch_fails(3)] by simp
  qed (use f assms(3) in auto)
  then show ?thesis using f step_token(1) [OF assms(1) wf] by (simp add: listener_waits_def)
qed

text \<open>
  A listener fetcher that has to reconnect while the cluster fetcher keeps running stays
  without its stream until the cluster fetcher restarts.
\<close>

lemma listener_restart_waits:
  "client_run X rng T x starts y \<Longrightarrow> listener_waits x \<Longrightarrow> Some ClusterType \<notin> set starts \<Longrightarrow> listener_waits y"
  by (induction rule: client_run.induct) (auto intro: step_listener_waits)

lemma fetcher_starts:
  "\<exists>x. client_run X rng T (NewXDSClient d) [None, None, Some ClusterType, Some ListenerType, None, None] x \<and> listener_waits x"
proof -
  let ?c = "\<lambda>p. (newFetcher ClusterType)\<lparr>f_phase := p\<rparr>" and ?l = "\<lambda>p. (newFetcher ListenerType)\<lparr>f_phase := p\<rparr>"
  let ?x0 = "NewXDSClient d"
  let ?x1 = "set_fetcher (?c Connected) ?x0"
  let ?x2 = "set_fetcher (?l Connected) ?x1"
  let ?x3 = "(set_fetcher (?c Running) ?x2)\<lparr>xd_clustersReady := True\<rparr>"
  let ?x4 = "(set_fetcher (?l Running) ?x3)\<lparr>xd_clustersReady := False\<rparr>"
  let ?x5 = "set_fetcher (?l Connecting) ?x4"
  let ?x6 = "set_fetcher (?l Connected) ?x5"
  have x0: "mget (xd_fetchers ?x0) res = Some (newFetcher res)" "\<not> xd_clustersReady ?x0" for res
    by (cases res; simp add: NewXDSClient_def resources_def)+
  have f: "f_resourceType (newFetcher res) = res" "f_phase (newFetcher res) = Connecting" for res
    by (simp_all add: newFetcher_def)
  have "client_run X rng T ?x0 [None] ?x1"
    using client_run.extend [OF client_run.start InitConnect [of ?x0 ClusterType]] x0 f by fastforce
  from client_run.extend [OF this InitConnect [of ?x1 ListenerType "newFetcher ListenerType"]]
  have "client_run X rng T ?x0 [None, None] ?x2" using x0 f by simp
  from client_run.extend [OF this send_ready [of ?x2 "?c Connected"]]
  have "client_run X rng T ?x0 [None, None, Some ClusterType] ?x3" using x0 f by simp
  from client_run.extend [OF this receive_ready [of ?x3 "?l Connected"]]
  have "client_run X rng T ?x0 [None, None, Some ClusterType, Some ListenerType] ?x4" using x0 f by simp
  from client_run.extend [OF this Fetch_fails [of ?x4 ListenerType "?l Running"]]
  have "client_run X rng T ?x0 [None, None, Some ClusterType, Some ListenerType, None] ?x5" using x0 f by simp
  from client_run.extend [OF this InitConnect [of ?x5 ListenerType "?l Connecting"]]
  have "client_run X rng T ?x0 [None, None, Some ClusterType, Some ListenerType, None, None] ?x6" using x0 f by simp
  moreover have "listener_waits ?x6" using x0 f by (auto simp: listener_waits_def fetchers_wf_def)
  ultimately show ?thesis by blast
qed

theorem fetcher_lockstep_witness:
  "\<exists>starts x. client_run (table_lib []) rev demo_tls (NewXDSClient (NewDataplane ''id'')) starts x
     \<and> count_list starts (Some ListenerType) = 1 \<and> count_list starts (Some ClusterType) \<le> 2"
proof -
  let ?starts = "[None, None, Some ClusterType, Some ListenerType, None, None]"
  obtain x where run: "client_run (table_lib []) rev demo_tls (NewXDSClient (NewDataplane ''id'')) ?starts x"
    using fetcher_starts by blast
  have "count_list ?starts (Some ListenerType) = 1" by simp
  moreover from fetcher_lockstep [OF run] this have "count_list ?starts (Some ClusterType) \<le> 2" by simp
  ultimately show ?thesis using run by blast
qed

end
