(* ===== verification/DataplaneServer.thy ===== *)
theory DataplaneServer
  imports Dataplane AuthzServer
begin

text \<open>
  \<^verbatim>\<open>pkg/dataplane/server/server.go\<close> and the serving part of \<^verbatim>\<open>listener.go\<close>: what the dataplane
  does with a connection of a local client to an imported service (egress) and with a
  request of a remote peer (ingress). The authorization service is reached over gRPC and the
  network through \<^verbatim>\<open>net\<close>, \<^verbatim>\<open>tls\<close> and \<^verbatim>\<open>http\<close>: a \<open>dp_net\<close> says what each call returns. Copying
  bytes once a connection is authorized is the theory \<open>Forwarder\<close>.
\<close>

text \<open>What the calls on a connection that is taken over from the HTTP server return.\<close>

record http_hijack =
  hj_Hijacker :: bool
  hj_Hijack :: "error option"
  hj_SetDeadline :: "error option"
  hj_Write :: "error option"

record dp_net =
  dn_Check :: "CheckRequest \<Rightarrow> error + HttpResponse option"
  dn_DialTimeout :: "string \<Rightarrow> error option"
  dn_Hijack :: http_hijack
  dn_tlsDial :: "string \<Rightarrow> tls_Config \<Rightarrow> error option"
  dn_NewRequest :: "string \<Rightarrow> error option"
  dn_Do :: "tls_Config \<Rightarrow> string \<Rightarrow> labels \<Rightarrow> error + nat"

subsection \<open>Egress\<close>

text \<open>\<^verbatim>\<open>strings.Split(conn.RemoteAddr().String(), ":")[0]\<close>\<close>

definition clientIP :: "string \<Rightarrow> string" where
  "clientIP remoteAddr = takeWhile (\<lambda>x. x \<noteq> CHR '':'') remoteAddr"

definition egressCheckRequest :: "string \<Rightarrow> string \<Rightarrow> string \<Rightarrow> CheckRequest" where
  "egressCheckRequest namespace name sourceIP = \<lparr>cr_Attributes = Some \<lparr>
     ac_Source = Some \<lparr>src_Address = Some True\<rparr>,
     ac_Request = Some (Some \<lparr>http_Method = [], http_Path = [],
       http_Headers = [(ImportNamespaceHeader, namespace), (ImportNameHeader, name), (ClientIPHeader, sourceIP)],
       http_Body = []\<rparr>)\<rparr>\<rparr>"

definition authHeaders :: "labels \<Rightarrow> string \<times> string" where
  "authHeaders hs = fold (\<lambda>(k, v) (targetCluster, accessToken).
       if k = TargetClusterHeader then (v, accessToken)
       else if k = AuthorizationHeader then (targetCluster, v)
       else (targetCluster, accessToken)) hs ([], [])"

definition getEgressAuth :: "dp_net \<Rightarrow> string \<Rightarrow> string \<Rightarrow> panic + (error + string \<times> string)" where
  "getEgressAuth N name sourceIP =
     (case SplitN name CHR ''/'' 2 of
        namespace # importName # _ \<Rightarrow>
          (case dn_Check N (egressCheckRequest namespace importName sourceIP) of
             Inl err \<Rightarrow> Inr (Inl err)
           | Inr (Some (OkResponse okResp)) \<Rightarrow>
               (let (targetCluster, accessToken) = authHeaders (ok_Headers okResp)
                in if targetCluster = [] then Inr (Inl (Errorf ''missing target cluster''))
                   else if accessToken = [] then Inr (Inl (Errorf ''missing access token''))
                   else Inr (Inr (targetCluster, accessToken)))
           | Inr (Some (DeniedResponse deniedResp)) \<Rightarrow>
               Inr (Inl (Errorf (''egress connection denied: '' @ den_Body deniedResp)))
           | Inr None \<Rightarrow> Inr (Inl (Errorf ''unknown authorization response'')))
      | _ \<Rightarrow> Inl IndexOutOfRange)"

text \<open>The outgoing connection: dial, CONNECT with the token, then the target is forwarded to.\<close>

definition initiateEgressConnection ::
    "dp_net \<Rightarrow> Dataplane \<Rightarrow> string \<Rightarrow> string \<Rightarrow> tls_Config \<Rightarrow> panic + (error + string)" where
  "initiateEgressConnection N d targetCluster authToken tlsConfig =
     (case GetClusterTarget d targetCluster of
        Inl p \<Rightarrow> Inl p
      | Inr (Inl err) \<Rightarrow> Inr (Inl err)
      | Inr (Inr target) \<Rightarrow>
     (case GetClusterHostname d targetCluster of
        Inl p \<Rightarrow> Inl p
      | Inr (Inl err) \<Rightarrow> Inr (Inl err)
      | Inr (Inr targetHostname) \<Rightarrow>
     (let url = ''https://'' @ targetHostname
      in case dn_tlsDial N target tlsConfig of
           Some err \<Rightarrow> Inr (Inl err)
         | None \<Rightarrow>
     (case dn_NewRequest N url of
        Some err \<Rightarrow> Inr (Inl err)
      | None \<Rightarrow>
     (case dn_Do N tlsConfig url [(AuthorizationHeader, authToken)] of
        Inl err \<Rightarrow> Inr (Inl err)
      | Inr status \<Rightarrow>
          if status \<noteq> 200
          then Inr (Inl (Errorf (''got HTTP '' @ Itoa status @ '' while trying to establish dataplane connection'')))
          else Inr (Inr target))))))"

text \<open>
  One turn of \<^verbatim>\<open>serveEgressConnections\<close> on an accepted connection, with the goroutine it
  starts: the address bytes are forwarded to and the TLS configuration in use, or the error
  for which the client's connection is closed.
\<close>

definition serveEgressConnection ::
    "dp_net \<Rightarrow> Dataplane \<Rightarrow> string \<Rightarrow> string \<Rightarrow> panic + (error + string \<times> tls_Config)" where
  "serveEgressConnection N d name remoteAddr =
     (case getEgressAuth N name (clientIP remoteAddr) of
        Inl p \<Rightarrow> Inl p
      | Inr (Inl err) \<Rightarrow> Inr (Inl err)
      | Inr (Inr (targetPeer, accessToken)) \<Rightarrow>
     (case GetClusterHost d targetPeer of
        Inl p \<Rightarrow> Inl p
      | Inr (Inl err) \<Rightarrow> Inr (Inl err)
      | Inr (Inr targetHost) \<Rightarrow>
     (let tlsConfig = (dp_tlsConfig d)\<lparr>cfg_ServerName := targetHost\<rparr>
      in map_sum id (map_sum id (\<lambda>target. (target, tlsConfig)))
           (initiateEgressConnection N d targetPeer accessToken tlsConfig))))"

subsection \<open>Ingress\<close>

text \<open>
  A request of a remote peer: the DNS names of each certificate of its chain (\<open>None\<close> without
  TLS), method, path, headers, and what reading the body gives.
\<close>

record ingress_request =
  iq_TLS :: "string list list option"
  iq_Method :: string
  iq_Path :: string
  iq_Header :: labels
  iq_Body :: "error + string"

datatype ingress_result = HttpError string nat | HttpOK labels | Forward string

definition hijackConn :: "http_hijack \<Rightarrow> error option" where
  "hijackConn w =
     (if \<not> hj_Hijacker w then Some (Errorf ''server doesn't support hijacking'')
      else (case hj_Hijack w of
              Some err \<Rightarrow> Some (Wrapf ''hijacking failed: '' err)
            | None \<Rightarrow> (case hj_SetDeadline w of
              Some err \<Rightarrow> Some (Wrapf ''failed to clear deadlines on connection: '' err)
            | None \<Rightarrow> map_option (Wrapf ''failed to write to connection: '') (hj_Write w))))"

definition routeIngress ::
    "apimachinery \<Rightarrow> dp_net \<Rightarrow> Dataplane \<Rightarrow> ingress_request \<Rightarrow> OkHttpResponse \<Rightarrow> panic + ingress_result" where
  "routeIngress K N d r authzResp =
     (if iq_Method r \<noteq> ''CONNECT'' then Inr (HttpOK (ok_ResponseHeadersToAdd authzResp))
      else
     (let targetCluster = sget (ok_Headers authzResp) TargetClusterHeader
      in case GetClusterTarget d targetCluster of
           Inl p \<Rightarrow> Inl p
         | Inr (Inl err) \<Rightarrow> Inr (HttpError (Error K err) 500)
         | Inr (Inr serviceTarget) \<Rightarrow>
     (case dn_DialTimeout N serviceTarget of
        Some err \<Rightarrow> Inr (HttpError (Error K err) 500)
      | None \<Rightarrow>
     (case hijackConn (dn_Hijack N) of
        Some err \<Rightarrow> Inr (HttpError ''hijacking failed'' 500)
      | None \<Rightarrow> Inr (Forward serviceTarget)))))"

definition ingressCheckRequest :: "ingress_request \<Rightarrow> labels \<Rightarrow> string \<Rightarrow> CheckRequest" where
  "ingressCheckRequest r headers body = \<lparr>cr_Attributes = Some \<lparr>
     ac_Source = Some \<lparr>src_Address = None\<rparr>,
     ac_Request = Some (Some \<lparr>http_Method = iq_Method r, http_Path = iq_Path r, http_Headers = headers,
       http_Body = body\<rparr>)\<rparr>\<rparr>"

definition allowedHeaders :: "ingress_request \<Rightarrow> labels" where
  "allowedHeaders r =
     (let value = Header_Get (iq_Header r) AuthorizationHeader
      in if value \<noteq> [] then [(AuthorizationHeader, value)] else [])"

definition dataplaneIngressAuthorize ::
    "apimachinery \<Rightarrow> dp_net \<Rightarrow> Dataplane \<Rightarrow> ingress_request \<Rightarrow> panic + ingress_result" where
  "dataplaneIngressAuthorize K N d r =
     (if (case iq_TLS r of Some ((_ # _) # _) \<Rightarrow> False | _ \<Rightarrow> True)
      then Inr (HttpError ''certificate does not contain a valid DNS name for the peer gateway'' 400)
      else
     (case iq_Body r of
        Inl err \<Rightarrow> Inr (HttpError (''Unable to read response body: '' @ Error K err @ ''.'') 500)
      | Inr body \<Rightarrow>
     (case dn_Check N (ingressCheckRequest r (allowedHeaders r) body) of
        Inl err \<Rightarrow> Inr (HttpError (Error K err) 500)
      | Inr (Some (OkResponse okResp)) \<Rightarrow> routeIngress K N d r okResp
      | Inr (Some (DeniedResponse deniedResp)) \<Rightarrow> Inr (HttpError (den_Body deniedResp) 403)
      | Inr None \<Rightarrow> Inr (HttpError ''Unknown authorization response.'' 500))))"

subsection \<open>Client addresses\<close>

text \<open>
  The client address sent for authorization is the part of the remote address before its
  first colon. That is the client's IP address exactly when it has no colon itself: an IPv6
  client is looked up under a piece of its address and is never recognised as a pod.
\<close>

theorem client_ip:
  "clientIP (JoinHostPort host port) = host \<longleftrightarrow> CHR '':'' \<notin> set host"
proof
  have none: "CHR '':'' \<notin> set (clientIP s)" for s by (auto simp: clientIP_def dest: set_takeWhileD)
  assume "clientIP (JoinHostPort host port) = host"
  with none [of "JoinHostPort host port"] show "CHR '':'' \<notin> set host" by simp
next
  assume "CHR '':'' \<notin> set host"
  then show "clientIP (JoinHostPort host port) = host"
    using takeWhile_sep [of "CHR '':''" host port] by (simp add: clientIP_def JoinHostPort_def)
qed

subsection \<open>What a served connection rests on\<close>

lemma SplitHostPort_plain:
  assumes "CHR '':'' \<notin> set host" and "CHR ''['' \<notin> set host" and "CHR '']'' \<notin> set host"
  shows "SplitHostPort (host @ '':443'') = Inr (host, ''443'')"
proof -
  have b: "before_last CHR '':'' (host @ '':443'') = host" and a: "after_last CHR '':'' (host @ '':443'') = ''443''"
    by (simp_all add: before_last_def after_last_def)
  have "hd (host @ '':443'') \<noteq> CHR ''[''" using assms(2) by (cases host) auto
  then show ?thesis using assms b a by (simp add: SplitHostPort_def Let_def)
qed

lemma serveEgress_grant:
  assumes "serveEgressConnection N d name remoteAddr = Inr (Inr (target, cfg))"
  obtains namespace importName okResp cluster token c e host port where
    "SplitN name CHR ''/'' 2 = [namespace, importName]"
    "dn_Check N (egressCheckRequest namespace importName (clientIP remoteAddr)) = Inr (Some (OkResponse okResp))"
    "authHeaders (ok_Headers okResp) = (cluster, token)"
    "mget (dp_clusters d) cluster = Some c" "firstEndpoint c = Inr e"
    "target = sa_Address (lbe_Address e) @ '':'' @ Itoa (unat (sa_PortValue (lbe_Address e)))"
    "SplitHostPort (lbe_Hostname e) = Inr (host, port)" "cfg = (dp_tlsConfig d)\<lparr>cfg_ServerName := host\<rparr>"
    "dn_tlsDial N target cfg = None"
    "dn_Do N cfg (''https://'' @ lbe_Hostname e) [(AuthorizationHeader, token)] = Inr 200"
proof -
  from assms obtain cluster token host where
    auth: "getEgressAuth N name (clientIP remoteAddr) = Inr (Inr (cluster, token))" and
    gh: "GetClusterHost d cluster = Inr (Inr host)" and
    cfg: "cfg = (dp_tlsConfig d)\<lparr>cfg_ServerName := host\<rparr>" and
    init: "initiateEgressConnection N d cluster token cfg = Inr (Inr target)"
    by (auto simp: serveEgressConnection_def Let_def split: sum.splits) (auto simp: map_sum_def split: sum.splits)
  have split2: "length (SplitN name CHR ''/'' 2) \<le> 2" by (simp add: numeral_2_eq_2)
  from auth obtain namespace importName okResp where
    s: "SplitN name CHR ''/'' 2 = [namespace, importName]" and
    chk: "dn_Check N (egressCheckRequest namespace importName (clientIP remoteAddr)) = Inr (Some (OkResponse okResp))" and
    hdr: "authHeaders (ok_Headers okResp) = (cluster, token)"
    using split2
    by (auto simp: getEgressAuth_def Let_def split: list.splits sum.splits option.splits HttpResponse.splits prod.splits if_splits)
  from gh obtain c e port where c: "mget (dp_clusters d) cluster = Some c" "firstEndpoint c = Inr e"
      "SplitHostPort (lbe_Hostname e) = Inr (host, port)"
    by (auto simp: GetClusterHost_def GetClusterHostname_def split: sum.splits option.splits)
      (auto simp: map_sum_def split: sum.splits)
  have "target = sa_Address (lbe_Address e) @ '':'' @ Itoa (unat (sa_PortValue (lbe_Address e)))"
    "dn_tlsDial N target cfg = None" "dn_Do N cfg (''https://'' @ lbe_Hostname e) [(AuthorizationHeader, token)] = Inr 200"
    using init c by (auto simp: initiateEgressConnection_def GetClusterTarget_def GetClusterHostname_def Let_def
        split: option.splits sum.splits if_splits)
  with s chk hdr c cfg show thesis by (intro that) auto
qed

lemma ingress_forward:
  assumes "dataplaneIngressAuthorize K N d r = Inr (Forward target)"
  obtains okResp c e body names name rest where
    "iq_Method r = ''CONNECT''" "iq_TLS r = Some ((name # names) # rest)" "iq_Body r = Inr body"
    "dn_Check N (ingressCheckRequest r (allowedHeaders r) body) = Inr (Some (OkResponse okResp))"
    "mget (dp_clusters d) (sget (ok_Headers okResp) TargetClusterHeader) = Some c" "firstEndpoint c = Inr e"
    "target = sa_Address (lbe_Address e) @ '':'' @ Itoa (unat (sa_PortValue (lbe_Address e)))"
    "dn_DialTimeout N target = None"
proof -
  from assms obtain okResp body names name rest where
    i: "iq_TLS r = Some ((name # names) # rest)" "iq_Body r = Inr body"
      "dn_Check N (ingressCheckRequest r (allowedHeaders r) body) = Inr (Some (OkResponse okResp))" and
    route: "routeIngress K N d r okResp = Inr (Forward target)"
    by (auto simp: dataplaneIngressAuthorize_def
        split: option.splits list.splits sum.splits HttpResponse.splits if_splits)
  from route have "iq_Method r = ''CONNECT''"
    and "GetClusterTarget d (sget (ok_Headers okResp) TargetClusterHeader) = Inr (Inr target)"
    and "dn_DialTimeout N target = None"
    by (auto simp: routeIngress_def Let_def split: if_splits sum.splits option.splits)
  moreover from this(2) obtain c e where "mget (dp_clusters d) (sget (ok_Headers okResp) TargetClusterHeader) = Some c"
      "firstEndpoint c = Inr e"
      "target = sa_Address (lbe_Address e) @ '':'' @ Itoa (unat (sa_PortValue (lbe_Address e)))"
    by (auto simp: GetClusterTarget_def split: option.splits) (auto simp: map_sum_def split: sum.splits)
  ultimately show thesis using i by (intro that) auto
qed

end
