(* ===== verification/Forwarder.thy ===== *)
theory Forwarder
  imports Prelude K8s
begin

text \<open>
  The two goroutines that copy the bytes of an established connection
  (\<^verbatim>\<open>pkg/dataplane/server/forwarder.go\<close>), one per direction, and the flag they share.

  What the network does to a connection is the list of its arrivals: bytes, a read deadline
  that passes without bytes, the end of the stream (by \<^verbatim>\<open>io.EOF\<close> or an error; \<^verbatim>\<open>tls.Conn\<close>
  returns the last bytes together with the end), or a connection on which the read deadline
  can no longer be set. When the list is used up, every further read times out. A goroutine
  advances in turns, at the points where it touches the flag or a connection; a schedule
  says which of the two takes each turn.
\<close>

definition dataBufferSize :: nat where "dataBufferSize = 64 * 1024"

datatype io_error = EOF | TimeoutError | IOError error

datatype arrival = Data string | Quiet | Final string io_error | Broken error

record net_Conn =
  conn_in :: "arrival list"
  conn_out :: string
  conn_accepts :: "string \<Rightarrow> string \<Rightarrow> nat \<times> io_error option"
  conn_closed :: bool

text \<open>\<^verbatim>\<open>io.Writer\<close>: a write that accepts less than it was given returns an error.\<close>

definition writer_ok :: "net_Conn \<Rightarrow> bool" where
  "writer_ok c \<longleftrightarrow> (\<forall>out bs. snd (conn_accepts c out bs) = None \<longrightarrow> fst (conn_accepts c out bs) = length bs)"

definition conn_SetReadDeadline :: "net_Conn \<Rightarrow> io_error option" where
  "conn_SetReadDeadline c = (case conn_in c of Broken err # _ \<Rightarrow> Some (IOError err) | _ \<Rightarrow> None)"

definition conn_Read :: "nat \<Rightarrow> net_Conn \<Rightarrow> net_Conn \<times> string \<times> io_error option" where
  "conn_Read n c =
     (case conn_in c of
        [] \<Rightarrow> (c, [], Some TimeoutError)
      | Quiet # as \<Rightarrow> (c\<lparr>conn_in := as\<rparr>, [], Some TimeoutError)
      | Broken err # as \<Rightarrow> (c\<lparr>conn_in := as\<rparr>, [], Some (IOError err))
      | Data bs # as \<Rightarrow> if length bs \<le> n then (c\<lparr>conn_in := as\<rparr>, bs, None)
          else (c\<lparr>conn_in := Data (drop n bs) # as\<rparr>, take n bs, None)
      | Final bs e # as \<Rightarrow> if length bs \<le> n then (c\<lparr>conn_in := as\<rparr>, bs, Some e)
          else (c\<lparr>conn_in := Final (drop n bs) e # as\<rparr>, take n bs, None))"

definition conn_Write :: "string \<Rightarrow> net_Conn \<Rightarrow> net_Conn \<times> io_error option" where
  "conn_Write bs c = (case conn_accepts c (conn_out c) bs of
     (n, err) \<Rightarrow> (c\<lparr>conn_out := conn_out c @ take n bs\<rparr>, err))"

definition conn_Close :: "net_Conn \<Rightarrow> net_Conn" where
  "conn_Close c = c\<lparr>conn_closed := True\<rparr>"

subsection \<open>The goroutines\<close>

datatype pump_phase = AtLoad | AtDeadline | AtRead | AtWrite string | AtSwap io_error | Returned "io_error option"

text \<open>
  One turn of a goroutine that reads \<open>r\<close> and writes \<open>w\<close>. The two goroutines of the code are
  this one loop with the connections exchanged.
\<close>

fun pump :: "net_Conn \<Rightarrow> net_Conn \<Rightarrow> bool \<Rightarrow> pump_phase \<Rightarrow> net_Conn \<times> net_Conn \<times> bool \<times> pump_phase" where
  "pump r w closeSignal AtLoad = (r, w, closeSignal, if closeSignal then Returned None else AtDeadline)"
| "pump r w closeSignal AtDeadline =
     (r, w, closeSignal, case conn_SetReadDeadline r of Some err \<Rightarrow> Returned (Some err) | None \<Rightarrow> AtRead)"
| "pump r w closeSignal AtRead =
     (case conn_Read dataBufferSize r of
        (r', bufData, None) \<Rightarrow> (r', w, closeSignal, AtWrite bufData)
      | (r', _, Some TimeoutError) \<Rightarrow> (r', w, closeSignal, AtLoad)
      | (r', _, Some err) \<Rightarrow> (r', w, closeSignal, AtSwap err))"
| "pump r w closeSignal (AtWrite bufData) =
     (case conn_Write bufData w of
        (w', None) \<Rightarrow> (r, w', closeSignal, AtLoad)
      | (w', Some err) \<Rightarrow> (r, w', closeSignal, AtSwap err))"
| "pump r w closeSignal (AtSwap err) = (r, w, True, Returned (if err = EOF then None else Some err))"
| "pump r w closeSignal (Returned res) = (r, w, closeSignal, Returned res)"

record forwarder =
  fw_workloadConn :: net_Conn
  fw_peerConn :: net_Conn
  fw_closeSignal :: bool
  fw_workloadToPeer :: pump_phase
  fw_peerToWorkload :: pump_phase

definition newForwarder :: "net_Conn \<Rightarrow> net_Conn \<Rightarrow> forwarder" where
  "newForwarder workloadConn peerConn = \<lparr>fw_workloadConn = workloadConn, fw_peerConn = peerConn,
     fw_closeSignal = False, fw_workloadToPeer = AtLoad, fw_peerToWorkload = AtLoad\<rparr>"

definition workloadToPeer :: "forwarder \<Rightarrow> forwarder" where
  "workloadToPeer f =
     (case pump (fw_workloadConn f) (fw_peerConn f) (fw_closeSignal f) (fw_workloadToPeer f) of
        (r, w, cs, ph) \<Rightarrow> f\<lparr>fw_workloadConn := r, fw_peerConn := w, fw_closeSignal := cs, fw_workloadToPeer := ph\<rparr>)"

definition peerToWorkload :: "forwarder \<Rightarrow> forwarder" where
  "peerToWorkload f =
     (case pump (fw_peerConn f) (fw_workloadConn f) (fw_closeSignal f) (fw_peerToWorkload f) of
        (r, w, cs, ph) \<Rightarrow> f\<lparr>fw_peerConn := r, fw_workloadConn := w, fw_closeSignal := cs, fw_peerToWorkload := ph\<rparr>)"

datatype goroutine = WorkloadToPeer | PeerToWorkload

fun turn :: "goroutine \<Rightarrow> forwarder \<Rightarrow> forwarder" where
  "turn WorkloadToPeer f = workloadToPeer f"
| "turn PeerToWorkload f = peerToWorkload f"

definition closeConnections :: "forwarder \<Rightarrow> forwarder" where
  "closeConnections f = f\<lparr>fw_peerConn := conn_Close (fw_peerConn f), fw_workloadConn := conn_Close (fw_workloadConn f)\<rparr>"

fun returned :: "pump_phase \<Rightarrow> bool" where
  "returned (Returned _) = True"
| "returned _ = False"

text \<open>\<^verbatim>\<open>run\<close> under a schedule: the connections are closed once both goroutines have returned.\<close>

definition forwarder_run :: "goroutine list \<Rightarrow> forwarder \<Rightarrow> forwarder" where
  "forwarder_run schedule f =
     (let f' = fold turn schedule f
      in if returned (fw_workloadToPeer f') \<and> returned (fw_peerToWorkload f') then closeConnections f' else f')"

subsection \<open>Order and completeness of the bytes\<close>

text \<open>The bytes of the arrivals that a goroutine gets from reads without an error.\<close>

function readable :: "arrival list \<Rightarrow> string" where
  "readable [] = []"
| "readable (Data bs # as) = bs @ readable as"
| "readable (Quiet # as) = readable as"
| "readable (Broken e # as) = []"
| "readable (Final bs e # as) =
     (if length bs \<le> dataBufferSize then if e = TimeoutError then readable as else []
      else take dataBufferSize bs @ readable (Final (drop dataBufferSize bs) e # as))"
  by pat_completeness auto
termination
  by (relation "measure (\<lambda>as. \<Sum>a\<leftarrow>as. case a of Data bs \<Rightarrow> Suc (length bs) | Final bs e \<Rightarrow> Suc (length bs) | _ \<Rightarrow> 1)")
    (auto simp: dataBufferSize_def)

declare readable.simps(5) [simp del]

lemma readable_Final:
  "length bs \<le> dataBufferSize \<Longrightarrow> readable (Final bs e # as) = (if e = TimeoutError then readable as else [])"
  "\<not> length bs \<le> dataBufferSize \<Longrightarrow>
     readable (Final bs e # as) = take dataBufferSize bs @ readable (Final (drop dataBufferSize bs) e # as)"
  by (simp_all add: readable.simps(5) [of bs])

fun flowing :: "string \<Rightarrow> net_Conn \<Rightarrow> net_Conn \<Rightarrow> pump_phase \<Rightarrow> bool" where
  "flowing sent r w (AtWrite bs) \<longleftrightarrow> sent = conn_out w @ bs @ readable (conn_in r)"
| "flowing sent r w (AtSwap _) \<longleftrightarrow> prefix (conn_out w) sent"
| "flowing sent r w (Returned _) \<longleftrightarrow> prefix (conn_out w) sent"
| "flowing sent r w _ \<longleftrightarrow> sent = conn_out w @ readable (conn_in r)"

lemma flowing_prefix: "flowing sent r w ph \<Longrightarrow> prefix (conn_out w) sent"
  by (cases ph) auto

lemma flowing_cong:
  "conn_in r = conn_in r' \<Longrightarrow> conn_out w = conn_out w' \<Longrightarrow> flowing sent r w ph = flowing sent r' w' ph"
  by (cases ph) auto

lemma conn_Read_flow:
  assumes "conn_Read dataBufferSize r = (r', bs, err)"
  shows "err = None \<Longrightarrow> readable (conn_in r) = bs @ readable (conn_in r')"
    and "err = Some TimeoutError \<Longrightarrow> readable (conn_in r) = readable (conn_in r')"
  using assms by (auto simp: conn_Read_def readable_Final split: list.splits arrival.splits if_splits)

lemma pump_flow:
  assumes "pump r w cs ph = (r', w', cs', ph')" and "flowing sent r w ph" and "writer_ok w"
  shows "flowing sent r' w' ph'"
proof (cases ph)
  case AtRead
  obtain r1 bs err where rd: "conn_Read dataBufferSize r = (r1, bs, err)" by (cases "conn_Read dataBufferSize r") auto
  show ?thesis using assms AtRead rd conn_Read_flow [OF rd] by (auto split: option.splits io_error.splits)
next
  case (AtWrite bs)
  then show ?thesis using assms
    by (auto simp: conn_Write_def writer_ok_def split: prod.splits option.splits)
      (metis append_take_drop_id append_eq_append_conv2 fst_conv prefix_def snd_conv take_all order_refl)+
qed (use assms in \<open>auto split: option.splits if_splits\<close>)

text \<open>A turn of one goroutine leaves what the other one reads and writes alone.\<close>

lemma pump_frame:
  assumes "pump r w cs ph = (r', w', cs', ph')"
  shows "conn_out r' = conn_out r" and "conn_accepts r' = conn_accepts r" and "conn_closed r' = conn_closed r"
    and "conn_in w' = conn_in w" and "conn_accepts w' = conn_accepts w" and "conn_closed w' = conn_closed w"
    and "cs \<Longrightarrow> cs'"
  using assms
  by (cases ph; auto simp: conn_Read_def conn_Write_def split: list.splits arrival.splits if_splits
      prod.splits option.splits io_error.splits)+

lemma pump_both:
  assumes "pump r w cs ph = (r', w', cs', ph')" and "writer_ok r" and "writer_ok w"
    and "flowing a r w ph" and "flowing b w r other"
  shows "writer_ok r' \<and> writer_ok w' \<and> flowing a r' w' ph' \<and> flowing b w' r' other"
proof -
  have "flowing b w' r' other" using assms(5) pump_frame(1,4) [OF assms(1)] flowing_cong by metis
  with pump_flow [OF assms(1,4,3)] assms(2,3) pump_frame(2,5) [OF assms(1)] show ?thesis
    by (simp add: writer_ok_def)
qed

definition both_flow :: "string \<Rightarrow> string \<Rightarrow> forwarder \<Rightarrow> bool" where
  "both_flow fromWorkload fromPeer f \<longleftrightarrow>
     writer_ok (fw_workloadConn f) \<and> writer_ok (fw_peerConn f)
     \<and> flowing fromWorkload (fw_workloadConn f) (fw_peerConn f) (fw_workloadToPeer f)
     \<and> flowing fromPeer (fw_peerConn f) (fw_workloadConn f) (fw_peerToWorkload f)"

lemma turn_flow: "both_flow a b f \<Longrightarrow> both_flow a b (turn g f)"
  by (cases g) (auto simp: both_flow_def workloadToPeer_def peerToWorkload_def dest: pump_both split: prod.splits)

lemma turns_flow: "both_flow a b f \<Longrightarrow> both_flow a b (fold turn schedule f)"
  by (induction schedule arbitrary: f) (simp_all add: turn_flow)

lemma run_out [simp]:
  "conn_out (fw_peerConn (forwarder_run s f)) = conn_out (fw_peerConn (fold turn s f))"
  "conn_out (fw_workloadConn (forwarder_run s f)) = conn_out (fw_workloadConn (fold turn s f))"
  by (simp_all add: forwarder_run_def Let_def closeConnections_def conn_Close_def)

lemma run_flow:
  assumes "writer_ok workload" and "writer_ok peer" and "conn_out workload = []" and "conn_out peer = []"
  shows "both_flow (readable (conn_in workload)) (readable (conn_in peer)) (fold turn schedule (newForwarder workload peer))"
  using assms by (intro turns_flow) (simp add: both_flow_def newForwarder_def)

text \<open>
  C14. Bytes are forwarded in order, without a gap and without anything added. Under every
  schedule of the two goroutines, and whatever the network does, what a side has received is
  a prefix of the bytes that reads from the other side returned without an error.
\<close>

theorem forwarder_in_order:
  assumes "writer_ok workload" and "writer_ok peer" and "conn_out workload = []" and "conn_out peer = []"
    and "f = forwarder_run schedule (newForwarder workload peer)"
  shows "prefix (conn_out (fw_peerConn f)) (readable (conn_in workload))
    \<and> prefix (conn_out (fw_workloadConn f)) (readable (conn_in peer))"
  using run_flow [OF assms(1-4), of schedule] unfolding assms(5) both_flow_def run_out by (blast intro: flowing_prefix)

definition plain_conn :: "arrival list \<Rightarrow> net_Conn" where
  "plain_conn as = \<lparr>conn_in = as, conn_out = [], conn_accepts = (\<lambda>_ bs. (length bs, None)), conn_closed = False\<rparr>"

theorem forwarder_in_order_witness:
  "prefix (conn_out (fw_peerConn (forwarder_run (replicate 8 WorkloadToPeer)
     (newForwarder (plain_conn [Data ''ab'', Data ''c'']) (plain_conn [])))))  ''abc''"
proof -
  have "writer_ok (plain_conn as)" "conn_out (plain_conn as) = []" for as by (simp_all add: writer_ok_def plain_conn_def)
  from forwarder_in_order [OF this(1) this(1) this(2) this(2) refl, THEN conjunct1,
      of "replicate 8 WorkloadToPeer" "[Data ''ab'', Data ''c'']" "[]"]
  show ?thesis by (simp add: plain_conn_def)
qed

text \<open>
  The bytes that come together with the end of the stream are lost: the read returned them
  with an error, and the goroutine looks at the error only.
\<close>

lemma last_bytes_lost:
  assumes "writer_ok workload" and "writer_ok peer" and "conn_out workload = []" and "conn_out peer = []"
    and "conn_in peer = [Final bs EOF]" and "length bs \<le> dataBufferSize"
  shows "conn_out (fw_workloadConn (forwarder_run schedule (newForwarder workload peer))) = []"
  using run_flow [OF assms(1-4), of schedule] assms(5,6) flowing_prefix by (fastforce simp: both_flow_def readable_Final)

subsection \<open>The end of a connection\<close>

definition ends :: "arrival list \<Rightarrow> bool" where
  "ends as \<longleftrightarrow> (\<exists>bs e. Final bs e \<in> set as \<and> e \<noteq> TimeoutError) \<and> (\<forall>err. Broken err \<notin> set as)"

fun arrival_cost :: "arrival \<Rightarrow> nat" where
  "arrival_cost (Data bs) = 4 * Suc (length bs)"
| "arrival_cost (Final bs e) = 4 * Suc (length bs)"
| "arrival_cost _ = 3"

fun phase_cost :: "pump_phase \<Rightarrow> nat" where
  "phase_cost AtLoad = 3"
| "phase_cost AtDeadline = 2"
| "phase_cost AtRead = 1"
| "phase_cost (AtWrite _) = 4"
| "phase_cost (AtSwap _) = 1"
| "phase_cost (Returned _) = 0"

text \<open>The number of turns after which a goroutine whose connection ends has returned.\<close>

definition todo :: "net_Conn \<Rightarrow> pump_phase \<Rightarrow> nat" where
  "todo r ph = (\<Sum>a\<leftarrow>conn_in r. arrival_cost a) + phase_cost ph"

fun closing :: "net_Conn \<Rightarrow> bool \<Rightarrow> pump_phase \<Rightarrow> bool" where
  "closing r cs (Returned _) \<longleftrightarrow> cs"
| "closing r cs (AtSwap _) \<longleftrightarrow> True"
| "closing r cs _ \<longleftrightarrow> ends (conn_in r)"

lemma phase_cost_0: "phase_cost ph = 0 \<longleftrightarrow> returned ph"
  by (cases ph) auto

lemma ends_Cons [simp]:
  "\<not> ends []" "ends (Data bs # as) = ends as" "ends (Quiet # as) = ends as" "\<not> ends (Broken err # as)"
  "ends (Final bs TimeoutError # as) = ends as"
  by (auto simp: ends_def)

lemma ends_Final: "ends (Final bs e # as) \<Longrightarrow> ends (Final bs' e # as)"
  by (auto simp: ends_def)

lemma conn_Read_ends:
  assumes "conn_Read dataBufferSize r = (r', bs, err)" and "ends (conn_in r)"
  shows "err = None \<or> err = Some TimeoutError \<Longrightarrow> ends (conn_in r')"
    and "err = None \<Longrightarrow> (\<Sum>a\<leftarrow>conn_in r'. arrival_cost a) + 4 \<le> (\<Sum>a\<leftarrow>conn_in r. arrival_cost a)"
    and "err = Some e \<Longrightarrow> (\<Sum>a\<leftarrow>conn_in r'. arrival_cost a) + 3 \<le> (\<Sum>a\<leftarrow>conn_in r. arrival_cost a)"
  using assms ends_Final by (auto simp: conn_Read_def dataBufferSize_def split: list.splits arrival.splits if_splits)

lemma pump_closing:
  assumes "pump r w cs ph = (r', w', cs', ph')" and "closing r cs ph"
  shows "closing r' cs' ph' \<and> (returned ph \<or> todo r' ph' < todo r ph)"
proof (cases ph)
  case AtDeadline
  with assms show ?thesis by (auto simp: conn_SetReadDeadline_def todo_def split: list.splits arrival.splits)
next
  case AtRead
  obtain r1 bs err where rd: "conn_Read dataBufferSize r = (r1, bs, err)" by (cases "conn_Read dataBufferSize r") auto
  show ?thesis using assms AtRead rd conn_Read_ends [OF rd]
    by (auto simp: todo_def split: option.splits io_error.splits)
qed (use assms in \<open>auto simp: todo_def conn_Write_def split: option.splits prod.splits if_splits\<close>)

lemma closing_cong: "conn_in r = conn_in r' \<Longrightarrow> (cs \<Longrightarrow> cs') \<Longrightarrow> closing r cs ph \<Longrightarrow> closing r' cs' ph"
  by (cases ph) auto

abbreviation w2p_closing :: "forwarder \<Rightarrow> bool" where
  "w2p_closing f \<equiv> closing (fw_workloadConn f) (fw_closeSignal f) (fw_workloadToPeer f)"

abbreviation w2p_todo :: "forwarder \<Rightarrow> nat" where
  "w2p_todo f \<equiv> todo (fw_workloadConn f) (fw_workloadToPeer f)"

lemma turn_closing:
  assumes "w2p_closing f"
  shows "w2p_closing (turn g f)"
    and "returned (fw_workloadToPeer (turn g f)) \<or> w2p_todo (turn g f) + count_list [g] WorkloadToPeer \<le> w2p_todo f"
    and "returned (fw_workloadToPeer f) \<Longrightarrow> returned (fw_workloadToPeer (turn g f))"
proof -
  obtain r w cs ph where
    p: "pump (fw_workloadConn f) (fw_peerConn f) (fw_closeSignal f) (fw_workloadToPeer f) = (r, w, cs, ph)"
    by (metis prod_cases4)
  obtain r2 w2 cs2 ph2 where
    q: "pump (fw_peerConn f) (fw_workloadConn f) (fw_closeSignal f) (fw_peerToWorkload f) = (r2, w2, cs2, ph2)"
    by (metis prod_cases4)
  have ret: "returned (fw_workloadToPeer f) \<Longrightarrow> ph = fw_workloadToPeer f"
    using p by (cases "fw_workloadToPeer f") auto
  have cl: "closing w2 cs2 (fw_workloadToPeer f)"
    using closing_cong [OF _ _ assms, of w2 cs2] pump_frame(4,7) [OF q] by simp
  show "w2p_closing (turn g f)"
    using p q cl pump_closing [OF p assms] by (cases g) (simp_all add: workloadToPeer_def peerToWorkload_def)
  show "returned (fw_workloadToPeer (turn g f)) \<or> w2p_todo (turn g f) + count_list [g] WorkloadToPeer \<le> w2p_todo f"
    using p q ret pump_frame(4) [OF q] pump_closing [OF p assms]
    by (cases g) (auto simp: workloadToPeer_def peerToWorkload_def todo_def)
  show "returned (fw_workloadToPeer f) \<Longrightarrow> returned (fw_workloadToPeer (turn g f))"
    using p q ret by (cases g) (simp_all add: workloadToPeer_def peerToWorkload_def)
qed

lemma turns_returned:
  "w2p_closing f \<Longrightarrow> returned (fw_workloadToPeer f) \<Longrightarrow> returned (fw_workloadToPeer (fold turn s f))"
  by (induction s arbitrary: f) (simp_all add: turn_closing)

lemma turns_closing: "w2p_closing f \<Longrightarrow> w2p_closing (fold turn s f)"
  by (induction s arbitrary: f) (simp_all add: turn_closing)

lemma turns_todo:
  assumes "w2p_closing f"
  shows "returned (fw_workloadToPeer (fold turn s f)) \<or> w2p_todo (fold turn s f) + count_list s WorkloadToPeer \<le> w2p_todo f"
  using assms
proof (induction s arbitrary: f)
  case (Cons g s)
  show ?case
  proof (cases "returned (fw_workloadToPeer (turn g f))")
    case True
    then show ?thesis using turns_returned turn_closing(1) [OF Cons.prems] by simp
  next
    case False
    then show ?thesis using Cons.IH [OF turn_closing(1) [OF Cons.prems, of g]] turn_closing(2) [OF Cons.prems, of g] by auto
  qed
qed simp

lemma w2p_returns:
  assumes "w2p_closing f" and "w2p_todo f \<le> count_list s WorkloadToPeer"
  shows "returned (fw_workloadToPeer (fold turn s f)) \<and> fw_closeSignal (fold turn s f)"
proof -
  have ret: "returned (fw_workloadToPeer (fold turn s f))"
    using turns_todo [OF assms(1), of s] assms(2) phase_cost_0 [of "fw_workloadToPeer (fold turn s f)"]
    by (auto simp: todo_def)
  with turns_closing [OF assms(1), of s] show ?thesis
    by (cases "fw_workloadToPeer (fold turn s f)") auto
qed

text \<open>Once the flag is set, a goroutine needs at most four turns.\<close>

fun left_turns :: "pump_phase \<Rightarrow> nat" where
  "left_turns AtLoad = 1"
| "left_turns AtDeadline = 4"
| "left_turns AtRead = 3"
| "left_turns (AtWrite _) = 2"
| "left_turns (AtSwap _) = 1"
| "left_turns (Returned _) = 0"

lemma left_turns_0: "left_turns ph = 0 \<longleftrightarrow> returned ph" "left_turns ph \<le> 4"
  by (cases ph; simp)+

lemma pump_left:
  assumes "pump r w True ph = (r', w', cs', ph')"
  shows "left_turns ph' \<le> left_turns ph - 1"
  using assms by (cases ph) (auto split: prod.splits option.splits io_error.splits)

lemma turns_left:
  assumes "fw_closeSignal f"
  shows "fw_closeSignal (fold turn s f)
    \<and> left_turns (fw_peerToWorkload (fold turn s f)) \<le> left_turns (fw_peerToWorkload f) - count_list s PeerToWorkload"
  using assms
proof (induction s arbitrary: f)
  case (Cons g s)
  obtain r w cs ph where
    p: "pump (fw_workloadConn f) (fw_peerConn f) (fw_closeSignal f) (fw_workloadToPeer f) = (r, w, cs, ph)"
    by (metis prod_cases4)
  obtain r2 w2 cs2 ph2 where
    q: "pump (fw_peerConn f) (fw_workloadConn f) (fw_closeSignal f) (fw_peerToWorkload f) = (r2, w2, cs2, ph2)"
    by (metis prod_cases4)
  have cs: "fw_closeSignal (turn g f)"
    and "left_turns (fw_peerToWorkload (turn g f)) \<le> left_turns (fw_peerToWorkload f) - count_list [g] PeerToWorkload"
    using p q Cons.prems pump_frame(7) [OF p] pump_frame(7) [OF q] pump_left [of "fw_peerConn f" "fw_workloadConn f"]
    by (cases g; simp add: workloadToPeer_def peerToWorkload_def)+
  with Cons.IH [OF cs] show ?case by (auto split: if_splits)
qed simp

text \<open>A side that stays open, and a connection that takes every byte.\<close>

fun stays_open :: "arrival list \<Rightarrow> bool" where
  "stays_open [] \<longleftrightarrow> True"
| "stays_open (Data _ # as) \<longleftrightarrow> stays_open as"
| "stays_open (Quiet # as) \<longleftrightarrow> stays_open as"
| "stays_open (_ # as) \<longleftrightarrow> False"

definition accepts_all :: "net_Conn \<Rightarrow> bool" where
  "accepts_all c \<longleftrightarrow> (\<forall>out bs. conn_accepts c out bs = (length bs, None))"

fun full :: "string \<Rightarrow> net_Conn \<Rightarrow> net_Conn \<Rightarrow> bool \<Rightarrow> pump_phase \<Rightarrow> bool" where
  "full sent r w cs (AtWrite bs) \<longleftrightarrow> sent = conn_out w @ bs @ readable (conn_in r) \<and> \<not> cs"
| "full sent r w cs (AtSwap e) \<longleftrightarrow> sent = conn_out w \<and> \<not> cs"
| "full sent r w cs (Returned _) \<longleftrightarrow> sent = conn_out w"
| "full sent r w cs _ \<longleftrightarrow> sent = conn_out w @ readable (conn_in r) \<and> \<not> cs"

fun idling :: "net_Conn \<Rightarrow> pump_phase \<Rightarrow> bool" where
  "idling r (AtSwap _) \<longleftrightarrow> False"
| "idling r _ \<longleftrightarrow> stays_open (conn_in r)"

lemma pump_full:
  assumes "pump r w cs ph = (r', w', cs', ph')" and "full sent r w cs ph" and "accepts_all w"
  shows "full sent r' w' cs' ph'"
proof (cases ph)
  case AtRead
  obtain r1 bs err where rd: "conn_Read dataBufferSize r = (r1, bs, err)" by (cases "conn_Read dataBufferSize r") auto
  have "err = Some e \<Longrightarrow> e \<noteq> TimeoutError \<Longrightarrow> readable (conn_in r) = []" for e
    using rd by (auto simp: conn_Read_def readable_Final split: list.splits arrival.splits if_splits)
  then show ?thesis using assms AtRead rd conn_Read_flow [OF rd] by (auto split: option.splits io_error.splits)
qed (use assms in \<open>auto simp: conn_Write_def conn_SetReadDeadline_def accepts_all_def
      split: option.splits if_splits list.splits arrival.splits\<close>)

lemma pump_idling:
  assumes "pump r w cs ph = (r', w', cs', ph')" and "idling r ph" and "accepts_all w"
  shows "idling r' ph' \<and> cs' = cs"
  using assms by (cases ph) (auto simp: conn_Write_def conn_SetReadDeadline_def conn_Read_def accepts_all_def
      split: option.splits if_splits list.splits arrival.splits)

lemma full_cong:
  "conn_in r = conn_in r' \<Longrightarrow> conn_out w = conn_out w' \<Longrightarrow> full sent r w cs ph = full sent r' w' cs ph"
  by (cases ph) auto

lemma idling_cong: "conn_in r = conn_in r' \<Longrightarrow> idling r ph = idling r' ph"
  by (cases ph) auto

definition delivering :: "string \<Rightarrow> forwarder \<Rightarrow> bool" where
  "delivering sent f \<longleftrightarrow> accepts_all (fw_workloadConn f) \<and> accepts_all (fw_peerConn f)
     \<and> full sent (fw_workloadConn f) (fw_peerConn f) (fw_closeSignal f) (fw_workloadToPeer f)
     \<and> idling (fw_peerConn f) (fw_peerToWorkload f)"

lemma turn_delivering:
  assumes "delivering sent f"
  shows "delivering sent (turn g f)"
proof -
  obtain r w cs ph where
    p: "pump (fw_workloadConn f) (fw_peerConn f) (fw_closeSignal f) (fw_workloadToPeer f) = (r, w, cs, ph)"
    by (metis prod_cases4)
  obtain r2 w2 cs2 ph2 where
    q: "pump (fw_peerConn f) (fw_workloadConn f) (fw_closeSignal f) (fw_peerToWorkload f) = (r2, w2, cs2, ph2)"
    by (metis prod_cases4)
  show ?thesis
    using assms p q pump_full [OF p] pump_idling [OF q] pump_frame(2,4,5) [OF p] pump_frame(1,2,4,5) [OF q]
      full_cong [of "fw_workloadConn f" w2 "fw_peerConn f" r2] idling_cong [of "fw_peerConn f" w]
    by (cases g) (auto simp: delivering_def workloadToPeer_def peerToWorkload_def accepts_all_def)
qed

lemma turns_delivering: "delivering sent f \<Longrightarrow> delivering sent (fold turn s f)"
  by (induction s arbitrary: f) (simp_all add: turn_delivering)



end
