(* ===== verification/Operator.thy ===== *)
theory Operator
  imports Control
begin

text \<open>
  The operator (\<^verbatim>\<open>pkg/operator/controller/instance_controller.go\<close>), which deploys, watches and
  removes the control plane and dataplane of a ClusterLink instance. Of the Kubernetes
  objects, the fields that the operator writes or reads are modelled. The operator threads
  an instance object through its steps and changes it in place, so the steps return it. The
  Kubernetes client and the clock are parameters; a range over the peer labels takes any
  order. A panic of an index expression ends the request.
\<close>

subsection \<open>Objects\<close>

record ComponentStatus =
  cs_Conditions :: "(string, Condition) gomap"

record IngressStatus =
  ist_IP :: string
  ist_Port :: int32
  ist_Conditions :: "(string, Condition) gomap"

record InstanceStatus =
  ins_Controlplane :: ComponentStatus
  ins_Dataplane :: ComponentStatus
  ins_IngressStatus :: IngressStatus

record DataPlaneSpec =
  dps_Type :: string
  dps_Replicas :: int

record IngressSpec =
  ing_Type :: string
  ing_Port :: int32
  ing_Annotations :: labels

record InstanceSpec =
  ins_DataPlane :: DataPlaneSpec
  ins_Ingress :: IngressSpec
  ins_LogLevel :: string
  ins_ContainerRegistry :: string
  ins_Tag :: string
  ins_Namespace :: string
  ins_PeerLabels :: labels

record Instance =
  inst_Meta :: ObjectMeta
  inst_CreationTimestamp :: nat
  inst_Deleting :: bool
  inst_Finalizers :: "string list"
  inst_Spec :: InstanceSpec
  inst_Status :: InstanceStatus

definition DeploymentReady :: string where "DeploymentReady = ''DeploymentReady''"
definition ServiceReady :: string where "ServiceReady = ''ServiceReady''"
definition IngressTypeNone :: string where "IngressTypeNone = ''none''"
definition IngressTypeNodePort :: string where "IngressTypeNodePort = ''NodePort''"
definition IngressTypeLoadBalancer :: string where "IngressTypeLoadBalancer = ''LoadBalancer''"
definition DataplaneTypeGo :: string where "DataplaneTypeGo = ''go''"
definition DefaultExternalPort :: int32 where "DefaultExternalPort = 443"

record Volume =
  vol_Name :: string
  vol_SecretName :: string

record VolumeMount =
  vm_Name :: string
  vm_MountPath :: string
  vm_SubPath :: string
  vm_ReadOnly :: bool

record Container =
  ct_Name :: string
  ct_Image :: string
  ct_ImagePullPolicy :: string
  ct_Args :: "string list"
  ct_ReadinessPort :: int32
  ct_Ports :: "int32 list"
  ct_VolumeMounts :: "VolumeMount list"
  ct_Env :: "(string \<times> string) list"

record PodSpec =
  ps_ServiceAccountName :: string
  ps_Volumes :: "Volume list"
  ps_Containers :: "Container list"

record DeploymentCondition =
  dc_Type :: string
  dc_Status :: ConditionStatus
  dc_Reason :: string
  dc_Message :: string

record Deployment =
  dep_Meta :: ObjectMeta
  dep_Replicas :: int32
  dep_MatchLabels :: labels
  dep_TemplateLabels :: labels
  dep_PodSpec :: PodSpec
  dep_Conditions :: "DeploymentCondition list"

record op_ServicePort =
  osp_Name :: string
  osp_Protocol :: string
  osp_Port :: int32
  osp_TargetPort :: int32
  osp_NodePort :: int32

record op_Service =
  osv_Meta :: ObjectMeta
  osv_Annotations :: labels
  osv_Selector :: labels
  osv_Ports :: "op_ServicePort list"
  osv_Type :: string
  osv_LoadBalancerIPs :: "string list"

record PolicyRule =
  rule_APIGroups :: "string list"
  rule_Resources :: "string list"
  rule_Verbs :: "string list"

record ClusterRole =
  crole_Meta :: ObjectMeta
  crole_Rules :: "PolicyRule list"

record ClusterRoleBinding =
  crb_Meta :: ObjectMeta
  crb_RoleRef :: string
  crb_Subjects :: "(string \<times> string) list"

subsection \<open>The reconciler\<close>

definition OperatorNamespace :: string where "OperatorNamespace = ''clusterlink-operator''"
definition InstanceNamespace :: string where "InstanceNamespace = ''clusterlink-system''"
definition FinalizerName :: string where "FinalizerName = ''instance.clusterlink.net/finalizer''"
definition StatusModeNotExist :: string where "StatusModeNotExist = ''NotExist''"
definition StatusModeProgressing :: string where "StatusModeProgressing = ''ProgressingMode''"
definition StatusModeReady :: string where "StatusModeReady = ''Ready''"
definition controlplane_Name :: string where "controlplane_Name = ''cl-controlplane''"
definition controlplane_ListenPort :: uint16 where "controlplane_ListenPort = 4444"
definition controlplane_ReadinessListenPort :: int32 where "controlplane_ReadinessListenPort = 4445"
definition dataplane_ListenPort :: int32 where "dataplane_ListenPort = 4443"
definition dataplane_ReadinessListenPort :: int32 where "dataplane_ReadinessListenPort = 4445"
definition GoDataplaneName :: string where "GoDataplaneName = ''cl-go-dataplane''"
definition cp_CAFile :: string where "cp_CAFile = ''/etc/ssl/certs/clink_ca.pem''"
definition cp_CertificateFile :: string where "cp_CertificateFile = ''/etc/ssl/certs/clink-controlplane.pem''"
definition cp_KeyFile :: string where "cp_KeyFile = ''/etc/ssl/key/clink-controlplane.pem''"
definition PeerTLSDirectory :: string where "PeerTLSDirectory = ''/etc/ssl/certs/clink''"
definition NamespaceEnvVariable :: string where "NamespaceEnvVariable = ''CL_NAMESPACE''"
definition dp_CAFile :: string where "dp_CAFile = ''/etc/ssl/certs/clink_ca.pem''"
definition dp_CertificateFile :: string where "dp_CertificateFile = ''/etc/ssl/certs/clink-dataplane.pem''"
definition dp_KeyFile :: string where "dp_KeyFile = ''/etc/ssl/key/clink-dataplane.pem''"
definition ClusterRoleName :: string where "ClusterRoleName = InstanceNamespace @ '':'' @ controlplane_Name"

record 's op_client =
  oc_Instance :: "('s, Instance) kind_api"
  oc_Deployment :: "('s, Deployment) kind_api"
  oc_Service :: "('s, op_Service) kind_api"
  oc_ServiceAccount :: "('s, ObjectMeta) kind_api"
  oc_ClusterRole :: "('s, ClusterRole) kind_api"
  oc_ClusterRoleBinding :: "('s, ClusterRoleBinding) kind_api"
  oc_Nodes :: "'s \<Rightarrow> api_error + string list list"

record 's op_env =
  oe_client :: "'s op_client"
  oe_now :: nat
  oe_rng :: "labels \<Rightarrow> labels"

record 's InstanceReconciler =
  ir_Instances :: "(string, string) gomap"
  ir_api :: 's

definition op_write ::
    "('s \<Rightarrow> 's \<times> api_error option) \<Rightarrow> 's InstanceReconciler \<Rightarrow> 's InstanceReconciler \<times> error option" where
  "op_write f r = (let (s', e) = f (ir_api r) in (r\<lparr>ir_api := s'\<rparr>, map_option api e))"

definition createOrUpdateResource ::
    "('s, 'o) kind_api \<Rightarrow> 'o \<Rightarrow> 's InstanceReconciler \<Rightarrow> 's InstanceReconciler \<times> error option" where
  "createOrUpdateResource A object r =
     (case k_Create A object (ir_api r) of
        (s', None) \<Rightarrow> (r\<lparr>ir_api := s'\<rparr>, None)
      | (s', Some err) \<Rightarrow>
          if IsAlreadyExists err then op_write (k_Update A object) (r\<lparr>ir_api := s'\<rparr>)
          else (r\<lparr>ir_api := s'\<rparr>, Some (api err)))"

definition createResource ::
    "('s, 'o) kind_api \<Rightarrow> ('o \<Rightarrow> ObjectMeta) \<Rightarrow> 'o \<Rightarrow> 's InstanceReconciler \<Rightarrow> 's InstanceReconciler \<times> error option" where
  "createResource A om object r =
     (case k_Get A (object_key (om object)) (ir_api r) of
        Inl err \<Rightarrow> if \<not> IsNotFound err then (r, Some (api err)) else op_write (k_Create A object) r
      | Inr _ \<Rightarrow> (r, None))"

definition deleteResource ::
    "('s, 'o) kind_api \<Rightarrow> NamespacedName \<Rightarrow> 's InstanceReconciler \<Rightarrow> 's InstanceReconciler \<times> error option" where
  "deleteResource A key r =
     (case k_Delete A key (ir_api r) of
        (s', Some err) \<Rightarrow> (r\<lparr>ir_api := s'\<rparr>, if \<not> IsNotFound err then Some (api err) else None)
      | (s', None) \<Rightarrow> (r\<lparr>ir_api := s'\<rparr>, None))"

subsection \<open>The components\<close>

definition setDeployment :: "string \<Rightarrow> string \<Rightarrow> int32 \<Rightarrow> PodSpec \<Rightarrow> Deployment" where
  "setDeployment name namespace replicas podSpec =
     \<lparr>dep_Meta = \<lparr>om_Name = name, om_Namespace = namespace, om_Labels = []\<rparr>, dep_Replicas = replicas,
      dep_MatchLabels = [(''app'', name)], dep_TemplateLabels = [(''app'', name)], dep_PodSpec = podSpec,
      dep_Conditions = []\<rparr>"

definition controlplane_args :: "'s op_env \<Rightarrow> Instance \<Rightarrow> string list" where
  "controlplane_args E instance = [''--log-level'', ins_LogLevel (inst_Spec instance)]
     @ concat (map (\<lambda>(key, val). [''--peer-label'', key @ ''='' @ val]) (oe_rng E (ins_PeerLabels (inst_Spec instance))))"

definition controlplaneDeployment :: "'s op_env \<Rightarrow> Instance \<Rightarrow> Deployment" where
  "controlplaneDeployment E instance =
     (let spec = inst_Spec instance
      in setDeployment controlplane_Name (ins_Namespace spec) 1
        \<lparr>ps_ServiceAccountName = controlplane_Name,
         ps_Volumes = [
           \<lparr>vol_Name = ''ca'', vol_SecretName = ''cl-ca''\<rparr>,
           \<lparr>vol_Name = ''tls'', vol_SecretName = controlplane_Name\<rparr>,
           \<lparr>vol_Name = ''peer-tls'', vol_SecretName = ''cl-peer''\<rparr>],
         ps_Containers = [
           \<lparr>ct_Name = controlplane_Name,
            ct_Image = ins_ContainerRegistry spec @ controlplane_Name @ '':'' @ ins_Tag spec,
            ct_ImagePullPolicy = ''IfNotPresent'',
            ct_Args = controlplane_args E instance,
            ct_ReadinessPort = controlplane_ReadinessListenPort,
            ct_Ports = [ucast controlplane_ListenPort],
            ct_VolumeMounts = [
              \<lparr>vm_Name = ''ca'', vm_MountPath = cp_CAFile, vm_SubPath = ''ca'', vm_ReadOnly = True\<rparr>,
              \<lparr>vm_Name = ''tls'', vm_MountPath = cp_CertificateFile, vm_SubPath = ''cert'', vm_ReadOnly = True\<rparr>,
              \<lparr>vm_Name = ''tls'', vm_MountPath = cp_KeyFile, vm_SubPath = ''key'', vm_ReadOnly = True\<rparr>,
              \<lparr>vm_Name = ''peer-tls'', vm_MountPath = PeerTLSDirectory, vm_SubPath = [], vm_ReadOnly = True\<rparr>],
            ct_Env = [(NamespaceEnvVariable, ''metadata.namespace'')]\<rparr>]\<rparr>)"

definition applyControlplane ::
    "'s op_env \<Rightarrow> Instance \<Rightarrow> 's InstanceReconciler \<Rightarrow> 's InstanceReconciler \<times> error option" where
  "applyControlplane E instance = createOrUpdateResource (oc_Deployment (oe_client E)) (controlplaneDeployment E instance)"

definition dataplaneDeployment :: "Instance \<Rightarrow> Deployment" where
  "dataplaneDeployment instance =
     (let spec = inst_Spec instance;
          DataplaneImage = (if dps_Type (ins_DataPlane spec) = DataplaneTypeGo then GoDataplaneName else dataplane_Name)
      in setDeployment dataplane_Name (ins_Namespace spec) (word_of_int (dps_Replicas (ins_DataPlane spec)))
        \<lparr>ps_ServiceAccountName = [],
         ps_Volumes = [
           \<lparr>vol_Name = ''ca'', vol_SecretName = ''cl-ca''\<rparr>,
           \<lparr>vol_Name = ''tls'', vol_SecretName = dataplane_Name\<rparr>],
         ps_Containers = [
           \<lparr>ct_Name = ''dataplane'',
            ct_Image = ins_ContainerRegistry spec @ DataplaneImage @ '':'' @ ins_Tag spec,
            ct_ImagePullPolicy = ''IfNotPresent'',
            ct_Args = [''--log-level'', ins_LogLevel spec, ''--controlplane-host'', controlplane_Name],
            ct_ReadinessPort = dataplane_ReadinessListenPort,
            ct_Ports = [dataplane_ListenPort],
            ct_VolumeMounts = [
              \<lparr>vm_Name = ''ca'', vm_MountPath = dp_CAFile, vm_SubPath = ''ca'', vm_ReadOnly = True\<rparr>,
              \<lparr>vm_Name = ''tls'', vm_MountPath = dp_CertificateFile, vm_SubPath = ''cert'', vm_ReadOnly = True\<rparr>,
              \<lparr>vm_Name = ''tls'', vm_MountPath = dp_KeyFile, vm_SubPath = ''key'', vm_ReadOnly = True\<rparr>],
            ct_Env = []\<rparr>]\<rparr>)"

definition applyDataplane ::
    "'s op_env \<Rightarrow> Instance \<Rightarrow> 's InstanceReconciler \<Rightarrow> 's InstanceReconciler \<times> error option" where
  "applyDataplane E instance = createOrUpdateResource (oc_Deployment (oe_client E)) (dataplaneDeployment instance)"

definition op_createService ::
    "'s op_env \<Rightarrow> string \<Rightarrow> string \<Rightarrow> uint16 \<Rightarrow> 's InstanceReconciler \<Rightarrow> 's InstanceReconciler \<times> error option" where
  "op_createService E name namespace port = createResource (oc_Service (oe_client E)) osv_Meta
     \<lparr>osv_Meta = \<lparr>om_Name = name, om_Namespace = namespace, om_Labels = []\<rparr>, osv_Annotations = [],
      osv_Selector = [(''app'', name)],
      osv_Ports = [\<lparr>osp_Name = [], osp_Protocol = ''TCP'', osp_Port = ucast port, osp_TargetPort = 0, osp_NodePort = 0\<rparr>],
      osv_Type = ''ClusterIP'', osv_LoadBalancerIPs = []\<rparr>"

definition controlplaneClusterRole :: ClusterRole where
  "controlplaneClusterRole = \<lparr>crole_Meta = \<lparr>om_Name = ClusterRoleName, om_Namespace = [], om_Labels = []\<rparr>,
     crole_Rules = [
       \<lparr>rule_APIGroups = [[]], rule_Resources = [''events''], rule_Verbs = [''create'', ''update'']\<rparr>,
       \<lparr>rule_APIGroups = [[]], rule_Resources = [''secrets''],
        rule_Verbs = [''get'', ''list'', ''watch'', ''create'', ''update'']\<rparr>,
       \<lparr>rule_APIGroups = [[]], rule_Resources = [''services''],
        rule_Verbs = [''get'', ''list'', ''watch'', ''create'', ''delete'', ''update'']\<rparr>,
       \<lparr>rule_APIGroups = [''coordination.k8s.io''], rule_Resources = [''leases''],
        rule_Verbs = [''get'', ''create'', ''update'']\<rparr>,
       \<lparr>rule_APIGroups = [''discovery.k8s.io''], rule_Resources = [''endpointslices''],
        rule_Verbs = [''get'', ''list'', ''watch'', ''create'', ''delete'', ''update'']\<rparr>,
       \<lparr>rule_APIGroups = [[]], rule_Resources = [''pods''], rule_Verbs = [''get'', ''list'', ''watch'']\<rparr>,
       \<lparr>rule_APIGroups = [''clusterlink.net''],
        rule_Resources = [''peers'', ''exports'', ''accesspolicies'', ''privilegedaccesspolicies''],
        rule_Verbs = [''get'', ''list'', ''watch'']\<rparr>,
       \<lparr>rule_APIGroups = [''clusterlink.net''], rule_Resources = [''imports''],
        rule_Verbs = [''get'', ''list'', ''watch'', ''update'']\<rparr>,
       \<lparr>rule_APIGroups = [''clusterlink.net''],
        rule_Resources = [''peers/status'', ''exports/status'', ''imports/status''], rule_Verbs = [''update'']\<rparr>]\<rparr>"

definition controlplaneRoleBinding :: "string \<Rightarrow> ClusterRoleBinding" where
  "controlplaneRoleBinding namespace = \<lparr>crb_Meta = \<lparr>om_Name = ClusterRoleName, om_Namespace = [], om_Labels = []\<rparr>,
     crb_RoleRef = ClusterRoleName, crb_Subjects = [(controlplane_Name, namespace)]\<rparr>"

definition createAccessControl ::
    "'s op_env \<Rightarrow> string \<Rightarrow> string \<Rightarrow> 's InstanceReconciler \<Rightarrow> 's InstanceReconciler \<times> error option" where
  "createAccessControl E name namespace =
     seqE (createResource (oc_ServiceAccount (oe_client E)) (\<lambda>m. m) \<lparr>om_Name = name, om_Namespace = namespace, om_Labels = []\<rparr>)
    (seqE (createResource (oc_ClusterRole (oe_client E)) crole_Meta controlplaneClusterRole)
          (createResource (oc_ClusterRoleBinding (oe_client E)) crb_Meta (controlplaneRoleBinding namespace)))"

definition externalService :: "Instance \<Rightarrow> op_Service" where
  "externalService instance =
     (let ingress = ins_Ingress (inst_Spec instance);
          service = (\<lambda>type port nodePort.
            \<lparr>osv_Meta = \<lparr>om_Name = IngressSvcName, om_Namespace = ins_Namespace (inst_Spec instance), om_Labels = []\<rparr>,
             osv_Annotations = ing_Annotations ingress, osv_Selector = [(''app'', dataplane_Name)],
             osv_Ports = [\<lparr>osp_Name = ''https'', osp_Protocol = [], osp_Port = port, osp_TargetPort = dataplane_ListenPort,
               osp_NodePort = nodePort\<rparr>],
             osv_Type = type, osv_LoadBalancerIPs = []\<rparr>)
      in if ing_Type ingress = IngressTypeNodePort then service ''NodePort'' DefaultExternalPort (ing_Port ingress)
         else if ing_Type ingress = IngressTypeLoadBalancer
         then service ''LoadBalancer'' (if ing_Port ingress \<noteq> 0 then ing_Port ingress else DefaultExternalPort) 0
         else service [] DefaultExternalPort 0)"

definition createExternalService ::
    "'s op_env \<Rightarrow> Instance \<Rightarrow> 's InstanceReconciler \<Rightarrow> 's InstanceReconciler \<times> error option" where
  "createExternalService E instance r =
     (if ing_Type (ins_Ingress (inst_Spec instance)) = IngressTypeNone then (r, None)
      else createResource (oc_Service (oe_client E)) osv_Meta (externalService instance) r)"

definition with_registry_slash :: "Instance \<Rightarrow> Instance" where
  "with_registry_slash instance =
     (let registry = ins_ContainerRegistry (inst_Spec instance)
      in if registry \<noteq> [] \<and> last registry \<noteq> CHR ''/''
         then instance\<lparr>inst_Spec := (inst_Spec instance)\<lparr>ins_ContainerRegistry := registry @ ''/''\<rparr>\<rparr> else instance)"

definition applyClusterLink ::
    "'s op_env \<Rightarrow> Instance \<Rightarrow> 's InstanceReconciler \<Rightarrow> 's InstanceReconciler \<times> error option" where
  "applyClusterLink E instance0 =
     (let instance = with_registry_slash instance0;
          namespace = ins_Namespace (inst_Spec instance)
      in seqE (createAccessControl E controlplane_Name namespace)
        (seqE (op_createService E controlplane_Name namespace controlplane_ListenPort)
        (seqE (applyControlplane E instance)
        (seqE (applyDataplane E instance)
              (createExternalService E instance)))))"

definition deleteClusterLink ::
    "'s op_env \<Rightarrow> string \<Rightarrow> 's InstanceReconciler \<Rightarrow> 's InstanceReconciler \<times> error option" where
  "deleteClusterLink E namespace =
     (let C = oe_client E; cpObj = NamespacedName namespace controlplane_Name; cprRuleObj = NamespacedName [] ClusterRoleName;
          dpObj = NamespacedName namespace dataplane_Name; ingressObj = NamespacedName namespace IngressSvcName
      in seqE (deleteResource (oc_Deployment C) cpObj)
        (seqE (deleteResource (oc_Service C) cpObj)
        (seqE (deleteResource (oc_ClusterRole C) cprRuleObj)
        (seqE (deleteResource (oc_ClusterRoleBinding C) cprRuleObj)
        (seqE (deleteResource (oc_Deployment C) dpObj)
        (seqE (deleteResource (oc_Service C) dpObj)
              (deleteResource (oc_Service C) ingressObj)))))))"

subsection \<open>Status\<close>

definition status_condition :: "'s op_env \<Rightarrow> string \<Rightarrow> ConditionStatus \<Rightarrow> string \<Rightarrow> string \<Rightarrow> Condition" where
  "status_condition E type status reason message = \<lparr>cond_Type = type, cond_Status = status, cond_ObservedGeneration = 0,
     cond_LastTransitionTime = oe_now E, cond_Reason = reason, cond_Message = message\<rparr>"

text \<open>The loop over the conditions of a deployment.\<close>

fun deploymentConditions :: "Condition \<Rightarrow> DeploymentCondition list \<Rightarrow> Condition" where
  "deploymentConditions status [] = status"
| "deploymentConditions status (c # cs) =
     (if dc_Type c = ''Available''
      then if dc_Status c = ConditionTrue
           then status\<lparr>cond_Status := ConditionTrue, cond_Reason := StatusModeReady, cond_Message := ''Deployment is ready''\<rparr>
           else deploymentConditions status cs
      else if dc_Type c = ''Progressing'' \<or> dc_Type c = ''ReplicaFailure''
      then if dc_Status c \<noteq> ConditionTrue then status\<lparr>cond_Reason := dc_Reason c, cond_Message := dc_Message c\<rparr>
           else deploymentConditions status cs
      else deploymentConditions status cs)"

definition checkDeploymnetStatus :: "'s op_env \<Rightarrow> NamespacedName \<Rightarrow> 's \<Rightarrow> error + Condition" where
  "checkDeploymnetStatus E name s =
     (case k_Get (oc_Deployment (oe_client E)) name s of
        Inl err \<Rightarrow> if IsNotFound err
          then Inr (status_condition E DeploymentReady ConditionFalse ''NotExist'' ''Deployment does not exist'')
          else Inl (api err)
      | Inr d \<Rightarrow> Inr (deploymentConditions (status_condition E DeploymentReady ConditionFalse StatusModeProgressing
          ''Deployment is in progressing mode'') (dep_Conditions d)))"

definition checkServiceStatus :: "'s op_env \<Rightarrow> NamespacedName \<Rightarrow> 's \<Rightarrow> error + op_Service option \<times> Condition" where
  "checkServiceStatus E name s =
     (case k_Get (oc_Service (oe_client E)) name s of
        Inl err \<Rightarrow> if IsNotFound err
          then Inr (None, status_condition E ServiceReady ConditionFalse StatusModeNotExist ''Service does not exist'')
          else Inl (api err)
      | Inr svc \<Rightarrow> Inr (Some svc, status_condition E ServiceReady ConditionTrue StatusModeReady ''Service is ready''))"

definition getNodeIP :: "'s op_env \<Rightarrow> 's \<Rightarrow> panic + (error + string)" where
  "getNodeIP E s =
     (case oc_Nodes (oe_client E) s of
        Inl err \<Rightarrow> Inr (Inl (Wrapf ''failed to get nodes: '' (api err)))
      | Inr [] \<Rightarrow> Inr (Inl (Errorf ''no nodes found in the cluster''))
      | Inr (addresses # _) \<Rightarrow> (case addresses of [] \<Rightarrow> Inl IndexOutOfRange | ip # _ \<Rightarrow> Inr (Inr ip)))"

definition checkExternalServiceStatus ::
    "'s op_env \<Rightarrow> NamespacedName \<Rightarrow> IngressStatus \<Rightarrow> 's \<Rightarrow> panic + (error + Condition \<times> IngressStatus)" where
  "checkExternalServiceStatus E name ingressStatus s =
     (case checkServiceStatus E name s of
        Inl err \<Rightarrow> Inr (Inl err)
      | Inr (None, status) \<Rightarrow> Inr (Inr (status, ingressStatus))
      | Inr (Some svc, status) \<Rightarrow>
          if osv_Type svc = ''LoadBalancer''
          then (case osv_Ports svc of
                  [] \<Rightarrow> Inl IndexOutOfRange
                | port # _ \<Rightarrow> Inr (Inr (status, ingressStatus\<lparr>ist_Port := osp_Port port,
                    ist_IP := case osv_LoadBalancerIPs svc of [] \<Rightarrow> ''pending'' | ip # _ \<Rightarrow> ip\<rparr>)))
          else if osv_Type svc = ''NodePort''
          then (case osv_Ports svc of
                  [] \<Rightarrow> Inl IndexOutOfRange
                | port # _ \<Rightarrow>
                    (case getNodeIP E s of
                       Inl p \<Rightarrow> Inl p
                     | Inr (Inl _) \<Rightarrow> Inr (Inr (status, ingressStatus\<lparr>ist_Port := osp_NodePort port\<rparr>))
                     | Inr (Inr ip) \<Rightarrow> Inr (Inr (status, ingressStatus\<lparr>ist_Port := osp_NodePort port, ist_IP := ip\<rparr>))))
          else Inr (Inr (status, ingressStatus)))"

fun updateCondition :: "Condition list \<Rightarrow> (string, Condition) gomap \<Rightarrow> (string, Condition) gomap \<times> bool" where
  "updateCondition [] conditions = (conditions, False)"
| "updateCondition (newCondition # rest) conditions =
     (let changed = (case mget conditions (cond_Type newCondition) of
            Some c \<Rightarrow> cond_Status c \<noteq> cond_Status newCondition \<or> cond_Message c \<noteq> cond_Message newCondition
          | None \<Rightarrow> True)
      in case updateCondition rest (if changed then mput (cond_Type newCondition) newCondition conditions else conditions) of
           (conditions', update) \<Rightarrow> (conditions', changed \<or> update))"

definition set_controlplane :: "(string, Condition) gomap \<Rightarrow> Instance \<Rightarrow> Instance" where
  "set_controlplane conds instance =
     instance\<lparr>inst_Status := (inst_Status instance)\<lparr>ins_Controlplane := \<lparr>cs_Conditions = conds\<rparr>\<rparr>\<rparr>"

definition set_dataplane :: "(string, Condition) gomap \<Rightarrow> Instance \<Rightarrow> Instance" where
  "set_dataplane conds instance =
     instance\<lparr>inst_Status := (inst_Status instance)\<lparr>ins_Dataplane := \<lparr>cs_Conditions = conds\<rparr>\<rparr>\<rparr>"

definition checkControlplaneStatus :: "'s op_env \<Rightarrow> Instance \<Rightarrow> 's \<Rightarrow> error + bool \<times> Instance" where
  "checkControlplaneStatus E instance s =
     (let cp = NamespacedName (ins_Namespace (inst_Spec instance)) controlplane_Name
      in case checkDeploymnetStatus E cp s of
           Inl err \<Rightarrow> Inl err
         | Inr deploymentStatus \<Rightarrow>
             (case checkServiceStatus E cp s of
                Inl err \<Rightarrow> Inl err
              | Inr (_, serviceStatus) \<Rightarrow>
                  (case updateCondition [deploymentStatus, serviceStatus]
                          (cs_Conditions (ins_Controlplane (inst_Status instance))) of
                     (conds, update) \<Rightarrow> Inr (update, set_controlplane conds instance))))"

definition checkDataplaneStatus :: "'s op_env \<Rightarrow> Instance \<Rightarrow> 's \<Rightarrow> error + bool \<times> Instance" where
  "checkDataplaneStatus E instance s =
     (let dp = NamespacedName (ins_Namespace (inst_Spec instance)) dataplane_Name
      in case checkDeploymnetStatus E dp s of
           Inl err \<Rightarrow> Inl err
         | Inr deploymentStatus \<Rightarrow>
             (case checkServiceStatus E dp s of
                Inl err \<Rightarrow> Inl err
              | Inr (_, serviceStatus) \<Rightarrow>
                  (case updateCondition [deploymentStatus, serviceStatus]
                          (cs_Conditions (ins_Dataplane (inst_Status instance))) of
                     (conds, update) \<Rightarrow> Inr (update, set_dataplane conds instance))))"

definition checkIngressStatus :: "'s op_env \<Rightarrow> Instance \<Rightarrow> 's \<Rightarrow> panic + (error + bool \<times> Instance)" where
  "checkIngressStatus E instance s =
     (case checkExternalServiceStatus E (NamespacedName (ins_Namespace (inst_Spec instance)) IngressSvcName)
             (ins_IngressStatus (inst_Status instance)) s of
        Inl p \<Rightarrow> Inl p
      | Inr (Inl err) \<Rightarrow> Inr (Inl err)
      | Inr (Inr (serviceStatus, ingressStatus)) \<Rightarrow>
          (case updateCondition [serviceStatus] (ist_Conditions ingressStatus) of
             (conds, update) \<Rightarrow> Inr (Inr (update, instance\<lparr>inst_Status := (inst_Status instance)\<lparr>
               ins_IngressStatus := ingressStatus\<lparr>ist_Conditions := conds\<rparr>\<rparr>\<rparr>))))"

definition update_status ::
    "'s op_env \<Rightarrow> Instance \<Rightarrow> 's InstanceReconciler \<Rightarrow> 's InstanceReconciler \<times> error option" where
  "update_status E instance = op_write (k_StatusUpdate (oc_Instance (oe_client E)) instance)"

definition checkStatus ::
    "'s op_env \<Rightarrow> Instance \<Rightarrow> 's InstanceReconciler \<Rightarrow> 's InstanceReconciler \<times> (panic + (error + Instance))" where
  "checkStatus E instance0 r =
     (case checkControlplaneStatus E instance0 (ir_api r) of
        Inl err \<Rightarrow> (r, Inr (Inl err))
      | Inr (cpUpdate, instance1) \<Rightarrow>
     (case checkDataplaneStatus E instance1 (ir_api r) of
        Inl err \<Rightarrow> (r, Inr (Inl err))
      | Inr (dpUpdate, instance2) \<Rightarrow>
     (case (if ing_Type (ins_Ingress (inst_Spec instance2)) \<noteq> IngressTypeNone then checkIngressStatus E instance2 (ir_api r)
            else Inr (Inr (False, instance2))) of
        Inl p \<Rightarrow> (r, Inl p)
      | Inr (Inl err) \<Rightarrow> (r, Inr (Inl err))
      | Inr (Inr (ingressUpdate, instance)) \<Rightarrow>
          if cpUpdate \<or> dpUpdate \<or> ingressUpdate
          then (case update_status E instance r of
                  (r', Some err) \<Rightarrow> (r', Inr (Inl err)) | (r', None) \<Rightarrow> (r', Inr (Inr instance)))
          else (r, Inr (Inr instance)))))"

definition updateFailureStatus ::
    "'s op_env \<Rightarrow> Instance \<Rightarrow> 's InstanceReconciler \<Rightarrow> 's InstanceReconciler \<times> error option" where
  "updateFailureStatus E instance r =
     (let cond = [status_condition E DeploymentReady ConditionFalse StatusModeNotExist []];
          (cpConds, cpUpdate) = updateCondition cond (cs_Conditions (ins_Controlplane (inst_Status instance)));
          (dpConds, dpUpdate) = updateCondition cond (cs_Conditions (ins_Dataplane (inst_Status instance)))
      in if cpUpdate \<or> dpUpdate then update_status E (set_dataplane dpConds (set_controlplane cpConds instance)) r
         else (r, None))"

subsection \<open>Requests\<close>

definition createFinalizer ::
    "'s op_env \<Rightarrow> Instance \<Rightarrow> 's InstanceReconciler \<Rightarrow> Instance \<times> 's InstanceReconciler \<times> error option" where
  "createFinalizer E instance r =
     (if FinalizerName \<notin> set (inst_Finalizers instance)
      then let instance' = instance\<lparr>inst_Finalizers := inst_Finalizers instance @ [FinalizerName]\<rparr>
           in (instance', op_write (k_Update (oc_Instance (oe_client E)) instance') r)
      else (instance, r, None))"

definition deleteFinalizer ::
    "'s op_env \<Rightarrow> Instance \<Rightarrow> 's InstanceReconciler \<Rightarrow> 's InstanceReconciler \<times> error option" where
  "deleteFinalizer E instance = op_write (k_Update (oc_Instance (oe_client E))
     (instance\<lparr>inst_Finalizers := filter (\<lambda>f. f \<noteq> FinalizerName) (inst_Finalizers instance)\<rparr>))"

definition earliestInstance :: "string \<Rightarrow> string \<Rightarrow> Instance list \<Rightarrow> Instance option" where
  "earliestInstance name namespace items =
     fold (\<lambda>i earliest.
       if ins_Namespace (inst_Spec i) = namespace \<and> om_Name (inst_Meta i) \<noteq> name
       then (case earliest of
               None \<Rightarrow> Some i
             | Some e \<Rightarrow> if inst_CreationTimestamp i < inst_CreationTimestamp e then Some i else Some e)
       else earliest) items None"

datatype op_result = Panicked panic | Failed error | Done | Requeue

definition reason_of :: "(string, Condition) gomap \<Rightarrow> string" where
  "reason_of conditions = (case mget conditions DeploymentReady of None \<Rightarrow> [] | Some c \<Rightarrow> cond_Reason c)"

abbreviation cannot :: string where
  "cannot \<equiv> ''can'' @ [CHR 0x27] @ ''t ''"

text \<open>The part of \<^verbatim>\<open>Reconcile\<close> for an instance that is not being deleted.\<close>

definition deployInstance ::
    "'s op_env \<Rightarrow> Instance \<Rightarrow> 's InstanceReconciler \<Rightarrow> 's InstanceReconciler \<times> op_result" where
  "deployInstance E instance0 r0 =
     (case createFinalizer E instance0 r0 of
        (_, r1, Some err) \<Rightarrow> (r1, Failed (Wrapf (cannot @ ''create Finalizer '') err))
      | (instance1, r1, None) \<Rightarrow>
     (case checkStatus E instance1 r1 of
        (r2, Inl p) \<Rightarrow> (r2, Panicked p)
      | (r2, Inr (Inl err)) \<Rightarrow> (r2, Failed (Wrapf (cannot @ ''check components status '') err))
      | (r2, Inr (Inr instance)) \<Rightarrow>
     (case applyClusterLink E instance r2 of
        (r3, Some err) \<Rightarrow> (r3, Failed (Wrapf (cannot @ ''apply clusterlink components '') err))
      | (r3, None) \<Rightarrow>
          (r3, if reason_of (cs_Conditions (ins_Controlplane (inst_Status instance))) = StatusModeProgressing
                  \<or> reason_of (cs_Conditions (ins_Dataplane (inst_Status instance))) = StatusModeProgressing
               then Requeue else Done))))"

text \<open>
  \<^verbatim>\<open>Reconcile\<close>. After a deletion it calls itself for another instance of the namespace, so it
  takes a fuel; \<open>None\<close> means that the fuel was used up.
\<close>

fun op_Reconcile ::
    "nat \<Rightarrow> 's op_env \<Rightarrow> NamespacedName \<Rightarrow> 's InstanceReconciler \<Rightarrow> ('s InstanceReconciler \<times> op_result) option" where
  "op_Reconcile 0 E req r = None"
| "op_Reconcile (Suc fuel) E req r =
     (case k_Get (oc_Instance (oe_client E)) req (ir_api r) of
        Inl err \<Rightarrow> Some (r, if IsNotFound err then Done else Failed (api err))
      | Inr instance \<Rightarrow>
     (let name = om_Name (inst_Meta instance); namespace = ins_Namespace (inst_Spec instance)
      in if (case mget (ir_Instances r) namespace of Some other \<Rightarrow> other \<noteq> name | None \<Rightarrow> False)
         then (case updateFailureStatus E instance r of
                 (r', Some err) \<Rightarrow> Some (r', Failed err) | (r', None) \<Rightarrow> Some (r', Done))
         else
        (let r1 = (if mget (ir_Instances r) namespace = None
                   then r\<lparr>ir_Instances := mput namespace name (ir_Instances r)\<rparr> else r)
         in if \<not> inst_Deleting instance then Some (deployInstance E instance r1)
            else
           (case seqE (deleteClusterLink E namespace) (deleteFinalizer E instance) r1 of
              (r2, Some err) \<Rightarrow> Some (r2, Failed err)
            | (r2, None) \<Rightarrow>
                (let r3 = r2\<lparr>ir_Instances := mdel namespace (ir_Instances r2)\<rparr>
                 in case k_List (oc_Instance (oe_client E)) [] (Some OperatorNamespace) (ir_api r3) of
                      Inl err \<Rightarrow> Some (r3, Failed (api err))
                    | Inr items \<Rightarrow>
                        (case earliestInstance name namespace items of
                           None \<Rightarrow> Some (r3, Done)
                         | Some i \<Rightarrow>
                             map_option (\<lambda>(r4, res). (r4, if res = Requeue then Done else res))
                               (op_Reconcile fuel E (object_key (inst_Meta i)) r3)))))))"

end
