(* ===== verification/Operator_Results.thy ===== *)
theory Operator_Results
  imports Operator
begin

text \<open>
  What the operator achieves: the laws of the Kubernetes client it relies on, the objects a
  deployment consists of and what is left after a deletion, one instance per namespace, and
  the end of every request.
\<close>

subsection \<open>The Kubernetes client\<close>

record op_cluster =
  ov_Instance :: "NamespacedName \<Rightarrow> Instance option"
  ov_Deployment :: "NamespacedName \<Rightarrow> Deployment option"
  ov_Service :: "NamespacedName \<Rightarrow> op_Service option"
  ov_ServiceAccount :: "NamespacedName \<Rightarrow> ObjectMeta option"
  ov_ClusterRole :: "NamespacedName \<Rightarrow> ClusterRole option"
  ov_ClusterRoleBinding :: "NamespacedName \<Rightarrow> ClusterRoleBinding option"

text \<open>
  The laws of one kind: \<open>fits x y\<close> says that \<open>y\<close> is what the server may store for \<open>x\<close> (it
  sets defaults and keeps a status), \<open>put k x v\<close> is the cluster \<open>v\<close> with \<open>x\<close> under \<open>k\<close>.
\<close>

definition op_kind_ok ::
    "('s, 'o) kind_api \<Rightarrow> ('o \<Rightarrow> ObjectMeta) \<Rightarrow> ('o \<Rightarrow> 'o \<Rightarrow> bool) \<Rightarrow> (op_cluster \<Rightarrow> NamespacedName \<Rightarrow> 'o option)
       \<Rightarrow> (NamespacedName \<Rightarrow> 'o option \<Rightarrow> op_cluster \<Rightarrow> op_cluster) \<Rightarrow> ('s \<Rightarrow> op_cluster) \<Rightarrow> bool" where
  "op_kind_ok A om fits get put view \<longleftrightarrow>
     (\<forall>k s. case k_Get A k s of Inr x \<Rightarrow> get (view s) k = Some x \<and> object_key (om x) = k
        | Inl e \<Rightarrow> IsNotFound e \<longrightarrow> get (view s) k = None)
     \<and> (\<forall>x s. write_law (\<lambda>s s'. view s' = view s)
          (\<lambda>s s'. get (view s) (object_key (om x)) = None
             \<and> (\<exists>y. fits x y \<and> om y = om x \<and> view s' = put (object_key (om x)) (Some y) (view s))) s (k_Create A x s))
     \<and> (\<forall>x s. write_law (\<lambda>s s'. view s' = view s)
          (\<lambda>s s'. get (view s) (object_key (om x)) \<noteq> None
             \<and> (\<exists>y. fits x y \<and> om y = om x \<and> view s' = put (object_key (om x)) (Some y) (view s))) s (k_Update A x s))
     \<and> (\<forall>k s. write_law (\<lambda>s s'. view s' = view s)
          (\<lambda>s s'. get (view s) k \<noteq> None \<and> view s' = put k None (view s)) s (k_Delete A k s))
     \<and> (\<forall>k s s' e. k_Delete A k s = (s', Some e) \<longrightarrow> IsNotFound e \<longrightarrow> get (view s') k = None)"

text \<open>Removing the last finalizer of an instance that is being deleted removes the instance.\<close>

definition instance_ok :: "('s, Instance) kind_api \<Rightarrow> ('s \<Rightarrow> op_cluster) \<Rightarrow> bool" where
  "instance_ok A view \<longleftrightarrow>
     (\<forall>k s. case k_Get A k s of Inr x \<Rightarrow> ov_Instance (view s) k = Some x \<and> object_key (inst_Meta x) = k
        | Inl e \<Rightarrow> IsNotFound e \<longrightarrow> ov_Instance (view s) k = None)
     \<and> (\<forall>sel ns s xs. k_List A sel ns s = Inr xs \<longrightarrow>
          set xs = {x. ov_Instance (view s) (object_key (inst_Meta x)) = Some x \<and> selected sel ns (inst_Meta x)})
     \<and> (\<forall>x s. write_law (\<lambda>s s'. view s' = view s)
          (\<lambda>s s'. \<exists>y. ov_Instance (view s) (object_key (inst_Meta x)) = Some y
             \<and> view s' = (view s)\<lparr>ov_Instance := (ov_Instance (view s))(object_key (inst_Meta x) :=
                 if inst_Deleting y \<and> inst_Finalizers x = [] then None else Some (x\<lparr>inst_Status := inst_Status y\<rparr>))\<rparr>)
          s (k_Update A x s))
     \<and> (\<forall>x s. write_law (\<lambda>s s'. view s' = view s)
          (\<lambda>s s'. \<exists>y. ov_Instance (view s) (object_key (inst_Meta x)) = Some y
             \<and> view s' = (view s)\<lparr>ov_Instance := (ov_Instance (view s))(object_key (inst_Meta x) \<mapsto>
                 y\<lparr>inst_Status := inst_Status x\<rparr>)\<rparr>)
          s (k_StatusUpdate A x s))"

definition same_deployment :: "Deployment \<Rightarrow> Deployment \<Rightarrow> bool" where
  "same_deployment x y \<longleftrightarrow> y\<lparr>dep_Conditions := []\<rparr> = x\<lparr>dep_Conditions := []\<rparr>"

definition op_client_ok :: "'s op_client \<Rightarrow> ('s \<Rightarrow> op_cluster) \<Rightarrow> bool" where
  "op_client_ok C view \<longleftrightarrow> instance_ok (oc_Instance C) view
     \<and> op_kind_ok (oc_Deployment C) dep_Meta same_deployment ov_Deployment
         (\<lambda>k x v. v\<lparr>ov_Deployment := (ov_Deployment v)(k := x)\<rparr>) view
     \<and> op_kind_ok (oc_Service C) osv_Meta (\<lambda>x y. osv_Selector y = osv_Selector x) ov_Service
         (\<lambda>k x v. v\<lparr>ov_Service := (ov_Service v)(k := x)\<rparr>) view
     \<and> op_kind_ok (oc_ServiceAccount C) (\<lambda>m. m) (=) ov_ServiceAccount
         (\<lambda>k x v. v\<lparr>ov_ServiceAccount := (ov_ServiceAccount v)(k := x)\<rparr>) view
     \<and> op_kind_ok (oc_ClusterRole C) crole_Meta (=) ov_ClusterRole
         (\<lambda>k x v. v\<lparr>ov_ClusterRole := (ov_ClusterRole v)(k := x)\<rparr>) view
     \<and> op_kind_ok (oc_ClusterRoleBinding C) crb_Meta (=) ov_ClusterRoleBinding
         (\<lambda>k x v. v\<lparr>ov_ClusterRoleBinding := (ov_ClusterRoleBinding v)(k := x)\<rparr>) view"

text \<open>What a successful or failed write did to the cluster.\<close>

lemma write_lawD:
  assumes "write_law same W s r"
  shows "snd r = None \<Longrightarrow> W s (fst r)" and "same s (fst r) \<or> W s (fst r)"
  using assms by (auto simp: write_law_def split: prod.splits option.splits)

lemma op_kindD:
  assumes "op_kind_ok A om fits get put view"
  shows "k_Get A k s = Inr x \<Longrightarrow> get (view s) k = Some x \<and> object_key (om x) = k"
    and "k_Get A k s = Inl e \<Longrightarrow> IsNotFound e \<Longrightarrow> get (view s) k = None"
    and "write_law (\<lambda>s s'. view s' = view s)
          (\<lambda>s s'. get (view s) (object_key (om x)) = None
             \<and> (\<exists>y. fits x y \<and> om y = om x \<and> view s' = put (object_key (om x)) (Some y) (view s))) s (k_Create A x s)"
    and "write_law (\<lambda>s s'. view s' = view s)
          (\<lambda>s s'. get (view s) (object_key (om x)) \<noteq> None
             \<and> (\<exists>y. fits x y \<and> om y = om x \<and> view s' = put (object_key (om x)) (Some y) (view s))) s (k_Update A x s)"
    and "write_law (\<lambda>s s'. view s' = view s)
          (\<lambda>s s'. get (view s) k \<noteq> None \<and> view s' = put k None (view s)) s (k_Delete A k s)"
    and "k_Delete A k s = (s', Some e) \<Longrightarrow> IsNotFound e \<Longrightarrow> get (view s') k = None"
proof -
  have get: "case k_Get A k s of Inr x \<Rightarrow> get (view s) k = Some x \<and> object_key (om x) = k
     | Inl e \<Rightarrow> IsNotFound e \<longrightarrow> get (view s) k = None" using assms by (simp only: op_kind_ok_def)
  then show "k_Get A k s = Inr x \<Longrightarrow> get (view s) k = Some x \<and> object_key (om x) = k"
    and "k_Get A k s = Inl e \<Longrightarrow> IsNotFound e \<Longrightarrow> get (view s) k = None" by simp_all
qed (use assms in \<open>simp_all only: op_kind_ok_def\<close>)

subsection \<open>Resources\<close>

abbreviation op_view :: "('s \<Rightarrow> op_cluster) \<Rightarrow> 's InstanceReconciler \<Rightarrow> op_cluster" where
  "op_view view r \<equiv> view (ir_api r)"

text \<open>Each helper writes at most the object it is called for.\<close>

lemma createResource_effect:
  assumes "op_kind_ok A om fits get put view" and "createResource A om x r = (r', err)"
  shows "op_view view r' = op_view view r
      \<or> (\<exists>y. om y = om x \<and> fits x y \<and> get (op_view view r) (object_key (om x)) = None
           \<and> op_view view r' = put (object_key (om x)) (Some y) (op_view view r))"
    and "err = None \<Longrightarrow> get (op_view view r) (object_key (om x)) \<noteq> None \<and> op_view view r' = op_view view r
      \<or> (\<exists>y. om y = om x \<and> fits x y \<and> get (op_view view r) (object_key (om x)) = None
           \<and> op_view view r' = put (object_key (om x)) (Some y) (op_view view r))"
    and "ir_Instances r' = ir_Instances r"
proof -
  note cr = write_lawD [OF op_kindD(3) [OF assms(1), of x "ir_api r"]] and g = op_kindD(1,2) [OF assms(1)]
  show "op_view view r' = op_view view r
      \<or> (\<exists>y. om y = om x \<and> fits x y \<and> get (op_view view r) (object_key (om x)) = None
           \<and> op_view view r' = put (object_key (om x)) (Some y) (op_view view r))"
    using assms(2) cr(2) by (auto simp: createResource_def op_write_def split: sum.splits if_splits prod.splits)
  show "err = None \<Longrightarrow> get (op_view view r) (object_key (om x)) \<noteq> None \<and> op_view view r' = op_view view r
      \<or> (\<exists>y. om y = om x \<and> fits x y \<and> get (op_view view r) (object_key (om x)) = None
           \<and> op_view view r' = put (object_key (om x)) (Some y) (op_view view r))"
    using assms(2) cr(1) g by (auto simp: createResource_def op_write_def split: sum.splits if_splits prod.splits)
  show "ir_Instances r' = ir_Instances r"
    using assms(2) by (auto simp: createResource_def op_write_def split: sum.splits if_splits prod.splits)
qed

lemma createOrUpdateResource_effect:
  assumes "op_kind_ok A om fits get put view" and "createOrUpdateResource A x r = (r', err)"
    and "\<And>k a b v. put k a (put k b v) = put k a v"
  shows "op_view view r' = op_view view r
      \<or> (\<exists>y. om y = om x \<and> fits x y \<and> op_view view r' = put (object_key (om x)) (Some y) (op_view view r))"
    and "err = None \<Longrightarrow> \<exists>y. om y = om x \<and> fits x y \<and> op_view view r' = put (object_key (om x)) (Some y) (op_view view r)"
    and "ir_Instances r' = ir_Instances r"
proof -
  obtain s1 e1 where c: "k_Create A x (ir_api r) = (s1, e1)" by fastforce
  obtain s2 e2 where u: "k_Update A x s1 = (s2, e2)" by fastforce
  note cr = write_lawD [OF op_kindD(3) [OF assms(1), of x "ir_api r"], unfolded c fst_conv snd_conv]
    and up = write_lawD [OF op_kindD(4) [OF assms(1), of x s1], unfolded u fst_conv snd_conv]
  have r': "r' = r\<lparr>ir_api := if e1 \<noteq> None \<and> IsAlreadyExists (the e1) then s2 else s1\<rparr>"
    and err: "err = (if e1 \<noteq> None \<and> IsAlreadyExists (the e1) then map_option api e2 else map_option api e1)"
    using assms(2) c u by (auto simp: createOrUpdateResource_def op_write_def split: option.splits if_splits)
  show "op_view view r' = op_view view r
      \<or> (\<exists>y. om y = om x \<and> fits x y \<and> op_view view r' = put (object_key (om x)) (Some y) (op_view view r))"
    using cr(2) up(2) assms(3) unfolding r' by auto
  show "err = None \<Longrightarrow> \<exists>y. om y = om x \<and> fits x y \<and> op_view view r' = put (object_key (om x)) (Some y) (op_view view r)"
    using cr up(1) assms(3) unfolding r' err by (auto split: if_splits)
  show "ir_Instances r' = ir_Instances r" by (simp add: r')
qed

lemma deleteResource_effect:
  assumes "op_kind_ok A om fits get put view" and "deleteResource A k r = (r', err)"
    and "\<And>k v. get (put k None v) k = None"
  shows "op_view view r' = op_view view r \<or> op_view view r' = put k None (op_view view r)"
    and "err = None \<Longrightarrow> get (op_view view r') k = None"
    and "ir_Instances r' = ir_Instances r"
proof -
  note de = write_lawD [OF op_kindD(5) [OF assms(1), of k "ir_api r"]] and nf = op_kindD(6) [OF assms(1), of k "ir_api r"]
  show "op_view view r' = op_view view r \<or> op_view view r' = put k None (op_view view r)"
    using assms(2) de(2) by (auto simp: deleteResource_def split: prod.splits option.splits)
  show "err = None \<Longrightarrow> get (op_view view r') k = None"
    using assms(2,3) de(1) nf by (auto simp: deleteResource_def split: prod.splits option.splits if_splits)
  show "ir_Instances r' = ir_Instances r"
    using assms(2) by (auto simp: deleteResource_def split: prod.splits option.splits)
qed

lemma op_client_okD:
  assumes "op_client_ok C view"
  shows "instance_ok (oc_Instance C) view"
    and "op_kind_ok (oc_Deployment C) dep_Meta same_deployment ov_Deployment
         (\<lambda>k x v. v\<lparr>ov_Deployment := (ov_Deployment v)(k := x)\<rparr>) view"
    and "op_kind_ok (oc_Service C) osv_Meta (\<lambda>x y. osv_Selector y = osv_Selector x) ov_Service
         (\<lambda>k x v. v\<lparr>ov_Service := (ov_Service v)(k := x)\<rparr>) view"
    and "op_kind_ok (oc_ServiceAccount C) (\<lambda>m. m) (=) ov_ServiceAccount
         (\<lambda>k x v. v\<lparr>ov_ServiceAccount := (ov_ServiceAccount v)(k := x)\<rparr>) view"
    and "op_kind_ok (oc_ClusterRole C) crole_Meta (=) ov_ClusterRole
         (\<lambda>k x v. v\<lparr>ov_ClusterRole := (ov_ClusterRole v)(k := x)\<rparr>) view"
    and "op_kind_ok (oc_ClusterRoleBinding C) crb_Meta (=) ov_ClusterRoleBinding
         (\<lambda>k x v. v\<lparr>ov_ClusterRoleBinding := (ov_ClusterRoleBinding v)(k := x)\<rparr>) view"
  using assms by (simp_all only: op_client_ok_def)

subsection \<open>Removing an instance\<close>

text \<open>
  The cluster without the objects a deletion removes. Role and binding have one name for all
  instances; the service account stays.
\<close>

definition undeployed :: "string \<Rightarrow> op_cluster \<Rightarrow> op_cluster" where
  "undeployed ns v = v\<lparr>
     ov_Deployment := (ov_Deployment v)(NamespacedName ns controlplane_Name := None, NamespacedName ns dataplane_Name := None),
     ov_Service := (ov_Service v)(NamespacedName ns controlplane_Name := None, NamespacedName ns dataplane_Name := None,
       NamespacedName ns IngressSvcName := None),
     ov_ClusterRole := (ov_ClusterRole v)(NamespacedName [] ClusterRoleName := None),
     ov_ClusterRoleBinding := (ov_ClusterRoleBinding v)(NamespacedName [] ClusterRoleName := None)\<rparr>"

lemma delete_step:
  assumes "op_client_ok C view"
  shows "deleteResource (oc_Deployment C) k r = (r', None) \<Longrightarrow>
      op_view view r' = (op_view view r)\<lparr>ov_Deployment := (ov_Deployment (op_view view r))(k := None)\<rparr>"
    and "deleteResource (oc_Service C) k r = (r', None) \<Longrightarrow>
      op_view view r' = (op_view view r)\<lparr>ov_Service := (ov_Service (op_view view r))(k := None)\<rparr>"
    and "deleteResource (oc_ClusterRole C) k r = (r', None) \<Longrightarrow>
      op_view view r' = (op_view view r)\<lparr>ov_ClusterRole := (ov_ClusterRole (op_view view r))(k := None)\<rparr>"
    and "deleteResource (oc_ClusterRoleBinding C) k r = (r', None) \<Longrightarrow>
      op_view view r' = (op_view view r)\<lparr>ov_ClusterRoleBinding := (ov_ClusterRoleBinding (op_view view r))(k := None)\<rparr>"
  using deleteResource_effect(1,2) [OF op_client_okD(2) [OF assms], of k r r' None]
    deleteResource_effect(1,2) [OF op_client_okD(3) [OF assms], of k r r' None]
    deleteResource_effect(1,2) [OF op_client_okD(5) [OF assms], of k r r' None]
    deleteResource_effect(1,2) [OF op_client_okD(6) [OF assms], of k r r' None]
  by (auto simp: fun_upd_idem)

lemma deleteClusterLink_ok:
  assumes "op_client_ok (oe_client E) view" and "deleteClusterLink E ns r = (r', None)"
  shows "op_view view r' = undeployed ns (op_view view r)"
  using assms(2) unfolding deleteClusterLink_def Let_def
  by (elim seqE_okE) (simp add: delete_step [OF assms(1)] undeployed_def fun_upd_twist)

lemma deleteClusterLink_frame:
  assumes "op_client_ok (oe_client E) view" and "deleteClusterLink E ns r = (r', err)"
  shows "ov_Instance (op_view view r') = ov_Instance (op_view view r)" and "ir_Instances r' = ir_Instances r"
proof -
  let ?P = "\<lambda>x. ov_Instance (op_view view x) = ov_Instance (op_view view r) \<and> ir_Instances x = ir_Instances r"
  have step: "?P (fst (deleteResource (oc_Deployment (oe_client E)) k x))" "?P (fst (deleteResource (oc_Service (oe_client E)) k x))"
    "?P (fst (deleteResource (oc_ClusterRole (oe_client E)) k x))" "?P (fst (deleteResource (oc_ClusterRoleBinding (oe_client E)) k x))"
    if "?P x" for k x
    using that deleteResource_effect(1,3) [OF op_client_okD(2) [OF assms(1)] surjective_pairing, of k x]
      deleteResource_effect(1,3) [OF op_client_okD(3) [OF assms(1)] surjective_pairing, of k x]
      deleteResource_effect(1,3) [OF op_client_okD(5) [OF assms(1)] surjective_pairing, of k x]
      deleteResource_effect(1,3) [OF op_client_okD(6) [OF assms(1)] surjective_pairing, of k x]
    by auto
  have "?P (fst (deleteClusterLink E ns r))" unfolding deleteClusterLink_def Let_def
    by (intro seqE_inv [where P = ?P] step) simp_all
  with assms(2) show "ov_Instance (op_view view r') = ov_Instance (op_view view r)" and "ir_Instances r' = ir_Instances r"
    by simp_all
qed

subsection \<open>Deploying an instance\<close>

text \<open>The objects of a deployed instance.\<close>

definition deployed :: "'s op_env \<Rightarrow> Instance \<Rightarrow> op_cluster \<Rightarrow> bool" where
  "deployed E instance v \<longleftrightarrow>
     (let ns = ins_Namespace (inst_Spec instance)
      in (\<exists>d. ov_Deployment v (NamespacedName ns controlplane_Name) = Some d
            \<and> same_deployment (controlplaneDeployment E (with_registry_slash instance)) d)
       \<and> (\<exists>d. ov_Deployment v (NamespacedName ns dataplane_Name) = Some d
            \<and> same_deployment (dataplaneDeployment (with_registry_slash instance)) d)
       \<and> ov_Service v (NamespacedName ns controlplane_Name) \<noteq> None
       \<and> (ing_Type (ins_Ingress (inst_Spec instance)) \<noteq> IngressTypeNone \<longrightarrow> ov_Service v (NamespacedName ns IngressSvcName) \<noteq> None)
       \<and> ov_ServiceAccount v (NamespacedName ns controlplane_Name) \<noteq> None
       \<and> ov_ClusterRole v (NamespacedName [] ClusterRoleName) \<noteq> None
       \<and> ov_ClusterRoleBinding v (NamespacedName [] ClusterRoleName) \<noteq> None)"

text \<open>The only objects an application of an instance's components may change.\<close>

definition apply_frame :: "string \<Rightarrow> op_cluster \<Rightarrow> op_cluster \<Rightarrow> bool" where
  "apply_frame ns v v' \<longleftrightarrow> ov_Instance v' = ov_Instance v
     \<and> (\<forall>k. k \<noteq> NamespacedName ns controlplane_Name \<and> k \<noteq> NamespacedName ns dataplane_Name \<longrightarrow> ov_Deployment v' k = ov_Deployment v k)
     \<and> (\<forall>k. ov_Service v k \<noteq> None \<or> k \<noteq> NamespacedName ns controlplane_Name \<and> k \<noteq> NamespacedName ns IngressSvcName \<longrightarrow>
          ov_Service v' k = ov_Service v k)
     \<and> (\<forall>k. ov_ServiceAccount v k \<noteq> None \<or> k \<noteq> NamespacedName ns controlplane_Name \<longrightarrow> ov_ServiceAccount v' k = ov_ServiceAccount v k)
     \<and> (\<forall>k. ov_ClusterRole v k \<noteq> None \<or> k \<noteq> NamespacedName [] ClusterRoleName \<longrightarrow> ov_ClusterRole v' k = ov_ClusterRole v k)
     \<and> (\<forall>k. ov_ClusterRoleBinding v k \<noteq> None \<or> k \<noteq> NamespacedName [] ClusterRoleName \<longrightarrow>
          ov_ClusterRoleBinding v' k = ov_ClusterRoleBinding v k)"

lemma apply_frame_refl [simp]: "apply_frame ns v v"
  by (simp add: apply_frame_def)

lemma apply_frame_trans: "apply_frame ns u v \<Longrightarrow> apply_frame ns v w \<Longrightarrow> apply_frame ns u w"
  unfolding apply_frame_def by (elim conjE, intro conjI allI impI) (auto | metis)+

lemma component_names [simp]:
  "controlplane_Name \<noteq> dataplane_Name" "controlplane_Name \<noteq> IngressSvcName" "dataplane_Name \<noteq> IngressSvcName"
  by (simp_all add: controlplane_Name_def dataplane_Name_def IngressSvcName_def)

lemma component_keys [simp]:
  "object_key (dep_Meta (controlplaneDeployment E i)) = NamespacedName (ins_Namespace (inst_Spec i)) controlplane_Name"
  "object_key (dep_Meta (dataplaneDeployment i)) = NamespacedName (ins_Namespace (inst_Spec i)) dataplane_Name"
  "object_key (osv_Meta (externalService i)) = NamespacedName (ins_Namespace (inst_Spec i)) IngressSvcName"
  "object_key (crole_Meta controlplaneClusterRole) = NamespacedName [] ClusterRoleName"
  "object_key (crb_Meta (controlplaneRoleBinding ns)) = NamespacedName [] ClusterRoleName"
  "object_key \<lparr>om_Name = n, om_Namespace = ns, om_Labels = l\<rparr> = NamespacedName ns n"
  by (simp_all add: controlplaneDeployment_def dataplaneDeployment_def externalService_def Let_def setDeployment_def
      object_key_def controlplaneClusterRole_def controlplaneRoleBinding_def)

lemma with_registry_slash_frame [simp]:
  "ins_Namespace (inst_Spec (with_registry_slash i)) = ins_Namespace (inst_Spec i)"
  "ins_Ingress (inst_Spec (with_registry_slash i)) = ins_Ingress (inst_Spec i)"
  by (simp_all add: with_registry_slash_def Let_def)

lemma apply_steps:
  assumes "op_client_ok (oe_client E) view"
  shows "createAccessControl E controlplane_Name ns r = (r', None) \<Longrightarrow> apply_frame ns (op_view view r) (op_view view r')
      \<and> ov_ServiceAccount (op_view view r') (NamespacedName ns controlplane_Name) \<noteq> None
      \<and> ov_ClusterRole (op_view view r') (NamespacedName [] ClusterRoleName) \<noteq> None
      \<and> ov_ClusterRoleBinding (op_view view r') (NamespacedName [] ClusterRoleName) \<noteq> None
      \<and> ov_Deployment (op_view view r') = ov_Deployment (op_view view r)"
    and "op_createService E controlplane_Name ns p r = (r', None) \<Longrightarrow> apply_frame ns (op_view view r) (op_view view r')
      \<and> ov_Service (op_view view r') (NamespacedName ns controlplane_Name) \<noteq> None
      \<and> ov_Deployment (op_view view r') = ov_Deployment (op_view view r)"
    and "createExternalService E i r = (r', None) \<Longrightarrow> apply_frame (ins_Namespace (inst_Spec i)) (op_view view r) (op_view view r')
      \<and> (ing_Type (ins_Ingress (inst_Spec i)) \<noteq> IngressTypeNone \<longrightarrow>
           ov_Service (op_view view r') (NamespacedName (ins_Namespace (inst_Spec i)) IngressSvcName) \<noteq> None)
      \<and> ov_Deployment (op_view view r') = ov_Deployment (op_view view r)"
    and "applyControlplane E i r = (r', None) \<Longrightarrow> apply_frame (ins_Namespace (inst_Spec i)) (op_view view r) (op_view view r')
      \<and> (\<exists>d. ov_Deployment (op_view view r') (NamespacedName (ins_Namespace (inst_Spec i)) controlplane_Name) = Some d
           \<and> same_deployment (controlplaneDeployment E i) d)"
    and "applyDataplane E i r = (r', None) \<Longrightarrow> apply_frame (ins_Namespace (inst_Spec i)) (op_view view r) (op_view view r')
      \<and> (\<exists>d. ov_Deployment (op_view view r') (NamespacedName (ins_Namespace (inst_Spec i)) dataplane_Name) = Some d
           \<and> same_deployment (dataplaneDeployment i) d)
      \<and> ov_Deployment (op_view view r') (NamespacedName (ins_Namespace (inst_Spec i)) controlplane_Name) =
          ov_Deployment (op_view view r) (NamespacedName (ins_Namespace (inst_Spec i)) controlplane_Name)"
proof -
  note sa = createResource_effect(2) [OF op_client_okD(4) [OF assms] _ refl]
    and cr = createResource_effect(2) [OF op_client_okD(5) [OF assms] _ refl]
    and crb = createResource_effect(2) [OF op_client_okD(6) [OF assms] _ refl]
    and svc = createResource_effect(2) [OF op_client_okD(3) [OF assms] _ refl]
    and dep = createOrUpdateResource_effect(2) [OF op_client_okD(2) [OF assms] _ _ refl]
  show "op_createService E controlplane_Name ns p r = (r', None) \<Longrightarrow> apply_frame ns (op_view view r) (op_view view r')
      \<and> ov_Service (op_view view r') (NamespacedName ns controlplane_Name) \<noteq> None
      \<and> ov_Deployment (op_view view r') = ov_Deployment (op_view view r)"
    unfolding op_createService_def by (drule svc) (auto simp: apply_frame_def)
  show "createExternalService E i r = (r', None) \<Longrightarrow> apply_frame (ins_Namespace (inst_Spec i)) (op_view view r) (op_view view r')
      \<and> (ing_Type (ins_Ingress (inst_Spec i)) \<noteq> IngressTypeNone \<longrightarrow>
           ov_Service (op_view view r') (NamespacedName (ins_Namespace (inst_Spec i)) IngressSvcName) \<noteq> None)
      \<and> ov_Deployment (op_view view r') = ov_Deployment (op_view view r)"
    unfolding createExternalService_def by (auto split: if_splits dest!: svc simp: apply_frame_def)
  show "applyControlplane E i r = (r', None) \<Longrightarrow> apply_frame (ins_Namespace (inst_Spec i)) (op_view view r) (op_view view r')
      \<and> (\<exists>d. ov_Deployment (op_view view r') (NamespacedName (ins_Namespace (inst_Spec i)) controlplane_Name) = Some d
           \<and> same_deployment (controlplaneDeployment E i) d)"
    unfolding applyControlplane_def by (drule dep) (auto simp: apply_frame_def)
  show "applyDataplane E i r = (r', None) \<Longrightarrow> apply_frame (ins_Namespace (inst_Spec i)) (op_view view r) (op_view view r')
      \<and> (\<exists>d. ov_Deployment (op_view view r') (NamespacedName (ins_Namespace (inst_Spec i)) dataplane_Name) = Some d
           \<and> same_deployment (dataplaneDeployment i) d)
      \<and> ov_Deployment (op_view view r') (NamespacedName (ins_Namespace (inst_Spec i)) controlplane_Name) =
          ov_Deployment (op_view view r) (NamespacedName (ins_Namespace (inst_Spec i)) controlplane_Name)"
    unfolding applyDataplane_def by (drule dep) (auto simp: apply_frame_def)
  show "createAccessControl E controlplane_Name ns r = (r', None) \<Longrightarrow> apply_frame ns (op_view view r) (op_view view r')
      \<and> ov_ServiceAccount (op_view view r') (NamespacedName ns controlplane_Name) \<noteq> None
      \<and> ov_ClusterRole (op_view view r') (NamespacedName [] ClusterRoleName) \<noteq> None
      \<and> ov_ClusterRoleBinding (op_view view r') (NamespacedName [] ClusterRoleName) \<noteq> None
      \<and> ov_Deployment (op_view view r') = ov_Deployment (op_view view r)"
    unfolding createAccessControl_def
    by (elim seqE_okE, drule sa, drule cr, drule crb) (auto simp: apply_frame_def)
qed

lemma apply_frame_keeps:
  assumes "apply_frame ns v w"
  shows "ov_Service v k \<noteq> None \<Longrightarrow> ov_Service w k \<noteq> None"
    and "ov_ServiceAccount v k \<noteq> None \<Longrightarrow> ov_ServiceAccount w k \<noteq> None"
    and "ov_ClusterRole v k \<noteq> None \<Longrightarrow> ov_ClusterRole w k \<noteq> None"
    and "ov_ClusterRoleBinding v k \<noteq> None \<Longrightarrow> ov_ClusterRoleBinding w k \<noteq> None"
  using assms unfolding apply_frame_def by auto

lemma applyClusterLink_ok:
  assumes ok: "op_client_ok (oe_client E) view" and run: "applyClusterLink E i r = (r', None)"
  shows "apply_frame (ins_Namespace (inst_Spec i)) (op_view view r) (op_view view r')" (is ?frame)
    and "deployed E i (op_view view r')" (is ?deployed)
proof -
  let ?i = "with_registry_slash i"
  obtain r1 r2 r3 r4 where steps:
      "createAccessControl E controlplane_Name (ins_Namespace (inst_Spec i)) r = (r1, None)"
      "op_createService E controlplane_Name (ins_Namespace (inst_Spec i)) controlplane_ListenPort r1 = (r2, None)"
      "applyControlplane E ?i r2 = (r3, None)" "applyDataplane E ?i r3 = (r4, None)" "createExternalService E ?i r4 = (r', None)"
    using run unfolding applyClusterLink_def Let_def with_registry_slash_frame by (elim seqE_okE) blast
  note s1 = apply_steps(1) [OF ok steps(1)] and s2 = apply_steps(2) [OF ok steps(2)]
    and s3 = apply_steps(4) [OF ok steps(3), simplified] and s4 = apply_steps(5) [OF ok steps(4), simplified]
    and s5 = apply_steps(3) [OF ok steps(5), simplified]
  note f45 = apply_frame_trans [OF s4 [THEN conjunct1] s5 [THEN conjunct1]]
  note f35 = apply_frame_trans [OF s3 [THEN conjunct1] f45]
  note f25 = apply_frame_trans [OF s2 [THEN conjunct1] f35]
  show ?frame by (rule apply_frame_trans [OF s1 [THEN conjunct1] f25])
  show ?deployed unfolding deployed_def Let_def
    using s1 s2 s3 s4 s5 apply_frame_keeps [OF f25] apply_frame_keeps [OF f35] by simp
qed

subsection \<open>The status and the finalizer of an instance\<close>

abbreviation inst_key :: "Instance \<Rightarrow> NamespacedName" where
  "inst_key i \<equiv> object_key (inst_Meta i)"

text \<open>Only the instance under \<open>k\<close> may differ, and its metadata and specification do not.\<close>

definition instance_step :: "NamespacedName \<Rightarrow> op_cluster \<Rightarrow> op_cluster \<Rightarrow> bool" where
  "instance_step k v v' \<longleftrightarrow> (\<exists>f. v' = v\<lparr>ov_Instance := (ov_Instance v)(k := map_option f (ov_Instance v k))\<rparr>
     \<and> (\<forall>y. inst_Meta (f y) = inst_Meta y \<and> inst_Spec (f y) = inst_Spec y \<and> inst_Deleting (f y) = inst_Deleting y
          \<and> inst_Finalizers (f y) = inst_Finalizers y))"

lemma instance_step_refl [simp]: "instance_step k v v"
  unfolding instance_step_def by (rule exI [of _ "\<lambda>y. y"]) (simp add: option.map_ident)

lemma instance_okD:
  assumes "op_client_ok C view"
  shows "k_Get (oc_Instance C) k s = Inr x \<Longrightarrow> ov_Instance (view s) k = Some x \<and> inst_key x = k"
    and "k_List (oc_Instance C) sel ns s = Inr xs \<Longrightarrow>
      set xs = {x. ov_Instance (view s) (inst_key x) = Some x \<and> selected sel ns (inst_Meta x)}"
    and "write_law (\<lambda>s s'. view s' = view s)
          (\<lambda>s s'. \<exists>y. ov_Instance (view s) (inst_key x) = Some y
             \<and> view s' = (view s)\<lparr>ov_Instance := (ov_Instance (view s))(inst_key x :=
                 if inst_Deleting y \<and> inst_Finalizers x = [] then None else Some (x\<lparr>inst_Status := inst_Status y\<rparr>))\<rparr>)
          s (k_Update (oc_Instance C) x s)"
    and "write_law (\<lambda>s s'. view s' = view s)
          (\<lambda>s s'. \<exists>y. ov_Instance (view s) (inst_key x) = Some y
             \<and> view s' = (view s)\<lparr>ov_Instance := (ov_Instance (view s))(inst_key x \<mapsto> y\<lparr>inst_Status := inst_Status x\<rparr>)\<rparr>)
          s (k_StatusUpdate (oc_Instance C) x s)"
proof -
  note ok = op_client_okD(1) [OF assms, unfolded instance_ok_def]
  have "case k_Get (oc_Instance C) k s of Inr x \<Rightarrow> ov_Instance (view s) k = Some x \<and> inst_key x = k
     | Inl e \<Rightarrow> IsNotFound e \<longrightarrow> ov_Instance (view s) k = None" using ok by (simp only:)
  then show "k_Get (oc_Instance C) k s = Inr x \<Longrightarrow> ov_Instance (view s) k = Some x \<and> inst_key x = k" by simp
qed (use op_client_okD(1) [OF assms] in \<open>simp_all only: instance_ok_def\<close>)

lemma instance_not_found:
  assumes "op_client_ok C view" and "k_Get (oc_Instance C) k s = Inl e" and "IsNotFound e"
  shows "ov_Instance (view s) k = None"
proof -
  have "case k_Get (oc_Instance C) k s of Inr x \<Rightarrow> ov_Instance (view s) k = Some x \<and> inst_key x = k
     | Inl e \<Rightarrow> IsNotFound e \<longrightarrow> ov_Instance (view s) k = None"
    using op_client_okD(1) [OF assms(1)] by (simp only: instance_ok_def)
  with assms(2,3) show ?thesis by simp
qed

lemma update_status_effect:
  assumes "op_client_ok (oe_client E) view" and "update_status E i r = (r', err)"
  shows "instance_step (inst_key i) (op_view view r) (op_view view r')" and "ir_Instances r' = ir_Instances r"
    and "err = None \<Longrightarrow> \<exists>y. ov_Instance (op_view view r) (inst_key i) = Some y
           \<and> ov_Instance (op_view view r') (inst_key i) = Some (y\<lparr>inst_Status := inst_Status i\<rparr>)"
proof -
  note w = write_lawD [OF instance_okD(4) [OF assms(1), of i "ir_api r"]]
  have r': "r' = r\<lparr>ir_api := fst (k_StatusUpdate (oc_Instance (oe_client E)) i (ir_api r))\<rparr>"
    "err = map_option api (snd (k_StatusUpdate (oc_Instance (oe_client E)) i (ir_api r)))"
    using assms(2) by (auto simp: update_status_def op_write_def split: prod.splits)
  show "instance_step (inst_key i) (op_view view r) (op_view view r')"
  proof (cases "op_view view r' = op_view view r")
    case False
    with w(2) show ?thesis unfolding instance_step_def
      by (intro exI [of _ "\<lambda>y. y\<lparr>inst_Status := inst_Status i\<rparr>"]) (auto simp: r')
  qed simp
  show "ir_Instances r' = ir_Instances r" by (simp add: r')
  show "err = None \<Longrightarrow> \<exists>y. ov_Instance (op_view view r) (inst_key i) = Some y
           \<and> ov_Instance (op_view view r') (inst_key i) = Some (y\<lparr>inst_Status := inst_Status i\<rparr>)"
    using w(1) by (auto simp: r')
qed

lemma check_frame:
  "checkControlplaneStatus E i s = Inr (u, i') \<Longrightarrow> \<exists>st. i' = i\<lparr>inst_Status := st\<rparr>"
  "checkDataplaneStatus E i s = Inr (u, i') \<Longrightarrow> \<exists>st. i' = i\<lparr>inst_Status := st\<rparr>"
  "checkIngressStatus E i s = Inr (Inr (u, i')) \<Longrightarrow> \<exists>st. i' = i\<lparr>inst_Status := st\<rparr>"
  by (auto simp: checkControlplaneStatus_def checkDataplaneStatus_def checkIngressStatus_def set_controlplane_def
      set_dataplane_def Let_def split: sum.splits prod.splits)

lemma checkStatus_effect:
  assumes ok: "op_client_ok (oe_client E) view" and run: "checkStatus E i r = (r', res)"
  shows "instance_step (inst_key i) (op_view view r) (op_view view r') \<and> ir_Instances r' = ir_Instances r
     \<and> (\<forall>i'. res = Inr (Inr i') \<longrightarrow> (\<exists>st. i' = i\<lparr>inst_Status := st\<rparr>))"
proof (cases "ir_api r' = ir_api r \<and> ir_Instances r' = ir_Instances r")
  case True then show ?thesis
    using run by (auto simp: checkStatus_def dest!: check_frame split: sum.splits prod.splits if_splits option.splits)
next
  case False
  then obtain i' st e where "update_status E i' r = (r', e)" "i' = i\<lparr>inst_Status := st\<rparr>" "\<forall>i''. res = Inr (Inr i'') \<longrightarrow> i'' = i'"
    using run by (auto simp: checkStatus_def dest!: check_frame split: sum.splits prod.splits if_splits option.splits)
  then show ?thesis using update_status_effect(1,2) [OF ok, of i' r r' e] by auto
qed

lemma createFinalizer_ok:
  assumes "op_client_ok (oe_client E) view" and "ov_Instance (op_view view r) (inst_key i) = Some i" and "\<not> inst_Deleting i"
    and "createFinalizer E i r = (i', r', None)"
  shows "inst_Meta i' = inst_Meta i" and "inst_Spec i' = inst_Spec i" and "ir_Instances r' = ir_Instances r"
    and "FinalizerName \<in> set (inst_Finalizers i')"
    and "op_view view r' = (op_view view r)\<lparr>ov_Instance := (ov_Instance (op_view view r))(inst_key i \<mapsto> i')\<rparr>"
  using assms(2-4) write_lawD(1) [OF instance_okD(3) [OF assms(1)], of "i\<lparr>inst_Finalizers := inst_Finalizers i @ [FinalizerName]\<rparr>" "ir_api r"]
  by (auto simp: createFinalizer_def op_write_def Let_def fun_upd_idem split: if_splits prod.splits)

lemma deployed_spec: "inst_Spec i = inst_Spec j \<Longrightarrow> deployed E i = deployed E j"
  by (auto simp: fun_eq_iff deployed_def Let_def with_registry_slash_def controlplaneDeployment_def controlplane_args_def
      dataplaneDeployment_def)

text \<open>What a successful request for an instance leaves in the cluster.\<close>

definition instance_deployed_to :: "'s op_env \<Rightarrow> Instance \<Rightarrow> op_cluster \<Rightarrow> op_cluster \<Rightarrow> bool" where
  "instance_deployed_to E i v v' \<longleftrightarrow> deployed E i v'
     \<and> (\<exists>j. ov_Instance v' = (ov_Instance v)(inst_key i \<mapsto> j) \<and> inst_Meta j = inst_Meta i \<and> inst_Spec j = inst_Spec i
          \<and> FinalizerName \<in> set (inst_Finalizers j))
     \<and> apply_frame (ins_Namespace (inst_Spec i)) (v\<lparr>ov_Instance := ov_Instance v'\<rparr>) v'"

lemma deployInstance_ok:
  assumes ok: "op_client_ok (oe_client E) view" and i: "ov_Instance (op_view view r) (inst_key i) = Some i" "\<not> inst_Deleting i"
    and run: "deployInstance E i r = (r', res)" "res = Done \<or> res = Requeue"
  shows "instance_deployed_to E i (op_view view r) (op_view view r')"
proof -
  obtain i1 r1 r2 i2 where steps: "createFinalizer E i r = (i1, r1, None)" "checkStatus E i1 r1 = (r2, Inr (Inr i2))"
      "applyClusterLink E i2 r2 = (r', None)"
    using run by (auto simp: deployInstance_def split: prod.splits option.splits sum.splits)
  note c = createFinalizer_ok [OF ok i steps(1)]
  obtain st where i2: "i2 = i1\<lparr>inst_Status := st\<rparr>" and step: "instance_step (inst_key i) (op_view view r1) (op_view view r2)"
    using checkStatus_effect [OF ok steps(2)] c(1) by auto
  then obtain j where j: "op_view view r2 = (op_view view r)\<lparr>ov_Instance := (ov_Instance (op_view view r))(inst_key i \<mapsto> j)\<rparr>"
      "inst_Meta j = inst_Meta i" "inst_Spec j = inst_Spec i" "FinalizerName \<in> set (inst_Finalizers j)"
    using c unfolding instance_step_def by auto
  have spec: "inst_Spec i2 = inst_Spec i" using i2 c(2) by simp
  note a = applyClusterLink_ok [OF ok steps(3)]
  have inst: "ov_Instance (op_view view r') = (ov_Instance (op_view view r))(inst_key i \<mapsto> j)"
    using a(1) j(1) by (simp add: apply_frame_def)
  then show ?thesis unfolding instance_deployed_to_def using a deployed_spec [OF spec, of E] j by (auto simp: spec)
qed

subsection \<open>Deletion and handover\<close>

definition removed :: "Instance \<Rightarrow> op_cluster \<Rightarrow> op_cluster" where
  "removed i v = (undeployed (ins_Namespace (inst_Spec i)) v)\<lparr>ov_Instance := (ov_Instance v)(inst_key i := None)\<rparr>"

lemma remove_ok:
  assumes ok: "op_client_ok (oe_client E) view" and i: "ov_Instance (op_view view r) (inst_key i) = Some i" "inst_Deleting i"
      "set (inst_Finalizers i) \<subseteq> {FinalizerName}"
    and run: "seqE (deleteClusterLink E (ins_Namespace (inst_Spec i))) (deleteFinalizer E i) r = (r', None)"
  shows "op_view view r' = removed i (op_view view r)" and "ir_Instances r' = ir_Instances r"
proof -
  obtain r1 where d: "deleteClusterLink E (ins_Namespace (inst_Spec i)) r = (r1, None)" and f: "deleteFinalizer E i r1 = (r', None)"
    using run by (rule seqE_okE)
  note v1 = deleteClusterLink_ok [OF ok d] and fr = deleteClusterLink_frame [OF ok d]
  have none: "filter (\<lambda>f. f \<noteq> FinalizerName) (inst_Finalizers i) = []" using i(3) by (auto simp: filter_empty_conv)
  show "op_view view r' = removed i (op_view view r)"
    using f write_lawD(1) [OF instance_okD(3) [OF ok, of "i\<lparr>inst_Finalizers := []\<rparr>" "ir_api r1"]] i fr
    by (auto simp: deleteFinalizer_def op_write_def none v1 removed_def undeployed_def split: prod.splits)
  show "ir_Instances r' = ir_Instances r"
    using f fr(2) by (auto simp: deleteFinalizer_def op_write_def split: prod.splits)
qed

definition waits_for :: "string \<Rightarrow> string \<Rightarrow> Instance \<Rightarrow> bool" where
  "waits_for name ns j \<longleftrightarrow> ins_Namespace (inst_Spec j) = ns \<and> om_Name (inst_Meta j) \<noteq> name"

lemma earliestInstance_fold:
  assumes "fold (\<lambda>i earliest.
       if ins_Namespace (inst_Spec i) = ns \<and> om_Name (inst_Meta i) \<noteq> name
       then (case earliest of
               None \<Rightarrow> Some i
             | Some e \<Rightarrow> if inst_CreationTimestamp i < inst_CreationTimestamp e then Some i else Some e)
       else earliest) items e = r"
  shows "case r of None \<Rightarrow> e = None \<and> (\<forall>i \<in> set items. \<not> waits_for name ns i)
     | Some j \<Rightarrow> (Some j = e \<or> j \<in> set items \<and> waits_for name ns j)
         \<and> (\<forall>i. Some i = e \<or> i \<in> set items \<and> waits_for name ns i \<longrightarrow> inst_CreationTimestamp j \<le> inst_CreationTimestamp i)"
  using assms
proof (induction items arbitrary: e)
  case Nil then show ?case by (simp split: option.split)
next
  case (Cons i items)
  from Cons.IH [OF Cons.prems [unfolded fold_simps]] show ?case
    by (fastforce simp: waits_for_def split: option.splits if_splits)
qed

lemmas earliestInstance_spec = earliestInstance_fold [where e = None, folded earliestInstance_def, simplified]

subsection \<open>Requests\<close>

text \<open>The namespace of the instance is free or already taken by the instance.\<close>

definition admitted :: "Instance \<Rightarrow> (string, string) gomap \<Rightarrow> bool" where
  "admitted i m \<longleftrightarrow> (case mget m (ins_Namespace (inst_Spec i)) of Some other \<Rightarrow> other = om_Name (inst_Meta i) | None \<Rightarrow> True)"

definition claim :: "Instance \<Rightarrow> (string, string) gomap \<Rightarrow> (string, string) gomap" where
  "claim i m = (if mget m (ins_Namespace (inst_Spec i)) = None then mput (ins_Namespace (inst_Spec i)) (om_Name (inst_Meta i)) m else m)"

lemma mget_claim: "admitted i m \<Longrightarrow> mget (claim i m) (ins_Namespace (inst_Spec i)) = Some (om_Name (inst_Meta i))"
  by (auto simp: admitted_def claim_def split: option.splits)

lemma resource_Instances [simp]:
  "ir_Instances (fst (createResource A om x r)) = ir_Instances r"
  "ir_Instances (fst (createOrUpdateResource B y r)) = ir_Instances r"
  "ir_Instances (fst (deleteResource C k r)) = ir_Instances r"
  "ir_Instances (fst (op_write f r)) = ir_Instances r"
  by (auto simp: createResource_def createOrUpdateResource_def deleteResource_def op_write_def
      split: sum.splits if_splits prod.splits option.splits)

lemma applyClusterLink_Instances: "ir_Instances (fst (applyClusterLink E i r)) = ir_Instances r"
proof -
  let ?P = "\<lambda>x. ir_Instances x = ir_Instances r"
  show ?thesis unfolding applyClusterLink_def createAccessControl_def Let_def
    by (intro seqE_inv [where P = ?P])
      (auto simp: op_createService_def applyControlplane_def applyDataplane_def createExternalService_def)
qed

lemma deployInstance_Instances:
  assumes "deployInstance E i r = (r', res)"
  shows "ir_Instances r' = ir_Instances r"
proof -
  have fin: "createFinalizer E i r = (j, x, e) \<Longrightarrow> ir_Instances x = ir_Instances r" for j x e
    by (auto simp: createFinalizer_def Let_def op_write_def split: if_splits prod.splits)
  have upd: "update_status E j x = (x', e) \<Longrightarrow> ir_Instances x' = ir_Instances x" for j x x' e
    by (auto simp: update_status_def op_write_def split: prod.splits)
  have chk: "checkStatus E j x = (x', e) \<Longrightarrow> ir_Instances x' = ir_Instances x" for j x x' e
    by (auto simp: checkStatus_def dest: upd split: sum.splits prod.splits option.splits if_splits)
  have app: "applyClusterLink E j x = (x', e) \<Longrightarrow> ir_Instances x' = ir_Instances x" for j x x' e
    using applyClusterLink_Instances [of E j x] by simp
  show ?thesis using assms
    by (auto simp: deployInstance_def dest!: fin chk app split: prod.splits option.splits sum.splits)
qed

lemma op_Reconcile_deploy:
  assumes "k_Get (oc_Instance (oe_client E)) req (ir_api r) = Inr i" and "admitted i (ir_Instances r)" and "\<not> inst_Deleting i"
  shows "op_Reconcile (Suc fuel) E req r = Some (deployInstance E i (r\<lparr>ir_Instances := claim i (ir_Instances r)\<rparr>))"
  using assms by (auto simp: admitted_def claim_def Let_def split: option.splits)

lemma op_Reconcile_deployed:
  assumes ok: "op_client_ok (oe_client E) view" and get: "k_Get (oc_Instance (oe_client E)) req (ir_api r) = Inr i"
    and adm: "admitted i (ir_Instances r)" and live: "\<not> inst_Deleting i"
    and run: "op_Reconcile (Suc fuel) E req r = Some (r', res)" "res = Done \<or> res = Requeue"
  shows "instance_deployed_to E i (op_view view r) (op_view view r')"
    and "ir_Instances r' = claim i (ir_Instances r)"
proof -
  let ?r = "r\<lparr>ir_Instances := claim i (ir_Instances r)\<rparr>"
  have d: "deployInstance E i ?r = (r', res)" using run(1) unfolding op_Reconcile_deploy [OF get adm live] by simp
  show "instance_deployed_to E i (op_view view r) (op_view view r')"
    using deployInstance_ok [OF ok _ live d run(2)] instance_okD(1) [OF ok get] by simp
  show "ir_Instances r' = claim i (ir_Instances r)" using deployInstance_Instances [OF d] by simp
qed

lemma updateCondition_single:
  assumes "updateCondition [c] conds = (conds', u)" and "cond_Status c = ConditionFalse"
  shows "\<exists>c'. mget conds' (cond_Type c) = Some c' \<and> cond_Status c' = ConditionFalse" and "\<not> u \<Longrightarrow> conds' = conds"
  using assms by (auto simp: Let_def split: option.splits if_splits)

lemma op_Reconcile_rejected:
  assumes ok: "op_client_ok (oe_client E) view" and get: "k_Get (oc_Instance (oe_client E)) req (ir_api r) = Inr i"
    and adm: "\<not> admitted i (ir_Instances r)" and run: "op_Reconcile (Suc fuel) E req r = Some (r', res)"
  shows "instance_step (inst_key i) (op_view view r) (op_view view r')" and "ir_Instances r' = ir_Instances r"
    and "res = Done \<Longrightarrow> \<exists>j cp dp. ov_Instance (op_view view r') req = Some j
          \<and> mget (cs_Conditions (ins_Controlplane (inst_Status j))) DeploymentReady = Some cp \<and> cond_Status cp = ConditionFalse
          \<and> mget (cs_Conditions (ins_Dataplane (inst_Status j))) DeploymentReady = Some dp \<and> cond_Status dp = ConditionFalse"
proof -
  let ?c = "status_condition E DeploymentReady ConditionFalse StatusModeNotExist []"
  obtain cp cu where cp: "updateCondition [?c] (cs_Conditions (ins_Controlplane (inst_Status i))) = (cp, cu)" by fastforce
  obtain dp du where dp: "updateCondition [?c] (cs_Conditions (ins_Dataplane (inst_Status i))) = (dp, du)" by fastforce
  obtain err where u: "updateFailureStatus E i r = (r', err)" and res: "res = (case err of Some e \<Rightarrow> Failed e | None \<Rightarrow> Done)"
    using run get adm by (auto simp: admitted_def Let_def split: option.splits prod.splits)
  let ?i = "set_dataplane dp (set_controlplane cp i)"
  have eff: "update_status E ?i r = (r', err) \<or> \<not> (cu \<or> du) \<and> r' = r \<and> err = None"
    using u by (auto simp: updateFailureStatus_def cp dp simp del: updateCondition.simps split: if_splits)
  have key: "inst_key ?i = inst_key i" by (simp add: set_dataplane_def set_controlplane_def)
  show "instance_step (inst_key i) (op_view view r) (op_view view r')" and "ir_Instances r' = ir_Instances r"
    using eff update_status_effect(1,2) [OF ok, of ?i r r' err] key by auto
  have upd: "\<exists>c'. mget cp DeploymentReady = Some c' \<and> cond_Status c' = ConditionFalse"
    "\<exists>c'. mget dp DeploymentReady = Some c' \<and> cond_Status c' = ConditionFalse"
    using updateCondition_single(1) [OF cp] updateCondition_single(1) [OF dp] by (simp_all add: status_condition_def)
  have st: "ov_Instance (op_view view r') req = Some (j :: Instance) \<Longrightarrow> inst_Status j = inst_Status ?i \<Longrightarrow> \<exists>j cp dp.
      ov_Instance (op_view view r') req = Some j
      \<and> mget (cs_Conditions (ins_Controlplane (inst_Status j))) DeploymentReady = Some cp \<and> cond_Status cp = ConditionFalse
      \<and> mget (cs_Conditions (ins_Dataplane (inst_Status j))) DeploymentReady = Some dp \<and> cond_Status dp = ConditionFalse" for j
    using upd by (auto simp: set_dataplane_def set_controlplane_def)
  have keep: "inst_Status ?i = inst_Status i" if "\<not> (cu \<or> du)"
    using updateCondition_single(2) [OF cp] updateCondition_single(2) [OF dp] that
    by (simp add: set_dataplane_def set_controlplane_def status_condition_def)
  show "res = Done \<Longrightarrow> \<exists>j cp dp. ov_Instance (op_view view r') req = Some j
          \<and> mget (cs_Conditions (ins_Controlplane (inst_Status j))) DeploymentReady = Some cp \<and> cond_Status cp = ConditionFalse
          \<and> mget (cs_Conditions (ins_Dataplane (inst_Status j))) DeploymentReady = Some dp \<and> cond_Status dp = ConditionFalse"
    using eff update_status_effect(3) [OF ok, of ?i r r' err] instance_okD(1) [OF ok get] key res st keep
    by (auto split: option.splits simp del: updateCondition.simps)
qed

text \<open>The instances of the operator's namespace that wait for the namespace \<open>i\<close> holds.\<close>

definition waiting :: "Instance \<Rightarrow> op_cluster \<Rightarrow> Instance set" where
  "waiting i v = {j. ov_Instance v (inst_key j) = Some j \<and> om_Namespace (inst_Meta j) = OperatorNamespace
     \<and> waits_for (om_Name (inst_Meta i)) (ins_Namespace (inst_Spec i)) j}"

lemma waiting_removed: "waiting i (removed i v) = waiting i v"
  by (auto simp: waiting_def removed_def waits_for_def object_key_def)

lemma op_Reconcile_deleteE:
  assumes ok: "op_client_ok (oe_client E) view" and get: "k_Get (oc_Instance (oe_client E)) req (ir_api r) = Inr i"
    and adm: "admitted i (ir_Instances r)" and del: "inst_Deleting i" and fin: "set (inst_Finalizers i) \<subseteq> {FinalizerName}"
  obtains (failed) r' err where "op_Reconcile (Suc fuel) E req r = Some (r', Failed err)"
    | (last) r3 where "op_Reconcile (Suc fuel) E req r = Some (r3, Done)" and "op_view view r3 = removed i (op_view view r)"
        and "ir_Instances r3 = mdel (ins_Namespace (inst_Spec i)) (claim i (ir_Instances r))" and "waiting i (op_view view r) = {}"
    | (handover) r3 j where "op_Reconcile (Suc fuel) E req r =
          map_option (\<lambda>(r4, res). (r4, if res = Requeue then Done else res)) (op_Reconcile fuel E (inst_key j) r3)"
        and "op_view view r3 = removed i (op_view view r)"
        and "ir_Instances r3 = mdel (ins_Namespace (inst_Spec i)) (claim i (ir_Instances r))" and "j \<in> waiting i (op_view view r)"
        and "\<forall>j' \<in> waiting i (op_view view r). inst_CreationTimestamp j \<le> inst_CreationTimestamp j'"
proof -
  let ?ns = "ins_Namespace (inst_Spec i)" and ?r = "r\<lparr>ir_Instances := claim i (ir_Instances r)\<rparr>"
  obtain r2 e where d: "seqE (deleteClusterLink E ?ns) (deleteFinalizer E i) ?r = (r2, e)" by fastforce
  let ?r3 = "r2\<lparr>ir_Instances := mdel ?ns (ir_Instances r2)\<rparr>"
  have run: "op_Reconcile (Suc fuel) E req r = (case e of Some err \<Rightarrow> Some (r2, Failed err) | None \<Rightarrow>
      (case k_List (oc_Instance (oe_client E)) [] (Some OperatorNamespace) (ir_api ?r3) of
         Inl err \<Rightarrow> Some (?r3, Failed (api err))
       | Inr items \<Rightarrow> (case earliestInstance (om_Name (inst_Meta i)) ?ns items of
           None \<Rightarrow> Some (?r3, Done)
         | Some j \<Rightarrow> map_option (\<lambda>(r4, res). (r4, if res = Requeue then Done else res)) (op_Reconcile fuel E (inst_key j) ?r3))))"
    using get adm del d by (auto simp: admitted_def claim_def Let_def split: option.splits)
  have i: "ov_Instance (op_view view ?r) (inst_key i) = Some i" using instance_okD(1) [OF ok get] by simp
  show thesis
  proof (cases "e = None \<and> (\<exists>items. k_List (oc_Instance (oe_client E)) [] (Some OperatorNamespace) (ir_api ?r3) = Inr items)")
    case False
    then show thesis using run failed
      by (cases "k_List (oc_Instance (oe_client E)) [] (Some OperatorNamespace) (ir_api ?r3)") (auto split: option.splits)
  next
    case True
    then obtain items where l: "e = None" "k_List (oc_Instance (oe_client E)) [] (Some OperatorNamespace) (ir_api ?r3) = Inr items"
      by auto
    have view: "op_view view ?r3 = removed i (op_view view r)" "ir_Instances ?r3 = mdel ?ns (claim i (ir_Instances r))"
      using remove_ok [OF ok i del fin, of r2] d l(1) by simp_all
    have items: "j \<in> set items \<and> waits_for (om_Name (inst_Meta i)) ?ns j \<longleftrightarrow> j \<in> waiting i (op_view view r)" for j
      by (subst waiting_removed [symmetric], subst view(1) [symmetric])
        (auto simp: instance_okD(2) [OF ok l(2)] selected_def has_labels_def waiting_def)
    show thesis
    proof (cases "earliestInstance (om_Name (inst_Meta i)) ?ns items")
      case None
      have "waiting i (op_view view r) = {}" using earliestInstance_spec [OF None] items by auto
      then show thesis using run l None last [OF _ view] by simp
    next
      case (Some j)
      show thesis using run l Some earliestInstance_spec [OF Some] items handover [OF _ view, of j] by auto
    qed
  qed
qed

lemma op_Reconcile_handover:
  assumes ok: "op_client_ok (oe_client E) view" and get: "k_Get (oc_Instance (oe_client E)) req (ir_api r) = Inr i"
    and "admitted i (ir_Instances r)" and "inst_Deleting i" and "set (inst_Finalizers i) \<subseteq> {FinalizerName}"
    and some: "waiting i (op_view view r) \<noteq> {}" and live: "\<forall>j \<in> waiting i (op_view view r). \<not> inst_Deleting j"
    and run: "op_Reconcile fuel E req r = Some (r', Done)"
  shows "\<exists>j \<in> waiting i (op_view view r). (\<forall>j' \<in> waiting i (op_view view r). inst_CreationTimestamp j \<le> inst_CreationTimestamp j')
    \<and> instance_deployed_to E j (removed i (op_view view r)) (op_view view r')
    \<and> mget (ir_Instances r') (ins_Namespace (inst_Spec i)) = Some (om_Name (inst_Meta j))"
proof -
  obtain n where n: "fuel = Suc n" using run by (cases fuel) auto
  show ?thesis using ok get assms(3-5)
  proof (cases rule: op_Reconcile_deleteE [where fuel = n])
    case (handover r3 j)
    then obtain res m where res: "op_Reconcile (Suc m) E (inst_key j) r3 = Some (r', res)" "res = Done \<or> res = Requeue"
      using run unfolding n by (cases n) (auto split: if_splits simp del: op_Reconcile.simps(2))
    have j: "ov_Instance (op_view view r3) (inst_key j) = Some j" "ins_Namespace (inst_Spec j) = ins_Namespace (inst_Spec i)"
      using handover(2,4) waiting_removed [of i "op_view view r"] by (auto simp: waiting_def waits_for_def)
    have g: "k_Get (oc_Instance (oe_client E)) (inst_key j) (ir_api r3) = Inr j"
    proof (cases "k_Get (oc_Instance (oe_client E)) (inst_key j) (ir_api r3)")
      case (Inl e)
      then have "\<not> IsNotFound e" using instance_not_found [OF ok] j(1) by fastforce
      with Inl res show ?thesis by auto
    next
      case (Inr x) with instance_okD(1) [OF ok Inr, THEN conjunct1] j(1) show ?thesis by simp
    qed
    have a: "admitted j (ir_Instances r3)" by (simp add: admitted_def j(2) handover(3))
    show ?thesis
      using op_Reconcile_deployed [OF ok g a _ res] mget_claim [OF a] live handover j(2) by auto
  next
    case (failed r4 err) with run show ?thesis unfolding n by (simp del: op_Reconcile.simps)
  next
    case (last r3) with some show ?thesis by (simp del: op_Reconcile.simps)
  qed
qed

text \<open>Each further request finds one instance less.\<close>

lemma op_Reconcile_returns:
  assumes ok: "op_client_ok (oe_client E) view" and "finite (dom (ov_Instance (op_view view r)))"
    and "\<forall>i \<in> ran (ov_Instance (op_view view r)). set (inst_Finalizers i) \<subseteq> {FinalizerName}"
    and "card (dom (ov_Instance (op_view view r))) < fuel"
  shows "op_Reconcile fuel E req r \<noteq> None"
  using assms(2-4)
proof (induction fuel arbitrary: req r)
  case (Suc fuel)
  show ?case
  proof (cases "k_Get (oc_Instance (oe_client E)) req (ir_api r)")
    case (Inl e) then show ?thesis by simp
  next
    case (Inr i)
    note i = instance_okD(1) [OF ok Inr]
    have fin: "set (inst_Finalizers i) \<subseteq> {FinalizerName}" using Suc.prems(2) i by (blast intro: ranI)
    show ?thesis
    proof (cases "admitted i (ir_Instances r) \<and> inst_Deleting i")
      case False
      then show ?thesis using Inr op_Reconcile_deploy [OF Inr]
        by (cases "admitted i (ir_Instances r)") (auto simp: admitted_def split: option.splits prod.splits)
    next
      case True
      from ok Inr this [THEN conjunct1] this [THEN conjunct2] fin show ?thesis
      proof (cases rule: op_Reconcile_deleteE [where fuel = fuel])
        case (handover r3 j)
        have v: "ov_Instance (op_view view r3) = (ov_Instance (op_view view r))(req := None)"
          using handover(2) i by (simp add: removed_def)
        have "dom (ov_Instance (op_view view r3)) \<subset> dom (ov_Instance (op_view view r))" using i [THEN conjunct1] unfolding v by auto
        then have "card (dom (ov_Instance (op_view view r3))) < fuel"
          by (rule less_le_trans [OF psubset_card_mono [OF Suc.prems(1)] Suc.prems(3) [unfolded less_Suc_eq_le]])
        moreover have "finite (dom (ov_Instance (op_view view r3)))" using Suc.prems(1) by (simp add: v)
        moreover have "ran (ov_Instance (op_view view r3)) \<subseteq> ran (ov_Instance (op_view view r))"
          unfolding v by (auto simp: ran_def split: if_splits)
        ultimately have "op_Reconcile fuel E (inst_key j) r3 \<noteq> None"
          using Suc.prems(2) by (intro Suc.IH) blast+
        then show ?thesis using handover(1) by (auto simp del: op_Reconcile.simps)
      qed (auto simp del: op_Reconcile.simps)
    qed
  qed
qed simp

subsection \<open>A client in memory\<close>

record op_mem =
  opm_Instance :: "(NamespacedName, Instance) gomap"
  opm_Deployment :: "(NamespacedName, Deployment) gomap"
  opm_Service :: "(NamespacedName, op_Service) gomap"
  opm_ServiceAccount :: "(NamespacedName, ObjectMeta) gomap"
  opm_ClusterRole :: "(NamespacedName, ClusterRole) gomap"
  opm_ClusterRoleBinding :: "(NamespacedName, ClusterRoleBinding) gomap"

definition opm_instances :: "(op_mem, Instance) kind_api" where
  "opm_instances = (mem_kind opm_Instance (\<lambda>l. opm_Instance_update (\<lambda>_. l)) inst_Meta
       (\<lambda>y x. x) (\<lambda>y x. y\<lparr>inst_Status := inst_Status x\<rparr>))\<lparr>
     k_Update := (\<lambda>x s. case mread inst_Meta (opm_Instance s) (inst_key x) of
         None \<Rightarrow> (s, Some (NotFound, ''not found''))
       | Some y \<Rightarrow> (s\<lparr>opm_Instance := if inst_Deleting y \<and> inst_Finalizers x = [] then mdel (inst_key x) (opm_Instance s)
             else mput (inst_key x) (x\<lparr>inst_Status := inst_Status y\<rparr>) (opm_Instance s)\<rparr>, None))\<rparr>"

definition opm_client :: "op_mem op_client" where
  "opm_client = \<lparr>oc_Instance = opm_instances,
     oc_Deployment = mem_kind opm_Deployment (\<lambda>l. opm_Deployment_update (\<lambda>_. l)) dep_Meta
       (\<lambda>y x. x\<lparr>dep_Conditions := dep_Conditions y\<rparr>) (\<lambda>y x. y),
     oc_Service = mem_kind opm_Service (\<lambda>l. opm_Service_update (\<lambda>_. l)) osv_Meta (\<lambda>y x. x) (\<lambda>y x. y),
     oc_ServiceAccount = mem_kind opm_ServiceAccount (\<lambda>l. opm_ServiceAccount_update (\<lambda>_. l)) (\<lambda>m. m) (\<lambda>y x. x) (\<lambda>y x. y),
     oc_ClusterRole = mem_kind opm_ClusterRole (\<lambda>l. opm_ClusterRole_update (\<lambda>_. l)) crole_Meta (\<lambda>y x. x) (\<lambda>y x. y),
     oc_ClusterRoleBinding = mem_kind opm_ClusterRoleBinding (\<lambda>l. opm_ClusterRoleBinding_update (\<lambda>_. l)) crb_Meta
       (\<lambda>y x. x) (\<lambda>y x. y),
     oc_Nodes = (\<lambda>_. Inr [[''10.0.0.1'']])\<rparr>"

definition opm_view :: "op_mem \<Rightarrow> op_cluster" where
  "opm_view s = \<lparr>ov_Instance = mread inst_Meta (opm_Instance s), ov_Deployment = mread dep_Meta (opm_Deployment s),
     ov_Service = mread osv_Meta (opm_Service s), ov_ServiceAccount = mread (\<lambda>m. m) (opm_ServiceAccount s),
     ov_ClusterRole = mread crole_Meta (opm_ClusterRole s), ov_ClusterRoleBinding = mread crb_Meta (opm_ClusterRoleBinding s)\<rparr>"

lemma opm_kind_ok:
  assumes "\<And>y x. fits x (upd y x) \<and> om (upd y x) = om x" and "\<And>x. fits x x" and "\<And>s. get (view s) = mread om (g s)"
    and "\<And>k l x s. mread om l = (mread om (g s))(k := x) \<Longrightarrow> view (p l s) = put k x (view s)"
  shows "op_kind_ok (mem_kind g p om upd st) om fits get put view"
  unfolding op_kind_ok_def
proof (intro conjI allI impI)
  fix x s
  show "write_law (\<lambda>s s'. view s' = view s) (\<lambda>s s'. get (view s) (object_key (om x)) = None
      \<and> (\<exists>y. fits x y \<and> om y = om x \<and> view s' = put (object_key (om x)) (Some y) (view s))) s (k_Create (mem_kind g p om upd st) x s)"
    using assms by (auto simp: mem_kind_def write_law_def mread_mput split: option.split intro!: exI [of _ x])
  show "write_law (\<lambda>s s'. view s' = view s) (\<lambda>s s'. get (view s) (object_key (om x)) \<noteq> None
      \<and> (\<exists>y. fits x y \<and> om y = om x \<and> view s' = put (object_key (om x)) (Some y) (view s))) s (k_Update (mem_kind g p om upd st) x s)"
    using assms by (auto simp: mem_kind_def write_law_def mread_mput split: option.split)
next
  fix k s
  show "case k_Get (mem_kind g p om upd st) k s of Inr x \<Rightarrow> get (view s) k = Some x \<and> object_key (om x) = k
      | Inl e \<Rightarrow> IsNotFound e \<longrightarrow> get (view s) k = None"
    using assms by (auto simp: mem_kind_def dest: mread_key split: option.split)
  show "write_law (\<lambda>s s'. view s' = view s) (\<lambda>s s'. get (view s) k \<noteq> None \<and> view s' = put k None (view s)) s
      (k_Delete (mem_kind g p om upd st) k s)"
    using assms by (auto simp: mem_kind_def write_law_def mread_mdel split: option.split)
next
  fix k s s' e assume "k_Delete (mem_kind g p om upd st) k s = (s', Some e)"
  then show "get (view s') k = None" using assms(3) by (auto simp: mem_kind_def split: option.splits)
qed

lemma opm_instances_ok: "instance_ok opm_instances opm_view"
  unfolding instance_ok_def
proof (intro conjI allI impI)
  fix sel ns s xs assume "k_List opm_instances sel ns s = Inr xs"
  then show "set xs = {x. ov_Instance (opm_view s) (inst_key x) = Some x \<and> selected sel ns (inst_Meta x)}"
    by (auto simp: opm_instances_def opm_view_def mem_kind_def dest: mread_mem)
qed (auto simp: opm_instances_def opm_view_def mem_kind_def write_law_def mread_mput mread_mdel dest: mread_key split: option.split)

lemma opm_client_ok: "op_client_ok opm_client opm_view"
  unfolding op_client_ok_def opm_client_def
  by (intro conjI) (auto intro!: opm_kind_ok simp: opm_instances_ok opm_view_def same_deployment_def)

definition demo_instance :: "string \<Rightarrow> nat \<Rightarrow> bool \<Rightarrow> Instance" where
  "demo_instance name time deleting =
     \<lparr>inst_Meta = \<lparr>om_Name = name, om_Namespace = OperatorNamespace, om_Labels = []\<rparr>, inst_CreationTimestamp = time,
      inst_Deleting = deleting, inst_Finalizers = (if deleting then [FinalizerName] else []),
      inst_Spec = \<lparr>ins_DataPlane = \<lparr>dps_Type = ''envoy'', dps_Replicas = 1\<rparr>,
        ins_Ingress = \<lparr>ing_Type = IngressTypeLoadBalancer, ing_Port = 0, ing_Annotations = []\<rparr>, ins_LogLevel = ''info'',
        ins_ContainerRegistry = ''ghcr.io'', ins_Tag = ''latest'', ins_Namespace = InstanceNamespace, ins_PeerLabels = []\<rparr>,
      inst_Status = \<lparr>ins_Controlplane = \<lparr>cs_Conditions = []\<rparr>, ins_Dataplane = \<lparr>cs_Conditions = []\<rparr>,
        ins_IngressStatus = \<lparr>ist_IP = [], ist_Port = 0, ist_Conditions = []\<rparr>\<rparr>\<rparr>"

definition demo_op :: "Instance list \<Rightarrow> (string, string) gomap \<Rightarrow> op_mem InstanceReconciler" where
  "demo_op is instances = \<lparr>ir_Instances = instances,
     ir_api = \<lparr>opm_Instance = map (\<lambda>i. (inst_key i, i)) is, opm_Deployment = [], opm_Service = [], opm_ServiceAccount = [],
       opm_ClusterRole = [], opm_ClusterRoleBinding = []\<rparr>\<rparr>"

definition demo_op_env :: "op_mem op_env" where
  "demo_op_env = \<lparr>oe_client = opm_client, oe_now = 7, oe_rng = (\<lambda>l. l)\<rparr>"

lemma demo_op_ok: "op_client_ok (oe_client demo_op_env) opm_view"
  by (simp add: demo_op_env_def opm_client_ok)

abbreviation demo_a :: Instance where "demo_a \<equiv> demo_instance ''a'' 5 False"
abbreviation demo_b :: Instance where "demo_b \<equiv> demo_instance ''b'' 6 False"
abbreviation demo_gone :: Instance where "demo_gone \<equiv> demo_instance ''a'' 5 True"

lemma demo_get:
  "k_Get (oc_Instance (oe_client demo_op_env)) (inst_key demo_a) (ir_api (demo_op [demo_a] [])) = Inr demo_a"
  "k_Get (oc_Instance (oe_client demo_op_env)) (inst_key demo_gone) (ir_api (demo_op [demo_gone] [])) = Inr demo_gone"
  "k_Get (oc_Instance (oe_client demo_op_env)) (inst_key demo_gone) (ir_api (demo_op [demo_gone, demo_b] [])) = Inr demo_gone"
  "k_Get (oc_Instance (oe_client demo_op_env)) (inst_key demo_b) (ir_api (demo_op [demo_b] [(InstanceNamespace, ''a'')])) = Inr demo_b"
  by code_simp+

lemma demo_runs:
  "map_option snd (op_Reconcile (Suc 0) demo_op_env (inst_key demo_a) (demo_op [demo_a] [])) = Some Done"
  "map_option snd (op_Reconcile (Suc 0) demo_op_env (inst_key demo_gone) (demo_op [demo_gone] [])) = Some Done"
  "map_option snd (op_Reconcile (Suc (Suc 0)) demo_op_env (inst_key demo_gone) (demo_op [demo_gone, demo_b] [])) = Some Done"
  "map_option snd (op_Reconcile (Suc 0) demo_op_env (inst_key demo_b) (demo_op [demo_b] [(InstanceNamespace, ''a'')])) = Some Done"
  by code_simp+

lemma demo_fields:
  "inst_Deleting (demo_instance n t d) = d" "ins_Namespace (inst_Spec (demo_instance n t d)) = InstanceNamespace"
  "om_Name (inst_Meta (demo_instance n t d)) = n" "inst_Finalizers (demo_instance n t d) = (if d then [FinalizerName] else [])"
  "om_Namespace (inst_Meta (demo_instance n t d)) = OperatorNamespace" "inst_CreationTimestamp (demo_instance n t d) = t"
  "inst_key (demo_instance n t d) = NamespacedName OperatorNamespace n"
  by (simp_all add: demo_instance_def)

subsection \<open>Properties\<close>

text \<open>
  C21. A request deploys its instance. When the request for an instance that is not being deleted and
  whose namespace no other instance holds ends without an error, both deployments are in the
  cluster as the specification of the instance says, the services, the service account, the
  cluster role and its binding exist, the instance carries the finalizer and holds its
  namespace, and nothing else of the cluster has changed.
\<close>

theorem instance_deployed:
  assumes "op_client_ok (oe_client E) view" and "k_Get (oc_Instance (oe_client E)) req (ir_api r) = Inr i"
    and "admitted i (ir_Instances r)" and "\<not> inst_Deleting i"
    and "op_Reconcile (Suc fuel) E req r = Some (r', res)" and "res = Done \<or> res = Requeue"
  shows "instance_deployed_to E i (view (ir_api r)) (view (ir_api r'))
    \<and> mget (ir_Instances r') (ins_Namespace (inst_Spec i)) = Some (om_Name (inst_Meta i))"
  using op_Reconcile_deployed [OF assms] mget_claim [OF assms(3)] by simp

theorem instance_deployed_witness:
  "\<exists>r'. op_Reconcile (Suc 0) demo_op_env (inst_key demo_a) (demo_op [demo_a] []) = Some (r', Done)
     \<and> instance_deployed_to demo_op_env demo_a (opm_view (ir_api (demo_op [demo_a] []))) (opm_view (ir_api r'))"
proof -
  obtain r' where "op_Reconcile (Suc 0) demo_op_env (inst_key demo_a) (demo_op [demo_a] []) = Some (r', Done)"
    using demo_runs(1) by auto
  with instance_deployed [OF demo_op_ok demo_get(1) _ _ this] show ?thesis
    by (auto simp: admitted_def demo_op_def demo_fields simp del: op_Reconcile.simps)
qed

text \<open>
  One instance per namespace. A request for an instance whose namespace another instance holds
  changes nothing but the status of the rejected instance, which then says of both components
  that they are not deployed; the holder of the namespace stays the holder.
\<close>

theorem second_instance_rejected:
  assumes "op_client_ok (oe_client E) view" and "k_Get (oc_Instance (oe_client E)) req (ir_api r) = Inr i"
    and "\<not> admitted i (ir_Instances r)" and "op_Reconcile (Suc fuel) E req r = Some (r', res)"
  shows "instance_step (inst_key i) (view (ir_api r)) (view (ir_api r')) \<and> ir_Instances r' = ir_Instances r
    \<and> (res = Done \<longrightarrow> (\<exists>j cp dp. ov_Instance (view (ir_api r')) req = Some j
          \<and> mget (cs_Conditions (ins_Controlplane (inst_Status j))) DeploymentReady = Some cp \<and> cond_Status cp = ConditionFalse
          \<and> mget (cs_Conditions (ins_Dataplane (inst_Status j))) DeploymentReady = Some dp \<and> cond_Status dp = ConditionFalse))"
  using op_Reconcile_rejected [OF assms] by blast

theorem second_instance_rejected_witness:
  "\<exists>r'. op_Reconcile (Suc 0) demo_op_env (inst_key demo_b) (demo_op [demo_b] [(InstanceNamespace, ''a'')]) = Some (r', Done)
     \<and> ir_Instances r' = [(InstanceNamespace, ''a'')]"
proof -
  obtain r' where "op_Reconcile (Suc 0) demo_op_env (inst_key demo_b) (demo_op [demo_b] [(InstanceNamespace, ''a'')]) = Some (r', Done)"
    using demo_runs(4) by auto
  with second_instance_rejected [OF demo_op_ok demo_get(4) _ this] show ?thesis
    by (simp add: admitted_def demo_op_def demo_fields del: op_Reconcile.simps)
qed



text \<open>
  C22. The namespace is handed over. When the instances that wait for the namespace of a deleted
  instance are not being deleted themselves and the request ends without an error, the
  earliest of them holds the namespace and is deployed, in the cluster without the objects of
  the deleted instance.
\<close>

theorem instance_handover:
  assumes "op_client_ok (oe_client E) view" and "k_Get (oc_Instance (oe_client E)) req (ir_api r) = Inr i"
    and "admitted i (ir_Instances r)" and "inst_Deleting i" and "set (inst_Finalizers i) \<subseteq> {FinalizerName}"
    and "waiting i (view (ir_api r)) \<noteq> {}" and "\<forall>j \<in> waiting i (view (ir_api r)). \<not> inst_Deleting j"
    and "op_Reconcile fuel E req r = Some (r', Done)"
  shows "\<exists>j \<in> waiting i (view (ir_api r)). (\<forall>j' \<in> waiting i (view (ir_api r)). inst_CreationTimestamp j \<le> inst_CreationTimestamp j')
    \<and> instance_deployed_to E j (removed i (view (ir_api r))) (view (ir_api r'))
    \<and> mget (ir_Instances r') (ins_Namespace (inst_Spec i)) = Some (om_Name (inst_Meta j))"
  using op_Reconcile_handover [OF assms] by blast

theorem instance_handover_witness:
  "\<exists>r'. op_Reconcile (Suc (Suc 0)) demo_op_env (inst_key demo_gone) (demo_op [demo_gone, demo_b] []) = Some (r', Done)
     \<and> instance_deployed_to demo_op_env demo_b (removed demo_gone (opm_view (ir_api (demo_op [demo_gone, demo_b] [])))) (opm_view (ir_api r'))"
proof -
  obtain r' where run: "op_Reconcile (Suc (Suc 0)) demo_op_env (inst_key demo_gone) (demo_op [demo_gone, demo_b] []) = Some (r', Done)"
    using demo_runs(3) by auto
  have "waiting demo_gone (opm_view (ir_api (demo_op [demo_gone, demo_b] []))) = {demo_b}"
    by (auto simp: waiting_def waits_for_def demo_op_def opm_view_def mread_def demo_fields object_key_def split: if_splits)
  with instance_handover [OF demo_op_ok demo_get(3) _ _ _ _ _ run] run show ?thesis
    by (auto simp: admitted_def demo_op_def demo_fields simp del: op_Reconcile.simps)
qed

text \<open>
  C24. Every request ends. As long as the instances carry no finalizer but the operator's, a fuel
  above the number of instances is enough: each time the request goes on with another
  instance, it has removed one.
\<close>

theorem op_Reconcile_terminates:
  assumes "op_client_ok (oe_client E) view" and "finite (dom (ov_Instance (view (ir_api r))))"
    and "\<forall>i \<in> ran (ov_Instance (view (ir_api r))). set (inst_Finalizers i) \<subseteq> {FinalizerName}"
    and "card (dom (ov_Instance (view (ir_api r)))) < fuel"
  shows "\<exists>r' res. op_Reconcile fuel E req r = Some (r', res)"
  using op_Reconcile_returns [OF assms] by auto

theorem op_Reconcile_terminates_witness:
  "\<exists>r' res. op_Reconcile 3 demo_op_env (inst_key demo_gone) (demo_op [demo_gone, demo_b] []) = Some (r', res)"
proof -
  have v: "ov_Instance (opm_view (ir_api (demo_op [demo_gone, demo_b] []))) = [inst_key demo_gone \<mapsto> demo_gone, inst_key demo_b \<mapsto> demo_b]"
    by (auto simp: demo_op_def opm_view_def mread_def demo_fields fun_eq_iff object_key_def)
  have "card (dom [inst_key demo_gone \<mapsto> demo_gone, inst_key demo_b \<mapsto> demo_b]) < 3"
    by (simp add: demo_fields)
  then show ?thesis
    by (intro op_Reconcile_terminates [OF demo_op_ok]) (auto simp: v ran_def demo_fields split: if_splits)
qed

end
