(* ===== verification/Bootstrap.thy ===== *)
theory Bootstrap
  imports Certs Operator
begin

text \<open>
  Bootstrap of a fabric: the certificates of \<^verbatim>\<open>pkg/bootstrap\<close> (\<^verbatim>\<open>crypt.go\<close>, \<^verbatim>\<open>cert.go\<close>), the
  paths of \<^verbatim>\<open>cmd/clusterlink/config\<close>, and the commands \<^verbatim>\<open>create fabric\<close> and \<^verbatim>\<open>create peer-cert\<close>.
  A key pair is a number; a certificate names the key it certifies and the key it is signed
  with. DER and PEM are parameters (\<open>pki\<close>) that decode what they encoded. Random draws and
  the clock are arguments.
\<close>

subsection \<open>X.509\<close>

datatype gotime = GoTime (gt_year: int) (gt_month: nat) (gt_day: nat) (gt_nanos: nat)

fun time_le :: "gotime \<Rightarrow> gotime \<Rightarrow> bool" where
  "time_le (GoTime y m d n) (GoTime y' m' d' n') \<longleftrightarrow>
     y < y' \<or> y = y' \<and> (m < m' \<or> m = m' \<and> (d < d' \<or> d = d' \<and> n \<le> n'))"

text \<open>\<^verbatim>\<open>AddDate(10, 0, 0)\<close>: ten years after the 29th of February is the 1st of March.\<close>

fun AddTenYears :: "gotime \<Rightarrow> gotime" where
  "AddTenYears (GoTime y m d n) = (if m = 2 \<and> d = 29 then GoTime (y + 10) 3 1 n else GoTime (y + 10) m d n)"

datatype KeyUsage = KeyUsageCertSign | KeyUsageCRLSign

datatype ExtKeyUsage = ExtKeyUsageServerAuth | ExtKeyUsageClientAuth

datatype x509_cert = X509Cert
  (crt_SerialNumber: nat)
  (crt_NotBefore: gotime)
  (crt_NotAfter: gotime)
  (crt_IsCA: bool)
  (crt_BasicConstraintsValid: bool)
  (crt_Subject: string)
  (crt_KeyUsage: "KeyUsage list")
  (crt_ExtKeyUsage: "ExtKeyUsage list")
  (crt_DNSNames: "string list")
  (crt_PublicKey: "nat option")
  (crt_Issuer: string)
  (crt_SignedBy: "nat option")

record pki =
  pki_cert_der :: "x509_cert \<Rightarrow> string"
  pki_ParseCertificate :: "string \<Rightarrow> error + x509_cert"
  pki_key_der :: "nat \<Rightarrow> string"
  pki_ParsePKCS1PrivateKey :: "string \<Rightarrow> error + nat"
  pem_Encode :: "string \<Rightarrow> string \<Rightarrow> error + string"
  pem_Decode :: "string \<Rightarrow> string option"

definition pki_ok :: "pki \<Rightarrow> bool" where
  "pki_ok P \<longleftrightarrow> (\<forall>c. pki_ParseCertificate P (pki_cert_der P c) = Inr c)
     \<and> (\<forall>k. pki_ParsePKCS1PrivateKey P (pki_key_der P k) = Inr k)
     \<and> (\<forall>type der s rest. pem_Encode P type der = Inr s \<longrightarrow> pem_Decode P (s @ rest) = Some der)"

text \<open>
  \<^verbatim>\<open>x509.CreateCertificate\<close>: it refuses a key that is not the parent's and DNS names that are not
  ASCII, and dereferences a missing key.
\<close>

definition x509_CreateCertificate :: "pki \<Rightarrow> x509_cert \<Rightarrow> x509_cert \<Rightarrow> nat \<Rightarrow> nat option \<Rightarrow> panic + (error + string)" where
  "x509_CreateCertificate P cert ca pub priv =
     (case priv of
        None \<Rightarrow> Inl NilDereference
      | Some k \<Rightarrow>
          if (case crt_PublicKey ca of None \<Rightarrow> False | Some k' \<Rightarrow> k' \<noteq> k)
          then Inr (Inl (Errorf ''x509: provided PrivateKey does not match the PublicKey of the parent''))
          else if list_ex (list_ex (\<lambda>c. 128 \<le> (of_char c :: nat))) (crt_DNSNames cert)
          then Inr (Inl (Errorf ''x509: cannot be encoded as an IA5String''))
          else Inr (Inr (pki_cert_der P (X509Cert (crt_SerialNumber cert) (crt_NotBefore cert) (crt_NotAfter cert)
            (crt_IsCA cert) (crt_BasicConstraintsValid cert) (crt_Subject cert) (crt_KeyUsage cert) (crt_ExtKeyUsage cert)
            (crt_DNSNames cert) (Some pub) (crt_Subject ca) (Some k)))))"

text \<open>
  How \<^verbatim>\<open>crypto/tls\<close> judges the certificate of the other side: it is valid now, carries the
  expected name (names without a wildcard, which compare without case), allows the usage, and
  is one of the trusted certificates or signed by one that may sign.
\<close>

definition lower_char :: "char \<Rightarrow> char" where
  "lower_char c = (if CHR ''A'' \<le> c \<and> c \<le> CHR ''Z'' then char_of (of_char c + 32 :: nat) else c)"

definition toLowerCaseASCII :: "string \<Rightarrow> string" where
  "toLowerCaseASCII = map lower_char"

definition in_validity :: "gotime \<Rightarrow> x509_cert \<Rightarrow> bool" where
  "in_validity now c \<longleftrightarrow> time_le (crt_NotBefore c) now \<and> time_le now (crt_NotAfter c)"

definition may_sign :: "gotime \<Rightarrow> x509_cert \<Rightarrow> x509_cert \<Rightarrow> bool" where
  "may_sign now c root \<longleftrightarrow> in_validity now root \<and> crt_IsCA root \<and> crt_BasicConstraintsValid root
     \<and> (crt_KeyUsage root = [] \<or> KeyUsageCertSign \<in> set (crt_KeyUsage root))
     \<and> crt_Issuer c = crt_Subject root \<and> crt_PublicKey root \<noteq> None \<and> crt_SignedBy c = crt_PublicKey root"

definition x509_Verify :: "x509_cert list \<Rightarrow> ExtKeyUsage \<Rightarrow> string option \<Rightarrow> gotime \<Rightarrow> x509_cert \<Rightarrow> bool" where
  "x509_Verify roots usage name now c \<longleftrightarrow> in_validity now c
     \<and> (case name of None \<Rightarrow> True | Some n \<Rightarrow> list_ex (\<lambda>d. toLowerCaseASCII d = toLowerCaseASCII n) (crt_DNSNames c))
     \<and> (crt_ExtKeyUsage c = [] \<or> usage \<in> set (crt_ExtKeyUsage c))
     \<and> (c \<in> set roots \<or> list_ex (may_sign now c) roots)"

subsection \<open>Certificates\<close>

datatype bs_certificate = BsCertificate
  (bs_parent: "bs_certificate option")
  (bs_cert: x509_cert)
  (bs_key: "nat option")
  (bs_certPEM: string)
  (bs_keyPEM: "string option")

record certificateConfig =
  ccf_Name :: string
  ccf_IsCA :: bool
  ccf_IsServer :: bool
  ccf_IsClient :: bool
  ccf_DNSNames :: "string list"
  ccf_Parent :: "bs_certificate option"

record bs_draw =
  bd_key :: "error + nat"
  bd_serial :: nat
  bd_now :: gotime
  bd_later :: gotime

definition certificate_template :: "bs_draw \<Rightarrow> certificateConfig \<Rightarrow> x509_cert" where
  "certificate_template D config =
     X509Cert (bd_serial D) (bd_now D) (AddTenYears (bd_later D)) (ccf_IsCA config) (ccf_IsCA config) (ccf_Name config)
       (if ccf_IsCA config then [KeyUsageCertSign, KeyUsageCRLSign] else [])
       ((if ccf_IsServer config then [ExtKeyUsageServerAuth] else []) @ (if ccf_IsClient config then [ExtKeyUsageClientAuth] else []))
       (if ccf_IsCA config then [] else ccf_DNSNames config) None [] None"

definition createCertificate :: "pki \<Rightarrow> bs_draw \<Rightarrow> certificateConfig \<Rightarrow> panic + (error + bs_certificate)" where
  "createCertificate P D config =
     (case bd_key D of
        Inl err \<Rightarrow> Inr (Inl err)
      | Inr key \<Rightarrow>
     (let cert = certificate_template D config;
          (ca, caKey) = (case ccf_Parent config of Some parent \<Rightarrow> (bs_cert parent, bs_key parent) | None \<Rightarrow> (cert, Some key))
      in case x509_CreateCertificate P cert ca key caKey of
           Inl p \<Rightarrow> Inl p
         | Inr (Inl err) \<Rightarrow> Inr (Inl err)
         | Inr (Inr certBytes) \<Rightarrow>
        (case pem_Encode P ''CERTIFICATE'' certBytes of
           Inl err \<Rightarrow> Inr (Inl err)
         | Inr certPEM \<Rightarrow>
        (case pem_Encode P ''RSA PRIVATE KEY'' (pki_key_der P key) of
           Inl err \<Rightarrow> Inr (Inl err)
         | Inr keyPEM \<Rightarrow>
        (case pki_ParseCertificate P certBytes of
           Inl err \<Rightarrow> Inr (Inl err)
         | Inr signedCert \<Rightarrow>
             Inr (Inr (BsCertificate (ccf_Parent config) signedCert (Some key) certPEM (Some keyPEM))))))))"

definition certificateFromRaw :: "pki \<Rightarrow> string \<Rightarrow> string option \<Rightarrow> error + bs_certificate" where
  "certificateFromRaw P certPEM keyPEM =
     (case pem_Decode P certPEM of
        None \<Rightarrow> Inl (Errorf ''certificate is not in PEM format'')
      | Some der \<Rightarrow>
     (case pki_ParseCertificate P der of
        Inl err \<Rightarrow> Inl err
      | Inr cert \<Rightarrow>
     (case keyPEM of
        None \<Rightarrow> Inr (BsCertificate None cert None certPEM None)
      | Some raw \<Rightarrow>
     (case pem_Decode P raw of
        None \<Rightarrow> Inl (Errorf ''key is not in PEM format'')
      | Some der \<Rightarrow>
     (case pki_ParsePKCS1PrivateKey P der of
        Inl err \<Rightarrow> Inl err
      | Inr key \<Rightarrow> Inr (BsCertificate None cert (Some key) certPEM (Some raw)))))))"

definition RawCert :: "bs_certificate \<Rightarrow> string" where
  "RawCert c = bs_certPEM c @ (case bs_parent c of Some parent \<Rightarrow> bs_certPEM parent | None \<Rightarrow> [])"

definition RawKey :: "bs_certificate \<Rightarrow> string" where
  "RawKey c = (case bs_keyPEM c of Some key \<Rightarrow> key | None \<Rightarrow> [])"

definition CreateFabricCertificate :: "pki \<Rightarrow> bs_draw \<Rightarrow> string \<Rightarrow> panic + (error + bs_certificate)" where
  "CreateFabricCertificate P D name = createCertificate P D
     \<lparr>ccf_Name = name, ccf_IsCA = True, ccf_IsServer = False, ccf_IsClient = False, ccf_DNSNames = [], ccf_Parent = None\<rparr>"

definition CreateCACertificate :: "pki \<Rightarrow> bs_draw \<Rightarrow> panic + (error + bs_certificate)" where
  "CreateCACertificate P D = createCertificate P D
     \<lparr>ccf_Name = ''cl-ca'', ccf_IsCA = True, ccf_IsServer = False, ccf_IsClient = False, ccf_DNSNames = [], ccf_Parent = None\<rparr>"

definition CreateControlplaneCertificate :: "pki \<Rightarrow> bs_draw \<Rightarrow> bs_certificate \<Rightarrow> panic + (error + bs_certificate)" where
  "CreateControlplaneCertificate P D caCert = createCertificate P D
     \<lparr>ccf_Name = controlplane_Name, ccf_IsCA = False, ccf_IsServer = True, ccf_IsClient = False,
      ccf_DNSNames = [controlplane_Name], ccf_Parent = Some caCert\<rparr>"

definition CreateDataplaneCertificate :: "pki \<Rightarrow> bs_draw \<Rightarrow> bs_certificate \<Rightarrow> panic + (error + bs_certificate)" where
  "CreateDataplaneCertificate P D caCert = createCertificate P D
     \<lparr>ccf_Name = dataplane_Name, ccf_IsCA = False, ccf_IsServer = False, ccf_IsClient = True,
      ccf_DNSNames = [dataplane_Name], ccf_Parent = Some caCert\<rparr>"

definition CreatePeerCertificate :: "pki \<Rightarrow> bs_draw \<Rightarrow> string \<Rightarrow> bs_certificate \<Rightarrow> panic + (error + bs_certificate)" where
  "CreatePeerCertificate P D peer fabricCert = createCertificate P D
     \<lparr>ccf_Name = peer, ccf_IsCA = False, ccf_IsServer = True, ccf_IsClient = True, ccf_DNSNames = [peer],
      ccf_Parent = Some fabricCert\<rparr>"

definition CertificateFromRaw :: "pki \<Rightarrow> string \<Rightarrow> string option \<Rightarrow> error + bs_certificate" where
  "CertificateFromRaw P rawCert rawKey = certificateFromRaw P rawCert rawKey"

subsection \<open>Files\<close>

text \<open>
  The part of a file system the commands use. An operation on a path may fail for a reason of
  its own (\<open>fs_fault\<close>), and then changes nothing.
\<close>

record file_system =
  fs_files :: "(string, string) gomap"
  fs_dirs :: "string list"
  fs_fault :: "string \<Rightarrow> error option"

definition os_ReadFile :: "string \<Rightarrow> file_system \<Rightarrow> error + string" where
  "os_ReadFile path fs =
     (case fs_fault fs path of
        Some err \<Rightarrow> Inl err
      | None \<Rightarrow> (case mget (fs_files fs) path of None \<Rightarrow> Inl (Errorf ''no such file or directory'') | Some x \<Rightarrow> Inr x))"

definition os_WriteFile :: "string \<Rightarrow> string \<Rightarrow> file_system \<Rightarrow> file_system \<times> error option" where
  "os_WriteFile path x fs =
     (case fs_fault fs path of
        Some err \<Rightarrow> (fs, Some err)
      | None \<Rightarrow>
          if path \<in> set (fs_dirs fs) then (fs, Some (Errorf ''is a directory''))
          else if path_Dir path \<notin> set (fs_dirs fs) then (fs, Some (Errorf ''no such file or directory''))
          else (fs\<lparr>fs_files := mput path x (fs_files fs)\<rparr>, None))"

definition os_Mkdir :: "string \<Rightarrow> file_system \<Rightarrow> file_system \<times> error option" where
  "os_Mkdir path fs =
     (case fs_fault fs path of
        Some err \<Rightarrow> (fs, Some err)
      | None \<Rightarrow>
          if path \<in> set (fs_dirs fs) \<or> mget (fs_files fs) path \<noteq> None then (fs, Some (Errorf ''file exists''))
          else if path_Dir path \<notin> set (fs_dirs fs) then (fs, Some (Errorf ''no such file or directory''))
          else (fs\<lparr>fs_dirs := path # fs_dirs fs\<rparr>, None))"

definition os_exists :: "string \<Rightarrow> file_system \<Rightarrow> error + bool" where
  "os_exists path fs =
     (case fs_fault fs path of
        Some err \<Rightarrow> Inl err
      | None \<Rightarrow> Inr (path \<in> set (fs_dirs fs) \<or> mget (fs_files fs) path \<noteq> None))"

text \<open>\<^verbatim>\<open>filepath.Join\<close> of two elements.\<close>

definition filepath_Join :: "string \<Rightarrow> string \<Rightarrow> string" where
  "filepath_Join a b =
     (if a = [] then if b = [] then [] else path_Clean b
      else if b = [] then path_Clean a else path_Clean (a @ ''/'' @ b))"

definition PrivateKeyFileName :: string where "PrivateKeyFileName = ''key.pem''"
definition CertificateFileName :: string where "CertificateFileName = ''cert.pem''"

definition FabricDirectory :: "string \<Rightarrow> string \<Rightarrow> string" where
  "FabricDirectory name path = filepath_Join path name"

definition PeerDirectory :: "string \<Rightarrow> string \<Rightarrow> string \<Rightarrow> string" where
  "PeerDirectory peer fabric path = filepath_Join (FabricDirectory fabric path) peer"

definition FabricCertificate :: "string \<Rightarrow> string \<Rightarrow> string" where
  "FabricCertificate name path = filepath_Join (FabricDirectory name path) CertificateFileName"

definition FabricKey :: "string \<Rightarrow> string \<Rightarrow> string" where
  "FabricKey name path = filepath_Join (FabricDirectory name path) PrivateKeyFileName"

definition ReadCertificates :: "pki \<Rightarrow> string \<Rightarrow> bool \<Rightarrow> file_system \<Rightarrow> error + bs_certificate" where
  "ReadCertificates P dir withKey fs =
     (case os_ReadFile (filepath_Join dir CertificateFileName) fs of
        Inl err \<Rightarrow> Inl err
      | Inr rawCert \<Rightarrow>
     (if withKey
      then (case os_ReadFile (filepath_Join dir PrivateKeyFileName) fs of
              Inl err \<Rightarrow> Inl err
            | Inr rawKey \<Rightarrow> CertificateFromRaw P rawCert (Some rawKey))
      else CertificateFromRaw P rawCert None))"

subsection \<open>The commands\<close>

definition saveCertificate :: "bs_certificate \<Rightarrow> string \<Rightarrow> file_system \<Rightarrow> file_system \<times> error option" where
  "saveCertificate cert outDirectory =
     seqE (os_WriteFile (filepath_Join outDirectory CertificateFileName) (RawCert cert))
          (os_WriteFile (filepath_Join outDirectory PrivateKeyFileName) (RawKey cert))"

definition createFabric_Run :: "pki \<Rightarrow> bs_draw \<Rightarrow> string \<Rightarrow> string \<Rightarrow> file_system \<Rightarrow> file_system \<times> (panic + error option)" where
  "createFabric_Run P D name path fs =
     (case CreateFabricCertificate P D name of
        Inl p \<Rightarrow> (fs, Inl p)
      | Inr (Inl err) \<Rightarrow> (fs, Inr (Some err))
      | Inr (Inr fabricCert) \<Rightarrow>
          apsnd Inr (seqE (os_Mkdir (FabricDirectory name path))
                    (seqE (os_WriteFile (FabricCertificate name path) (RawCert fabricCert))
                          (os_WriteFile (FabricKey name path) (RawKey fabricCert))) fs))"

definition createPeerCert :: "pki \<Rightarrow> bs_draw \<Rightarrow> string \<Rightarrow> string \<Rightarrow> string \<Rightarrow> bs_certificate \<Rightarrow> file_system
    \<Rightarrow> file_system \<times> (panic + error option)" where
  "createPeerCert P D name fabric path fabricCert fs =
     (case CreatePeerCertificate P D name fabricCert of
        Inl p \<Rightarrow> (fs, Inl p)
      | Inr (Inl err) \<Rightarrow> (fs, Inr (Some err))
      | Inr (Inr cert) \<Rightarrow>
          apsnd Inr (seqE (os_Mkdir (PeerDirectory name fabric path)) (saveCertificate cert (PeerDirectory name fabric path)) fs))"

definition verifyNotExists :: "string \<Rightarrow> file_system \<Rightarrow> error option" where
  "verifyNotExists path fs =
     (case os_exists path fs of
        Inl err \<Rightarrow> Some err
      | Inr True \<Rightarrow> Some (Errorf (''path '' @ path @ '' exists''))
      | Inr False \<Rightarrow> None)"

text \<open>\<open>ToASCII\<close> is the check of the package \<^verbatim>\<open>golang.org/x/net/idna\<close>.\<close>

definition createPeer_Run :: "(string \<Rightarrow> error option) \<Rightarrow> pki \<Rightarrow> bs_draw \<Rightarrow> string \<Rightarrow> string \<Rightarrow> string \<Rightarrow> file_system
    \<Rightarrow> file_system \<times> (panic + error option)" where
  "createPeer_Run ToASCII P D name fabric path fs =
     (case ToASCII name of
        Some err \<Rightarrow> (fs, Inr (Some (Wrapf ''peer name is not a valid DNS name: '' err)))
      | None \<Rightarrow>
     (case verifyNotExists name fs of
        Some err \<Rightarrow> (fs, Inr (Some err))
      | None \<Rightarrow>
     (case ReadCertificates P (FabricDirectory fabric path) True fs of
        Inl err \<Rightarrow> (fs, Inr (Some err))
      | Inr fabricCert \<Rightarrow> createPeerCert P D name fabric path fabricCert fs)))"

end
