(* ===== verification/Deploy.thy ===== *)
theory Deploy
  imports Bootstrap
begin

text \<open>
  Deployment of a peer: \<^verbatim>\<open>pkg/bootstrap/platform\<close> and the commands \<^verbatim>\<open>deploy peer\<close> and
  \<^verbatim>\<open>delete peer\<close>. The templates of \<^verbatim>\<open>k8s.go\<close> are YAML; they are modelled by the objects they
  describe, and their execution cannot fail on the arguments the code gives. Of a secret, the
  decoded data is modelled. A range of a template visits a map in the order of its keys. What
  a YAML decoder makes of a text without quotes is a parameter (\<open>yaml\<close>). The decoder and
  client of the \<^verbatim>\<open>e2e-framework\<close> package and the embedded files are parameters too.
\<close>

subsection \<open>Templates\<close>

definition DataplaneTypeEnvoy :: string where "DataplaneTypeEnvoy = ''envoy''"
definition PeerCertificateFile :: string where "PeerCertificateFile = ''cert.pem''"
definition PeerKeyFile :: string where "PeerKeyFile = ''key.pem''"
definition FabricCertificateFile :: string where "FabricCertificateFile = ''ca.pem''"

definition PeerCertificateFilePath :: string where
  "PeerCertificateFilePath = filepath_Join PeerTLSDirectory PeerCertificateFile"

definition PeerKeyFilePath :: string where
  "PeerKeyFilePath = filepath_Join PeerTLSDirectory PeerKeyFile"

definition FabricCertificateFilePath :: string where
  "FabricCertificateFilePath = filepath_Join PeerTLSDirectory FabricCertificateFile"

record platform_Config =
  pcf_Peer :: string
  pcf_Namespace :: string
  pcf_CACertificate :: bs_certificate
  pcf_ControlplaneCertificate :: bs_certificate
  pcf_DataplaneCertificate :: bs_certificate
  pcf_FabricCertificate :: bs_certificate
  pcf_PeerCertificate :: bs_certificate
  pcf_Controlplanes :: uint16
  pcf_Dataplanes :: uint16
  pcf_DataplaneType :: string
  pcf_PeerLabels :: labels
  pcf_LogLevel :: string
  pcf_ContainerRegistry :: string
  pcf_Tag :: string
  pcf_IngressType :: string
  pcf_IngressPort :: uint16
  pcf_IngressAnnotations :: labels

definition secret_of :: "string \<Rightarrow> string \<Rightarrow> (string, string) gomap \<Rightarrow> Secret" where
  "secret_of namespace name data = \<lparr>sec_Meta = \<lparr>om_Name = name, om_Namespace = namespace, om_Labels = []\<rparr>, sec_Data = data\<rparr>"

record certs_args =
  ca_namespace :: string
  ca_ca :: string
  ca_controlplaneCert :: string
  ca_controlplaneKey :: string
  ca_dataplaneCert :: string
  ca_dataplaneKey :: string
  ca_peerCertificateFile :: string
  ca_peerKeyFile :: string
  ca_fabricCertFile :: string
  ca_peerCert :: string
  ca_peerKey :: string
  ca_fabricCert :: string

definition certsTemplate :: "certs_args \<Rightarrow> Secret list" where
  "certsTemplate args =
     [secret_of (ca_namespace args) ''cl-ca'' [(''ca'', ca_ca args)],
      secret_of (ca_namespace args) controlplane_Name
        [(''cert'', ca_controlplaneCert args), (''key'', ca_controlplaneKey args)],
      secret_of (ca_namespace args) dataplane_Name
        [(''cert'', ca_dataplaneCert args), (''key'', ca_dataplaneKey args)],
      secret_of (ca_namespace args) ''cl-peer''
        (mput (ca_fabricCertFile args) (ca_fabricCert args) (mput (ca_peerKeyFile args) (ca_peerKey args)
          (mput (ca_peerCertificateFile args) (ca_peerCert args) [])))]"

definition K8SCertificateConfig :: "platform_Config \<Rightarrow> Secret list" where
  "K8SCertificateConfig config = certsTemplate
     \<lparr>ca_namespace = pcf_Namespace config, ca_ca = RawCert (pcf_CACertificate config),
      ca_controlplaneCert = RawCert (pcf_ControlplaneCertificate config), ca_controlplaneKey = RawKey (pcf_ControlplaneCertificate config),
      ca_dataplaneCert = RawCert (pcf_DataplaneCertificate config), ca_dataplaneKey = RawKey (pcf_DataplaneCertificate config),
      ca_peerCertificateFile = PeerCertificateFile, ca_peerKeyFile = PeerKeyFile, ca_fabricCertFile = FabricCertificateFile,
      ca_peerCert = RawCert (pcf_PeerCertificate config), ca_peerKey = RawKey (pcf_PeerCertificate config),
      ca_fabricCert = RawCert (pcf_FabricCertificate config)\<rparr>"

definition template_registry :: "platform_Config \<Rightarrow> string" where
  "template_registry config = (if pcf_ContainerRegistry config \<noteq> [] then pcf_ContainerRegistry config @ ''/'' else pcf_ContainerRegistry config)"

definition template_meta :: "string \<Rightarrow> string \<Rightarrow> ObjectMeta" where
  "template_meta name namespace = \<lparr>om_Name = name, om_Namespace = namespace, om_Labels = [(''app'', name)]\<rparr>"

definition template_controlplane :: "platform_Config \<Rightarrow> Deployment" where
  "template_controlplane config =
     \<lparr>dep_Meta = template_meta controlplane_Name (pcf_Namespace config),
      dep_Replicas = ucast (if pcf_Controlplanes config = 0 then 1 else pcf_Controlplanes config),
      dep_MatchLabels = [(''app'', controlplane_Name)], dep_TemplateLabels = [(''app'', controlplane_Name)],
      dep_PodSpec = \<lparr>ps_ServiceAccountName = [],
        ps_Volumes = [
          \<lparr>vol_Name = ''ca'', vol_SecretName = ''cl-ca''\<rparr>,
          \<lparr>vol_Name = ''tls'', vol_SecretName = controlplane_Name\<rparr>,
          \<lparr>vol_Name = ''peer-tls'', vol_SecretName = ''cl-peer''\<rparr>],
        ps_Containers = [
          \<lparr>ct_Name = controlplane_Name,
           ct_Image = template_registry config @ controlplane_Name @ '':'' @ pcf_Tag config,
           ct_ImagePullPolicy = ''IfNotPresent'',
           ct_Args = [''--log-level'', pcf_LogLevel config]
             @ concat (map (\<lambda>(key, val). [''--peer-label'', key @ ''='' @ val]) (sort_key fst (pcf_PeerLabels config))),
           ct_ReadinessPort = controlplane_ReadinessListenPort,
           ct_Ports = [ucast controlplane_ListenPort],
           ct_VolumeMounts = [
             \<lparr>vm_Name = ''ca'', vm_MountPath = cp_CAFile, vm_SubPath = ''ca'', vm_ReadOnly = True\<rparr>,
             \<lparr>vm_Name = ''tls'', vm_MountPath = cp_CertificateFile, vm_SubPath = ''cert'', vm_ReadOnly = True\<rparr>,
             \<lparr>vm_Name = ''tls'', vm_MountPath = cp_KeyFile, vm_SubPath = ''key'', vm_ReadOnly = True\<rparr>,
             \<lparr>vm_Name = ''peer-tls'', vm_MountPath = PeerTLSDirectory, vm_SubPath = [], vm_ReadOnly = True\<rparr>],
           ct_Env = [(NamespaceEnvVariable, ''metadata.namespace'')]\<rparr>]\<rparr>,
      dep_Conditions = []\<rparr>"

definition template_dataplane :: "platform_Config \<Rightarrow> Deployment" where
  "template_dataplane config =
     (let dataplaneType = (if pcf_DataplaneType config = [] then DataplaneTypeEnvoy else pcf_DataplaneType config)
      in \<lparr>dep_Meta = template_meta dataplane_Name (pcf_Namespace config),
      dep_Replicas = ucast (if pcf_Dataplanes config = 0 then 1 else pcf_Dataplanes config),
      dep_MatchLabels = [(''app'', dataplane_Name)], dep_TemplateLabels = [(''app'', dataplane_Name)],
      dep_PodSpec = \<lparr>ps_ServiceAccountName = [],
        ps_Volumes = [
          \<lparr>vol_Name = ''ca'', vol_SecretName = ''cl-ca''\<rparr>,
          \<lparr>vol_Name = ''tls'', vol_SecretName = dataplane_Name\<rparr>],
        ps_Containers = [
          \<lparr>ct_Name = ''dataplane'',
           ct_Image = template_registry config @ (if dataplaneType = DataplaneTypeEnvoy then dataplane_Name else GoDataplaneName)
             @ '':'' @ pcf_Tag config,
           ct_ImagePullPolicy = ''IfNotPresent'',
           ct_Args = [''--log-level'', pcf_LogLevel config, ''--controlplane-host'', controlplane_Name],
           ct_ReadinessPort = dataplane_ReadinessListenPort,
           ct_Ports = [dataplane_ListenPort],
           ct_VolumeMounts = [
             \<lparr>vm_Name = ''ca'', vm_MountPath = dp_CAFile, vm_SubPath = ''ca'', vm_ReadOnly = True\<rparr>,
             \<lparr>vm_Name = ''tls'', vm_MountPath = dp_CertificateFile, vm_SubPath = ''cert'', vm_ReadOnly = True\<rparr>,
             \<lparr>vm_Name = ''tls'', vm_MountPath = dp_KeyFile, vm_SubPath = ''key'', vm_ReadOnly = True\<rparr>],
           ct_Env = []\<rparr>]\<rparr>,
      dep_Conditions = []\<rparr>)"

definition template_service :: "platform_Config \<Rightarrow> op_Service" where
  "template_service config =
     \<lparr>osv_Meta = \<lparr>om_Name = controlplane_Name, om_Namespace = pcf_Namespace config, om_Labels = []\<rparr>, osv_Annotations = [],
      osv_Selector = [(''app'', controlplane_Name)],
      osv_Ports = [\<lparr>osp_Name = ''controlplane'', osp_Protocol = [], osp_Port = ucast controlplane_ListenPort, osp_TargetPort = 0,
        osp_NodePort = 0\<rparr>],
      osv_Type = [], osv_LoadBalancerIPs = []\<rparr>"

definition template_role :: ClusterRole where
  "template_role = \<lparr>crole_Meta = \<lparr>om_Name = controlplane_Name, om_Namespace = [], om_Labels = []\<rparr>,
     crole_Rules = [
       \<lparr>rule_APIGroups = [[]], rule_Resources = [''events''], rule_Verbs = [''create'', ''update'']\<rparr>,
       \<lparr>rule_APIGroups = [[]], rule_Resources = [''services''],
        rule_Verbs = [''get'', ''list'', ''watch'', ''create'', ''delete'', ''update'']\<rparr>,
       \<lparr>rule_APIGroups = [''coordination.k8s.io''], rule_Resources = [''leases''],
        rule_Verbs = [''get'', ''create'', ''update'']\<rparr>,
       \<lparr>rule_APIGroups = [[]], rule_Resources = [''secrets''],
        rule_Verbs = [''get'', ''list'', ''watch'', ''create'', ''update'']\<rparr>,
       \<lparr>rule_APIGroups = [''discovery.k8s.io''], rule_Resources = [''endpointslices''],
        rule_Verbs = [''get'', ''list'', ''watch'', ''create'', ''delete'', ''update'']\<rparr>,
       \<lparr>rule_APIGroups = [[]], rule_Resources = [''pods''], rule_Verbs = [''get'', ''list'', ''watch'']\<rparr>,
       \<lparr>rule_APIGroups = [''clusterlink.net''],
        rule_Resources = [''exports'', ''peers'', ''accesspolicies'', ''privilegedaccesspolicies''],
        rule_Verbs = [''get'', ''list'', ''watch'']\<rparr>,
       \<lparr>rule_APIGroups = [''clusterlink.net''], rule_Resources = [''imports''],
        rule_Verbs = [''get'', ''list'', ''watch'', ''update'']\<rparr>,
       \<lparr>rule_APIGroups = [''clusterlink.net''],
        rule_Resources = [''imports/status'', ''exports/status'', ''peers/status''], rule_Verbs = [''update'']\<rparr>]\<rparr>"

definition template_binding :: "platform_Config \<Rightarrow> ClusterRoleBinding" where
  "template_binding config = \<lparr>crb_Meta = \<lparr>om_Name = controlplane_Name, om_Namespace = [], om_Labels = []\<rparr>,
     crb_RoleRef = controlplane_Name, crb_Subjects = [(''default'', pcf_Namespace config)]\<rparr>"

definition port_error :: "uint16 \<Rightarrow> error" where
  "port_error port = Errorf (''nodeport number '' @ Itoa (unat port) @ '' is not in the valid range (30000:32767)'')"

definition ingressTemplate :: "string \<Rightarrow> string \<Rightarrow> int32 \<Rightarrow> int32 \<Rightarrow> op_Service" where
  "ingressTemplate namespace ingressType ingressPort ingressNodePort =
     \<lparr>osv_Meta = \<lparr>om_Name = IngressSvcName, om_Namespace = namespace, om_Labels = []\<rparr>, osv_Annotations = [],
      osv_Selector = [(''app'', dataplane_Name)],
      osv_Ports = [\<lparr>osp_Name = ''dataplane'', osp_Protocol = [], osp_Port = ingressPort, osp_TargetPort = dataplane_ListenPort,
        osp_NodePort = ingressNodePort\<rparr>],
      osv_Type = ingressType, osv_LoadBalancerIPs = []\<rparr>"

definition k8SIngressConfig :: "platform_Config \<Rightarrow> error + op_Service" where
  "k8SIngressConfig config =
     (let port = pcf_IngressPort config;
          ingressType = (if pcf_IngressType config = IngressTypeNodePort \<or> pcf_IngressType config = IngressTypeLoadBalancer
            then pcf_IngressType config else ''ClusterIP'')
      in if port \<noteq> 0
         then if pcf_IngressType config = IngressTypeNodePort
              then if port < 30000 \<or> 32767 < port then Inl (port_error port)
                   else Inr (ingressTemplate (pcf_Namespace config) ingressType DefaultExternalPort (ucast port))
              else Inr (ingressTemplate (pcf_Namespace config) ingressType (ucast port) 0)
         else Inr (ingressTemplate (pcf_Namespace config) ingressType DefaultExternalPort 0))"

record k8s_objects =
  ko_Namespace :: string
  ko_Secrets :: "Secret list"
  ko_Controlplane :: Deployment
  ko_Dataplane :: Deployment
  ko_Service :: op_Service
  ko_ClusterRole :: ClusterRole
  ko_ClusterRoleBinding :: ClusterRoleBinding
  ko_Ingress :: op_Service

definition K8SConfig :: "platform_Config \<Rightarrow> error + k8s_objects" where
  "K8SConfig config =
     (case k8SIngressConfig config of
        Inl err \<Rightarrow> Inl err
      | Inr ingress \<Rightarrow> Inr \<lparr>ko_Namespace = pcf_Namespace config, ko_Secrets = K8SCertificateConfig config,
          ko_Controlplane = template_controlplane config, ko_Dataplane = template_dataplane config,
          ko_Service = template_service config, ko_ClusterRole = template_role, ko_ClusterRoleBinding = template_binding config,
          ko_Ingress = ingress\<rparr>)"

text \<open>
  The document of an instance. Its string fields hold the text that stands in the YAML, without
  quotes; \<open>decode_instance\<close> is what a decoder makes of it.
\<close>

definition ClusterLinkInstanceTemplate :: "platform_Config \<Rightarrow> string \<Rightarrow> uint16 \<Rightarrow> Instance" where
  "ClusterLinkInstanceTemplate config name ingressPort =
     \<lparr>inst_Meta = \<lparr>om_Name = name, om_Namespace = OperatorNamespace,
        om_Labels = [(''app.kubernetes.io/name'', ''instance''), (''app.kubernetes.io/instance'', name),
          (''app.kubernetes.io/part-of'', ''clusterlink''), (''app.kubernetes.io/created-by'', ''clusterlink'')]\<rparr>,
      inst_CreationTimestamp = 0, inst_Deleting = False, inst_Finalizers = [],
      inst_Spec = \<lparr>ins_DataPlane = \<lparr>dps_Type = pcf_DataplaneType config, dps_Replicas = uint (pcf_Dataplanes config)\<rparr>,
        ins_Ingress = \<lparr>ing_Type = pcf_IngressType config, ing_Port = ucast ingressPort, ing_Annotations = pcf_IngressAnnotations config\<rparr>,
        ins_LogLevel = pcf_LogLevel config, ins_ContainerRegistry = template_registry config, ins_Tag = pcf_Tag config,
        ins_Namespace = pcf_Namespace config, ins_PeerLabels = pcf_PeerLabels config\<rparr>,
      inst_Status = \<lparr>ins_Controlplane = \<lparr>cs_Conditions = []\<rparr>, ins_Dataplane = \<lparr>cs_Conditions = []\<rparr>,
        ins_IngressStatus = \<lparr>ist_IP = [], ist_Port = 0, ist_Conditions = []\<rparr>\<rparr>\<rparr>"

definition K8SClusterLinkInstanceConfig :: "platform_Config \<Rightarrow> string \<Rightarrow> error + Instance" where
  "K8SClusterLinkInstanceConfig config name =
     (let port = pcf_IngressPort config
      in if port \<noteq> 0 \<and> (pcf_IngressType config = IngressTypeNodePort \<and> port < 30000 \<or> 32767 < port)
         then Inl (port_error port)
         else Inr (ClusterLinkInstanceTemplate config name port))"

definition decode_map :: "(string \<Rightarrow> string option) \<Rightarrow> labels \<Rightarrow> labels option" where
  "decode_map yaml m = those (map (\<lambda>(key, val). case (yaml key, yaml val) of (Some k, Some v) \<Rightarrow> Some (k, v) | _ \<Rightarrow> None) m)"

definition decode_instance :: "(string \<Rightarrow> string option) \<Rightarrow> Instance \<Rightarrow> error + Instance" where
  "decode_instance yaml doc =
     (let spec = inst_Spec doc; dataplane = ins_DataPlane spec; ingress = ins_Ingress spec
      in case (those (map yaml [om_Name (inst_Meta doc), dps_Type dataplane, ing_Type ingress, ins_LogLevel spec,
                 ins_ContainerRegistry spec, ins_Tag spec, ins_Namespace spec]),
               decode_map yaml (om_Labels (inst_Meta doc)), decode_map yaml (ing_Annotations ingress), decode_map yaml (ins_PeerLabels spec)) of
           (Some [name, dtype, itype, level, registry, tag, namespace], Some ls, Some annotations, Some peerLabels) \<Rightarrow>
             Inr (doc\<lparr>inst_Meta := (inst_Meta doc)\<lparr>om_Name := name, om_Labels := ls\<rparr>,
               inst_Spec := \<lparr>ins_DataPlane = dataplane\<lparr>dps_Type := dtype\<rparr>,
                 ins_Ingress = ingress\<lparr>ing_Type := itype, ing_Annotations := annotations\<rparr>, ins_LogLevel = level,
                 ins_ContainerRegistry = registry, ins_Tag = tag, ins_Namespace = namespace, ins_PeerLabels = peerLabels\<rparr>\<rparr>)
         | _ \<Rightarrow> Inl (Errorf ''cannot decode instance''))"

text \<open>
  The secrets to be deleted. The arguments lack the namespace and the names of the peer's
  files, for which the template has the text \<^verbatim>\<open><no value>\<close>.
\<close>

definition K8SEmptyCertificateConfig :: "Secret list" where
  "K8SEmptyCertificateConfig = certsTemplate
     \<lparr>ca_namespace = ''<no value>'', ca_ca = [], ca_controlplaneCert = [], ca_controlplaneKey = [], ca_dataplaneCert = [],
      ca_dataplaneKey = [], ca_peerCertificateFile = ''<no value>'', ca_peerKeyFile = ''<no value>'', ca_fabricCertFile = ''<no value>'',
      ca_peerCert = [], ca_peerKey = [], ca_fabricCert = []\<rparr>"

subsection \<open>The commands\<close>

definition StartAll :: string where "StartAll = ''all''"
definition StartOperator :: string where "StartOperator = ''operator''"
definition NoStart :: string where "NoStart = ''none''"
definition K8SYAMLFile :: string where "K8SYAMLFile = ''k8s.yaml''"
definition K8SClusterLinkInstanceYAMLFile :: string where "K8SClusterLinkInstanceYAMLFile = ''cl-instance.yaml''"
definition DefaultRegistry :: string where "DefaultRegistry = ''ghcr.io/clusterlink-net''"

record PeerOptions =
  po_Name :: string
  po_Fabric :: string
  po_Namespace :: string
  po_Path :: string
  po_StartInstance :: string
  po_Ingress :: string
  po_IngressPort :: uint16
  po_IngressAnnotations :: labels
  po_ContainerRegistry :: string
  po_Tag :: string
  po_ControlplaneReplicas :: uint16
  po_DataplaneReplicas :: uint16
  po_DataplaneType :: string
  po_Labels :: labels
  po_LogLevel :: string

text \<open>
  What the commands use of the cluster. \<open>de_createText\<close>, \<open>de_createDir\<close> and \<open>de_createSecrets\<close> decode
  a text, the files of an embedded directory, and secrets, and create the objects; the first
  and the last ignore an object that exists, and the last moves the secrets to a namespace.
  The deletions mirror them. \<open>de_sleep\<close> is what the cluster does meanwhile and \<open>de_rounds\<close> how
  often the command looks at it within a minute. \<open>de_print_k8s\<close> and \<open>de_print_instance\<close> are
  the YAML texts.
\<close>

record 's deploy_env =
  de_GetConfig :: "error option"
  de_manager :: "error + string"
  de_yaml :: "string \<Rightarrow> string option"
  de_print_k8s :: "k8s_objects \<Rightarrow> string"
  de_print_instance :: "Instance \<Rightarrow> string"
  de_createText :: "string \<Rightarrow> 's \<Rightarrow> 's \<times> api_error option"
  de_createDir :: "string \<Rightarrow> 's \<Rightarrow> 's \<times> api_error option"
  de_createSecrets :: "string \<Rightarrow> Secret list \<Rightarrow> 's \<Rightarrow> 's \<times> api_error option"
  de_deleteDir :: "string \<Rightarrow> 's \<Rightarrow> 's \<times> api_error option"
  de_deleteSecrets :: "string \<Rightarrow> Secret list \<Rightarrow> 's \<Rightarrow> 's \<times> api_error option"
  de_Instance :: "('s, Instance) kind_api"
  de_ListInstances :: "'s \<Rightarrow> api_error + Instance list"
  de_IsNoMatch :: "api_error \<Rightarrow> bool"
  de_sleep :: "'s \<Rightarrow> 's"
  de_rounds :: nat

text \<open>\<^verbatim>\<open>strings.ReplaceAll\<close> of a text that is not empty.\<close>

fun ReplaceAll :: "string \<Rightarrow> string \<Rightarrow> string \<Rightarrow> string" where
  "ReplaceAll [] old new = []"
| "ReplaceAll (c # s) old new =
     (if old \<noteq> [] \<and> take (length old) (c # s) = old then new @ ReplaceAll (drop (length old) (c # s)) old new
      else c # ReplaceAll s old new)"

definition verifyDataplaneType :: "string \<Rightarrow> error option" where
  "verifyDataplaneType dType =
     (if dType = DataplaneTypeEnvoy \<or> dType = DataplaneTypeGo then None else Some (Errorf (''undefined dataplane-type '' @ dType)))"

definition verifyStartInstance :: "string \<Rightarrow> error option" where
  "verifyStartInstance sType =
     (if sType \<in> {StartAll, StartOperator, NoStart} then None else Some (Errorf (''undefined start type '' @ sType)))"

definition deployDir :: "'s deploy_env \<Rightarrow> string \<Rightarrow> 's \<Rightarrow> 's \<times> error option" where
  "deployDir E dir s =
     (case de_createDir E dir s of
        (s', Some err) \<Rightarrow> (s', if IsAlreadyExists err then None else Some (api err))
      | (s', None) \<Rightarrow> (s', None))"

text \<open>The certificates that \<^verbatim>\<open>Run\<close> reads and creates, and the configuration it makes of them.\<close>

definition deploy_certificates :: "pki \<Rightarrow> bs_draw \<times> bs_draw \<times> bs_draw \<Rightarrow> PeerOptions \<Rightarrow> file_system
    \<Rightarrow> panic + (error + bs_certificate \<times> bs_certificate \<times> bs_certificate \<times> bs_certificate \<times> bs_certificate)" where
  "deploy_certificates P Ds opts fs =
     (case Ds of (D, D1, D2) \<Rightarrow>
     (case ReadCertificates P (FabricDirectory (po_Fabric opts) (po_Path opts)) False fs of
        Inl err \<Rightarrow> Inr (Inl (Wrapf ''failed to read fabric certificate: '' err))
      | Inr fabricCert \<Rightarrow>
     (case ReadCertificates P (PeerDirectory (po_Name opts) (po_Fabric opts) (po_Path opts)) True fs of
        Inl err \<Rightarrow> Inr (Inl (Wrapf ''failed to read peer certificate: '' err))
      | Inr peerCert \<Rightarrow>
     (case CreateCACertificate P D of
        Inl p \<Rightarrow> Inl p
      | Inr (Inl err) \<Rightarrow> Inr (Inl (Wrapf ''failed to create CA certificate: '' err))
      | Inr (Inr caCert) \<Rightarrow>
     (case CreateControlplaneCertificate P D1 caCert of
        Inl p \<Rightarrow> Inl p
      | Inr (Inl err) \<Rightarrow> Inr (Inl (Wrapf ''failed to create controlplane certificates: '' err))
      | Inr (Inr controlplaneCert) \<Rightarrow>
     (case CreateDataplaneCertificate P D2 caCert of
        Inl p \<Rightarrow> Inl p
      | Inr (Inl err) \<Rightarrow> Inr (Inl (Wrapf ''failed to create dataplane certificates: '' err))
      | Inr (Inr dataplaneCert) \<Rightarrow> Inr (Inr (fabricCert, peerCert, caCert, controlplaneCert, dataplaneCert))))))))"

definition deploy_config ::
    "PeerOptions \<Rightarrow> bs_certificate \<times> bs_certificate \<times> bs_certificate \<times> bs_certificate \<times> bs_certificate \<Rightarrow> platform_Config" where
  "deploy_config opts certs =
     (case certs of (fabricCert, peerCert, caCert, controlplaneCert, dataplaneCert) \<Rightarrow>
       \<lparr>pcf_Peer = po_Name opts, pcf_Namespace = po_Namespace opts, pcf_CACertificate = caCert,
        pcf_ControlplaneCertificate = controlplaneCert, pcf_DataplaneCertificate = dataplaneCert,
        pcf_FabricCertificate = fabricCert, pcf_PeerCertificate = peerCert,
        pcf_Controlplanes = po_ControlplaneReplicas opts, pcf_Dataplanes = po_DataplaneReplicas opts,
        pcf_DataplaneType = po_DataplaneType opts, pcf_PeerLabels = po_Labels opts, pcf_LogLevel = po_LogLevel opts,
        pcf_ContainerRegistry = po_ContainerRegistry opts, pcf_Tag = po_Tag opts, pcf_IngressType = po_Ingress opts,
        pcf_IngressPort = if ucast (po_IngressPort opts) \<noteq> DefaultExternalPort then po_IngressPort opts else 0,
        pcf_IngressAnnotations = po_IngressAnnotations opts\<rparr>)"

definition deploy_operator :: "'s deploy_env \<Rightarrow> PeerOptions \<Rightarrow> 's \<Rightarrow> 's \<times> error option" where
  "deploy_operator E opts s =
     (case de_GetConfig E of
        Some err \<Rightarrow> (s, Some err)
      | None \<Rightarrow>
     (let ghImage = filepath_Join DefaultRegistry ''cl-operator:latest'';
          newImage = filepath_Join (po_ContainerRegistry opts) (''cl-operator:'' @ po_Tag opts)
      in case de_manager E of
           Inl err \<Rightarrow> (s, Some err)
         | Inr managerFile \<Rightarrow>
             seqE (\<lambda>s. apsnd (map_option api) (de_createText E (ReplaceAll managerFile ghImage newImage) s))
            (seqE (deployDir E ''operator/rbac/*'') (deployDir E ''crds/*'')) s))"

definition create_instance :: "'s deploy_env \<Rightarrow> Instance \<Rightarrow> 's \<Rightarrow> 's \<times> error option" where
  "create_instance E doc s =
     (case decode_instance (de_yaml E) doc of
        Inl err \<Rightarrow> (s, Some err)
      | Inr instance \<Rightarrow>
          (case k_Create (de_Instance E) instance s of
             (s', Some err) \<Rightarrow> (s', if IsAlreadyExists err then None else Some (api err))
           | (s', None) \<Rightarrow> (s', None)))"

definition write_yaml :: "string \<Rightarrow> string \<Rightarrow> file_system \<Rightarrow> file_system \<times> error option" where
  "write_yaml path text fs =
     (case os_WriteFile path text fs of
        (fs', Some err) \<Rightarrow> (fs', Some (Wrapf ''failed to write YAML file: '' err)) | (fs', None) \<Rightarrow> (fs', None))"

definition deploy_Run :: "pki \<Rightarrow> bs_draw \<times> bs_draw \<times> bs_draw \<Rightarrow> 's deploy_env \<Rightarrow> PeerOptions \<Rightarrow> file_system \<times> 's
    \<Rightarrow> (file_system \<times> 's) \<times> (panic + error option)" where
  "deploy_Run P Ds E opts st =
     (case st of (fs, s) \<Rightarrow>
     (let peerDir = PeerDirectory (po_Name opts) (po_Fabric opts) (po_Path opts)
      in case os_exists peerDir fs of
        Inl err \<Rightarrow> (st, Inr (Some (Wrapf ''failed to open certificates folder: '' err)))
      | Inr False \<Rightarrow> (st, Inr (Some (Wrapf ''failed to open certificates folder: '' (Errorf ''no such file or directory''))))
      | Inr True \<Rightarrow>
     (case verifyDataplaneType (po_DataplaneType opts) of
        Some err \<Rightarrow> (st, Inr (Some err))
      | None \<Rightarrow>
     (case verifyStartInstance (po_StartInstance opts) of
        Some err \<Rightarrow> (st, Inr (Some err))
      | None \<Rightarrow>
     (case deploy_certificates P Ds opts fs of
        Inl p \<Rightarrow> (st, Inl p)
      | Inr (Inl err) \<Rightarrow> (st, Inr (Some err))
      | Inr (Inr certs) \<Rightarrow>
     (let platformCfg = deploy_config opts certs
      in if po_StartInstance opts = NoStart
         then (case K8SConfig platformCfg of
                 Inl err \<Rightarrow> (st, Inr (Some err))
               | Inr k8sConfig \<Rightarrow>
                   (case write_yaml (filepath_Join peerDir K8SYAMLFile) (de_print_k8s E k8sConfig) fs of
                      (fs', err) \<Rightarrow> ((fs', s), Inr err)))
         else (case seqE (deploy_operator E opts)
                 (\<lambda>s. apsnd (map_option api) (de_createSecrets E (po_Namespace opts) (K8SCertificateConfig platformCfg) s)) s of
                 (s', Some err) \<Rightarrow> ((fs, s'), Inr (Some err))
               | (s', None) \<Rightarrow>
              (case K8SClusterLinkInstanceConfig platformCfg ''cl-instance'' of
                 Inl err \<Rightarrow> ((fs, s'), Inr (Some err))
               | Inr instance \<Rightarrow>
                   if po_StartInstance opts = StartAll
                   then (case create_instance E instance s' of (s'', err) \<Rightarrow> ((fs, s''), Inr err))
                   else (case write_yaml (filepath_Join peerDir K8SClusterLinkInstanceYAMLFile) (de_print_instance E instance) fs of
                           (fs', err) \<Rightarrow> ((fs', s'), Inr err))))))))))"

fun waitForInstanceDeletion :: "'s deploy_env \<Rightarrow> nat \<Rightarrow> Instance \<Rightarrow> 's \<Rightarrow> 's \<times> error option" where
  "waitForInstanceDeletion E 0 inst s = (s, Some (Errorf ''timeout exceeded while waiting for instance deletion''))"
| "waitForInstanceDeletion E (Suc n) inst s =
     (case k_Get (de_Instance E) (object_key (inst_Meta inst)) s of
        Inl err \<Rightarrow> (s, if IsNotFound err then None else Some (api err))
      | Inr _ \<Rightarrow> waitForInstanceDeletion E n inst (de_sleep E s))"

definition delete_instance :: "'s deploy_env \<Rightarrow> Instance \<Rightarrow> 's \<Rightarrow> 's \<times> error option" where
  "delete_instance E inst s =
     (case k_Delete (de_Instance E) (object_key (inst_Meta inst)) s of
        (s', Some _) \<Rightarrow> (s', None)
      | (s', None) \<Rightarrow> waitForInstanceDeletion E (de_rounds E) inst s')"

definition deleteDir :: "'s deploy_env \<Rightarrow> string \<Rightarrow> 's \<Rightarrow> 's \<times> error option" where
  "deleteDir E dir s =
     (case de_deleteDir E dir s of
        (s', Some err) \<Rightarrow> (s', Some (Wrapf (''failed to delete directory '' @ dir @ '': '') (api err)))
      | (s', None) \<Rightarrow> (s', None))"

definition delete_secrets :: "'s deploy_env \<Rightarrow> string \<Rightarrow> 's \<Rightarrow> 's \<times> error option" where
  "delete_secrets E namespace s =
     (case de_deleteSecrets E namespace K8SEmptyCertificateConfig s of
        (s', Some err) \<Rightarrow> (s', Some (Wrapf ''fail to delete certificate secrets '' (api err)))
      | (s', None) \<Rightarrow> (s', None))"

definition delete_Run :: "'s deploy_env \<Rightarrow> string \<Rightarrow> 's \<Rightarrow> 's \<times> error option" where
  "delete_Run E namespace s =
     (case de_GetConfig E of
        Some err \<Rightarrow> (s, Some err)
      | None \<Rightarrow>
     (case (case de_ListInstances E s of
              Inl err \<Rightarrow> if \<not> IsNotFound err \<and> \<not> de_IsNoMatch E err then Inl err else Inr []
            | Inr items \<Rightarrow> Inr items) of
        Inl err \<Rightarrow> (s, Some (Wrapf ''unable to get instances list: '' (api err)))
      | Inr items \<Rightarrow>
          seqE (forE (delete_instance E) items)
         (seqE (deleteDir E ''operator/manager/*'')
         (seqE (deleteDir E ''operator/rbac/*'')
         (seqE (deleteDir E ''crds/*'')
               (delete_secrets E namespace)))) s))"

end
