(* ===== verification/Paths.thy ===== *)
theory Paths
  imports Bootstrap
begin

text \<open>
  Lemmas on cleaned paths: a clean path is determined by whether it is rooted and by its
  components, and joining a plain name appends a component.
\<close>

definition path_comps :: "string \<Rightarrow> string list" where
  "path_comps p = clean_components (HasPrefix p ''/'') [] (split_path [] p)"

definition slash_free :: "string \<Rightarrow> bool" where
  "slash_free c \<longleftrightarrow> CHR ''/'' \<notin> set c"

definition plain_name :: "string \<Rightarrow> bool" where
  "plain_name c \<longleftrightarrow> c \<noteq> [] \<and> c \<noteq> ''.'' \<and> c \<noteq> ''..'' \<and> slash_free c"

subsection \<open>Splitting\<close>

lemma split_path_append: "split_path acc (xs @ CHR ''/'' # ys) = split_path acc xs @ split_path [] ys"
  by (induction xs arbitrary: acc) simp_all

lemma split_path_single: "slash_free f \<Longrightarrow> split_path acc f = [rev acc @ f]"
  by (induction f arbitrary: acc) (auto simp: slash_free_def)

lemma split_path_join: "cs \<noteq> [] \<Longrightarrow> \<forall>c \<in> set cs. slash_free c \<Longrightarrow> split_path [] (join_path cs) = cs"
  by (induction cs rule: join_path.induct) (simp_all add: split_path_single split_path_append)

lemma split_path_slash_free: "slash_free (rev acc) \<Longrightarrow> \<forall>c \<in> set (split_path acc xs). slash_free c"
proof (induction xs arbitrary: acc)
  case (Cons x xs)
  then show ?case using Cons.IH [of "[]"] Cons.IH [of "x # acc"] by (auto simp: slash_free_def)
qed (simp add: slash_free_def)

subsection \<open>Cleaning\<close>

lemma clean_components_append:
  "clean_components r out (cs @ ds) = clean_components r (rev (clean_components r out cs)) ds"
  by (induction cs arbitrary: out) (auto split: list.split)

fun clean_out :: "bool \<Rightarrow> string list \<Rightarrow> bool" where
  "clean_out r [] = True"
| "clean_out r (d # ds) \<longleftrightarrow> clean_out r ds \<and> (plain_name d \<or> d = ''..'' \<and> \<not> r \<and> (ds = [] \<or> hd ds = ''..''))"

lemma clean_out_clean: "clean_out r out \<Longrightarrow> clean_components r [] (rev out) = rev out"
proof (induction out)
  case (Cons d ds)
  then show ?case by (auto simp: clean_components_append plain_name_def split: list.split)
qed simp

lemma clean_components_out:
  "clean_out r out \<Longrightarrow> \<forall>c \<in> set cs. slash_free c \<Longrightarrow> clean_out r (rev (clean_components r out cs))"
  by (induction cs arbitrary: out) (auto simp: plain_name_def split: list.split)

lemma clean_out_slash_free: "clean_out r out \<Longrightarrow> c \<in> set out \<Longrightarrow> slash_free c \<and> c \<noteq> []"
  by (induction out) (auto simp: plain_name_def slash_free_def)

lemma path_comps_out: "clean_out (HasPrefix p ''/'') (rev (path_comps p))"
  unfolding path_comps_def
  by (intro clean_components_out split_path_slash_free) (simp_all add: slash_free_def)

lemma path_comps_idem: "clean_components (HasPrefix p ''/'') [] (path_comps p) = path_comps p"
  using clean_out_clean [OF path_comps_out [of p]] by simp

lemma path_comps_member: "c \<in> set (path_comps p) \<Longrightarrow> slash_free c \<and> c \<noteq> []"
  using clean_out_slash_free [OF path_comps_out [of p], of c] by simp

lemma join_path_prefix: "cs \<noteq> [] \<Longrightarrow> \<forall>c \<in> set cs. slash_free c \<and> c \<noteq> [] \<Longrightarrow> join_path cs \<noteq> [] \<and> \<not> HasPrefix (join_path cs) ''/''"
  by (induction cs rule: join_path.induct) (auto simp: HasPrefix_def slash_free_def neq_Nil_conv)

lemma path_Clean_comps: "path_Clean p = (let s = join_path (path_comps p) in
    if HasPrefix p ''/'' then CHR ''/'' # s else if s = [] then ''.'' else s)"
  by (simp add: path_Clean_def path_comps_def Let_def)

lemma rooted_Clean [simp]: "HasPrefix (path_Clean p) ''/'' = HasPrefix p ''/''"
proof (cases "path_comps p = []")
  case False
  then show ?thesis using join_path_prefix [of "path_comps p"] path_comps_member [of _ p]
    by (auto simp: path_Clean_comps Let_def) (auto simp: HasPrefix_def)
qed (auto simp: path_Clean_comps Let_def HasPrefix_def)

lemma path_comps_Clean [simp]: "path_comps (path_Clean p) = path_comps p"
proof -
  let ?cs = "path_comps p"
  have split: "?cs \<noteq> [] \<Longrightarrow> split_path [] (join_path ?cs) = ?cs" using split_path_join path_comps_member by blast
  have ne: "?cs \<noteq> [] \<Longrightarrow> join_path ?cs \<noteq> []" using join_path_prefix path_comps_member by blast
  have "path_comps (path_Clean p) = clean_components (HasPrefix p ''/'') [] (split_path [] (path_Clean p))"
    by (simp add: path_comps_def)
  also have "\<dots> = ?cs" using split ne path_comps_idem [of p]
    by (cases "?cs = []") (auto simp: path_Clean_comps Let_def)
  finally show ?thesis .
qed

lemma path_Clean_idem [simp]: "path_Clean (path_Clean p) = path_Clean p"
  by (subst path_Clean_comps) (simp add: path_Clean_comps [of p, symmetric])

lemma path_Clean_nonempty [simp]: "path_Clean p \<noteq> []"
  by (simp add: path_Clean_def Let_def)

subsection \<open>Joining\<close>

lemma filepath_Join_plain:
  assumes "d \<noteq> []" and "plain_name f"
  shows "path_comps (filepath_Join d f) = path_comps d @ [f]"
proof -
  have "HasPrefix (d @ CHR ''/'' # f) ''/'' = HasPrefix d ''/''" using assms(1) by (cases d) (auto simp: HasPrefix_def)
  then show ?thesis using assms
    by (simp add: filepath_Join_def plain_name_def) (simp add: path_comps_def split_path_append split_path_single clean_components_append)
qed

lemma filepath_Join_nonempty: "d \<noteq> [] \<Longrightarrow> filepath_Join d f \<noteq> []"
  by (simp add: filepath_Join_def)

lemma filepath_Join_same:
  assumes "path_Clean d = d" and "path_comps (filepath_Join d f) = path_comps d"
  shows "filepath_Join d f = d"
proof -
  have d: "d \<noteq> []" using path_Clean_nonempty [of d] by (simp add: assms(1))
  then have "HasPrefix (d @ CHR ''/'' # f) ''/'' = HasPrefix d ''/''" by (cases d) (auto simp: HasPrefix_def)
  then show ?thesis using assms d path_Clean_comps [of d]
    by (simp add: filepath_Join_def split: if_splits) (simp add: path_Clean_comps Let_def)
qed

lemma filepath_Join_clean: "d \<noteq> [] \<Longrightarrow> path_Clean (filepath_Join d f) = filepath_Join d f"
  by (simp add: filepath_Join_def)

lemma file_names_plain [simp]: "plain_name CertificateFileName" "plain_name PrivateKeyFileName"
  "CertificateFileName \<noteq> PrivateKeyFileName"
  by (simp_all add: plain_name_def slash_free_def CertificateFileName_def PrivateKeyFileName_def)

end
