(* ===== verification/Bootstrap_Results.thy ===== *)
theory Bootstrap_Results
  imports Paths
begin

text \<open>
  What the certificates of a fabric are good for: the peers of a fabric trust each other, each
  under its own name, and nobody outside; control plane and dataplane trust each other in
  their roles. Certificates survive the files they are stored in.
\<close>

subsection \<open>Created certificates\<close>

definition issued :: "pki \<Rightarrow> bs_draw \<Rightarrow> certificateConfig \<Rightarrow> bs_certificate \<Rightarrow> bool" where
  "issued P D config c \<longleftrightarrow>
     (\<exists>key. bd_key D = Inr key \<and> bs_key c = Some key \<and> bs_parent c = ccf_Parent config
       \<and> pem_Encode P ''CERTIFICATE'' (pki_cert_der P (bs_cert c)) = Inr (bs_certPEM c)
       \<and> (\<exists>keyPEM. bs_keyPEM c = Some keyPEM \<and> pem_Encode P ''RSA PRIVATE KEY'' (pki_key_der P key) = Inr keyPEM)
       \<and> crt_PublicKey (bs_cert c) = Some key \<and> crt_Subject (bs_cert c) = ccf_Name config
       \<and> crt_IsCA (bs_cert c) = ccf_IsCA config \<and> crt_BasicConstraintsValid (bs_cert c) = ccf_IsCA config
       \<and> crt_KeyUsage (bs_cert c) = (if ccf_IsCA config then [KeyUsageCertSign, KeyUsageCRLSign] else [])
       \<and> set (crt_ExtKeyUsage (bs_cert c)) = {u. u = ExtKeyUsageServerAuth \<and> ccf_IsServer config \<or> u = ExtKeyUsageClientAuth \<and> ccf_IsClient config}
       \<and> crt_DNSNames (bs_cert c) = (if ccf_IsCA config then [] else ccf_DNSNames config)
       \<and> crt_NotBefore (bs_cert c) = bd_now D \<and> crt_NotAfter (bs_cert c) = AddTenYears (bd_later D)
       \<and> (case ccf_Parent config of
            None \<Rightarrow> crt_Issuer (bs_cert c) = ccf_Name config \<and> crt_SignedBy (bs_cert c) = Some key
          | Some p \<Rightarrow> crt_Issuer (bs_cert c) = crt_Subject (bs_cert p) \<and> crt_SignedBy (bs_cert c) = bs_key p \<and> bs_key p \<noteq> None))"

lemma createCertificate_steps:
  assumes "createCertificate P D config = Inr (Inr c)"
  obtains key der certPEM keyPEM signed where "bd_key D = Inr key"
    and "x509_CreateCertificate P (certificate_template D config)
      (case ccf_Parent config of Some p \<Rightarrow> bs_cert p | None \<Rightarrow> certificate_template D config) key
      (case ccf_Parent config of Some p \<Rightarrow> bs_key p | None \<Rightarrow> Some key) = Inr (Inr der)"
    and "pem_Encode P ''CERTIFICATE'' der = Inr certPEM" and "pem_Encode P ''RSA PRIVATE KEY'' (pki_key_der P key) = Inr keyPEM"
    and "pki_ParseCertificate P der = Inr signed" and "c = BsCertificate (ccf_Parent config) signed (Some key) certPEM (Some keyPEM)"
  using assms unfolding createCertificate_def Let_def
  by (cases "ccf_Parent config") (auto split: sum.splits)

lemma x509_CreateCertificate_ok:
  assumes "x509_CreateCertificate P cert ca pub priv = Inr (Inr der)"
  obtains k where "priv = Some k"
    and "der = pki_cert_der P (X509Cert (crt_SerialNumber cert) (crt_NotBefore cert) (crt_NotAfter cert)
            (crt_IsCA cert) (crt_BasicConstraintsValid cert) (crt_Subject cert) (crt_KeyUsage cert) (crt_ExtKeyUsage cert)
            (crt_DNSNames cert) (Some pub) (crt_Subject ca) (Some k))"
  using assms unfolding x509_CreateCertificate_def by (cases priv) (auto split: if_splits)

lemma createCertificate_issued:
  assumes "pki_ok P" and "createCertificate P D config = Inr (Inr c)"
  shows "issued P D config c"
proof -
  from assms(2) obtain key der certPEM keyPEM signed where c: "bd_key D = Inr key"
    "x509_CreateCertificate P (certificate_template D config)
      (case ccf_Parent config of Some p \<Rightarrow> bs_cert p | None \<Rightarrow> certificate_template D config) key
      (case ccf_Parent config of Some p \<Rightarrow> bs_key p | None \<Rightarrow> Some key) = Inr (Inr der)"
    "pem_Encode P ''CERTIFICATE'' der = Inr certPEM" "pem_Encode P ''RSA PRIVATE KEY'' (pki_key_der P key) = Inr keyPEM"
    "pki_ParseCertificate P der = Inr signed" "c = BsCertificate (ccf_Parent config) signed (Some key) certPEM (Some keyPEM)"
    by (rule createCertificate_steps)
  from c(2) obtain k where k: "(case ccf_Parent config of Some p \<Rightarrow> bs_key p | None \<Rightarrow> Some key) = Some k"
    "der = pki_cert_der P (X509Cert (bd_serial D) (bd_now D) (AddTenYears (bd_later D)) (ccf_IsCA config) (ccf_IsCA config)
       (ccf_Name config) (if ccf_IsCA config then [KeyUsageCertSign, KeyUsageCRLSign] else [])
       ((if ccf_IsServer config then [ExtKeyUsageServerAuth] else []) @ (if ccf_IsClient config then [ExtKeyUsageClientAuth] else []))
       (if ccf_IsCA config then [] else ccf_DNSNames config) (Some key)
       (crt_Subject (case ccf_Parent config of Some p \<Rightarrow> bs_cert p | None \<Rightarrow> certificate_template D config)) (Some k))"
    by (rule x509_CreateCertificate_ok) (simp add: certificate_template_def)
  have "pki_ParseCertificate P (pki_cert_der P x) = Inr x" for x using assms(1) by (simp add: pki_ok_def)
  with c(5) have s: "der = pki_cert_der P signed" "signed = X509Cert (bd_serial D) (bd_now D) (AddTenYears (bd_later D)) (ccf_IsCA config)
       (ccf_IsCA config) (ccf_Name config) (if ccf_IsCA config then [KeyUsageCertSign, KeyUsageCRLSign] else [])
       ((if ccf_IsServer config then [ExtKeyUsageServerAuth] else []) @ (if ccf_IsClient config then [ExtKeyUsageClientAuth] else []))
       (if ccf_IsCA config then [] else ccf_DNSNames config) (Some key)
       (crt_Subject (case ccf_Parent config of Some p \<Rightarrow> bs_cert p | None \<Rightarrow> certificate_template D config)) (Some k)"
    unfolding k(2) by simp_all
  have "set (crt_ExtKeyUsage signed) = {u. u = ExtKeyUsageServerAuth \<and> ccf_IsServer config \<or> u = ExtKeyUsageClientAuth \<and> ccf_IsClient config}"
    unfolding s(2) by auto
  moreover have "case ccf_Parent config of None \<Rightarrow> crt_Issuer signed = ccf_Name config \<and> crt_SignedBy signed = Some key
      | Some p \<Rightarrow> crt_Issuer signed = crt_Subject (bs_cert p) \<and> crt_SignedBy signed = bs_key p \<and> bs_key p \<noteq> None"
    using k(1) unfolding s(2) by (cases "ccf_Parent config") (simp_all add: certificate_template_def)
  moreover have "crt_PublicKey signed = Some key" "crt_Subject signed = ccf_Name config" "crt_IsCA signed = ccf_IsCA config"
      "crt_BasicConstraintsValid signed = ccf_IsCA config" "crt_NotBefore signed = bd_now D" "crt_NotAfter signed = AddTenYears (bd_later D)"
      "crt_KeyUsage signed = (if ccf_IsCA config then [KeyUsageCertSign, KeyUsageCRLSign] else [])"
      "crt_DNSNames signed = (if ccf_IsCA config then [] else ccf_DNSNames config)"
    unfolding s(2) by simp_all
  ultimately show ?thesis using c(1,4) c(3) [unfolded s(1)] unfolding issued_def c(6) bs_certificate.sel by simp
qed

lemma pki_decode: "pki_ok P \<Longrightarrow> pem_Encode P type der = Inr s \<Longrightarrow> pem_Decode P (s @ rest) = Some der"
  by (simp add: pki_ok_def)

text \<open>A stored certificate is read back; its parent is not needed again.\<close>

lemma certificateFromRaw_issued:
  assumes "pki_ok P" and "issued P D config c"
  shows "certificateFromRaw P (RawCert c) (Some (RawKey c)) = Inr (BsCertificate None (bs_cert c) (bs_key c) (RawCert c) (bs_keyPEM c))"
    and "certificateFromRaw P (RawCert c) None = Inr (BsCertificate None (bs_cert c) None (RawCert c) None)"
proof -
  from assms(2) obtain key keyPEM where k: "bs_key c = Some key" "bs_keyPEM c = Some keyPEM"
      "pem_Encode P ''RSA PRIVATE KEY'' (pki_key_der P key) = Inr keyPEM"
      "pem_Encode P ''CERTIFICATE'' (pki_cert_der P (bs_cert c)) = Inr (bs_certPEM c)"
    by (auto simp: issued_def)
  have dec: "pem_Decode P (RawCert c) = Some (pki_cert_der P (bs_cert c))" "pem_Decode P keyPEM = Some (pki_key_der P key)"
    using pki_decode [OF assms(1) k(4)] pki_decode [OF assms(1) k(3), of "[]"] by (simp_all add: RawCert_def)
  show "certificateFromRaw P (RawCert c) (Some (RawKey c)) = Inr (BsCertificate None (bs_cert c) (bs_key c) (RawCert c) (bs_keyPEM c))"
    and "certificateFromRaw P (RawCert c) None = Inr (BsCertificate None (bs_cert c) None (RawCert c) None)"
    using assms(1) k by (simp_all add: certificateFromRaw_def RawKey_def dec pki_ok_def)
qed

subsection \<open>Trust\<close>

lemma verify_issued:
  assumes "issued P D config c" and "ccf_Parent config = Some p" and "\<not> ccf_IsCA config"
    and "crt_IsCA root" and "crt_BasicConstraintsValid root" and "crt_KeyUsage root = [KeyUsageCertSign, KeyUsageCRLSign]"
    and "crt_PublicKey root = Some k" and "in_validity now root" and "in_validity now (bs_cert c)"
    and "ccf_IsServer config \<or> ccf_IsClient config"
  shows "x509_Verify [root] usage name now (bs_cert c) \<longleftrightarrow>
     (case name of None \<Rightarrow> True | Some n \<Rightarrow> \<exists>d \<in> set (ccf_DNSNames config). toLowerCaseASCII d = toLowerCaseASCII n)
     \<and> (case usage of ExtKeyUsageServerAuth \<Rightarrow> ccf_IsServer config | ExtKeyUsageClientAuth \<Rightarrow> ccf_IsClient config)
     \<and> crt_Subject (bs_cert p) = crt_Subject root \<and> bs_key p = Some k"
proof -
  let ?c = "bs_cert c"
  have eku: "set (crt_ExtKeyUsage ?c) = {u. u = ExtKeyUsageServerAuth \<and> ccf_IsServer config \<or> u = ExtKeyUsageClientAuth \<and> ccf_IsClient config}"
    and dns: "crt_DNSNames ?c = ccf_DNSNames config" and "\<not> crt_IsCA ?c"
    and par: "crt_Issuer ?c = crt_Subject (bs_cert p)" "crt_SignedBy ?c = bs_key p"
    using assms(1-3) by (auto simp: issued_def)
  then have "?c \<noteq> root" using assms(4) by blast
  moreover have "crt_ExtKeyUsage ?c \<noteq> []" using eku assms(10) by fastforce
  moreover have "usage \<in> set (crt_ExtKeyUsage ?c) \<longleftrightarrow>
      (case usage of ExtKeyUsageServerAuth \<Rightarrow> ccf_IsServer config | ExtKeyUsageClientAuth \<Rightarrow> ccf_IsClient config)"
    unfolding eku by (cases usage) simp_all
  moreover have "may_sign now ?c root \<longleftrightarrow> crt_Subject (bs_cert p) = crt_Subject root \<and> bs_key p = Some k"
    using assms(4-8) par by (auto simp: may_sign_def)
  ultimately show ?thesis using assms(9) by (simp add: x509_Verify_def dns list_ex_iff split: option.split)
qed

text \<open>The root certificate of a fabric or a site.\<close>

lemma root_issued:
  assumes "issued P D config c" and "ccf_IsCA config"
  shows "crt_IsCA (bs_cert c)" and "crt_BasicConstraintsValid (bs_cert c)"
    and "crt_KeyUsage (bs_cert c) = [KeyUsageCertSign, KeyUsageCRLSign]" and "crt_Subject (bs_cert c) = ccf_Name config"
    and "\<exists>k. bs_key c = Some k \<and> crt_PublicKey (bs_cert c) = Some k"
  using assms by (auto simp: issued_def)

abbreviation fabric_config :: "string \<Rightarrow> certificateConfig" where
  "fabric_config name \<equiv> \<lparr>ccf_Name = name, ccf_IsCA = True, ccf_IsServer = False, ccf_IsClient = False, ccf_DNSNames = [],
     ccf_Parent = None\<rparr>"

abbreviation peer_config :: "string \<Rightarrow> bs_certificate \<Rightarrow> certificateConfig" where
  "peer_config peer fabric \<equiv> \<lparr>ccf_Name = peer, ccf_IsCA = False, ccf_IsServer = True, ccf_IsClient = True, ccf_DNSNames = [peer],
     ccf_Parent = Some fabric\<rparr>"

lemma peer_verify:
  assumes "issued P D (fabric_config name) fab" and "issued P D' (peer_config p fab') c" and "bs_cert fab' = bs_cert fab"
    and "bs_key fab' = bs_key fab" and "in_validity now (bs_cert fab)" and "in_validity now (bs_cert c)"
  shows "x509_Verify [bs_cert fab] usage (Some n) now (bs_cert c) \<longleftrightarrow> toLowerCaseASCII n = toLowerCaseASCII p"
proof -
  obtain k where k: "bs_key fab = Some k" "crt_PublicKey (bs_cert fab) = Some k" using root_issued(5) [OF assms(1)] by auto
  show ?thesis
    using verify_issued [OF assms(2) _ _ root_issued(1-3) [OF assms(1)] k(2) assms(5,6)] k assms(3,4)
    by (cases usage) auto
qed

subsection \<open>Files\<close>

lemma os_WriteFile_ok:
  assumes "os_WriteFile path x fs = (fs', None)"
  shows "fs_fault fs path = None" and "fs' = fs\<lparr>fs_files := mput path x (fs_files fs)\<rparr>"
  using assms by (auto simp: os_WriteFile_def split: option.splits if_splits)

lemma os_Mkdir_ok:
  assumes "os_Mkdir path fs = (fs', None)"
  shows "path \<notin> set (fs_dirs fs)" and "fs' = fs\<lparr>fs_dirs := path # fs_dirs fs\<rparr>"
  using assms by (auto simp: os_Mkdir_def split: option.splits if_splits)

text \<open>A new directory with the two files of a certificate.\<close>

definition saved :: "string \<Rightarrow> bs_certificate \<Rightarrow> file_system \<Rightarrow> bool" where
  "saved dir c fs \<longleftrightarrow> dir \<in> set (fs_dirs fs)
     \<and> os_ReadFile (filepath_Join dir CertificateFileName) fs = Inr (RawCert c)
     \<and> os_ReadFile (filepath_Join dir PrivateKeyFileName) fs = Inr (RawKey c)"

lemma store_ok:
  assumes "dir \<noteq> []"
    and "seqE (os_Mkdir dir) (seqE (os_WriteFile (filepath_Join dir CertificateFileName) (RawCert c))
      (os_WriteFile (filepath_Join dir PrivateKeyFileName) (RawKey c))) fs = (fs', None)"
  shows "saved dir c fs'" and "dir \<notin> set (fs_dirs fs)" and "set (fs_dirs fs) \<subseteq> set (fs_dirs fs')"
    and "path \<noteq> filepath_Join dir CertificateFileName \<Longrightarrow> path \<noteq> filepath_Join dir PrivateKeyFileName \<Longrightarrow>
      os_ReadFile path fs' = os_ReadFile path fs"
proof -
  have ne: "filepath_Join dir CertificateFileName \<noteq> filepath_Join dir PrivateKeyFileName"
    using filepath_Join_plain [OF assms(1), of CertificateFileName] filepath_Join_plain [OF assms(1), of PrivateKeyFileName]
    by (metis file_names_plain last_snoc)
  from assms(2) obtain s1 s2 where "os_Mkdir dir fs = (s1, None)"
      "os_WriteFile (filepath_Join dir CertificateFileName) (RawCert c) s1 = (s2, None)"
      "os_WriteFile (filepath_Join dir PrivateKeyFileName) (RawKey c) s2 = (fs', None)"
    by (elim seqE_okE) blast
  note steps = os_Mkdir_ok [OF this(1)] os_WriteFile_ok [OF this(2)] os_WriteFile_ok [OF this(3)]
  show "saved dir c fs'" using steps ne by (simp add: saved_def os_ReadFile_def)
  show "dir \<notin> set (fs_dirs fs)" and "set (fs_dirs fs) \<subseteq> set (fs_dirs fs')" using steps by auto
  show "path \<noteq> filepath_Join dir CertificateFileName \<Longrightarrow> path \<noteq> filepath_Join dir PrivateKeyFileName \<Longrightarrow>
      os_ReadFile path fs' = os_ReadFile path fs"
    using steps by (cases "fs_fault fs path") (simp_all add: os_ReadFile_def)
qed

text \<open>The files of a directory stay when another directory is filled.\<close>

lemma saved_other:
  assumes "saved d c fs" and "d \<noteq> []" and "dir \<noteq> []" and "path_comps dir \<noteq> path_comps d"
    and "seqE (os_Mkdir dir) (seqE (os_WriteFile (filepath_Join dir CertificateFileName) (RawCert c'))
      (os_WriteFile (filepath_Join dir PrivateKeyFileName) (RawKey c'))) fs = (fs', None)"
  shows "saved d c fs'"
proof -
  have "filepath_Join d f \<noteq> filepath_Join dir g" if "plain_name f" "plain_name g" for f g
    using filepath_Join_plain [OF assms(2) that(1)] filepath_Join_plain [OF assms(3) that(2)] assms(4) by auto
  then show ?thesis using assms(1) store_ok(3,4) [OF assms(3,5)] by (auto simp: saved_def)
qed

lemma saved_read:
  assumes "pki_ok P" and "issued P D config c" and "saved dir c fs"
  shows "ReadCertificates P dir True fs = Inr (BsCertificate None (bs_cert c) (bs_key c) (RawCert c) (bs_keyPEM c))"
    and "ReadCertificates P dir False fs = Inr (BsCertificate None (bs_cert c) None (RawCert c) None)"
  using assms(3) certificateFromRaw_issued [OF assms(1,2)]
  by (simp_all add: ReadCertificates_def saved_def CertificateFromRaw_def)

lemma createFabric_ok:
  assumes "pki_ok P" and "path \<noteq> []" and "createFabric_Run P D name path fs = (fs', Inr None)"
  obtains fab where "issued P D (fabric_config name) fab" and "saved (FabricDirectory name path) fab fs'"
proof -
  from assms(3) obtain fab where fab: "CreateFabricCertificate P D name = Inr (Inr fab)"
      "seqE (os_Mkdir (FabricDirectory name path)) (seqE (os_WriteFile (FabricCertificate name path) (RawCert fab))
        (os_WriteFile (FabricKey name path) (RawKey fab))) fs = (fs', None)"
    by (auto simp: createFabric_Run_def split: sum.splits) (metis apsnd_conv prod.collapse prod.inject sum.inject(2))
  have "FabricDirectory name path \<noteq> []" using assms(2) by (simp add: FabricDirectory_def filepath_Join_nonempty)
  from that [OF createCertificate_issued [OF assms(1) fab(1) [unfolded CreateFabricCertificate_def]]]
    store_ok(1) [OF this fab(2) [unfolded FabricCertificate_def FabricKey_def]] show thesis .
qed

lemma createPeer_ok:
  assumes "pki_ok P" and "path \<noteq> []" and fab: "issued P D (fabric_config name) fab" "saved (FabricDirectory name path) fab fs"
    and run: "createPeer_Run ToASCII P D' p name path fs = (fs', Inr None)"
  obtains c fab' where "issued P D' (peer_config p fab') c" and "bs_cert fab' = bs_cert fab" and "bs_key fab' = bs_key fab"
    and "saved (PeerDirectory p name path) c fs'" and "saved (FabricDirectory name path) fab fs'"
proof -
  let ?d = "FabricDirectory name path" and ?dir = "PeerDirectory p name path"
  define fab' where "fab' = BsCertificate None (bs_cert fab) (bs_key fab) (RawCert fab) (bs_keyPEM fab)"
  have d: "?d \<noteq> []" "path_Clean ?d = ?d" "?dir \<noteq> []"
    using assms(2) by (simp_all add: FabricDirectory_def PeerDirectory_def filepath_Join_nonempty filepath_Join_clean)
  have "createPeerCert P D' p name path fab' fs = (fs', Inr None)"
    using run saved_read(1) [OF assms(1) fab] by (auto simp: createPeer_Run_def fab'_def split: option.splits)
  then obtain c where c: "CreatePeerCertificate P D' p fab' = Inr (Inr c)"
      "seqE (os_Mkdir ?dir) (seqE (os_WriteFile (filepath_Join ?dir CertificateFileName) (RawCert c))
        (os_WriteFile (filepath_Join ?dir PrivateKeyFileName) (RawKey c))) fs = (fs', None)"
    unfolding createPeerCert_def saveCertificate_def
    by (auto split: sum.splits) (metis apsnd_conv prod.collapse prod.inject sum.inject(2))
  have "?dir \<noteq> ?d" using store_ok(2) [OF d(3) c(2)] fab(2) by (auto simp: saved_def)
  then have "path_comps ?dir \<noteq> path_comps ?d" using filepath_Join_same [OF d(2)] by (metis PeerDirectory_def)
  note other = saved_other [OF fab(2) d(1,3) this c(2)]
  show thesis
    by (rule that [OF createCertificate_issued [OF assms(1) c(1) [unfolded CreatePeerCertificate_def]] _ _ store_ok(1) [OF d(3) c(2)] other])
      (simp_all add: fab'_def)
qed

subsection \<open>A concrete encoding\<close>

instance gotime :: countable
  by countable_datatype

instance KeyUsage :: countable
  by countable_datatype

instance ExtKeyUsage :: countable
  by countable_datatype

instance x509_cert :: countable
  by countable_datatype

text \<open>Certificates and keys in unary, ended by a dash.\<close>

definition unary_pki :: pki where
  "unary_pki = \<lparr>pki_cert_der = (\<lambda>c. replicate (to_nat c) CHR ''c''), pki_ParseCertificate = (\<lambda>s. Inr (from_nat (length s))),
     pki_key_der = (\<lambda>k. replicate k CHR ''k''), pki_ParsePKCS1PrivateKey = (\<lambda>s. Inr (length s)),
     pem_Encode = (\<lambda>type der. if CHR ''-'' \<in> set der then Inl (Errorf ''not unary'') else Inr (der @ ''-'')),
     pem_Decode = (\<lambda>s. if CHR ''-'' \<in> set s then Some (takeWhile (\<lambda>c. c \<noteq> CHR ''-'') s) else None)\<rparr>"

lemma unary_pki_ok: "pki_ok unary_pki"
  by (auto simp: pki_ok_def unary_pki_def takeWhile_tail split: if_splits)

definition demo_draw :: "nat \<Rightarrow> bs_draw" where
  "demo_draw k = \<lparr>bd_key = Inr k, bd_serial = k, bd_now = GoTime 2024 2 29 0, bd_later = GoTime 2024 2 29 1\<rparr>"

definition demo_fs :: file_system where
  "demo_fs = \<lparr>fs_files = [], fs_dirs = [''.''], fs_fault = (\<lambda>_. None)\<rparr>"

lemma unary_codec [simp]:
  "pem_Encode unary_pki type (pki_cert_der unary_pki c) = Inr (pki_cert_der unary_pki c @ ''-'')"
  "pem_Encode unary_pki type (pki_key_der unary_pki k) = Inr (pki_key_der unary_pki k @ ''-'')"
  "pki_ParseCertificate unary_pki (pki_cert_der unary_pki c) = Inr c"
  by (simp_all add: unary_pki_def)

lemma demo_createCertificate:
  assumes "\<not> list_ex (list_ex (\<lambda>c. 128 \<le> (of_char c :: nat))) (ccf_DNSNames config)"
    and "case ccf_Parent config of None \<Rightarrow> True | Some p \<Rightarrow> \<exists>k. bs_key p = Some k \<and> crt_PublicKey (bs_cert p) = Some k"
  shows "\<exists>c. createCertificate unary_pki (demo_draw k) config = Inr (Inr c)"
proof -
  let ?t = "certificate_template (demo_draw k) config"
  let ?ca = "case ccf_Parent config of Some p \<Rightarrow> bs_cert p | None \<Rightarrow> ?t"
    and ?k = "case ccf_Parent config of Some p \<Rightarrow> bs_key p | None \<Rightarrow> Some k"
  have dns: "\<not> list_ex (list_ex (\<lambda>c. 128 \<le> (of_char c :: nat))) (crt_DNSNames ?t)"
    using assms(1) by (simp add: certificate_template_def)
  have "\<exists>k'. ?k = Some k' \<and> (crt_PublicKey ?ca = None \<or> crt_PublicKey ?ca = Some k')"
    using assms(2) by (cases "ccf_Parent config") (auto simp: certificate_template_def)
  then obtain c where "x509_CreateCertificate unary_pki ?t ?ca k ?k = Inr (Inr (pki_cert_der unary_pki c))"
    using dns by (auto simp: x509_CreateCertificate_def)
  then show ?thesis unfolding createCertificate_def Let_def
    by (cases "ccf_Parent config") (simp_all add: demo_draw_def)
qed

lemma demo_fabric: "\<exists>fab. CreateFabricCertificate unary_pki (demo_draw k) name = Inr (Inr fab)"
  using demo_createCertificate [of "fabric_config name" k] by (auto simp: CreateFabricCertificate_def)

lemma demo_paths:
  "FabricDirectory ''f'' ''.'' = ''f''" "FabricCertificate ''f'' ''.'' = ''f/cert.pem''" "FabricKey ''f'' ''.'' = ''f/key.pem''"
  "PeerDirectory ''p'' ''f'' ''.'' = ''f/p''" "filepath_Join ''f'' CertificateFileName = ''f/cert.pem''"
  "filepath_Join ''f'' PrivateKeyFileName = ''f/key.pem''" "filepath_Join ''f/p'' CertificateFileName = ''f/p/cert.pem''"
  "filepath_Join ''f/p'' PrivateKeyFileName = ''f/p/key.pem''" "path_Dir ''f'' = ''.''" "path_Dir ''f/cert.pem'' = ''f''"
  "path_Dir ''f/key.pem'' = ''f''" "path_Dir ''f/p'' = ''f''" "path_Dir ''f/p/cert.pem'' = ''f/p''" "path_Dir ''f/p/key.pem'' = ''f/p''"
  by code_simp+

text \<open>The two commands on an empty directory.\<close>

lemma demo_commands:
  "\<exists>fs1 fs2. createFabric_Run unary_pki (demo_draw 5) ''f'' ''.'' demo_fs = (fs1, Inr None)
     \<and> createPeer_Run (\<lambda>_. None) unary_pki (demo_draw 6) ''p'' ''f'' ''.'' fs1 = (fs2, Inr None) \<and> fs_fault fs2 = (\<lambda>_. None)"
proof -
  obtain fab where fab: "CreateFabricCertificate unary_pki (demo_draw 5) ''f'' = Inr (Inr fab)"
    using demo_fabric by blast
  define fs1 where "fs1 = demo_fs\<lparr>fs_dirs := [''f'', ''.''], fs_files := [(''f/cert.pem'', RawCert fab), (''f/key.pem'', RawKey fab)]\<rparr>"
  have run: "createFabric_Run unary_pki (demo_draw 5) ''f'' ''.'' demo_fs = (fs1, Inr None)"
    by (simp add: createFabric_Run_def fab demo_paths os_Mkdir_def os_WriteFile_def seqE_def fs1_def demo_fs_def)
  note iss = createCertificate_issued [OF unary_pki_ok fab [unfolded CreateFabricCertificate_def]]
  have "saved ''f'' fab fs1" by (simp add: saved_def demo_paths fs1_def demo_fs_def os_ReadFile_def)
  note read = saved_read(1) [OF unary_pki_ok iss this]
  obtain k where k: "bs_key fab = Some k" "crt_PublicKey (bs_cert fab) = Some k" using root_issued(5) [OF iss] by auto
  define fab' where "fab' = BsCertificate None (bs_cert fab) (bs_key fab) (RawCert fab) (bs_keyPEM fab)"
  obtain c where c: "CreatePeerCertificate unary_pki (demo_draw 6) ''p'' fab' = Inr (Inr c)"
    using demo_createCertificate [of "peer_config ''p'' fab'" 6] k by (auto simp: CreatePeerCertificate_def fab'_def)
  have "\<exists>fs2. seqE (os_Mkdir ''f/p'') (seqE (os_WriteFile ''f/p/cert.pem'' (RawCert c)) (os_WriteFile ''f/p/key.pem'' (RawKey c))) fs1
      = (fs2, None) \<and> fs_fault fs2 = (\<lambda>_. None)"
    by (simp add: seqE_def os_Mkdir_def os_WriteFile_def demo_paths fs1_def demo_fs_def)
  then obtain fs2 where "createPeerCert unary_pki (demo_draw 6) ''p'' ''f'' ''.'' fab' fs1 = (fs2, Inr None)" and fs2: "fs_fault fs2 = (\<lambda>_. None)"
    by (auto simp: createPeerCert_def c demo_paths saveCertificate_def)
  moreover have "verifyNotExists ''p'' fs1 = None" by (simp add: verifyNotExists_def os_exists_def fs1_def demo_fs_def)
  ultimately have "createPeer_Run (\<lambda>_. None) unary_pki (demo_draw 6) ''p'' ''f'' ''.'' fs1 = (fs2, Inr None)"
    by (simp add: createPeer_Run_def demo_paths read fab'_def)
  with run fs2 show ?thesis by blast
qed

subsection \<open>Properties\<close>



text \<open>
  C28. A certificate of one fabric is worth nothing in another. Whatever name is asked for, a peer
  certificate is not accepted by those who trust a fabric with a different key.
\<close>

theorem foreign_fabric_rejected:
  assumes "pki_ok P" and "CreateFabricCertificate P D name = Inr (Inr fab)" and "CreateFabricCertificate P E other = Inr (Inr fab2)"
    and "bs_key fab2 \<noteq> bs_key fab" and "CreatePeerCertificate P D' p fab = Inr (Inr c)"
  shows "\<not> x509_Verify [bs_cert fab2] usage n now (bs_cert c)"
proof -
  note f = createCertificate_issued [OF assms(1) assms(2) [unfolded CreateFabricCertificate_def]]
    and f2 = createCertificate_issued [OF assms(1) assms(3) [unfolded CreateFabricCertificate_def]]
    and c = createCertificate_issued [OF assms(1) assms(5) [unfolded CreatePeerCertificate_def]]
  have "bs_cert c \<noteq> bs_cert fab2" using c f2 by (auto simp: issued_def)
  moreover have "\<not> may_sign now (bs_cert c) (bs_cert fab2)" using c f2 assms(4) by (auto simp: issued_def may_sign_def)
  ultimately show ?thesis by (simp add: x509_Verify_def)
qed

theorem foreign_fabric_rejected_witness:
  "\<exists>fab fab2 c. CreateFabricCertificate unary_pki (demo_draw 5) ''f'' = Inr (Inr fab)
     \<and> CreateFabricCertificate unary_pki (demo_draw 6) ''f'' = Inr (Inr fab2)
     \<and> CreatePeerCertificate unary_pki (demo_draw 7) ''p'' fab = Inr (Inr c)
     \<and> \<not> x509_Verify [bs_cert fab2] ExtKeyUsageServerAuth (Some ''p'') (GoTime 2025 1 1 0) (bs_cert c)"
proof -
  obtain fab fab2 where f: "CreateFabricCertificate unary_pki (demo_draw 5) ''f'' = Inr (Inr fab)"
      "CreateFabricCertificate unary_pki (demo_draw 6) ''f'' = Inr (Inr fab2)"
    using demo_fabric by blast
  note i = createCertificate_issued [OF unary_pki_ok f(1) [unfolded CreateFabricCertificate_def]]
    createCertificate_issued [OF unary_pki_ok f(2) [unfolded CreateFabricCertificate_def]]
  have k: "bs_key fab = Some 5" "bs_key fab2 = Some 6" "crt_PublicKey (bs_cert fab) = Some 5" using i by (auto simp: issued_def demo_draw_def)
  obtain c where c: "CreatePeerCertificate unary_pki (demo_draw 7) ''p'' fab = Inr (Inr c)"
    using demo_createCertificate [of "peer_config ''p'' fab" 7] k by (auto simp: CreatePeerCertificate_def)
  show ?thesis using f c foreign_fabric_rejected [OF unary_pki_ok f _ c] k by simp
qed

subsection \<open>Sites\<close>

text \<open>
  To those who trust the site's CA, the control plane is a server of that name and no client,
  and the dataplane is a client and no server.
\<close>

lemma site_roles:
  assumes "pki_ok P" and "CreateCACertificate P D = Inr (Inr ca)" and "CreateControlplaneCertificate P D1 ca = Inr (Inr cp)"
    and "CreateDataplaneCertificate P D2 ca = Inr (Inr dp)"
    and "in_validity now (bs_cert ca)" and "in_validity now (bs_cert cp)" and "in_validity now (bs_cert dp)"
  shows "x509_Verify [bs_cert ca] usage (Some n) now (bs_cert cp) \<longleftrightarrow>
            usage = ExtKeyUsageServerAuth \<and> toLowerCaseASCII n = toLowerCaseASCII controlplane_Name"
    and "x509_Verify [bs_cert ca] usage None now (bs_cert dp) \<longleftrightarrow> usage = ExtKeyUsageClientAuth"
proof -
  note f = createCertificate_issued [OF assms(1) assms(2) [unfolded CreateCACertificate_def]]
    and c = createCertificate_issued [OF assms(1) assms(3) [unfolded CreateControlplaneCertificate_def]]
    and d = createCertificate_issued [OF assms(1) assms(4) [unfolded CreateDataplaneCertificate_def]]
  obtain k where k: "bs_key ca = Some k" "crt_PublicKey (bs_cert ca) = Some k" using root_issued(5) [OF f] by auto
  note root = root_issued(1-3) [OF f, simplified] k(2) assms(5)
  show "x509_Verify [bs_cert ca] usage (Some n) now (bs_cert cp) \<longleftrightarrow>
            usage = ExtKeyUsageServerAuth \<and> toLowerCaseASCII n = toLowerCaseASCII controlplane_Name"
    and "x509_Verify [bs_cert ca] usage None now (bs_cert dp) \<longleftrightarrow> usage = ExtKeyUsageClientAuth"
    using verify_issued [OF c _ _ root assms(6)] verify_issued [OF d _ _ root assms(7)] k(1) by (cases usage; auto)+
qed

lemma demo_site:
  "\<exists>ca cp dp. CreateCACertificate unary_pki (demo_draw 5) = Inr (Inr ca)
     \<and> CreateControlplaneCertificate unary_pki (demo_draw 6) ca = Inr (Inr cp)
     \<and> CreateDataplaneCertificate unary_pki (demo_draw 7) ca = Inr (Inr dp)"
proof -
  obtain ca where ca: "CreateCACertificate unary_pki (demo_draw 5) = Inr (Inr ca)"
    using demo_createCertificate [of "fabric_config ''cl-ca''" 5] by (auto simp: CreateCACertificate_def)
  note i = createCertificate_issued [OF unary_pki_ok ca [unfolded CreateCACertificate_def]]
  have k: "bs_key ca = Some 5" "crt_PublicKey (bs_cert ca) = Some 5" using i by (auto simp: issued_def demo_draw_def)
  obtain cp where "CreateControlplaneCertificate unary_pki (demo_draw 6) ca = Inr (Inr cp)"
    using demo_createCertificate [of "\<lparr>ccf_Name = controlplane_Name, ccf_IsCA = False, ccf_IsServer = True, ccf_IsClient = False,
      ccf_DNSNames = [controlplane_Name], ccf_Parent = Some ca\<rparr>" 6] k by (auto simp: CreateControlplaneCertificate_def controlplane_Name_def)
  moreover obtain dp where "CreateDataplaneCertificate unary_pki (demo_draw 7) ca = Inr (Inr dp)"
    using demo_createCertificate [of "\<lparr>ccf_Name = dataplane_Name, ccf_IsCA = False, ccf_IsServer = False, ccf_IsClient = True,
      ccf_DNSNames = [dataplane_Name], ccf_Parent = Some ca\<rparr>" 7] k by (auto simp: CreateDataplaneCertificate_def dataplane_Name_def)
  ultimately show ?thesis using ca by blast
qed

end
