(* ===== verification/Deploy_Results.thy ===== *)
theory Deploy_Results
  imports Deploy Bootstrap_Results Operator_Results
begin

text \<open>
  What the deployment of a peer gives: the workloads of the operator are those of the
  templates, and in a deployed site every file that the control plane and the dataplane read
  is mounted from the secret that holds it.
\<close>

subsection \<open>Mounted files\<close>

text \<open>What a container finds under a path, for secrets given by their names.\<close>

definition mounted :: "(string \<Rightarrow> Secret option) \<Rightarrow> PodSpec \<Rightarrow> string \<Rightarrow> VolumeMount \<Rightarrow> string option" where
  "mounted secret pod path m =
     (case find (\<lambda>v. vol_Name v = vm_Name m) (ps_Volumes pod) of
        None \<Rightarrow> None
      | Some v \<Rightarrow>
          (case secret (vol_SecretName v) of
             None \<Rightarrow> None
           | Some sec \<Rightarrow>
               if vm_SubPath m \<noteq> [] then if path = vm_MountPath m then mget (sec_Data sec) (vm_SubPath m) else None
               else map_option snd (find (\<lambda>(key, _). filepath_Join (vm_MountPath m) key = path) (sec_Data sec))))"

definition deployed_file :: "(NamespacedName \<Rightarrow> Secret option) \<Rightarrow> Deployment \<Rightarrow> string \<Rightarrow> string option" where
  "deployed_file secrets d path =
     (let pod = dep_PodSpec d; secret = (\<lambda>name. secrets (NamespacedName (om_Namespace (dep_Meta d)) name))
      in case ps_Containers pod of
           [] \<Rightarrow> None
         | c # _ \<Rightarrow> (case List.map_filter (mounted secret pod path) (ct_VolumeMounts c) of [] \<Rightarrow> None | x # _ \<Rightarrow> Some x))"

definition site_secrets :: "string \<Rightarrow> NamespacedName set" where
  "site_secrets namespace = NamespacedName namespace ` {''cl-ca'', controlplane_Name, dataplane_Name, ''cl-peer''}"

lemmas name_defs = controlplane_Name_def dataplane_Name_def GoDataplaneName_def cp_CAFile_def cp_CertificateFile_def cp_KeyFile_def
  PeerTLSDirectory_def dp_CAFile_def dp_CertificateFile_def dp_KeyFile_def PeerCertificateFile_def PeerKeyFile_def
  FabricCertificateFile_def

lemma peer_paths:
  "PeerCertificateFilePath = ''/etc/ssl/certs/clink/cert.pem''" "PeerKeyFilePath = ''/etc/ssl/certs/clink/key.pem''"
  "FabricCertificateFilePath = ''/etc/ssl/certs/clink/ca.pem''"
  "filepath_Join ''/etc/ssl/certs/clink'' ''cert.pem'' = ''/etc/ssl/certs/clink/cert.pem''"
  "filepath_Join ''/etc/ssl/certs/clink'' ''key.pem'' = ''/etc/ssl/certs/clink/key.pem''"
  "filepath_Join ''/etc/ssl/certs/clink'' ''ca.pem'' = ''/etc/ssl/certs/clink/ca.pem''"
  by code_simp+

lemma controlplane_files:
  assumes "list_all (\<lambda>sec. secrets (object_key (sec_Meta sec)) = Some sec) (K8SCertificateConfig config)"
    and "ins_Namespace (inst_Spec i) = pcf_Namespace config"
  shows "deployed_file secrets (controlplaneDeployment OE i) cp_CAFile = Some (RawCert (pcf_CACertificate config))"
    and "deployed_file secrets (controlplaneDeployment OE i) cp_CertificateFile = Some (RawCert (pcf_ControlplaneCertificate config))"
    and "deployed_file secrets (controlplaneDeployment OE i) cp_KeyFile = Some (RawKey (pcf_ControlplaneCertificate config))"
    and "deployed_file secrets (controlplaneDeployment OE i) PeerCertificateFilePath = Some (RawCert (pcf_PeerCertificate config))"
    and "deployed_file secrets (controlplaneDeployment OE i) PeerKeyFilePath = Some (RawKey (pcf_PeerCertificate config))"
    and "deployed_file secrets (controlplaneDeployment OE i) FabricCertificateFilePath = Some (RawCert (pcf_FabricCertificate config))"
  using assms(1) assms(2)
  by (simp_all add: deployed_file_def [abs_def] mounted_def [abs_def] controlplaneDeployment_def setDeployment_def K8SCertificateConfig_def certsTemplate_def secret_of_def
      object_key_def peer_paths name_defs map_filter_simps Let_def)

lemma dataplane_files:
  assumes "list_all (\<lambda>sec. secrets (object_key (sec_Meta sec)) = Some sec) (K8SCertificateConfig config)"
    and "ins_Namespace (inst_Spec i) = pcf_Namespace config"
  shows "deployed_file secrets (dataplaneDeployment i) dp_CAFile = Some (RawCert (pcf_CACertificate config))"
    and "deployed_file secrets (dataplaneDeployment i) dp_CertificateFile = Some (RawCert (pcf_DataplaneCertificate config))"
    and "deployed_file secrets (dataplaneDeployment i) dp_KeyFile = Some (RawKey (pcf_DataplaneCertificate config))"
  using assms(1) assms(2)
  by (simp_all add: deployed_file_def [abs_def] mounted_def [abs_def] dataplaneDeployment_def setDeployment_def K8SCertificateConfig_def certsTemplate_def secret_of_def
      object_key_def name_defs map_filter_simps Let_def)

subsection \<open>The commands\<close>

text \<open>
  What the commands rely on: decoded secrets are created in the given namespace unless they
  exist, and deleted there; the other objects the commands create are no secrets.
\<close>

definition in_namespace :: "string \<Rightarrow> Secret \<Rightarrow> Secret" where
  "in_namespace namespace sec = sec\<lparr>sec_Meta := (sec_Meta sec)\<lparr>om_Namespace := namespace\<rparr>\<rparr>"

definition deploy_env_ok :: "'s deploy_env \<Rightarrow> ('s \<Rightarrow> NamespacedName \<Rightarrow> Secret option) \<Rightarrow> bool" where
  "deploy_env_ok E read \<longleftrightarrow>
     (\<forall>ns secs s s' sec. de_createSecrets E ns secs s = (s', None) \<longrightarrow> distinct (map (object_key \<circ> sec_Meta \<circ> in_namespace ns) secs) \<longrightarrow>
        sec \<in> set secs \<longrightarrow> (let k = object_key (sec_Meta (in_namespace ns sec))
          in read s' k = (case read s k of Some old \<Rightarrow> Some old | None \<Rightarrow> Some (in_namespace ns sec))))
     \<and> (\<forall>ns secs s s' sec. de_deleteSecrets E ns secs s = (s', None) \<longrightarrow> sec \<in> set secs \<longrightarrow>
          read s' (object_key (sec_Meta (in_namespace ns sec))) = None)
     \<and> (\<forall>text s. read (fst (de_createText E text s)) = read s)
     \<and> (\<forall>dir s. read (fst (de_createDir E dir s)) = read s)
     \<and> (\<forall>i s. read (fst (k_Create (de_Instance E) i s)) = read s)"

lemma deploy_env_okD:
  assumes "deploy_env_ok E read"
  shows "de_createSecrets E ns secs s = (s', None) \<Longrightarrow> distinct (map (object_key \<circ> sec_Meta \<circ> in_namespace ns) secs) \<Longrightarrow>
      sec \<in> set secs \<Longrightarrow> read s (object_key (sec_Meta (in_namespace ns sec))) = None \<Longrightarrow>
      read s' (object_key (sec_Meta (in_namespace ns sec))) = Some (in_namespace ns sec)"
    and "de_deleteSecrets E ns secs s = (s', None) \<Longrightarrow> sec \<in> set secs \<Longrightarrow> read s' (object_key (sec_Meta (in_namespace ns sec))) = None"
    and "read (fst (de_createText E text s)) = read s"
    and "read (fst (de_createDir E dir s)) = read s"
    and "read (fst (k_Create (de_Instance E) i s)) = read s"
proof -
  show "de_createSecrets E ns secs s = (s', None) \<Longrightarrow> distinct (map (object_key \<circ> sec_Meta \<circ> in_namespace ns) secs) \<Longrightarrow>
      sec \<in> set secs \<Longrightarrow> read s (object_key (sec_Meta (in_namespace ns sec))) = None \<Longrightarrow>
      read s' (object_key (sec_Meta (in_namespace ns sec))) = Some (in_namespace ns sec)"
    using assms unfolding deploy_env_ok_def Let_def by (metis option.simps(4))
  show "de_deleteSecrets E ns secs s = (s', None) \<Longrightarrow> sec \<in> set secs \<Longrightarrow> read s' (object_key (sec_Meta (in_namespace ns sec))) = None"
    using assms unfolding deploy_env_ok_def by blast
qed (use assms in \<open>simp_all add: deploy_env_ok_def\<close>)

lemma K8SCertificateConfig_keys:
  "map (in_namespace (pcf_Namespace config)) (K8SCertificateConfig config) = K8SCertificateConfig config"
  "distinct (map (object_key \<circ> sec_Meta \<circ> in_namespace ns) (K8SCertificateConfig config))"
  "(\<lambda>sec. object_key (sec_Meta (in_namespace ns sec))) ` set (K8SCertificateConfig config) = site_secrets ns"
  "(\<lambda>sec. object_key (sec_Meta (in_namespace ns sec))) ` set K8SEmptyCertificateConfig = site_secrets ns"
  by (simp_all add: K8SCertificateConfig_def K8SEmptyCertificateConfig_def certsTemplate_def secret_of_def in_namespace_def object_key_def site_secrets_def
      name_defs)

lemma deploy_operator_secrets:
  assumes "deploy_env_ok E read"
  shows "read (fst (deploy_operator E opts s)) = read s"
proof -
  have dir: "read (fst (deployDir E dir s)) = read s" for dir s
    using deploy_env_okD(4) [OF assms, of dir s] by (auto simp: deployDir_def split: prod.split option.split)
  have created: "read (fst (de_createText E t s)) = read s" for t s by (rule deploy_env_okD(3) [OF assms])
  have seq: "read (fst (seqE f g s)) = read s"
    if "\<And>s. read (fst (f s)) = read s" "\<And>s. read (fst (g s)) = read s" for f g :: "'a \<Rightarrow> 'a \<times> error option" and s
    using that [of s] that(2) [of "fst (f s)"] by (auto simp: seqE_def split: prod.split option.split)
  show ?thesis
    by (auto simp: deploy_operator_def Let_def dir created intro!: seq split: option.split sum.split)
qed

lemma create_instance_secrets:
  assumes "deploy_env_ok E read"
  shows "read (fst (create_instance E doc s)) = read s"
  using deploy_env_okD(5) [OF assms, of _ s] by (auto simp: create_instance_def split: sum.split prod.split option.split) (metis fst_conv)+

text \<open>The cluster after a successful deployment: the operator, then the secrets, then the instance.\<close>

lemma deploy_Run_ok:
  assumes "deploy_Run P Ds E opts (fs, s) = ((fs', s'), Inr None)" and "po_StartInstance opts \<noteq> NoStart"
  obtains certs s1 s2 where "deploy_certificates P Ds opts fs = Inr (Inr certs)"
    and "deploy_operator E opts s = (s1, None)"
    and "de_createSecrets E (po_Namespace opts) (K8SCertificateConfig (deploy_config opts certs)) s1 = (s2, None)"
    and "s' = s2 \<or> (\<exists>doc. s' = fst (create_instance E doc s2))"
proof -
  from assms obtain certs where certs: "deploy_certificates P Ds opts fs = Inr (Inr certs)"
      "(case seqE (deploy_operator E opts)
          (\<lambda>s. apsnd (map_option api) (de_createSecrets E (po_Namespace opts) (K8SCertificateConfig (deploy_config opts certs)) s)) s of
          (s', Some err) \<Rightarrow> ((fs, s'), Inr (Some err))
        | (s', None) \<Rightarrow>
       (case K8SClusterLinkInstanceConfig (deploy_config opts certs) ''cl-instance'' of
          Inl err \<Rightarrow> ((fs, s'), Inr (Some err))
        | Inr instance \<Rightarrow>
            if po_StartInstance opts = StartAll
            then (case create_instance E instance s' of (s'', err) \<Rightarrow> ((fs, s''), Inr err))
            else (case write_yaml (filepath_Join (PeerDirectory (po_Name opts) (po_Fabric opts) (po_Path opts)) K8SClusterLinkInstanceYAMLFile)
                    (de_print_instance E instance) fs of (fs', err) \<Rightarrow> ((fs', s'), Inr err)))) = ((fs', s'), (Inr None :: panic + error option))"
    unfolding deploy_Run_def Let_def prod.case by (auto split: sum.splits option.splits bool.splits)
  then obtain s2 where s2: "seqE (deploy_operator E opts)
      (\<lambda>s. apsnd (map_option api) (de_createSecrets E (po_Namespace opts) (K8SCertificateConfig (deploy_config opts certs)) s)) s = (s2, None)"
      "s' = s2 \<or> (\<exists>doc. s' = fst (create_instance E doc s2))"
    by (auto split: prod.splits option.splits sum.splits if_splits) (metis fst_conv)+
  from s2(1) obtain s1 where "deploy_operator E opts s = (s1, None)"
      "apsnd (map_option api) (de_createSecrets E (po_Namespace opts) (K8SCertificateConfig (deploy_config opts certs)) s1) = (s2, None)"
    by (elim seqE_okE)
  then show thesis using that [OF certs(1) _ _ s2(2)] by (auto simp: apsnd_def map_prod_def split: prod.splits)
qed

lemma deployed_secrets:
  assumes "deploy_env_ok E read" and "deploy_Run P Ds E opts (fs, s) = ((fs', s'), Inr None)" and "po_StartInstance opts \<noteq> NoStart"
    and "\<And>k. k \<in> site_secrets (po_Namespace opts) \<Longrightarrow> read s k = None"
  obtains certs where "deploy_certificates P Ds opts fs = Inr (Inr certs)"
    and "list_all (\<lambda>sec. read s' (object_key (sec_Meta sec)) = Some sec) (K8SCertificateConfig (deploy_config opts certs))"
proof -
  from assms(2,3) obtain certs s1 s2 where c: "deploy_certificates P Ds opts fs = Inr (Inr certs)"
      "deploy_operator E opts s = (s1, None)"
      "de_createSecrets E (po_Namespace opts) (K8SCertificateConfig (deploy_config opts certs)) s1 = (s2, None)"
      "s' = s2 \<or> (\<exists>doc. s' = fst (create_instance E doc s2))"
    by (rule deploy_Run_ok)
  let ?secs = "K8SCertificateConfig (deploy_config opts certs)" and ?ns = "po_Namespace opts"
  have r: "read s1 = read s" "read s' = read s2"
    using deploy_operator_secrets [OF assms(1), of opts s] c(2,4) create_instance_secrets [OF assms(1)] by auto
  have "pcf_Namespace (deploy_config opts certs) = ?ns" by (simp add: deploy_config_def split: prod.split)
  then have same: "in_namespace ?ns sec = sec" if "sec \<in> set ?secs" for sec
    using K8SCertificateConfig_keys(1) [of "deploy_config opts certs"] that by (simp add: map_idI list.map_id0 map_eq_conv [where g = id, simplified])
  have "read s' (object_key (sec_Meta sec)) = Some sec" if "sec \<in> set ?secs" for sec
  proof -
    have "object_key (sec_Meta (in_namespace ?ns sec)) \<in> site_secrets ?ns"
      using that K8SCertificateConfig_keys(3) [of ?ns "deploy_config opts certs"] by blast
    then show ?thesis
      using deploy_env_okD(1) [OF assms(1) c(3) K8SCertificateConfig_keys(2) that] assms(4) r same [OF that] by simp
  qed
  then show thesis using that c(1) by (simp add: list_all_iff)
qed

text \<open>A successful deletion leaves none of the secrets of a site.\<close>

lemma delete_Run_secrets:
  assumes "deploy_env_ok E read" and "delete_Run E namespace s = (s', None)" and "k \<in> site_secrets namespace"
  shows "read s' k = None"
proof -
  from assms(2) obtain s1 where "delete_secrets E namespace s1 = (s', None)"
    unfolding delete_Run_def by (auto split: option.splits sum.splits if_splits elim!: seqE_okE)
  then have "de_deleteSecrets E namespace K8SEmptyCertificateConfig s1 = (s', None)"
    by (auto simp: delete_secrets_def split: prod.splits option.splits)
  with assms(3) show ?thesis
    using deploy_env_okD(2) [OF assms(1)] K8SCertificateConfig_keys(4) [of namespace, symmetric] by auto
qed

subsection \<open>The operator and the templates\<close>

text \<open>The same pods: equal but for the order in which the labels of the peer are passed.\<close>

definition label_args :: "labels \<Rightarrow> string list" where
  "label_args ls = concat (map (\<lambda>(key, val). [''--peer-label'', key @ ''='' @ val]) ls)"

definition same_args :: "Container \<Rightarrow> Container \<Rightarrow> bool" where
  "same_args c d \<longleftrightarrow> (\<exists>xs ls ls'. mset ls = mset ls' \<and> ct_Args c = xs @ label_args ls \<and> ct_Args d = xs @ label_args ls')"

definition same_workload :: "Deployment \<Rightarrow> Deployment \<Rightarrow> bool" where
  "same_workload a b \<longleftrightarrow> object_key (dep_Meta a) = object_key (dep_Meta b) \<and> dep_MatchLabels a = dep_MatchLabels b
     \<and> dep_TemplateLabels a = dep_TemplateLabels b \<and> ps_Volumes (dep_PodSpec a) = ps_Volumes (dep_PodSpec b)
     \<and> map (\<lambda>c. c\<lparr>ct_Args := []\<rparr>) (ps_Containers (dep_PodSpec a)) = map (\<lambda>c. c\<lparr>ct_Args := []\<rparr>) (ps_Containers (dep_PodSpec b))
     \<and> list_all2 same_args (ps_Containers (dep_PodSpec a)) (ps_Containers (dep_PodSpec b))"

text \<open>What a role permits, and whether a binding gives it to the account of a deployment's pods.\<close>

definition permissions :: "ClusterRole \<Rightarrow> (string \<times> string \<times> string) list" where
  "permissions role = concat (map (\<lambda>r. List.product (rule_APIGroups r) (List.product (rule_Resources r) (rule_Verbs r))) (crole_Rules role))"

definition account_bound :: "Deployment \<Rightarrow> ClusterRole \<Rightarrow> ClusterRoleBinding \<Rightarrow> bool" where
  "account_bound d role b \<longleftrightarrow> crb_RoleRef b = om_Name (crole_Meta role)
     \<and> ((let name = ps_ServiceAccountName (dep_PodSpec d) in if name = [] then ''default'' else name), om_Namespace (dep_Meta d))
         \<in> set (crb_Subjects b)"

definition service_ports :: "op_Service \<Rightarrow> (int32 \<times> int32 \<times> int32) list" where
  "service_ports s = map (\<lambda>p. (osp_Port p, osp_TargetPort p, osp_NodePort p)) (osv_Ports s)"

lemma same_permissions: "set (permissions controlplaneClusterRole) = set (permissions template_role)"
  by code_simp

lemma with_registry_slash_template:
  assumes "ins_ContainerRegistry (inst_Spec i) = template_registry config"
  shows "with_registry_slash i = i"
  using assms by (simp add: with_registry_slash_def template_registry_def Let_def)

lemma same_argsI: "mset ls = mset ls' \<Longrightarrow> ct_Args c = xs @ label_args ls \<Longrightarrow> ct_Args d = xs @ label_args ls' \<Longrightarrow> same_args c d"
  unfolding same_args_def by blast

lemma instance_document:
  assumes "K8SClusterLinkInstanceConfig config name = Inr i"
  shows "ins_DataPlane (inst_Spec i) = \<lparr>dps_Type = pcf_DataplaneType config, dps_Replicas = uint (pcf_Dataplanes config)\<rparr>"
    and "ins_Ingress (inst_Spec i) = \<lparr>ing_Type = pcf_IngressType config, ing_Port = ucast (pcf_IngressPort config),
      ing_Annotations = pcf_IngressAnnotations config\<rparr>"
    and "ins_LogLevel (inst_Spec i) = pcf_LogLevel config" and "ins_ContainerRegistry (inst_Spec i) = template_registry config"
    and "ins_Tag (inst_Spec i) = pcf_Tag config" and "ins_Namespace (inst_Spec i) = pcf_Namespace config"
    and "ins_PeerLabels (inst_Spec i) = pcf_PeerLabels config"
    and "\<not> (pcf_IngressPort config \<noteq> 0 \<and> (pcf_IngressType config = IngressTypeNodePort \<and> pcf_IngressPort config < 30000
      \<or> 32767 < pcf_IngressPort config))"
  using assms by (auto simp: K8SClusterLinkInstanceConfig_def ClusterLinkInstanceTemplate_def Let_def split: if_splits)

lemma controlplane_workload:
  assumes "K8SClusterLinkInstanceConfig config name = Inr i" and "mset (oe_rng OE (pcf_PeerLabels config)) = mset (pcf_PeerLabels config)"
  shows "same_workload (controlplaneDeployment OE i) (template_controlplane config)"
proof -
  have "same_args c d" if "ct_Args c = controlplane_args OE i"
      "ct_Args d = [''--log-level'', pcf_LogLevel config]
        @ concat (map (\<lambda>(key, val). [''--peer-label'', key @ ''='' @ val]) (sort_key fst (pcf_PeerLabels config)))" for c d
    by (rule same_argsI [of "oe_rng OE (pcf_PeerLabels config)" "sort_key fst (pcf_PeerLabels config)" _ "[''--log-level'', pcf_LogLevel config]"])
      (use assms(2) that in \<open>simp_all add: controlplane_args_def label_args_def instance_document [OF assms(1)]\<close>)
  then show ?thesis
    by (simp add: same_workload_def controlplaneDeployment_def template_controlplane_def setDeployment_def template_meta_def
        object_key_def instance_document [OF assms(1)] Let_def)
qed

lemma dataplane_workload:
  assumes "K8SClusterLinkInstanceConfig config name = Inr i" and "verifyDataplaneType (pcf_DataplaneType config) = None"
  shows "same_workload (dataplaneDeployment i) (template_dataplane config)"
proof -
  have ne: "pcf_DataplaneType config \<noteq> []" "pcf_DataplaneType config = DataplaneTypeGo \<longleftrightarrow> pcf_DataplaneType config \<noteq> DataplaneTypeEnvoy"
    using assms(2) by (auto simp: verifyDataplaneType_def DataplaneTypeGo_def DataplaneTypeEnvoy_def split: if_splits)
  have "same_args c d" if "ct_Args c = ct_Args d" for c d
    by (rule same_argsI [of "[]" "[]"]) (use that in \<open>simp_all add: label_args_def\<close>)
  then show ?thesis
    using ne by (simp add: same_workload_def dataplaneDeployment_def template_dataplane_def setDeployment_def template_meta_def
        object_key_def instance_document [OF assms(1)] Let_def)
qed

lemma dataplane_replicas:
  assumes "K8SClusterLinkInstanceConfig config name = Inr i" and "pcf_Dataplanes config \<noteq> 0"
  shows "dep_Replicas (dataplaneDeployment i) = dep_Replicas (template_dataplane config)"
  using assms(2)
  by (simp add: dataplaneDeployment_def template_dataplane_def setDeployment_def instance_document [OF assms(1)] Let_def unsigned_word_eqI)

lemma ingress_service:
  assumes "K8SClusterLinkInstanceConfig config name = Inr i" and "pcf_IngressType config \<in> {IngressTypeNodePort, IngressTypeLoadBalancer}"
  shows "\<exists>svc. k8SIngressConfig config = Inr svc \<and> object_key (osv_Meta svc) = object_key (osv_Meta (externalService i))
    \<and> osv_Type svc = osv_Type (externalService i) \<and> osv_Selector svc = osv_Selector (externalService i)
    \<and> service_ports svc = service_ports (externalService i)"
proof -
  have "uint (ucast p :: int32) = uint p" for p :: uint16
    using uint_lt2p [of p] by (simp add: unsigned_ucast_eq take_bit_int_eq_self)
  then have "(ucast p :: int32) \<noteq> 0 \<longleftrightarrow> p \<noteq> (0 :: uint16)" for p by (metis uint_0_iff)
  then show ?thesis
    using assms(2) instance_document(8) [OF assms(1)]
    by (auto simp: k8SIngressConfig_def ingressTemplate_def externalService_def instance_document [OF assms(1)] Let_def object_key_def service_ports_def
        IngressTypeNodePort_def IngressTypeLoadBalancer_def)
qed

text \<open>A port above the node ports is refused with the operator and accepted without it.\<close>

lemma large_port_rejected:
  assumes "pcf_IngressType config = IngressTypeLoadBalancer" and "32767 < pcf_IngressPort config"
  shows "K8SClusterLinkInstanceConfig config name = Inl (port_error (pcf_IngressPort config))"
    and "\<exists>svc. k8SIngressConfig config = Inr svc \<and> map osp_Port (osv_Ports svc) = [ucast (pcf_IngressPort config)]"
proof -
  have "pcf_IngressPort config \<noteq> 0" using assms(2) by (auto simp: word_less_def)
  then show "K8SClusterLinkInstanceConfig config name = Inl (port_error (pcf_IngressPort config))"
    and "\<exists>svc. k8SIngressConfig config = Inr svc \<and> map osp_Port (osv_Ports svc) = [ucast (pcf_IngressPort config)]"
    using assms by (auto simp: K8SClusterLinkInstanceConfig_def k8SIngressConfig_def ingressTemplate_def IngressTypeLoadBalancer_def
        IngressTypeNodePort_def Let_def)
qed

text \<open>A decoder that reads each text as it stands reads the document as it stands.\<close>

definition map_texts :: "labels \<Rightarrow> string list" where
  "map_texts m = concat (map (\<lambda>(key, val). [key, val]) m)"

definition document_texts :: "Instance \<Rightarrow> string list" where
  "document_texts doc =
     (let spec = inst_Spec doc
      in [om_Name (inst_Meta doc), dps_Type (ins_DataPlane spec), ing_Type (ins_Ingress spec), ins_LogLevel spec,
          ins_ContainerRegistry spec, ins_Tag spec, ins_Namespace spec]
        @ map_texts (om_Labels (inst_Meta doc)) @ map_texts (ing_Annotations (ins_Ingress spec)) @ map_texts (ins_PeerLabels spec))"

lemma decode_map_plain: "list_all (\<lambda>x. yaml x = Some x) (map_texts m) \<Longrightarrow> decode_map yaml m = Some m"
  by (induction m) (auto simp: decode_map_def map_texts_def)

lemma decode_instance_plain:
  assumes "list_all (\<lambda>x. yaml x = Some x) (document_texts doc)"
  shows "decode_instance yaml doc = Inr doc"
  using assms by (simp add: decode_instance_def document_texts_def decode_map_plain Let_def)

subsection \<open>Certificates of a site\<close>

definition holds_certificate :: "pki \<Rightarrow> (string \<Rightarrow> string option) \<Rightarrow> string \<Rightarrow> string \<Rightarrow> bs_certificate \<Rightarrow> bool" where
  "holds_certificate P file certFile keyFile c \<longleftrightarrow>
     (\<exists>raw key x. file certFile = Some raw \<and> file keyFile = Some key \<and> certificateFromRaw P raw (Some key) = Inr x
        \<and> bs_cert x = bs_cert c \<and> bs_key x = bs_key c \<and> bs_key c \<noteq> None)"

definition trusts_certificate :: "pki \<Rightarrow> (string \<Rightarrow> string option) \<Rightarrow> string \<Rightarrow> bs_certificate \<Rightarrow> bool" where
  "trusts_certificate P file caFile c \<longleftrightarrow>
     (\<exists>raw x. file caFile = Some raw \<and> certificateFromRaw P raw None = Inr x \<and> bs_cert x = bs_cert c)"

lemma certificateFromRaw_raw:
  assumes "certificateFromRaw P raw key = Inr c"
  shows "RawCert c = raw" and "\<And>k. key = Some k \<Longrightarrow> RawKey c = k \<and> bs_key c \<noteq> None" and "certificateFromRaw P raw None = Inr (BsCertificate None (bs_cert c) None raw None)"
  using assms by (auto simp: certificateFromRaw_def RawCert_def RawKey_def split: option.splits sum.splits)

lemma ReadCertificates_raw:
  assumes "ReadCertificates P dir withKey fs = Inr c"
  shows "if withKey then certificateFromRaw P (RawCert c) (Some (RawKey c)) = Inr c \<and> bs_key c \<noteq> None
    else certificateFromRaw P (RawCert c) None = Inr c"
proof -
  from assms obtain raw key where "certificateFromRaw P raw key = Inr c" "withKey \<longleftrightarrow> key \<noteq> None"
    by (auto simp: ReadCertificates_def CertificateFromRaw_def split: sum.splits if_splits)
  then show ?thesis using certificateFromRaw_raw [of P raw key c] by auto
qed

lemma holds_issued:
  assumes "pki_ok P" and "issued P D config c" and "file certFile = Some (RawCert c)" and "file keyFile = Some (RawKey c)"
  shows "holds_certificate P file certFile keyFile c"
  using certificateFromRaw_issued(1) [OF assms(1,2)] assms(2-4) by (auto simp: holds_certificate_def issued_def)

lemma trusts_issued:
  assumes "pki_ok P" and "issued P D config c" and "file caFile = Some (RawCert c)"
  shows "trusts_certificate P file caFile c"
  using certificateFromRaw_issued(2) [OF assms(1,2)] assms(3) by (auto simp: trusts_certificate_def)

lemma deploy_certificates_ok:
  assumes "deploy_certificates P (D, D1, D2) opts fs = Inr (Inr (fab, peer, ca, cp, dp))"
  shows "ReadCertificates P (FabricDirectory (po_Fabric opts) (po_Path opts)) False fs = Inr fab"
    and "ReadCertificates P (PeerDirectory (po_Name opts) (po_Fabric opts) (po_Path opts)) True fs = Inr peer"
    and "CreateCACertificate P D = Inr (Inr ca)" and "CreateControlplaneCertificate P D1 ca = Inr (Inr cp)"
    and "CreateDataplaneCertificate P D2 ca = Inr (Inr dp)"
  using assms by (auto simp: deploy_certificates_def split: sum.splits)

subsection \<open>A cluster in memory\<close>

type_synonym site_mem = "(NamespacedName, Secret) gomap \<times> (NamespacedName, Instance) gomap"

definition mem_createSecret :: "string \<Rightarrow> Secret \<Rightarrow> (NamespacedName, Secret) gomap \<Rightarrow> (NamespacedName, Secret) gomap" where
  "mem_createSecret ns sec m =
     (let x = in_namespace ns sec; k = object_key (sec_Meta x) in case mget m k of Some _ \<Rightarrow> m | None \<Rightarrow> mput k x m)"

definition mem_deleteSecret :: "string \<Rightarrow> Secret \<Rightarrow> (NamespacedName, Secret) gomap \<Rightarrow> (NamespacedName, Secret) gomap" where
  "mem_deleteSecret ns sec m = mdel (object_key (sec_Meta (in_namespace ns sec))) m"

definition site_env :: "site_mem deploy_env" where
  "site_env = \<lparr>de_GetConfig = None, de_manager = Inr ''image: ghcr.io/clusterlink-net/cl-operator:latest'', de_yaml = Some,
     de_print_k8s = (\<lambda>_. []), de_print_instance = (\<lambda>_. []), de_createText = (\<lambda>_ s. (s, None)), de_createDir = (\<lambda>_ s. (s, None)),
     de_createSecrets = (\<lambda>ns secs s. ((fold (mem_createSecret ns) secs (fst s), snd s), None)), de_deleteDir = (\<lambda>_ s. (s, None)),
     de_deleteSecrets = (\<lambda>ns secs s. ((fold (mem_deleteSecret ns) secs (fst s), snd s), None)),
     de_Instance = mem_kind snd (\<lambda>l s. (fst s, l)) inst_Meta (\<lambda>y x. x) (\<lambda>y x. x),
     de_ListInstances = (\<lambda>s. Inr (map snd (snd s))), de_IsNoMatch = (\<lambda>_. False), de_sleep = (\<lambda>s. s), de_rounds = 120\<rparr>"

lemma mem_createSecrets_other:
  "k \<notin> (\<lambda>sec. object_key (sec_Meta (in_namespace ns sec))) ` set secs \<Longrightarrow> mget (fold (mem_createSecret ns) secs m) k = mget m k"
  by (induction secs arbitrary: m) (auto simp: mem_createSecret_def Let_def split: option.split)

lemma mem_createSecrets:
  "distinct (map (object_key \<circ> sec_Meta \<circ> in_namespace ns) secs) \<Longrightarrow> sec \<in> set secs \<Longrightarrow>
   mget (fold (mem_createSecret ns) secs m) (object_key (sec_Meta (in_namespace ns sec)))
     = (case mget m (object_key (sec_Meta (in_namespace ns sec))) of Some old \<Rightarrow> Some old | None \<Rightarrow> Some (in_namespace ns sec))"
proof (induction secs arbitrary: m)
  case (Cons x secs)
  show ?case
  proof (cases "sec = x")
    case True
    with Cons.prems(1) have "object_key (sec_Meta (in_namespace ns sec)) \<notin> (\<lambda>sec. object_key (sec_Meta (in_namespace ns sec))) ` set secs"
      by (auto simp: image_iff)
    with True show ?thesis by (simp add: mem_createSecrets_other) (simp add: mem_createSecret_def Let_def split: option.split)
  next
    case False
    with Cons.prems have "object_key (sec_Meta (in_namespace ns x)) \<noteq> object_key (sec_Meta (in_namespace ns sec))" by (force simp: image_iff)
    then have "mget (mem_createSecret ns x m) (object_key (sec_Meta (in_namespace ns sec))) = mget m (object_key (sec_Meta (in_namespace ns sec)))"
      by (simp add: mem_createSecret_def Let_def split: option.split)
    with False Cons show ?thesis by simp
  qed
qed simp

lemma mem_deleteSecrets:
  "sec \<in> set secs \<or> mget m (object_key (sec_Meta (in_namespace ns sec))) = None \<Longrightarrow>
   mget (fold (mem_deleteSecret ns) secs m) (object_key (sec_Meta (in_namespace ns sec))) = None"
  by (induction secs arbitrary: m) (auto simp: mem_deleteSecret_def mget_mdel)

lemma site_env_ok: "deploy_env_ok site_env (\<lambda>s. mget (fst s))"
  unfolding deploy_env_ok_def Let_def
  by (intro conjI allI impI) (auto simp: site_env_def mem_createSecrets mem_deleteSecrets mem_kind_def split: option.split)

subsection \<open>Properties\<close>


definition demo_config :: "bs_certificate \<Rightarrow> platform_Config" where
  "demo_config c = \<lparr>pcf_Peer = ''p'', pcf_Namespace = ''clusterlink-system'', pcf_CACertificate = c, pcf_ControlplaneCertificate = c,
     pcf_DataplaneCertificate = c, pcf_FabricCertificate = c, pcf_PeerCertificate = c, pcf_Controlplanes = 1, pcf_Dataplanes = 2,
     pcf_DataplaneType = ''go'', pcf_PeerLabels = [(''region'', ''eu''), (''city'', ''rome'')], pcf_LogLevel = ''info'',
     pcf_ContainerRegistry = ''ghcr.io/clusterlink-net'', pcf_Tag = ''latest'', pcf_IngressType = ''NodePort'', pcf_IngressPort = 30443,
     pcf_IngressAnnotations = []\<rparr>"

definition demo_certificate :: bs_certificate where
  "demo_certificate = BsCertificate None (certificate_template (demo_draw 5) (fabric_config ''f'')) None [] None"

lemma demo_document:
  "\<exists>doc. K8SClusterLinkInstanceConfig (demo_config demo_certificate) ''cl-instance'' = Inr doc \<and> ing_Port (ins_Ingress (inst_Spec doc)) = 30443"
  by (simp add: K8SClusterLinkInstanceConfig_def ClusterLinkInstanceTemplate_def demo_config_def Let_def)


text \<open>
  C26. A deployed site has its credentials. After \<^verbatim>\<open>deploy peer\<close> has succeeded in a cluster without a
  site, the pods that the operator deploys find in their files: the control plane its own
  certificate and key, the site's CA, and the certificates of the peer and the fabric from the
  directories of the command; the dataplane its own certificate and key and the same CA. Under
  that CA the control plane is accepted as a server of its name only and the dataplane as a client only.
\<close>

theorem deployed_site:
  assumes "pki_ok P" and "deploy_env_ok E read" and "deploy_Run P Ds E opts (fs, s) = ((fs', s'), Inr None)"
    and "po_StartInstance opts \<noteq> NoStart" and "\<And>k. k \<in> site_secrets (po_Namespace opts) \<Longrightarrow> read s k = None"
    and "ins_Namespace (inst_Spec i) = po_Namespace opts"
  shows "\<exists>fab peer ca cp dp. ReadCertificates P (FabricDirectory (po_Fabric opts) (po_Path opts)) False fs = Inr fab
    \<and> ReadCertificates P (PeerDirectory (po_Name opts) (po_Fabric opts) (po_Path opts)) True fs = Inr peer
    \<and> (let file = deployed_file (read s') (controlplaneDeployment OE i)
       in holds_certificate P file cp_CertificateFile cp_KeyFile cp \<and> trusts_certificate P file cp_CAFile ca
        \<and> holds_certificate P file PeerCertificateFilePath PeerKeyFilePath peer \<and> trusts_certificate P file FabricCertificateFilePath fab)
    \<and> (let file = deployed_file (read s') (dataplaneDeployment i)
       in holds_certificate P file dp_CertificateFile dp_KeyFile dp \<and> trusts_certificate P file dp_CAFile ca)
    \<and> (\<forall>now usage n. in_validity now (bs_cert ca) \<and> in_validity now (bs_cert cp) \<and> in_validity now (bs_cert dp) \<longrightarrow>
         (x509_Verify [bs_cert ca] usage (Some n) now (bs_cert cp) \<longleftrightarrow>
            usage = ExtKeyUsageServerAuth \<and> toLowerCaseASCII n = toLowerCaseASCII controlplane_Name)
       \<and> (x509_Verify [bs_cert ca] usage None now (bs_cert dp) \<longleftrightarrow> usage = ExtKeyUsageClientAuth))"
proof -
  obtain D D1 D2 where Ds: "Ds = (D, D1, D2)" by (cases Ds)
  obtain certs where "deploy_certificates P (D, D1, D2) opts fs = Inr (Inr certs)"
      "list_all (\<lambda>sec. read s' (object_key (sec_Meta sec)) = Some sec) (K8SCertificateConfig (deploy_config opts certs))"
    using deployed_secrets [OF assms(2,3,4,5)] unfolding Ds .
  moreover obtain fab peer ca cp dp where "certs = (fab, peer, ca, cp, dp)" by (cases certs)
  ultimately have c: "deploy_certificates P (D, D1, D2) opts fs = Inr (Inr (fab, peer, ca, cp, dp))"
      "list_all (\<lambda>sec. read s' (object_key (sec_Meta sec)) = Some sec) (K8SCertificateConfig (deploy_config opts (fab, peer, ca, cp, dp)))"
    by simp_all
  note k = deploy_certificates_ok [OF c(1)]
  note issued = createCertificate_issued [OF assms(1) k(3) [unfolded CreateCACertificate_def]]
    createCertificate_issued [OF assms(1) k(4) [unfolded CreateControlplaneCertificate_def]]
    createCertificate_issued [OF assms(1) k(5) [unfolded CreateDataplaneCertificate_def]]
  have ns: "ins_Namespace (inst_Spec i) = pcf_Namespace (deploy_config opts (fab, peer, ca, cp, dp))"
    using assms(6) by (simp add: deploy_config_def)
  note f = controlplane_files [OF c(2) ns, of OE] and g = dataplane_files [OF c(2) ns]
  have fg: "deployed_file (read s') (controlplaneDeployment OE i) cp_CAFile = Some (RawCert ca)"
      "deployed_file (read s') (dataplaneDeployment i) dp_CAFile = Some (RawCert ca)"
      "deployed_file (read s') (controlplaneDeployment OE i) cp_CertificateFile = Some (RawCert cp)"
      "deployed_file (read s') (controlplaneDeployment OE i) cp_KeyFile = Some (RawKey cp)"
      "deployed_file (read s') (dataplaneDeployment i) dp_CertificateFile = Some (RawCert dp)"
      "deployed_file (read s') (dataplaneDeployment i) dp_KeyFile = Some (RawKey dp)"
    using f g by (simp_all add: deploy_config_def)
  have "holds_certificate P (deployed_file (read s') (controlplaneDeployment OE i)) PeerCertificateFilePath PeerKeyFilePath peer"
      "trusts_certificate P (deployed_file (read s') (controlplaneDeployment OE i)) FabricCertificateFilePath fab"
    using ReadCertificates_raw [OF k(1)] ReadCertificates_raw [OF k(2)] f(4-6)
    by (auto simp: holds_certificate_def trusts_certificate_def deploy_config_def)
  then show ?thesis
    by (intro exI [of _ fab] exI [of _ peer] exI [of _ ca] exI [of _ cp] exI [of _ dp])
      (simp add: Let_def k(1,2) site_roles [OF assms(1) k(3-5)] fg
        holds_issued [OF assms(1) issued(2)] holds_issued [OF assms(1) issued(3)] trusts_issued [OF assms(1) issued(1)])
qed

definition demo_options :: PeerOptions where
  "demo_options = \<lparr>po_Name = ''p'', po_Fabric = ''f'', po_Namespace = ''clusterlink-system'', po_Path = ''.'', po_StartInstance = ''all'',
     po_Ingress = ''LoadBalancer'', po_IngressPort = 443, po_IngressAnnotations = [], po_ContainerRegistry = ''ghcr.io/clusterlink-net'',
     po_Tag = ''latest'', po_ControlplaneReplicas = 1, po_DataplaneReplicas = 1, po_DataplaneType = ''envoy'', po_Labels = [],
     po_LogLevel = ''info''\<rparr>"

lemma demo_options_sel:
  "po_Name demo_options = ''p''" "po_Fabric demo_options = ''f''" "po_Path demo_options = ''.''" "po_StartInstance demo_options = ''all''"
  "po_DataplaneType demo_options = ''envoy''"
  by (simp_all add: demo_options_def)

lemma demo_deploy:
  "\<exists>fs s. deploy_Run unary_pki (demo_draw 5, demo_draw 6, demo_draw 7) site_env demo_options (fs, ([], [])) = ((fs, s), Inr None)"
proof -
  obtain fs1 fs where runs: "createFabric_Run unary_pki (demo_draw 5) ''f'' ''.'' demo_fs = (fs1, Inr None)"
      "createPeer_Run (\<lambda>_. None) unary_pki (demo_draw 6) ''p'' ''f'' ''.'' fs1 = (fs, Inr None)" "fs_fault fs = (\<lambda>_. None)"
    using demo_commands by blast
  obtain fab where fab: "issued unary_pki (demo_draw 5) (fabric_config ''f'') fab" "saved (FabricDirectory ''f'' ''.'') fab fs1"
    using createFabric_ok [OF unary_pki_ok _ runs(1)] by auto
  obtain c fab' where c: "issued unary_pki (demo_draw 6) (peer_config ''p'' fab') c" "saved (PeerDirectory ''p'' ''f'' ''.'') c fs"
      "saved (FabricDirectory ''f'' ''.'') fab fs"
    by (rule createPeer_ok [OF unary_pki_ok _ fab runs(2)]) simp_all
  obtain certs where certs: "deploy_certificates unary_pki (demo_draw 5, demo_draw 6, demo_draw 7) demo_options fs = Inr (Inr certs)"
    using demo_site saved_read(2) [OF unary_pki_ok fab(1) c(3)] saved_read(1) [OF unary_pki_ok c(1,2)]
    by (auto simp: deploy_certificates_def demo_options_def)
  have "os_exists (PeerDirectory ''p'' ''f'' ''.'') fs = Inr True"
    using c(2) runs(3) by (simp add: os_exists_def saved_def demo_paths)
  moreover obtain doc where "K8SClusterLinkInstanceConfig (deploy_config demo_options certs) ''cl-instance'' = Inr doc"
    by (cases certs) (auto simp: K8SClusterLinkInstanceConfig_def ClusterLinkInstanceTemplate_def deploy_config_def demo_options_def DefaultExternalPort_def Let_def)
  moreover have "decode_instance Some doc = Inr doc" by (rule decode_instance_plain) (simp add: list_all_iff)
  ultimately show ?thesis
    by (intro exI [of _ fs])
      (auto simp: deploy_Run_def certs demo_options_sel verifyDataplaneType_def DataplaneTypeEnvoy_def verifyStartInstance_def StartAll_def
        NoStart_def deploy_operator_def deployDir_def create_instance_def seqE_def site_env_def mem_kind_def mread_def Let_def)
qed

theorem deployed_site_witness:
  "\<exists>fs s peer. ReadCertificates unary_pki (PeerDirectory ''p'' ''f'' ''.'') True fs = Inr peer
     \<and> holds_certificate unary_pki (deployed_file (mget (fst s)) (controlplaneDeployment demo_op_env demo_a))
         PeerCertificateFilePath PeerKeyFilePath peer"
proof -
  obtain fs and s :: site_mem where run: "deploy_Run unary_pki (demo_draw 5, demo_draw 6, demo_draw 7) site_env demo_options (fs, ([], []))
      = ((fs, s), Inr None)"
    using demo_deploy by (metis surj_pair)
  have h: "po_StartInstance demo_options \<noteq> NoStart" "ins_Namespace (inst_Spec demo_a) = po_Namespace demo_options"
    by (simp_all add: demo_options_def NoStart_def demo_instance_def InstanceNamespace_def)
  from deployed_site [OF unary_pki_ok site_env_ok run h(1) _ h(2), where OE = demo_op_env] obtain peer where
      "ReadCertificates unary_pki (PeerDirectory (po_Name demo_options) (po_Fabric demo_options) (po_Path demo_options)) True fs = Inr peer"
      "holds_certificate unary_pki (deployed_file (mget (fst s)) (controlplaneDeployment demo_op_env demo_a)) PeerCertificateFilePath PeerKeyFilePath peer"
    by (auto simp: Let_def)
  then show ?thesis by (auto simp: demo_options_def)
qed

end
