(* ===== verification/Envoy.thy ===== *)
theory Envoy
  imports DataplaneServer Operator
begin

text \<open>
  The Envoy dataplane (\<^verbatim>\<open>cmd/cl-dataplane/app\<close>): the configuration Envoy is started with, and the
  command that starts it. The template is modelled by what it configures: the control plane's cluster,
  the routers and their listeners, routes and authorization filters. Protocol options,
  timeouts, buffer sizes and the names of Envoy's extensions are left out. How Envoy uses the
  configuration is a parameter (\<open>envoy\<close>).
\<close>

subsection \<open>The configuration\<close>

datatype envoy_address = EnvoySocket string nat | EnvoyInternal string

record envoy_Cluster =
  ec_name :: string
  ec_address :: envoy_address
  ec_tls :: "(string \<times> string \<times> string) option"

record ext_authz =
  xa_cluster :: string
  xa_clear_route_cache :: bool
  xa_include_peer_certificate :: bool
  xa_max_request_bytes :: "nat option"
  xa_allowed_headers :: "string list option"

datatype authz_filter = EveryRequest ext_authz | ByMethod string ext_authz ext_authz

datatype envoy_route = ConnectByHeader string bool | RespondPrefix string nat

record envoy_tls =
  et_require_client_certificate :: bool
  et_certificate_secret :: string
  et_validation_secret :: string

record envoy_Listener =
  el_name :: string
  el_address :: envoy_address
  el_tls :: "envoy_tls option"
  el_routes :: "envoy_route list"
  el_authz :: authz_filter

record envoy_Config =
  ev_node_id :: string
  ev_node_cluster :: string
  ev_admin_address :: envoy_address
  ev_ads_cluster :: string
  ev_clusters :: "envoy_Cluster list"
  ev_listeners :: "envoy_Listener list"

definition envoyPath :: string where "envoyPath = ''/usr/local/bin/envoy''"
definition adminPort :: nat where "adminPort = 1500"

definition envoy_controlplane_cluster :: "string \<Rightarrow> envoy_Cluster" where
  "envoy_controlplane_cluster controlplaneHost =
     \<lparr>ec_name = ControlplaneCluster, ec_address = EnvoySocket controlplaneHost (unat controlplane_ListenPort),
      ec_tls = Some (dp_CertificateFile, dp_KeyFile, dp_CAFile)\<rparr>"

definition envoy_egress_cluster :: envoy_Cluster where
  "envoy_egress_cluster = \<lparr>ec_name = EgressRouterCluster, ec_address = EnvoyInternal EgressRouterListener, ec_tls = None\<rparr>"

definition envoy_egress_listener :: envoy_Listener where
  "envoy_egress_listener =
     \<lparr>el_name = EgressRouterListener, el_address = EnvoyInternal EgressRouterListener, el_tls = None,
      el_routes = [ConnectByHeader TargetClusterHeader True],
      el_authz = EveryRequest \<lparr>xa_cluster = ControlplaneCluster, xa_clear_route_cache = True,
        xa_include_peer_certificate = False, xa_max_request_bytes = None, xa_allowed_headers = None\<rparr>\<rparr>"

definition envoy_ingress_authz :: "nat option \<Rightarrow> ext_authz" where
  "envoy_ingress_authz max_request_bytes =
     \<lparr>xa_cluster = ControlplaneCluster, xa_clear_route_cache = True, xa_include_peer_certificate = True,
      xa_max_request_bytes = max_request_bytes, xa_allowed_headers = Some [AuthorizationHeader]\<rparr>"

definition envoy_ingress_listener :: envoy_Listener where
  "envoy_ingress_listener =
     \<lparr>el_name = IngressRouterListener, el_address = EnvoySocket ''0.0.0.0'' (unat dataplane_ListenPort),
      el_tls = Some \<lparr>et_require_client_certificate = True, et_certificate_secret = CertificateSecret,
        et_validation_secret = ValidationSecret\<rparr>,
      el_routes = [ConnectByHeader TargetClusterHeader False, RespondPrefix ''/'' 200],
      el_authz = ByMethod ''CONNECT'' (envoy_ingress_authz None) (envoy_ingress_authz (Some 65536))\<rparr>"

definition envoyConfigurationTemplate :: "string \<Rightarrow> string \<Rightarrow> envoy_Config" where
  "envoyConfigurationTemplate dataplaneID controlplaneHost =
     \<lparr>ev_node_id = dataplaneID, ev_node_cluster = ''cl-dataplane'', ev_admin_address = EnvoySocket ''127.0.0.1'' adminPort, ev_ads_cluster = ControlplaneCluster,
      ev_clusters = [envoy_controlplane_cluster controlplaneHost, envoy_egress_cluster],
      ev_listeners = [envoy_egress_listener, envoy_ingress_listener]\<rparr>"

subsection \<open>The command\<close>

record dp_Options =
  do_ControlplaneHost :: string
  do_LogFile :: string
  do_LogLevel :: string

text \<open>\<open>yaml\<close> is the text of a configuration.\<close>

definition runEnvoy :: "(envoy_Config \<Rightarrow> string) \<Rightarrow> dp_Options \<Rightarrow> string \<Rightarrow> string list" where
  "runEnvoy yaml opts dataplaneID =
     [envoyPath, ''--log-level'', do_LogLevel opts, ''--config-yaml'',
      yaml (envoyConfigurationTemplate dataplaneID (do_ControlplaneHost opts))]
     @ (if do_LogFile opts \<noteq> [] then [''--log-path'', do_LogFile opts] else [])"

subsection \<open>Envoy\<close>

text \<open>
  What Envoy does with a configuration: how it formats a header value for a client address,
  which headers of a request an authorization filter passes on, and the address it gives as
  the source of a request at a listener (whether it is Envoy-internal).
\<close>

record envoy =
  en_format :: "string \<Rightarrow> string \<Rightarrow> string"
  en_check_headers :: "string list option \<Rightarrow> labels \<Rightarrow> labels"
  en_source :: "envoy_address \<Rightarrow> bool option"

definition envoy_ok :: "envoy \<Rightarrow> bool" where
  "envoy_ok V \<longleftrightarrow>
     (\<forall>ip. en_format V ip ''%DOWNSTREAM_REMOTE_ADDRESS_WITHOUT_PORT%'' = ip)
     \<and> (\<forall>ip v. CHR ''%'' \<notin> set v \<longrightarrow> en_format V ip v = v)
     \<and> (\<forall>hs k. mget (en_check_headers V None hs) k = mget hs k)
     \<and> (\<forall>ks hs k. mget (en_check_headers V (Some ks) hs) k = (if k \<in> set ks then mget hs k else None))
     \<and> (\<forall>n. en_source V (EnvoyInternal n) = Some True)
     \<and> (\<forall>host port. en_source V (EnvoySocket host port) \<noteq> Some True)"

fun authz_for :: "authz_filter \<Rightarrow> string \<Rightarrow> ext_authz" where
  "authz_for (EveryRequest a) method = a"
| "authz_for (ByMethod value match no_match) method = (if map to_lower method = map to_lower value then match else no_match)"

text \<open>
  The question a filter asks about a request, and the cluster it asks. A filter with a limit
  passes the body on and refuses a longer one without asking; another does not read the body.
\<close>

definition envoy_check :: "envoy \<Rightarrow> envoy_Listener \<Rightarrow> string \<Rightarrow> string \<Rightarrow> labels \<Rightarrow> string \<Rightarrow> (string \<times> CheckRequest) option" where
  "envoy_check V l method path headers body =
     (let a = authz_for (el_authz l) method
      in if (case xa_max_request_bytes a of None \<Rightarrow> False | Some n \<Rightarrow> n < length body) then None
         else Some (xa_cluster a,
          \<lparr>cr_Attributes = Some \<lparr>ac_Source = Some \<lparr>src_Address = en_source V (el_address l)\<rparr>,
             ac_Request = Some (Some \<lparr>http_Method = method, http_Path = path,
               http_Headers = en_check_headers V (xa_allowed_headers a) headers,
               http_Body = if xa_max_request_bytes a = None then [] else body\<rparr>)\<rparr>\<rparr>))"

text \<open>A connection that a TCP proxy tunnels through a cluster to an internal listener.\<close>

definition envoy_tunnel :: "envoy \<Rightarrow> envoy_Config \<Rightarrow> TcpProxy \<Rightarrow> string \<Rightarrow> (string \<times> CheckRequest) option" where
  "envoy_tunnel V conf proxy ip =
     (case find (\<lambda>c. ec_name c = tcp_Cluster proxy) (ev_clusters conf) of
        None \<Rightarrow> None
      | Some c \<Rightarrow>
     (case find (\<lambda>l. el_address l = ec_address c) (ev_listeners conf) of
        None \<Rightarrow> None
      | Some l \<Rightarrow> envoy_check V l ''CONNECT'' []
          (map (\<lambda>h. (hv_Key h, en_format V ip (hv_Value h))) (tun_HeadersToAdd (tcp_TunnelingConfig proxy))) []))"

subsection \<open>References\<close>

text \<open>
  A configuration without dangling references: the clusters that are asked and used exist, an
  internal address is that of a listener, and the secrets are among the given ones.
\<close>

fun filter_clusters :: "authz_filter \<Rightarrow> string list" where
  "filter_clusters (EveryRequest a) = [xa_cluster a]"
| "filter_clusters (ByMethod _ a b) = [xa_cluster a, xa_cluster b]"

definition envoy_wf :: "(string \<Rightarrow> bool) \<Rightarrow> envoy_Config \<Rightarrow> bool" where
  "envoy_wf secret conf \<longleftrightarrow>
     (let clusters = map ec_name (ev_clusters conf)
      in distinct clusters \<and> distinct (map el_name (ev_listeners conf))
        \<and> list_all (\<lambda>c. c \<in> set clusters) (ev_ads_cluster conf # concat (map (filter_clusters \<circ> el_authz) (ev_listeners conf)))
        \<and> list_all (\<lambda>c. case ec_address c of EnvoySocket _ _ \<Rightarrow> True
            | EnvoyInternal n \<Rightarrow> list_ex (\<lambda>l. el_name l = n \<and> el_address l = EnvoyInternal n) (ev_listeners conf)) (ev_clusters conf)
        \<and> list_all (\<lambda>l. case el_tls l of None \<Rightarrow> True
            | Some t \<Rightarrow> et_require_client_certificate t \<and> secret (et_certificate_secret t) \<and> secret (et_validation_secret t))
            (ev_listeners conf))"

lemma xds_secrets:
  assumes "linear_cache_ok (xe_secrets E)" and "xds_SetPeerCertificates E raw m = (m', None)"
  shows "GetResources (xe_secrets E) (xm_secrets m') CertificateSecret = Some (certificateSecret raw)"
    and "GetResources (xe_secrets E) (xm_secrets m') ValidationSecret = Some (validationSecret raw)"
proof -
  obtain m1 where m1: "xds_updateSecret E ''certificate'' (certificateSecret raw) m = (m1, None)"
      "xds_updateSecret E ''validation'' (validationSecret raw) m1 = (m', None)"
    using assms(2) unfolding xds_SetPeerCertificates_def by (rule seqE_okE)
  have step: "GetResources (xe_secrets E) (xm_secrets b) = (GetResources (xe_secrets E) (xm_secrets a))(xs_Name s \<mapsto> s)"
    if "xds_updateSecret E what s a = (b, None)" for what s a b
    using that linear_cache_okD(1) [OF assms(1), of "xs_Name s" s "xm_secrets a"]
    by (auto simp: xds_updateSecret_def split: prod.splits)
  show "GetResources (xe_secrets E) (xm_secrets m') CertificateSecret = Some (certificateSecret raw)"
    and "GetResources (xe_secrets E) (xm_secrets m') ValidationSecret = Some (validationSecret raw)"
    using step [OF m1(1)] step [OF m1(2)]
    by (simp_all add: certificateSecret_def validationSecret_def CertificateSecret_def ValidationSecret_def)
qed

subsection \<open>The same questions\<close>

text \<open>The control plane reads a few headers of a request and no others.\<close>

lemma checkEgress_cong:
  assumes "\<And>k. mget (http_Headers a) k = mget (http_Headers b) k"
  shows "checkEgress S a m = checkEgress S b m"
proof -
  have same: "sget (http_Headers a) k = sget (http_Headers b) k" for k using assms by (simp add: sget_def)
  show ?thesis unfolding checkEgress_def Let_def assms same ..
qed

lemma checkServiceAccessRequest_cong:
  assumes "mget (http_Headers a) AuthorizationHeader = mget (http_Headers b) AuthorizationHeader"
  shows "checkServiceAccessRequest S a m = checkServiceAccessRequest S b m"
  using assms by (simp add: checkServiceAccessRequest_def)

lemma checkIngress_cong:
  assumes "http_Method a = http_Method b" and "http_Path a = http_Path b"
    and "mget (http_Headers a) AuthorizationHeader = mget (http_Headers b) AuthorizationHeader"
    and "http_Method a = ''POST'' \<Longrightarrow> http_Body a = http_Body b"
  shows "checkIngress S a m = checkIngress S b m"
  using assms by (simp add: checkIngress_def checkAuthorizationRequest_def checkServiceAccessRequest_cong [OF assms(3)])

lemma Check_internal:
  "Check S (Some \<lparr>cr_Attributes = Some \<lparr>ac_Source = Some \<lparr>src_Address = Some True\<rparr>, ac_Request = Some (Some r)\<rparr>\<rparr>) m
     = map_option (map_prod id (map_sum id Inr)) (checkEgress S r m)"
  by (simp add: Check_def)

lemma Check_external:
  "a \<noteq> Some True \<Longrightarrow>
   Check S (Some \<lparr>cr_Attributes = Some \<lparr>ac_Source = Some \<lparr>src_Address = a\<rparr>, ac_Request = Some (Some r)\<rparr>\<rparr>) m
     = Some (m, map_sum id Inr (checkIngress S r m))"
  by (auto simp: Check_def split: option.split bool.split)

lemma envoy_egress:
  fixes S :: "'s server_env"
  assumes "envoy_ok V" and "CHR ''%'' \<notin> set (imp_Name imp)" and "CHR ''%'' \<notin> set (imp_Namespace imp)"
    and "tcp_Cluster proxy = EgressRouterCluster" and "tcp_TunnelingConfig proxy = importTunnelingConfig imp"
  obtains q where "envoy_tunnel V (envoyConfigurationTemplate dataplaneID host) proxy ip = Some (ControlplaneCluster, q)"
    and "Check S (Some q) m = Check S (Some (egressCheckRequest (imp_Namespace imp) (imp_Name imp) ip)) m"
proof -
  let ?hs = "en_check_headers V None [(ImportNameHeader, imp_Name imp), (ImportNamespaceHeader, imp_Namespace imp), (ClientIPHeader, ip)]"
  let ?r = "\<lparr>http_Method = ''CONNECT'', http_Path = [], http_Headers = ?hs, http_Body = []\<rparr>"
  let ?q = "\<lparr>cr_Attributes = Some \<lparr>ac_Source = Some \<lparr>src_Address = Some True\<rparr>, ac_Request = Some (Some ?r)\<rparr>\<rparr>"
  have "envoy_tunnel V (envoyConfigurationTemplate dataplaneID host) proxy ip = Some (ControlplaneCluster, ?q)"
    using assms
    by (simp add: envoy_tunnel_def envoyConfigurationTemplate_def envoy_controlplane_cluster_def envoy_egress_cluster_def
        envoy_egress_listener_def envoy_check_def importTunnelingConfig_def envoy_ok_def ControlplaneCluster_def EgressRouterCluster_def Let_def)
  moreover have "Check S (Some ?q) m = Check S (Some (egressCheckRequest (imp_Namespace imp) (imp_Name imp) ip)) m"
  proof -
    have "checkEgress S ?r m = checkEgress S \<lparr>http_Method = [], http_Path = [], http_Headers = [(ImportNamespaceHeader, imp_Namespace imp),
        (ImportNameHeader, imp_Name imp), (ClientIPHeader, ip)], http_Body = []\<rparr> m"
      by (rule checkEgress_cong) (use assms(1) in \<open>simp add: envoy_ok_def ImportNameHeader_def ImportNamespaceHeader_def ClientIPHeader_def\<close>)
    then show ?thesis unfolding egressCheckRequest_def Check_internal by simp
  qed
  ultimately show thesis using that by blast
qed

lemma envoy_ingress:
  fixes S :: "'s server_env"
  assumes "envoy_ok V" and "mget (iq_Header r) AuthorizationHeader \<noteq> Some []" and "length body \<le> 65536"
  obtains q where "envoy_check V envoy_ingress_listener (iq_Method r) (iq_Path r) (iq_Header r) body = Some (ControlplaneCluster, q)"
    and "Check S (Some q) m = Check S (Some (ingressCheckRequest r (allowedHeaders r) body)) m"
proof -
  define a where "a = authz_for (el_authz envoy_ingress_listener) (iq_Method r)"
  let ?src = "en_source V (el_address envoy_ingress_listener)"
  let ?r = "\<lparr>http_Method = iq_Method r, http_Path = iq_Path r, http_Headers = en_check_headers V (xa_allowed_headers a) (iq_Header r),
    http_Body = if xa_max_request_bytes a = None then [] else body\<rparr>"
  let ?q = "\<lparr>cr_Attributes = Some \<lparr>ac_Source = Some \<lparr>src_Address = ?src\<rparr>, ac_Request = Some (Some ?r)\<rparr>\<rparr>"
  have a: "xa_cluster a = ControlplaneCluster" "xa_allowed_headers a = Some [AuthorizationHeader]"
    by (simp_all add: a_def envoy_ingress_listener_def envoy_ingress_authz_def)
  have body: "iq_Method r = ''POST'' \<Longrightarrow> xa_max_request_bytes a \<noteq> None"
    by (simp add: a_def envoy_ingress_listener_def envoy_ingress_authz_def to_lower_def less_eq_char_def)
  have lower: "map to_lower AuthorizationHeader = AuthorizationHeader"
    by (simp add: AuthorizationHeader_def to_lower_def less_eq_char_def)
  have hdr: "mget (en_check_headers V (xa_allowed_headers a) (iq_Header r)) AuthorizationHeader = mget (allowedHeaders r) AuthorizationHeader"
    using assms by (auto simp: envoy_ok_def a(2) allowedHeaders_def Header_Get_def lower sget_def Let_def split: option.split)
  have "?src \<noteq> Some True" using assms(1) by (simp add: envoy_ingress_listener_def envoy_ok_def)
  moreover have "checkIngress S ?r m = checkIngress S \<lparr>http_Method = iq_Method r, http_Path = iq_Path r, http_Headers = allowedHeaders r,
      http_Body = body\<rparr> m"
    by (rule checkIngress_cong) (use hdr body in auto)
  ultimately have "Check S (Some ?q) m = Check S (Some (ingressCheckRequest r (allowedHeaders r) body)) m"
    unfolding ingressCheckRequest_def by (simp add: Check_external)
  moreover have "envoy_check V envoy_ingress_listener (iq_Method r) (iq_Path r) (iq_Header r) body = Some (ControlplaneCluster, ?q)"
    using a(1) assms(3) by (auto simp: envoy_check_def envoy_ingress_listener_def envoy_ingress_authz_def a_def Let_def)
  ultimately show thesis using that by blast
qed

subsection \<open>Properties\<close>


definition demo_raw_certs :: RawCertData where
  "demo_raw_certs = \<lparr>rcd_certificate = ''cert'', rcd_key = ''key'', rcd_ca = ''ca''\<rparr>"



definition demo_envoy :: envoy where
  "demo_envoy = \<lparr>en_format = (\<lambda>ip v. if v = ''%DOWNSTREAM_REMOTE_ADDRESS_WITHOUT_PORT%'' then ip else v),
     en_check_headers = (\<lambda>allowed hs. case allowed of None \<Rightarrow> hs | Some ks \<Rightarrow> filter (\<lambda>h. fst h \<in> set ks) hs),
     en_source = (\<lambda>a. case a of EnvoyInternal _ \<Rightarrow> Some True | EnvoySocket _ _ \<Rightarrow> Some False)\<rparr>"

lemma demo_envoy_ok: "envoy_ok demo_envoy"
proof -
  have "map_of (filter (\<lambda>h. fst h \<in> set ks) hs) k = (if k \<in> set ks then map_of hs k else None)"
    for ks and hs :: labels and k by (induction hs) auto
  then show ?thesis by (auto simp: envoy_ok_def demo_envoy_def)
qed

definition demo_leased :: Import where
  "demo_leased = (demo_import ''static'' [''p1''])\<lparr>imp_Status := \<lparr>imp_Conditions = [\<lparr>cond_Type = ImportTargetPortValid,
     cond_Status = ConditionTrue, cond_ObservedGeneration = 0, cond_LastTransitionTime = 0, cond_Reason = [], cond_Message = []\<rparr>]\<rparr>\<rparr>"

definition demo_proxy :: TcpProxy where
  "demo_proxy = \<lparr>tcp_StatPrefix = ''tcp-proxy-svc'', tcp_Cluster = EgressRouterCluster,
     tcp_TunnelingConfig = importTunnelingConfig demo_leased\<rparr>"

definition demo_connect :: ingress_request where
  "demo_connect = \<lparr>iq_TLS = Some [[''p1'']], iq_Method = ''CONNECT'', iq_Path = [], iq_Header = [(AuthorizationHeader, ''Bearer token'')],
     iq_Body = Inr []\<rparr>"


end
