(* ===== verification/Runnable.thy ===== *)
theory Runnable
  imports Control
begin

text \<open>
  The manager of runnables (\<^verbatim>\<open>util/runnable/manager.go\<close>), which runs the servers, the watcher
  and the controllers of the binaries, and what it runs (\<^verbatim>\<open>util/tcp\<close>, \<^verbatim>\<open>util/http\<close>,
  \<^verbatim>\<open>util/grpc\<close> and \<^verbatim>\<open>util/controller/manager.go\<close>). \<^verbatim>\<open>Run\<close> starts a goroutine for each runnable and one that waits on a condition
  variable to stop the others; they are steps of a relation. What a runnable does is up to
  the environment: \<^verbatim>\<open>Start\<close> may return at any time, with any error. The goroutines are created
  by one step, which is no restriction: a goroutine that was created late is one that is
  scheduled late.
\<close>

subsection \<open>Servers\<close>

record 'l tcp_Listener =
  tl_name :: string
  tl_address :: string
  tl_listener :: "'l option"

definition NewListener :: "string \<Rightarrow> 'l tcp_Listener" where
  "NewListener name = \<lparr>tl_name = name, tl_address = [], tl_listener = None\<rparr>"

definition tcp_Listen :: "(string \<Rightarrow> error + 'l) \<Rightarrow> string \<Rightarrow> 'l tcp_Listener \<Rightarrow> 'l tcp_Listener \<times> error option" where
  "tcp_Listen net_Listen address l =
     (case net_Listen address of
        Inl err \<Rightarrow> (l, Some err)
      | Inr lis \<Rightarrow> (l\<lparr>tl_address := address, tl_listener := Some lis\<rparr>, None))"

definition tcp_Close :: "('l \<Rightarrow> error option) \<Rightarrow> 'l tcp_Listener \<Rightarrow> error option" where
  "tcp_Close close l = (case tl_listener l of Some lis \<Rightarrow> close lis | None \<Rightarrow> None)"

text \<open>
  An HTTP server that was closed on demand ends without an error. \<open>serve\<close> and \<open>serveTLS\<close> are
  \<^verbatim>\<open>net/http\<close>'s \<^verbatim>\<open>Serve\<close> and \<^verbatim>\<open>ServeTLS\<close>.
\<close>

definition ErrServerClosed :: error where
  "ErrServerClosed = Errorf ''http: Server closed''"

definition http_Start :: "('l option \<Rightarrow> error option) \<Rightarrow> ('l option \<Rightarrow> error option) \<Rightarrow> bool \<Rightarrow> 'l tcp_Listener \<Rightarrow> error option" where
  "http_Start serve serveTLS tls l =
     (let err = (if tls then serveTLS (tl_listener l) else serve (tl_listener l))
      in if err = Some ErrServerClosed then None else err)"

definition grpc_Start :: "('l option \<Rightarrow> error option) \<Rightarrow> 'l tcp_Listener \<Rightarrow> error option" where
  "grpc_Start serve l = serve (tl_listener l)"

text \<open>
  The controller manager (\<^verbatim>\<open>util/controller/manager.go\<close>): \<^verbatim>\<open>Start\<close> makes a context and keeps its
  cancel function, \<^verbatim>\<open>Stop\<close> calls the function if there is one.
\<close>

record ctl_Manager =
  cmg_cancelFunc :: bool
  cmg_cancelled :: bool

definition ctl_NewManager :: ctl_Manager where
  "ctl_NewManager = \<lparr>cmg_cancelFunc = False, cmg_cancelled = False\<rparr>"

definition ctl_Start :: "ctl_Manager \<Rightarrow> ctl_Manager" where
  "ctl_Start m = m\<lparr>cmg_cancelFunc := True, cmg_cancelled := False\<rparr>"

definition ctl_Stop :: "ctl_Manager \<Rightarrow> ctl_Manager" where
  "ctl_Stop m = (if cmg_cancelFunc m then m\<lparr>cmg_cancelled := True\<rparr> else m)"

definition ctl_GracefulStop :: "ctl_Manager \<Rightarrow> ctl_Manager" where
  "ctl_GracefulStop m = ctl_Stop m"

subsection \<open>The manager\<close>

record 'i rm_Manager =
  rm_runnables :: "'i list"
  rm_serverAddress :: "('i, string) gomap"
  rm_errors :: "('i, error option) gomap"

definition rm_NewManager :: "'i rm_Manager" where
  "rm_NewManager = \<lparr>rm_runnables = [], rm_serverAddress = [], rm_errors = []\<rparr>"

definition rm_Add :: "'i \<Rightarrow> 'i rm_Manager \<Rightarrow> 'i rm_Manager" where
  "rm_Add runnable c = c\<lparr>rm_runnables := rm_runnables c @ [runnable]\<rparr>"

definition rm_AddServer :: "string \<Rightarrow> 'i \<Rightarrow> 'i rm_Manager \<Rightarrow> 'i rm_Manager" where
  "rm_AddServer listenAddress server c =
     (let c' = rm_Add server c in c'\<lparr>rm_serverAddress := mput server listenAddress (rm_serverAddress c')\<rparr>)"

text \<open>The loop of \<^verbatim>\<open>Stop\<close> and \<^verbatim>\<open>GracefulStop\<close> over the runnables.\<close>

fun stop_loop :: "('i \<Rightarrow> error \<Rightarrow> error) \<Rightarrow> ('i \<Rightarrow> 's \<Rightarrow> 's \<times> error option) \<Rightarrow> 'i list \<Rightarrow> 's \<Rightarrow> 's \<times> error list" where
  "stop_loop wrap stop [] s = (s, [])"
| "stop_loop wrap stop (runnable # rest) s =
     (case stop runnable s of
        (s1, None) \<Rightarrow> stop_loop wrap stop rest s1
      | (s1, Some err) \<Rightarrow> (case stop_loop wrap stop rest s1 of (s2, errs) \<Rightarrow> (s2, wrap runnable err # errs)))"

definition rm_Stop :: "('i \<Rightarrow> string) \<Rightarrow> ('i \<Rightarrow> 's \<Rightarrow> 's \<times> error option) \<Rightarrow> 'i rm_Manager \<Rightarrow> 's \<Rightarrow> 's \<times> error option" where
  "rm_Stop name stop c s =
     (case stop_loop (\<lambda>runnable. Wrapf (''unable to stop '' @ [CHR 0x27] @ name runnable @ [CHR 0x27] @ '': ''))
             stop (rm_runnables c) s of
        (s', errs) \<Rightarrow> (s', errors_Join (map Some errs)))"

definition rm_GracefulStop ::
    "('i \<Rightarrow> string) \<Rightarrow> ('i \<Rightarrow> 's \<Rightarrow> 's \<times> error option) \<Rightarrow> 'i rm_Manager \<Rightarrow> 's \<Rightarrow> 's \<times> error option" where
  "rm_GracefulStop name gracefulStop c s =
     (case stop_loop (\<lambda>runnable. Wrapf (''unable to gracefully stop '' @ [CHR 0x27] @ name runnable @ [CHR 0x27] @ '': ''))
             gracefulStop (rm_runnables c) s of
        (s', errs) \<Rightarrow> (s', errors_Join (map Some errs)))"

subsection \<open>Run\<close>

datatype 'i run_main = Listening "('i \<times> string) list" | AwaitingAll | Collecting | RunReturned "error option"

datatype 'i run_stopper = NotCreated | BeforeWait | OnCond | Woken | StoppingRest "'i list" | StopperExit bool

datatype run_worker = Unscheduled | RunningStart | StartReturned "error option" | ErrRecorded "error option" | Finished

record 'i run_state =
  rs_main :: "'i run_main"
  rs_stopper :: "'i run_stopper"
  rs_workers :: "run_worker list"
  rs_errors :: "('i, error option) gomap"
  rs_asked :: "'i list"
  rs_closed :: "'i set"

record 'i run_env =
  re_Name :: "'i \<Rightarrow> string"
  re_rngServers :: "('i, string) gomap \<Rightarrow> ('i, string) gomap"
  re_rngErrors :: "('i, error option) gomap \<Rightarrow> ('i, error option) gomap"

definition run_start :: "'i run_env \<Rightarrow> 'i rm_Manager \<Rightarrow> 'i run_state" where
  "run_start E c = \<lparr>rs_main = Listening (re_rngServers E (rm_serverAddress c)), rs_stopper = NotCreated, rs_workers = [],
     rs_errors = rm_errors c, rs_asked = [], rs_closed = {}\<rparr>"

text \<open>A signal wakes a goroutine that waits and is lost otherwise.\<close>

fun cond_Signal :: "'i run_stopper \<Rightarrow> 'i run_stopper" where
  "cond_Signal OnCond = Woken"
| "cond_Signal st = st"

definition listen_error :: "'i run_env \<Rightarrow> 'i \<Rightarrow> string \<Rightarrow> error \<Rightarrow> error" where
  "listen_error E server listenAddress err =
     Wrapf (''unable to create listener for server '' @ [CHR 0x27] @ re_Name E server @ [CHR 0x27] @ '' on '' @ listenAddress @ '': '') err"

definition run_error :: "'i run_env \<Rightarrow> 'i \<Rightarrow> error \<Rightarrow> error" where
  "run_error E runnable = Wrapf (''error running '' @ [CHR 0x27] @ re_Name E runnable @ [CHR 0x27] @ '': '')"

definition collect_errors :: "'i run_env \<Rightarrow> ('i, error option) gomap \<Rightarrow> error option" where
  "collect_errors E errs = errors_Join (map (\<lambda>(runnable, err). map_option (run_error E runnable) err) (re_rngErrors E errs))"

abbreviation close_servers :: "'i rm_Manager \<Rightarrow> 'i run_state \<Rightarrow> 'i run_state" where
  "close_servers c s \<equiv> s\<lparr>rs_closed := fst ` set (rm_serverAddress c)\<rparr>"

abbreviation set_run_worker :: "nat \<Rightarrow> run_worker \<Rightarrow> 'i run_state \<Rightarrow> 'i run_state" where
  "set_run_worker j w s \<equiv> s\<lparr>rs_workers := (rs_workers s)[j := w]\<rparr>"

text \<open>The steps of \<^verbatim>\<open>Run\<close> and of the goroutines it creates.\<close>

inductive run_step :: "'i run_env \<Rightarrow> 'i rm_Manager \<Rightarrow> 'i run_state \<Rightarrow> 'i run_state \<Rightarrow> bool" for E c where
  listen_ok: "rs_main s = Listening ((server, listenAddress) # rest) \<Longrightarrow> run_step E c s (s\<lparr>rs_main := Listening rest\<rparr>)"
| listen_failed: "rs_main s = Listening ((server, listenAddress) # rest) \<Longrightarrow>
    run_step E c s (close_servers c (s\<lparr>rs_main := RunReturned (Some (listen_error E server listenAddress err))\<rparr>))"
| spawn: "rs_main s = Listening [] \<Longrightarrow>
    run_step E c s (s\<lparr>rs_main := AwaitingAll, rs_stopper := BeforeWait,
       rs_workers := replicate (length (rm_runnables c)) Unscheduled\<rparr>)"
| stopper_wait: "rs_stopper s = BeforeWait \<Longrightarrow> run_step E c s (s\<lparr>rs_stopper := OnCond\<rparr>)"
| stopper_check: "rs_stopper s = Woken \<Longrightarrow>
    run_step E c s (s\<lparr>rs_stopper := if length (rs_errors s) < length (rm_runnables c)
       then StoppingRest (rm_runnables c) else StopperExit False\<rparr>)"
| stopper_stop: "rs_stopper s = StoppingRest (runnable # rest) \<Longrightarrow>
    run_step E c s (s\<lparr>rs_stopper := StoppingRest rest, rs_asked := rs_asked s @ [runnable]\<rparr>)"
| stopper_exit: "rs_stopper s = StoppingRest [] \<Longrightarrow> run_step E c s (s\<lparr>rs_stopper := StopperExit True\<rparr>)"
| worker_start: "j < length (rs_workers s) \<Longrightarrow> rs_workers s ! j = Unscheduled \<Longrightarrow>
    run_step E c s (set_run_worker j RunningStart s)"
| worker_record: "j < length (rs_workers s) \<Longrightarrow> rs_workers s ! j = StartReturned err \<Longrightarrow>
    run_step E c s (set_run_worker j (ErrRecorded err) (s\<lparr>rs_errors := mput (rm_runnables c ! j) err (rs_errors s)\<rparr>))"
| worker_done: "j < length (rs_workers s) \<Longrightarrow> rs_workers s ! j = ErrRecorded err \<Longrightarrow>
    run_step E c s (set_run_worker j Finished (s\<lparr>rs_stopper := if err \<noteq> None then cond_Signal (rs_stopper s) else rs_stopper s\<rparr>))"
| all_done: "rs_main s = AwaitingAll \<Longrightarrow> list_all (\<lambda>w. w = Finished) (rs_workers s) \<Longrightarrow>
    run_step E c s (s\<lparr>rs_main := Collecting, rs_stopper := cond_Signal (rs_stopper s)\<rparr>)"
| collect: "rs_main s = Collecting \<Longrightarrow>
    run_step E c s (close_servers c (s\<lparr>rs_main := RunReturned (collect_errors E (rs_errors s))\<rparr>))"

text \<open>The return of a runnable's \<^verbatim>\<open>Start\<close>.\<close>

inductive start_returns :: "'i run_state \<Rightarrow> 'i run_state \<Rightarrow> bool" where
  "j < length (rs_workers s) \<Longrightarrow> rs_workers s ! j = RunningStart \<Longrightarrow> start_returns s (set_run_worker j (StartReturned err) s)"

inductive run_reachable :: "'i run_env \<Rightarrow> 'i rm_Manager \<Rightarrow> 'i run_state \<Rightarrow> bool" for E c where
  run_init: "run_reachable E c (run_start E c)"
| run_own: "run_reachable E c s \<Longrightarrow> run_step E c s s' \<Longrightarrow> run_reachable E c s'"
| run_environment: "run_reachable E c s \<Longrightarrow> start_returns s s' \<Longrightarrow> run_reachable E c s'"

inductive_cases run_stepE: "run_step E c s s'"
inductive_cases start_returnsE: "start_returns s s'"

subsection \<open>Stopping\<close>

text \<open>Every runnable is asked to stop, in order, whatever the others answer.\<close>

lemma stop_loop_all: "fst (stop_loop wrap stop is s) = fold (\<lambda>i s. fst (stop i s)) is s"
  by (induction "is" arbitrary: s) (simp_all add: case_prod_beta split: option.split)

lemma rm_Stop_all:
  "fst (rm_Stop name stop c s) = fold (\<lambda>i s. fst (stop i s)) (rm_runnables c) s"
  "fst (rm_GracefulStop name stop c s) = fold (\<lambda>i s. fst (stop i s)) (rm_runnables c) s"
  by (simp_all add: rm_Stop_def rm_GracefulStop_def stop_loop_all case_prod_beta)

subsection \<open>What is recorded\<close>

definition worker_recorded :: "run_worker \<Rightarrow> error option option \<Rightarrow> bool" where
  "worker_recorded w e = (case w of ErrRecorded err \<Rightarrow> e = Some err | Finished \<Rightarrow> e \<noteq> None | _ \<Rightarrow> e = None)"

abbreviation some_failed :: "'i run_state \<Rightarrow> bool" where
  "some_failed s \<equiv> \<exists>i e. mget (rs_errors s) i = Some (Some e)"

definition run_inv :: "'i rm_Manager \<Rightarrow> 'i run_state \<Rightarrow> bool" where
  "run_inv c s \<longleftrightarrow> mwf (rs_errors s) \<and> (\<forall>i. mget (rs_errors s) i \<noteq> None \<longrightarrow> i \<in> set (rm_runnables c))
     \<and> (if \<exists>xs. rs_main s = Listening xs then rs_workers s = [] else rs_workers s = [] \<or> length (rs_workers s) = length (rm_runnables c))
     \<and> (rs_workers s = [] \<longrightarrow> rs_errors s = [])
     \<and> (\<forall>j < length (rs_workers s). worker_recorded (rs_workers s ! j) (mget (rs_errors s) (rm_runnables c ! j)))"

lemma worker_recorded_simps [simp]:
  "worker_recorded (ErrRecorded err) e \<longleftrightarrow> e = Some err" "worker_recorded Finished e \<longleftrightarrow> e \<noteq> None"
  "worker_recorded Unscheduled e \<longleftrightarrow> e = None" "worker_recorded RunningStart e \<longleftrightarrow> e = None"
  "worker_recorded (StartReturned err) e \<longleftrightarrow> e = None"
  by (simp_all add: worker_recorded_def)

lemma run_inv_start: "rm_errors c = [] \<Longrightarrow> run_inv c (run_start E c)"
  by (simp add: run_inv_def run_start_def)

lemma run_invD:
  assumes "run_inv c s" and "j < length (rs_workers s)"
  shows "worker_recorded (rs_workers s ! j) (mget (rs_errors s) (rm_runnables c ! j))"
    and "length (rs_workers s) = length (rm_runnables c)" and "rs_main s \<noteq> Listening xs"
  using assms by (auto simp: run_inv_def split: if_splits)

text \<open>A worker moves on without a change of the errors.\<close>

lemma run_inv_worker:
  assumes "run_inv c s" and "j < length (rs_workers s)" and "worker_recorded w (mget (rs_errors s) (rm_runnables c ! j))"
  shows "run_inv c (set_run_worker j w s)"
  using assms unfolding run_inv_def by (simp add: nth_list_update)

lemma run_inv_stopper: "run_inv c (s\<lparr>rs_stopper := st, rs_asked := a\<rparr>) \<longleftrightarrow> run_inv c s"
  "run_inv c (s\<lparr>rs_stopper := st\<rparr>) \<longleftrightarrow> run_inv c s"
  by (simp_all add: run_inv_def)

lemma run_inv_env: "run_inv c s \<Longrightarrow> start_returns s s' \<Longrightarrow> run_inv c s'"
  by (elim start_returnsE) (use run_invD(1) in \<open>force intro: run_inv_worker\<close>)

lemma run_inv_step:
  assumes "distinct (rm_runnables c)" and "run_inv c s" and "run_step E c s s'"
  shows "run_inv c s'"
  using assms(3)
proof (cases rule: run_step.cases)
  case (worker_record j err)
  note len = run_invD(2) [OF assms(2) worker_record(2)]
  have "rm_runnables c ! i = rm_runnables c ! j \<longleftrightarrow> i = j" if "i < length (rs_workers s)" for i
    using that worker_record(2) assms(1) by (simp add: nth_eq_iff_index_eq len)
  with worker_record assms(2) len show ?thesis unfolding run_inv_def
    by (auto simp: nth_list_update split: if_splits)
next
  case (worker_start j)
  with run_invD(1) [OF assms(2) worker_start(2)] show ?thesis by (simp add: run_inv_worker [OF assms(2)])
next
  case (worker_done j err)
  with run_invD(1) [OF assms(2) worker_done(2)] run_inv_worker [of c "s\<lparr>rs_stopper := st\<rparr>" for st] assms(2)
  show ?thesis by (auto simp: run_inv_stopper)
qed (use assms(2) in \<open>auto simp: run_inv_def split: if_splits\<close>)

lemma run_reachable_inv:
  assumes "run_reachable E c s" and "distinct (rm_runnables c)" and "rm_errors c = []"
  shows "run_inv c s"
  using assms by (induction) (auto intro: run_inv_start run_inv_step run_inv_env)

subsection \<open>What Run returns\<close>

definition outcome_inv :: "'i run_env \<Rightarrow> 'i rm_Manager \<Rightarrow> 'i run_state \<Rightarrow> bool" where
  "outcome_inv E c s \<longleftrightarrow>
     (case rs_main s of
        Listening xs \<Rightarrow> set xs \<subseteq> set (rm_serverAddress c) \<and> rs_workers s = [] \<and> rs_stopper s = NotCreated
      | AwaitingAll \<Rightarrow> length (rs_workers s) = length (rm_runnables c)
      | Collecting \<Rightarrow> length (rs_workers s) = length (rm_runnables c) \<and> list_all (\<lambda>w. w = Finished) (rs_workers s)
      | RunReturned res \<Rightarrow> rs_closed s = fst ` set (rm_serverAddress c)
          \<and> (rs_workers s = [] \<and> rs_stopper s = NotCreated \<and> (\<exists>server addr err. (server, addr) \<in> set (rm_serverAddress c) \<and> res = Some (listen_error E server addr err))
             \<or> length (rs_workers s) = length (rm_runnables c) \<and> list_all (\<lambda>w. w = Finished) (rs_workers s)
               \<and> res = collect_errors E (rs_errors s)))"

lemma cond_Signal_NotCreated [simp]: "cond_Signal st = NotCreated \<longleftrightarrow> st = NotCreated"
  by (cases st) simp_all

lemma outcome_inv_step: "outcome_inv E c s \<Longrightarrow> run_step E c s s' \<Longrightarrow> outcome_inv E c s'"
  by (elim run_stepE) (auto simp: outcome_inv_def list_all_length nth_list_update split: run_main.splits)

lemma outcome_inv_env: "outcome_inv E c s \<Longrightarrow> start_returns s s' \<Longrightarrow> outcome_inv E c s'"
  by (elim start_returnsE) (auto simp: outcome_inv_def list_all_length split: run_main.splits)

lemma run_reachable_outcome:
  assumes "run_reachable E c s" and "range_order (re_rngServers E)"
  shows "outcome_inv E c s"
  using assms(1)
proof (induction)
  case run_init show ?case using range_orderD(1) [OF assms(2)] by (simp add: outcome_inv_def run_start_def)
qed (auto intro: outcome_inv_step outcome_inv_env)

text \<open>The joined errors are those of the runnables that failed.\<close>

lemma collect_errors_spec:
  assumes "range_order (re_rngErrors E)" and "mwf errs"
  shows "collect_errors E errs = None \<longleftrightarrow> (\<forall>i e. mget errs i \<noteq> Some (Some e))"
    and "collect_errors E errs = Some err \<Longrightarrow>
      \<exists>es. err = JoinError es \<and> set es = {run_error E i e | i e. mget errs i = Some (Some e)}"
proof -
  let ?es = "map (\<lambda>(i, err). map_option (run_error E i) err) (re_rngErrors E errs)"
  have es: "Some x \<in> set ?es \<longleftrightarrow> (\<exists>i e. x = run_error E i e \<and> mget errs i = Some (Some e))" for x
  proof -
    have "Some x \<in> set ?es \<longleftrightarrow> (\<exists>i err. (i, err) \<in> set errs \<and> Some x = map_option (run_error E i) err)"
      using range_orderD(1) [OF assms(1), of errs] by (auto simp: image_iff Bex_def)
    also have "\<dots> \<longleftrightarrow> (\<exists>i e. x = run_error E i e \<and> mget errs i = Some (Some e))"
    proof -
      have so: "Some x = map_option (run_error E i) err \<longleftrightarrow> (\<exists>e. err = Some e \<and> x = run_error E i e)" for i err by (cases err) auto
      show ?thesis unfolding mget_mem [OF assms(2)] so by blast
    qed
    finally show ?thesis .
  qed
  have joined: "set (List.map_filter (\<lambda>x. x) ys) = {x. Some x \<in> set ys}" for ys :: "error option list"
    by (induction ys) (auto simp: List.map_filter_def split: option.splits)
  show "collect_errors E errs = None \<longleftrightarrow> (\<forall>i e. mget errs i \<noteq> Some (Some e))"
    using es unfolding collect_errors_def errors_Join_None by (metis not_None_eq)
  show "collect_errors E errs = Some err \<Longrightarrow>
      \<exists>es. err = JoinError es \<and> set es = {run_error E i e | i e. mget errs i = Some (Some e)}"
    using joined [of ?es] unfolding es by (auto simp: collect_errors_def errors_Join_def Let_def split: if_splits)
qed

subsection \<open>Whom the manager stops\<close>

definition stop_inv :: "'i rm_Manager \<Rightarrow> 'i run_state \<Rightarrow> bool" where
  "stop_inv c s \<longleftrightarrow>
     (case rs_stopper s of
        Woken \<Rightarrow> rs_asked s = [] \<and> (some_failed s \<or> (\<forall>i \<in> set (rm_runnables c). mget (rs_errors s) i \<noteq> None))
      | StoppingRest xs \<Rightarrow> rm_runnables c = rs_asked s @ xs \<and> some_failed s
      | StopperExit True \<Rightarrow> rs_asked s = rm_runnables c \<and> some_failed s
      | _ \<Rightarrow> rs_asked s = [])"

lemma all_recorded:
  assumes "run_inv c s" and "list_all (\<lambda>w. w = Finished) (rs_workers s)" and "length (rs_workers s) = length (rm_runnables c)"
  shows "\<forall>i \<in> set (rm_runnables c). mget (rs_errors s) i \<noteq> None"
  using assms run_invD(1) [OF assms(1)] by (auto simp: list_all_length in_set_conv_nth)

lemma not_pending:
  assumes "run_inv c s" and "distinct (rm_runnables c)" and "\<forall>i \<in> set (rm_runnables c). mget (rs_errors s) i \<noteq> None"
  shows "length (rm_runnables c) \<le> length (rs_errors s)"
proof -
  have "set (rm_runnables c) \<subseteq> fst ` set (rs_errors s)" using assms(3) by (force dest: map_of_SomeD)
  then have "card (set (rm_runnables c)) \<le> card (fst ` set (rs_errors s))" by (intro card_mono) simp_all
  also have "\<dots> \<le> length (rs_errors s)" using card_image_le [of "set (rs_errors s)" fst] card_length [of "rs_errors s"] by simp
  finally show ?thesis using assms(2) by (simp add: distinct_card)
qed

lemma stop_inv_step:
  assumes dist: "distinct (rm_runnables c)" and inv: "run_inv c s" "outcome_inv E c s" and "stop_inv c s" and "run_step E c s s'"
  shows "stop_inv c s'"
  using assms(5)
proof (cases rule: run_step.cases)
  case stopper_check
  then show ?thesis using assms(4) not_pending [OF inv(1) dist] by (auto simp: stop_inv_def)
next
  case (worker_record j err)
  have none: "mget (rs_errors s) (rm_runnables c ! j) = None" using run_invD(1) [OF inv(1) worker_record(2)] worker_record(3) by simp
  have "some_failed s \<Longrightarrow> some_failed s'" using none worker_record(1) by auto (metis option.distinct(1))
  moreover have "mget (rs_errors s) i \<noteq> None \<Longrightarrow> mget (rs_errors s') i \<noteq> None" for i using worker_record(1) by simp
  moreover have "rs_stopper s' = rs_stopper s" "rs_asked s' = rs_asked s" using worker_record(1) by simp_all
  ultimately show ?thesis using assms(4) unfolding stop_inv_def by (auto split: run_stopper.splits bool.splits)
next
  case (worker_done j err)
  have "mget (rs_errors s) (rm_runnables c ! j) = Some err" using run_invD(1) [OF inv(1) worker_done(2)] worker_done(3) by simp
  with worker_done assms(4) show ?thesis by (cases "rs_stopper s") (auto simp: stop_inv_def split: bool.splits)
next
  case all_done
  then have "\<forall>i \<in> set (rm_runnables c). mget (rs_errors s) i \<noteq> None"
    using inv by (intro all_recorded) (simp_all add: outcome_inv_def)
  with all_done assms(4) show ?thesis by (cases "rs_stopper s") (auto simp: stop_inv_def split: bool.splits)
qed (use assms(4) inv(2) in \<open>auto simp: stop_inv_def outcome_inv_def split: run_stopper.splits bool.splits\<close>)

lemma run_reachable_stop:
  assumes "run_reachable E c s" and "distinct (rm_runnables c)" and "rm_errors c = []" and "range_order (re_rngServers E)"
  shows "stop_inv c s"
  using assms(1)
proof (induction)
  case run_init show ?case by (simp add: stop_inv_def run_start_def)
next
  case (run_own s s')
  then show ?case using stop_inv_step run_reachable_inv run_reachable_outcome assms by blast
next
  case (run_environment s s')
  from run_environment(2,3) show ?case
    by (elim start_returnsE) (auto simp: stop_inv_def split: run_stopper.splits bool.splits)
qed

subsection \<open>Progress\<close>

text \<open>Each step brings its goroutine closer to its end.\<close>

fun worker_left :: "run_worker \<Rightarrow> nat" where
  "worker_left Unscheduled = 4"
| "worker_left RunningStart = 3"
| "worker_left (StartReturned err) = 2"
| "worker_left (ErrRecorded err) = 1"
| "worker_left Finished = 0"

fun main_left :: "'i rm_Manager \<Rightarrow> 'i run_main \<Rightarrow> nat" where
  "main_left c (Listening xs) = length xs + 5 * length (rm_runnables c) + 4"
| "main_left c AwaitingAll = 2"
| "main_left c Collecting = 1"
| "main_left c (RunReturned res) = 0"

fun stopper_left :: "'i rm_Manager \<Rightarrow> 'i run_stopper \<Rightarrow> nat" where
  "stopper_left c NotCreated = length (rm_runnables c) + 5"
| "stopper_left c BeforeWait = length (rm_runnables c) + 4"
| "stopper_left c OnCond = length (rm_runnables c) + 3"
| "stopper_left c Woken = length (rm_runnables c) + 2"
| "stopper_left c (StoppingRest xs) = length xs + 1"
| "stopper_left c (StopperExit b) = 0"

definition steps_left :: "'i rm_Manager \<Rightarrow> 'i run_state \<Rightarrow> nat" where
  "steps_left c s = main_left c (rs_main s) + stopper_left c (rs_stopper s) + sum_list (map worker_left (rs_workers s))"

lemma worker_left_update:
  assumes "j < length ws" and "worker_left w < worker_left (ws ! j)"
  shows "sum_list (map worker_left (ws[j := w])) < sum_list (map worker_left ws)"
  using assms by (induction ws arbitrary: j) (auto split: nat.splits simp: less_Suc_eq_0_disj nth_Cons')

lemma stopper_left_Signal: "stopper_left c (cond_Signal st) \<le> stopper_left c st"
  by (cases st) simp_all

lemma steps_left_decreases:
  assumes "outcome_inv E c s" and "run_step E c s s'"
  shows "steps_left c s' < steps_left c s"
  using assms(2)
proof (cases rule: run_step.cases)
  case (worker_done j err)
  have "sum_list (map worker_left ((rs_workers s)[j := Finished])) < sum_list (map worker_left (rs_workers s))"
    using worker_done by (intro worker_left_update) simp_all
  with worker_done stopper_left_Signal [of c "rs_stopper s"] show ?thesis by (auto simp: steps_left_def)
next
  case all_done
  with stopper_left_Signal [of c "rs_stopper s"] show ?thesis by (auto simp: steps_left_def)
qed (use assms(1) in \<open>auto simp: steps_left_def outcome_inv_def sum_list_replicate intro: worker_left_update split: run_main.splits\<close>)

lemma run_blocked:
  assumes "outcome_inv E c s" and "\<nexists>s'. run_step E c s s'"
  shows "(\<exists>res. rs_main s = RunReturned res) \<or> RunningStart \<in> set (rs_workers s)"
proof (cases "rs_main s")
  case (Listening xs)
  then have "\<exists>s'. run_step E c s s'"
  proof (cases xs)
    case Nil with Listening show ?thesis by (blast intro: run_step.spawn)
  next
    case (Cons x rest) with Listening show ?thesis by (cases x) (blast intro: run_step.listen_ok)
  qed
  with assms(2) show ?thesis by blast
next
  case AwaitingAll
  then obtain j where "j < length (rs_workers s)" "rs_workers s ! j \<noteq> Finished"
    using assms(2) run_step.all_done by (fastforce simp: list_all_length)
  moreover from this(1) have "rs_workers s ! j \<noteq> Unscheduled" "rs_workers s ! j \<noteq> StartReturned err"
      "rs_workers s ! j \<noteq> ErrRecorded err" for err
    using assms(2) run_step.worker_start run_step.worker_record run_step.worker_done by blast+
  ultimately have "rs_workers s ! j = RunningStart" by (cases "rs_workers s ! j") auto
  with \<open>j < length (rs_workers s)\<close> show ?thesis by (metis nth_mem)
next
  case Collecting
  then show ?thesis using assms(2) run_step.collect by blast
qed simp

lemma lost_signal_run:
  assumes "range_order (re_rngServers E)"
  shows "run_reachable E \<lparr>rm_runnables = [a, b], rm_serverAddress = [], rm_errors = []\<rparr>
    \<lparr>rs_main = AwaitingAll, rs_stopper = OnCond, rs_workers = [Finished, RunningStart], rs_errors = [(a, Some err)],
     rs_asked = [], rs_closed = {}\<rparr>"
proof -
  let ?c = "\<lparr>rm_runnables = [a, b], rm_serverAddress = [], rm_errors = []\<rparr>"
  let ?s = "\<lambda>st ws errs. \<lparr>rs_main = AwaitingAll, rs_stopper = st, rs_workers = ws, rs_errors = errs, rs_asked = [], rs_closed = {}\<rparr>"
  have "re_rngServers E [] = []" using range_orderD(2) [OF assms, of "[]"] by simp
  then have "run_reachable E ?c (?s BeforeWait [Unscheduled, Unscheduled] [])"
    using run_own [OF run_init run_step.spawn, of E ?c] by (simp add: run_start_def eval_nat_numeral)
  note 1 = this
  note 2 = run_own [OF 1 run_step.worker_start, of 0, simplified]
  note 3 = run_environment [OF 2 start_returns.intros, of 0 "Some err", simplified]
  note 4 = run_own [OF 3 run_step.worker_record, of 0 "Some err", simplified]
  note 5 = run_own [OF 4 run_step.worker_done, of 0 "Some err", simplified]
  note 6 = run_own [OF 5 run_step.worker_start, of 1, simplified]
  show ?thesis using run_own [OF 6 run_step.stopper_wait] by simp
qed

text \<open>A run in which the first of two runnables fails, the second is stopped, and Run returns.\<close>

definition demo_run_env :: "string run_env" where
  "demo_run_env = \<lparr>re_Name = (\<lambda>_. ''r''), re_rngServers = (\<lambda>m. m), re_rngErrors = (\<lambda>m. m)\<rparr>"

definition demo_runnables :: "string rm_Manager" where
  "demo_runnables = rm_Add ''b'' (rm_Add ''a'' rm_NewManager)"

definition demo_ended :: "string run_state" where
  "demo_ended = \<lparr>rs_main = RunReturned (Some (JoinError [run_error demo_run_env ''a'' (Errorf ''e'')])), rs_stopper = StopperExit True,
     rs_workers = [Finished, Finished], rs_errors = [(''a'', Some (Errorf ''e'')), (''b'', None)], rs_asked = [''a'', ''b''], rs_closed = {}\<rparr>"

text \<open>Here the second runnable is asked to stop before it is started.\<close>

lemma demo_asked:
  "run_reachable demo_run_env demo_runnables \<lparr>rs_main = AwaitingAll, rs_stopper = StopperExit True, rs_workers = [Finished, Unscheduled],
     rs_errors = [(''a'', Some (Errorf ''e''))], rs_asked = [''a'', ''b''], rs_closed = {}\<rparr>"
proof -
  let ?c = "\<lparr>rm_runnables = [''a'', ''b''], rm_serverAddress = [], rm_errors = []\<rparr>"
  have c: "demo_runnables = ?c" by (simp add: demo_runnables_def rm_Add_def rm_NewManager_def)
  have "run_reachable demo_run_env ?c \<lparr>rs_main = AwaitingAll, rs_stopper = BeforeWait, rs_workers = [Unscheduled, Unscheduled],
      rs_errors = [], rs_asked = [], rs_closed = {}\<rparr>"
    using run_own [OF run_init run_step.spawn, of demo_run_env ?c] by (simp add: run_start_def demo_run_env_def eval_nat_numeral)
  note 1 = this
  note 2 = run_own [OF 1 run_step.stopper_wait, simplified]
  note 3 = run_own [OF 2 run_step.worker_start, of 0, simplified]
  note 4 = run_environment [OF 3 start_returns.intros, of 0 "Some (Errorf ''e'')", simplified]
  note 5 = run_own [OF 4 run_step.worker_record, of 0 "Some (Errorf ''e'')", simplified]
  note 6 = run_own [OF 5 run_step.worker_done, of 0 "Some (Errorf ''e'')", simplified]
  note 7 = run_own [OF 6 run_step.stopper_check, simplified]
  note 8 = run_own [OF 7 run_step.stopper_stop [where runnable = "''a''" and rest = "[''b'']"], simplified]
  note 9 = run_own [OF 8 run_step.stopper_stop [where runnable = "''b''" and rest = "[]"], simplified]
  show ?thesis unfolding c using run_own [OF 9 run_step.stopper_exit] by simp
qed

text \<open>A controller manager that is asked to stop before it is started runs on.\<close>

lemma ctl_stop_before_start: "cmg_cancelled (ctl_Start (ctl_Stop ctl_NewManager)) = False"
  and ctl_stop_after_start: "cmg_cancelled (ctl_Stop (ctl_Start m))"
  by (simp_all add: ctl_Start_def ctl_Stop_def ctl_NewManager_def)

lemma demo_run: "run_reachable demo_run_env demo_runnables demo_ended"
proof -
  have c: "demo_runnables = \<lparr>rm_runnables = [''a'', ''b''], rm_serverAddress = [], rm_errors = []\<rparr>"
    by (simp add: demo_runnables_def rm_Add_def rm_NewManager_def)
  have main: "collect_errors demo_run_env [(''a'', Some (Errorf ''e'')), (''b'', None)] =
      Some (JoinError [run_error demo_run_env ''a'' (Errorf ''e'')])"
    by (simp add: collect_errors_def demo_run_env_def errors_Join_def List.map_filter_def)
  note 11 = run_own [OF demo_asked [unfolded c] run_step.worker_start, of 1, simplified]
  note 12 = run_environment [OF 11 start_returns.intros, of 1 None, simplified]
  note 13 = run_own [OF 12 run_step.worker_record, of 1 None, simplified]
  note 14 = run_own [OF 13 run_step.worker_done, of 1 None, simplified]
  note 15 = run_own [OF 14 run_step.all_done, simplified]
  show ?thesis unfolding c using run_own [OF 15 run_step.collect] by (simp add: demo_ended_def main)
qed

lemma demo_run_ok:
  "distinct (rm_runnables demo_runnables)" "rm_errors demo_runnables = []" "range_order (re_rngServers demo_run_env)"
  "range_order (re_rngErrors demo_run_env)" "rs_main demo_ended = RunReturned (Some (JoinError [run_error demo_run_env ''a'' (Errorf ''e'')]))"
  by (simp_all add: demo_runnables_def rm_Add_def rm_NewManager_def demo_run_env_def demo_ended_def)

subsection \<open>Properties\<close>

text \<open>
  C31. What Run returns is what became of the runnables. In every run, when Run returns, all
  servers were told to close, and either a listener could not be opened and nothing was
  started, or all runnables have ended; then the result is nil if none of them failed, and
  otherwise joins the errors of exactly those that did.
\<close>

theorem run_outcome:
  assumes "run_reachable E c s" and "distinct (rm_runnables c)" and "rm_errors c = []"
    and "range_order (re_rngServers E)" and "range_order (re_rngErrors E)" and "rs_main s = RunReturned res"
  shows "rs_closed s = fst ` set (rm_serverAddress c)
    \<and> (rs_workers s = [] \<and> (\<exists>server addr err. (server, addr) \<in> set (rm_serverAddress c) \<and> res = Some (listen_error E server addr err))
     \<or> (\<forall>i \<in> set (rm_runnables c). mget (rs_errors s) i \<noteq> None)
       \<and> (res = None \<longleftrightarrow> (\<forall>i e. mget (rs_errors s) i \<noteq> Some (Some e)))
       \<and> (\<forall>err. res = Some err \<longrightarrow> (\<exists>es. err = JoinError es
             \<and> set es = {run_error E i e | i e. mget (rs_errors s) i = Some (Some e)})))"
proof -
  have inv: "run_inv c s" and out: "outcome_inv E c s"
    using run_reachable_inv [OF assms(1-3)] run_reachable_outcome [OF assms(1,4)] by simp_all
  have "mwf (rs_errors s)" using inv by (simp add: run_inv_def)
  note spec = collect_errors_spec [OF assms(5) this]
  consider (listen) "rs_workers s = []"
        "\<exists>server addr err. (server, addr) \<in> set (rm_serverAddress c) \<and> res = Some (listen_error E server addr err)"
    | (ended) "length (rs_workers s) = length (rm_runnables c)" "list_all (\<lambda>w. w = Finished) (rs_workers s)"
        "res = collect_errors E (rs_errors s)"
    using out unfolding outcome_inv_def assms(6) by auto
  then have "rs_workers s = [] \<and> (\<exists>server addr err. (server, addr) \<in> set (rm_serverAddress c) \<and> res = Some (listen_error E server addr err))
     \<or> (\<forall>i \<in> set (rm_runnables c). mget (rs_errors s) i \<noteq> None)
       \<and> (res = None \<longleftrightarrow> (\<forall>i e. mget (rs_errors s) i \<noteq> Some (Some e)))
       \<and> (\<forall>err. res = Some err \<longrightarrow> (\<exists>es. err = JoinError es
             \<and> set es = {run_error E i e | i e. mget (rs_errors s) i = Some (Some e)}))"
  proof cases
    case ended
    show ?thesis by (intro disjI2 conjI) (use ended all_recorded [OF inv ended(2,1)] spec in simp_all)
  qed blast
  with out show ?thesis by (auto simp: outcome_inv_def assms(6))
qed

theorem run_outcome_witness:
  "\<exists>s. run_reachable demo_run_env demo_runnables s \<and> rs_main s = RunReturned (Some (JoinError [run_error demo_run_env ''a'' (Errorf ''e'')]))
     \<and> mget (rs_errors s) ''a'' = Some (Some (Errorf ''e''))"
  using demo_run run_outcome [OF demo_run demo_run_ok]
  by (intro exI [of _ demo_ended]) (simp add: demo_ended_def)

text \<open>
  Nobody is stopped without a reason, and nobody is forgotten. In every run, the manager asks
  a runnable to stop only after one has failed, and once it is through, it has asked each of
  them once.
\<close>

theorem stops_after_failure:
  assumes "run_reachable E c s" and "distinct (rm_runnables c)" and "rm_errors c = []" and "range_order (re_rngServers E)"
  shows "(rs_asked s \<noteq> [] \<longrightarrow> some_failed s) \<and> (rs_stopper s = StopperExit True \<longrightarrow> rs_asked s = rm_runnables c)"
  using run_reachable_stop [OF assms] by (auto simp: stop_inv_def split: run_stopper.splits bool.splits)

theorem stops_after_failure_witness:
  "run_reachable demo_run_env demo_runnables demo_ended \<and> rs_stopper demo_ended = StopperExit True
     \<and> rs_asked demo_ended = rm_runnables demo_runnables"
  using demo_run stops_after_failure [OF demo_run demo_run_ok(1-3)] by (simp add: demo_ended_def)

text \<open>
  C32. Run waits for its runnables only. From every reachable state, the goroutines of Run take
  finitely many steps until they can take no more; then Run has returned or a runnable is
  still running.
\<close>

theorem run_waits_for_runnables:
  assumes "run_reachable E c s" and "range_order (re_rngServers E)"
  shows "(\<nexists>f. f 0 = s \<and> (\<forall>n. run_step E c (f n) (f (Suc n))))
    \<and> (\<forall>s'. (run_step E c)\<^sup>*\<^sup>* s s' \<and> (\<nexists>s''. run_step E c s' s'') \<longrightarrow>
          (\<exists>res. rs_main s' = RunReturned res) \<or> RunningStart \<in> set (rs_workers s'))"
proof -
  have ok: "outcome_inv E c s'" if "(run_step E c)\<^sup>*\<^sup>* s s'" for s'
    using that by (induction) (auto intro: outcome_inv_step run_reachable_outcome [OF assms])
  have False if f: "f 0 = s" "\<forall>n. run_step E c (f n) (f (Suc n))" for f
  proof -
    have reach: "(run_step E c)\<^sup>*\<^sup>* s (f n)" for n
      by (induction n) (use f in \<open>auto intro: rtranclp.rtrancl_into_rtrancl\<close>)
    have "steps_left c (f n) + n \<le> steps_left c s" for n
    proof (induction n)
      case (Suc n) with steps_left_decreases [OF ok [OF reach], of n "f (Suc n)"] f(2) show ?case by fastforce
    qed (simp add: f(1))
    from this [of "Suc (steps_left c s)"] show False by simp
  qed
  then show ?thesis using run_blocked ok by blast
qed

theorem run_waits_for_runnables_witness:
  "\<nexists>f. f 0 = demo_ended \<and> (\<forall>n. run_step demo_run_env demo_runnables (f n) (f (Suc n)))"
  using run_waits_for_runnables [OF demo_run demo_run_ok(3)] by simp

text \<open>
  A failure can go unnoticed. The goroutine that stops the others waits for a signal without
  looking whether there was one before: when the first runnable fails before that goroutine
  waits, its signal is lost. The second runnable is then never asked to stop and Run does
  not return: no goroutine of the manager can take a step until the second runnable ends by
  itself.
\<close>

theorem lost_stop_signal:
  assumes "a \<noteq> b" and "range_order (re_rngServers E)"
  shows "\<exists>s. run_reachable E \<lparr>rm_runnables = [a, b], rm_serverAddress = [], rm_errors = []\<rparr> s
    \<and> mget (rs_errors s) a = Some (Some err) \<and> rs_asked s = [] \<and> rs_main s = AwaitingAll
    \<and> (\<nexists>s'. run_step E \<lparr>rm_runnables = [a, b], rm_serverAddress = [], rm_errors = []\<rparr> s s')"
proof -
  let ?c = "\<lparr>rm_runnables = [a, b], rm_serverAddress = [], rm_errors = []\<rparr>"
  let ?s = "\<lparr>rs_main = AwaitingAll, rs_stopper = OnCond, rs_workers = [Finished, RunningStart],
    rs_errors = [(a, Some err)], rs_asked = [], rs_closed = {}\<rparr>"
  have blocked: "\<not> run_step E ?c ?s s'" for s' by (auto elim!: run_stepE simp: nth_Cons' less_Suc_eq)
  from lost_signal_run [OF assms(2)] blocked show ?thesis by (intro exI [of _ ?s]) simp
qed

theorem lost_stop_signal_witness:
  "\<exists>s. run_reachable \<lparr>re_Name = (\<lambda>_. ''r''), re_rngServers = (\<lambda>m. m), re_rngErrors = (\<lambda>m. m)\<rparr>
        \<lparr>rm_runnables = [''a'', ''b''], rm_serverAddress = [], rm_errors = []\<rparr> s \<and> rs_asked s = [] \<and> rs_main s = AwaitingAll"
  using lost_stop_signal [of "''a''" "''b''" "\<lparr>re_Name = (\<lambda>_. ''r''), re_rngServers = (\<lambda>m. m), re_rngErrors = (\<lambda>m. m)\<rparr>"]
  by auto

end
