(* ===== verification/Binaries.thy ===== *)
theory Binaries
  imports Envoy Deploy PeerManager Runnable XdsClient Control_Safety
begin

text \<open>
  The binaries: \<^verbatim>\<open>cmd/cl-controlplane\<close>, \<^verbatim>\<open>cmd/cl-dataplane\<close>, \<^verbatim>\<open>cmd/cl-go-dataplane\<close> and
  \<^verbatim>\<open>cmd/cl-operator\<close>, with \<^verbatim>\<open>pkg/util/log\<close> and \<^verbatim>\<open>pkg/versioninfo\<close>. Each is modelled up to the point
  where it hands over to the runnables, the fetchers or Envoy. What the operating system and
  third-party constructors return is given in an environment.
\<close>

subsection \<open>Logs and versions\<close>

record 'f log_env =
  le_HomeDir :: "error + string"
  le_OpenFile :: "string \<Rightarrow> error + 'f"
  le_ParseLevel :: "string \<Rightarrow> error + nat"

definition ErrorLevel :: nat where "ErrorLevel = 2"

definition log_Set :: "'f log_env \<Rightarrow> string \<Rightarrow> string \<Rightarrow> error + 'f option \<times> nat" where
  "log_Set E logLevel logFileName =
     (case (if logFileName \<noteq> []
            then (case le_HomeDir E of
                    Inl err \<Rightarrow> Inl err
                  | Inr home \<Rightarrow>
                      (case le_OpenFile E (filepath_Join home logFileName) of
                         Inl err \<Rightarrow> Inl (Wrapf ''error opening log file: '' err)
                       | Inr f \<Rightarrow> Inr (Some f)))
            else Inr None) of
        Inl err \<Rightarrow> Inl err
      | Inr logfile \<Rightarrow> Inr (logfile, case le_ParseLevel E logLevel of Inl _ \<Rightarrow> ErrorLevel | Inr ll \<Rightarrow> ll))"

record version_info =
  vi_GitTag :: string
  vi_Version :: string
  vi_Revision :: string
  vi_DirtyBuild :: bool

text \<open>The settings of the build, where the binary has them.\<close>

fun version_setting :: "string \<times> string \<Rightarrow> version_info \<Rightarrow> version_info" where
  "version_setting (k, v) i =
     (if k = ''vcs.revision'' then i\<lparr>vi_Revision := v\<rparr>
      else if k = ''vcs.modified'' then i\<lparr>vi_DirtyBuild := v = ''true''\<rparr> else i)"

definition version_init :: "(string \<times> string) list option \<Rightarrow> string \<Rightarrow> version_info" where
  "version_init buildInfo GitTag =
     (let v = \<lparr>vi_GitTag = GitTag, vi_Version = ''unknown'', vi_Revision = ''unknown'', vi_DirtyBuild = False\<rparr>
      in case buildInfo of None \<Rightarrow> v | Some settings \<Rightarrow> fold version_setting settings v)"

fun strings_Join :: "string list \<Rightarrow> string \<Rightarrow> string" where
  "strings_Join [] sep = []"
| "strings_Join [x] sep = x"
| "strings_Join (x # xs) sep = x @ sep @ strings_Join xs sep"

definition version_Short :: "version_info \<Rightarrow> string" where
  "version_Short v =
     (let parts = (if vi_GitTag v \<noteq> [] then [vi_GitTag v] else [])
            @ (if vi_Version v \<noteq> ''unknown'' \<and> vi_Version v \<noteq> ''(devel)'' then [vi_Version v] else [])
            @ (if vi_Revision v \<noteq> ''unknown'' \<and> vi_Revision v \<noteq> []
               then [''rev'', take 7 (vi_Revision v)] @ (if vi_DirtyBuild v then [''dirty''] else []) else [])
      in if parts = [] then ''devel'' else strings_Join parts ''-'')"

subsection \<open>Readiness\<close>

text \<open>
  The answers to readiness probes. An HTTP request to a server of the same pod gives a status,
  or an error that may be a refused or reset connection.
\<close>

datatype probe = Refused | OtherError | ProbeStatus nat

definition dataplane_readiness :: "error option \<Rightarrow> probe \<Rightarrow> nat" where
  "dataplane_readiness NewRequest Do =
     (case NewRequest of
        Some _ \<Rightarrow> 500
      | None \<Rightarrow> (case Do of ProbeStatus status \<Rightarrow> if status \<noteq> 200 then 503 else 200 | _ \<Rightarrow> 503))"

text \<open>A dataplane has a TLS configuration from the start.\<close>

definition dataplane_IsReady :: "error option \<Rightarrow> probe \<Rightarrow> bool" where
  "dataplane_IsReady NewRequest Do = (case NewRequest of Some _ \<Rightarrow> False | None \<Rightarrow> Do \<noteq> Refused)"

definition goDataplane_readiness :: "XDSClient \<Rightarrow> error option \<Rightarrow> probe \<Rightarrow> nat" where
  "goDataplane_readiness xdsClient NewRequest Do =
     (if \<not> client_IsReady xdsClient \<or> \<not> dataplane_IsReady NewRequest Do then 503 else 200)"

definition controlplane_readiness :: "authz_Manager \<Rightarrow> bool \<Rightarrow> error option \<Rightarrow> probe \<Rightarrow> nat" where
  "controlplane_readiness authzManager cacheSynced NewRequest Do =
     (case NewRequest of
        Some _ \<Rightarrow> 500
      | None \<Rightarrow> if Do = Refused \<or> \<not> IsReady authzManager \<or> \<not> cacheSynced then 503 else 200)"

subsection \<open>The dataplanes\<close>

definition readinessListenAddress :: string where
  "readinessListenAddress = ''0.0.0.0:'' @ Itoa (unat dataplane_ReadinessListenPort)"

definition dataplane_Run ::
    "(envoy_Config \<Rightarrow> string) \<Rightarrow> 'f log_env \<Rightarrow> (string \<Rightarrow> error option) \<Rightarrow> string \<Rightarrow> dp_Options \<Rightarrow> error + string list" where
  "dataplane_Run yaml L httpServer_Listen uuid opts =
     (case log_Set L (do_LogLevel opts) (do_LogFile opts) of
        Inl err \<Rightarrow> Inl err
      | Inr _ \<Rightarrow>
     (case httpServer_Listen readinessListenAddress of
        Some err \<Rightarrow> Inl (Wrapf ''cannot listen for readiness: '' err)
      | None \<Rightarrow> Inr (runEnvoy yaml opts uuid)))"

text \<open>
  A started Go dataplane: the client of its control plane (target and TLS configuration), the
  address of its server, and the xDS client whose fetchers run next.
\<close>

record go_dataplane =
  gd_target :: string
  gd_tlsConfig :: tls_Config
  gd_address :: string
  gd_xdsClient :: XDSClient

definition runGoDataplane ::
    "(string \<Rightarrow> tls_Config \<Rightarrow> error option) \<Rightarrow> (string \<Rightarrow> error option) \<Rightarrow> dp_Options \<Rightarrow> string \<Rightarrow> ParsedCertData
       \<Rightarrow> error + go_dataplane" where
  "runGoDataplane grpc_NewClient httpServer_Listen opts dataplaneID parsedCertData =
     (let controlplaneTarget = JoinHostPort (do_ControlplaneHost opts) (Itoa (unat controlplane_ListenPort));
          tlsConfig = ClientConfig parsedCertData controlplane_Name
      in case grpc_NewClient controlplaneTarget tlsConfig of
           Some err \<Rightarrow> Inl (Wrapf ''error initializing controlplane client: '' err)
         | None \<Rightarrow>
        (case httpServer_Listen readinessListenAddress of
           Some err \<Rightarrow> Inl (Wrapf ''cannot listen for readiness: '' err)
         | None \<Rightarrow> Inr \<lparr>gd_target = controlplaneTarget, gd_tlsConfig = tlsConfig,
             gd_address = '':'' @ Itoa (unat dataplane_ListenPort), gd_xdsClient = NewXDSClient (NewDataplane dataplaneID)\<rparr>))"

definition goDataplane_Run ::
    "'f log_env \<Rightarrow> tls_env \<Rightarrow> (string \<Rightarrow> tls_Config \<Rightarrow> error option) \<Rightarrow> (string \<Rightarrow> error option) \<Rightarrow> string \<Rightarrow> dp_Options
       \<Rightarrow> panic + (error + go_dataplane)" where
  "goDataplane_Run L T grpc_NewClient httpServer_Listen uuid opts =
     (case log_Set L (do_LogLevel opts) (do_LogFile opts) of
        Inl err \<Rightarrow> Inr (Inl err)
      | Inr _ \<Rightarrow>
     (case ParseFiles T dp_CAFile dp_CertificateFile dp_KeyFile of
        Inl p \<Rightarrow> Inl p
      | Inr (Inl err) \<Rightarrow> Inr (Inl err)
      | Inr (Inr (parsedCertData, _)) \<Rightarrow> Inr (runGoDataplane grpc_NewClient httpServer_Listen opts uuid parsedCertData)))"

text \<open>What \<^verbatim>\<open>XDSClient.Run\<close> returns once all fetchers have stopped; \<open>rng\<close> is the order of a range.\<close>

definition XDSClient_Run_result ::
    "((string, error option) gomap \<Rightarrow> (string, error option) gomap) \<Rightarrow> (string, error option) gomap \<Rightarrow> error option" where
  "XDSClient_Run_result rng errs =
     errors_Join (map (\<lambda>(resource, err).
       map_option (Wrapf (''error running fetcher '' @ [CHR 0x27] @ resource @ [CHR 0x27] @ '': '')) err) (rng errs))"

subsection \<open>The xDS service\<close>

text \<open>
  The cache that the xDS service answers from (\<^verbatim>\<open>pkg/controlplane/xds/server.go\<close>): for each type
  of resource a client may ask for, the resources of the manager by their names.
\<close>

datatype xds_resource = ClusterResource Cluster | ListenerResource Listener | SecretResource tls_Secret

definition xds_RegisterService ::
    "('cc, 'lc, 'sc) xds_env \<Rightarrow> ('cc, 'lc, 'sc) xds_Manager \<Rightarrow> resource_type \<Rightarrow> string \<Rightarrow> xds_resource option" where
  "xds_RegisterService X manager typeUrl name =
     (case typeUrl of
        ClusterType \<Rightarrow> map_option ClusterResource (GetResources (xe_clusters X) (xm_clusters manager) name)
      | ListenerType \<Rightarrow> map_option ListenerResource (GetResources (xe_listeners X) (xm_listeners manager) name)
      | resource_type.SecretType \<Rightarrow> map_option SecretResource (GetResources (xe_secrets X) (xm_secrets manager) name))"

subsection \<open>The control plane\<close>

definition SystemNamespace :: string where "SystemNamespace = ''clusterlink-system''"

text \<open>The managers of the process, on which the consumers of the peer's certificates act.\<close>

record ('s, 'cc, 'lc, 'sc) cp_process =
  px_authz :: authz_Manager
  px_control :: "'s control"
  px_peers :: peerManager
  px_xds :: "('cc, 'lc, 'sc) xds_Manager"

record ('f, 's, 'cc, 'lc, 'sc) cp_env =
  ce_log :: "'f log_env"
  ce_Getenv :: "string \<Rightarrow> string"
  ce_tls :: tls_env
  ce_InClusterConfig :: "error option"
  ce_SchemeBuild :: "error option"
  ce_AddCoreV1 :: "error option"
  ce_AddDiscoveryV1 :: "error option"
  ce_NewManager :: "error option"
  ce_authzControllers :: "error option"
  ce_controlControllers :: "error option"
  ce_xdsControllers :: "error option"
  ce_control :: "'s control_env"
  ce_xds :: "('cc, 'lc, 'sc) xds_env"
  ce_format :: "string \<Rightarrow> string"
  ce_addr :: nat

record cp_Options =
  co_LogFile :: string
  co_LogLevel :: string
  co_PeerLabels :: labels

definition authz_consumer :: "(string \<Rightarrow> string) \<Rightarrow> ('s, 'cc, 'lc, 'sc) cp_process CertsConsumer" where
  "authz_consumer format = \<lparr>cc_String = format ''authz'', SetPeerCertificates = (\<lambda>parsed raw p.
     case authz_SetPeerCertificates parsed raw (px_authz p) of (m, err) \<Rightarrow> (p\<lparr>px_authz := m\<rparr>, err))\<rparr>"

definition control_consumer :: "(string \<Rightarrow> string) \<Rightarrow> ('s, 'cc, 'lc, 'sc) cp_process CertsConsumer" where
  "control_consumer format = \<lparr>cc_String = format ''control'', SetPeerCertificates = (\<lambda>parsed raw p.
     (p\<lparr>px_peers := pm_SetPeerCertificates parsed (px_peers p)\<rparr>, None))\<rparr>"

definition xds_consumer ::
    "('cc, 'lc, 'sc) xds_env \<Rightarrow> (string \<Rightarrow> string) \<Rightarrow> ('s, 'cc, 'lc, 'sc) cp_process CertsConsumer" where
  "xds_consumer X format = \<lparr>cc_String = format ''xds'', SetPeerCertificates = (\<lambda>parsed raw p.
     case xds_SetPeerCertificates X raw (px_xds p) of (m, err) \<Rightarrow> (p\<lparr>px_xds := m\<rparr>, err))\<rparr>"

datatype cp_runnable = PeerCertsWatcher | ControllerManager | ControlManager | GrpcServer | HttpServer

definition controlplane_runnables :: "cp_runnable rm_Manager" where
  "controlplane_runnables =
     rm_AddServer (''0.0.0.0:'' @ Itoa (unat controlplane_ReadinessListenPort)) HttpServer
    (rm_AddServer (''0.0.0.0:'' @ Itoa (unat controlplane_ListenPort)) GrpcServer
    (rm_Add ControlManager (rm_Add ControllerManager (rm_Add PeerCertsWatcher rm_NewManager))))"

definition peer_watcher :: "('f, 's, 'cc, 'lc, 'sc) cp_env \<Rightarrow> ('s, 'cc, 'lc, 'sc) cp_process CertsWatcher" where
  "peer_watcher E =
     AddConsumer (xds_consumer (ce_xds E) (ce_format E))
    (AddConsumer (control_consumer (ce_format E))
    (AddConsumer (authz_consumer (ce_format E))
       (NewWatcher FabricCertificateFilePath PeerCertificateFilePath PeerKeyFilePath)))"

text \<open>The first of several steps that fails.\<close>

fun first_error :: "(string \<times> error option) list \<Rightarrow> error option" where
  "first_error [] = None"
| "first_error ((msg, Some err) # _) = Some (Wrapf msg err)"
| "first_error ((msg, None) # rest) = first_error rest"

record ('s, 'cc, 'lc, 'sc) cp_started =
  cst_process :: "('s, 'cc, 'lc, 'sc) cp_process"
  cst_serverConfig :: tls_Config
  cst_watcher :: "('s, 'cc, 'lc, 'sc) cp_process CertsWatcher"
  cst_runnables :: "cp_runnable rm_Manager"

text \<open>The managers of a control plane read the certificates of the peer before anything is run.\<close>

definition start_managers ::
    "('f, 's, 'cc, 'lc, 'sc) cp_env \<Rightarrow> labels \<Rightarrow> string \<Rightarrow> ParsedCertData \<Rightarrow> 's control
       \<Rightarrow> 's \<times> (panic + (cert_error + ('s, 'cc, 'lc, 'sc) cp_started))" where
  "start_managers E peerLabels namespace controlplaneCertData controlManager =
     (let process = \<lparr>px_authz = authz_NewManager namespace peerLabels, px_control = controlManager,
            px_peers = newPeerManager, px_xds = xds_NewManager (ce_xds E)\<rparr>;
          watcher = peer_watcher E
      in case ReadCertsAndUpdateConsumers (ce_tls E) watcher (ce_addr E) process of
           Inl p \<Rightarrow> (c_api controlManager, Inl p)
         | Inr (process', Some err) \<Rightarrow> (c_api (px_control process'), Inr (Inl err))
         | Inr (process', None) \<Rightarrow> (c_api (px_control process'), Inr (Inr
             \<lparr>cst_process = process', cst_serverConfig = ServerConfig controlplaneCertData, cst_watcher = watcher,
              cst_runnables = controlplane_runnables\<rparr>)))"

text \<open>
  \<^verbatim>\<open>Run\<close> up to the point where the runnables are run: the state of the cluster, and an error or
  the process that is run.
\<close>

definition cp_namespace :: "(string \<Rightarrow> string) \<Rightarrow> string" where
  "cp_namespace Getenv = (let namespace = Getenv NamespaceEnvVariable in if namespace = [] then SystemNamespace else namespace)"

definition controlplane_Run ::
    "('f, 's, 'cc, 'lc, 'sc) cp_env \<Rightarrow> cp_Options \<Rightarrow> 's \<Rightarrow> 's \<times> (panic + (cert_error + ('s, 'cc, 'lc, 'sc) cp_started))" where
  "controlplane_Run E opts s =
     (case log_Set (ce_log E) (co_LogLevel opts) (co_LogFile opts) of
        Inl err \<Rightarrow> (s, Inr (Inl (plainError err)))
      | Inr _ \<Rightarrow>
     (case ParseFiles (ce_tls E) cp_CAFile cp_CertificateFile cp_KeyFile of
        Inl p \<Rightarrow> (s, Inl p)
      | Inr (Inl err) \<Rightarrow> (s, Inr (Inl (plainError err)))
      | Inr (Inr (controlplaneCertData, _)) \<Rightarrow>
     (case first_error [(''unable to get k8s config: '', ce_InClusterConfig E), (''unable to build k8s scheme: '', ce_SchemeBuild E),
             (''unable to add core v1 objects to scheme: '', ce_AddCoreV1 E),
             (''unable to add discovery v1 objects to scheme: '', ce_AddDiscoveryV1 E),
             (''unable to create k8s controller manager: '', ce_NewManager E),
             (''cannot create authz controllers: '', ce_authzControllers E)] of
        Some err \<Rightarrow> (s, Inr (Inl (plainError err)))
      | None \<Rightarrow>
     (case CreateJWKSSecret (ce_control E) (control_NewManager (cp_namespace (ce_Getenv E)) s) of
        (controlManager, Some err) \<Rightarrow> (c_api controlManager, Inr (Inl (plainError (Wrapf ''cannot create JWKS secret: '' err))))
      | (controlManager, None) \<Rightarrow>
     (case first_error [(''cannot create control controllers: '', ce_controlControllers E),
             (''cannot create xDS controllers: '', ce_xdsControllers E)] of
        Some err \<Rightarrow> (c_api controlManager, Inr (Inl (plainError err)))
      | None \<Rightarrow> start_managers E (co_PeerLabels opts) (cp_namespace (ce_Getenv E)) controlplaneCertData controlManager)))))"

subsection \<open>The operator\<close>

text \<open>The reconciler the operator starts with, or the exit code of a process that could not start.\<close>

definition operator_main ::
    "error option \<Rightarrow> error option \<Rightarrow> error option \<Rightarrow> error option \<Rightarrow> 's \<Rightarrow> nat + 's InstanceReconciler" where
  "operator_main NewManager SetupWithManager AddHealthzCheck AddReadyzCheck s =
     (if NewManager \<noteq> None \<or> SetupWithManager \<noteq> None \<or> AddHealthzCheck \<noteq> None \<or> AddReadyzCheck \<noteq> None then Inl 1
      else Inr \<lparr>ir_Instances = [], ir_api = s\<rparr>)"

subsection \<open>Certificates reach all managers\<close>

definition has_certificates ::
    "('cc, 'lc, 'sc) xds_env \<Rightarrow> ParsedCertData \<Rightarrow> RawCertData \<Rightarrow> ('s, 'cc, 'lc, 'sc) cp_process \<Rightarrow> bool" where
  "has_certificates X parsed raw p \<longleftrightarrow>
     am_peerTLS (px_authz p) = Some parsed \<and> take 1 (DNSNames parsed) = [am_peerName (px_authz p)]
     \<and> pm_peerTLS (px_peers p) = Some parsed
     \<and> xds_RegisterService X (px_xds p) resource_type.SecretType CertificateSecret = Some (SecretResource (certificateSecret raw))
     \<and> xds_RegisterService X (px_xds p) resource_type.SecretType ValidationSecret = Some (SecretResource (validationSecret raw))"

lemma peer_watcher_sel [simp]:
  "cw_caPath (peer_watcher E) = FabricCertificateFilePath" "cw_certPath (peer_watcher E) = PeerCertificateFilePath"
  "cw_keyPath (peer_watcher E) = PeerKeyFilePath"
  "cw_consumers (peer_watcher E) = [authz_consumer (ce_format E), control_consumer (ce_format E), xds_consumer (ce_xds E) (ce_format E)]"
  by (simp_all add: peer_watcher_def AddConsumer_def NewWatcher_def)

lemma updateConsumer_ok:
  assumes "updateConsumer parsed raw c p = (p', None)"
  shows "SetPeerCertificates c parsed raw p = (p', None)"
  using assms by (auto simp: updateConsumer_def split: prod.splits option.splits)

lemma authz_SetPeerCertificates_ok:
  assumes "authz_SetPeerCertificates parsed raw m = (m', None)"
  shows "am_peerTLS m' = Some parsed" and "take 1 (DNSNames parsed) = [am_peerName m']" and "am_namespace m' = am_namespace m"
  using assms by (auto simp: authz_SetPeerCertificates_def split: list.splits)

lemma peer_watcher_updates:
  assumes "linear_cache_ok (xe_secrets (ce_xds E))"
    and "ReadCertsAndUpdateConsumers T (peer_watcher E) addr p = Inr (p', None)"
  obtains parsed raw where "ParseFiles T FabricCertificateFilePath PeerCertificateFilePath PeerKeyFilePath = Inr (Inr (parsed, raw))"
    and "has_certificates (ce_xds E) parsed raw p'"
    and "px_control p' = px_control p" and "am_namespace (px_authz p') = am_namespace (px_authz p)"
proof -
  from assms(2) obtain parsed raw where
    files: "ParseFiles T FabricCertificateFilePath PeerCertificateFilePath PeerKeyFilePath = Inr (Inr (parsed, raw))" and
    upd: "map_prod id (map_option plainError) (forE (updateConsumer parsed raw) (cw_consumers (peer_watcher E)) p) = (p', None)"
    by (auto simp: ReadCertsAndUpdateConsumers_def split: sum.splits)
  from upd have "forE (updateConsumer parsed raw) (cw_consumers (peer_watcher E)) p = (p', None)"
    by (cases "forE (updateConsumer parsed raw) (cw_consumers (peer_watcher E)) p") simp
  then obtain p1 p2 where
    "updateConsumer parsed raw (authz_consumer (ce_format E)) p = (p1, None)"
    "updateConsumer parsed raw (control_consumer (ce_format E)) p1 = (p2, None)"
    "updateConsumer parsed raw (xds_consumer (ce_xds E) (ce_format E)) p2 = (p', None)"
    by (auto elim!: seqE_okE)
  note step = this [THEN updateConsumer_ok]
  from step(1) obtain m where m: "authz_SetPeerCertificates parsed raw (px_authz p) = (m, None)" "p1 = p\<lparr>px_authz := m\<rparr>"
    by (auto simp: authz_consumer_def split: prod.splits)
  from step(2) have p2: "p2 = p1\<lparr>px_peers := pm_SetPeerCertificates parsed (px_peers p1)\<rparr>" by (simp add: control_consumer_def)
  from step(3) obtain x where x: "xds_SetPeerCertificates (ce_xds E) raw (px_xds p2) = (x, None)" "p' = p2\<lparr>px_xds := x\<rparr>"
    by (auto simp: xds_consumer_def split: prod.splits)
  have "has_certificates (ce_xds E) parsed raw p'"
    using authz_SetPeerCertificates_ok [OF m(1)] xds_secrets [OF assms(1) x(1)]
    by (simp add: has_certificates_def xds_RegisterService_def m(2) p2 x(2) pm_SetPeerCertificates_def Let_def)
  with files show thesis
    by (rule that) (use authz_SetPeerCertificates_ok(3) [OF m(1)] in \<open>simp_all add: m(2) p2 x(2)\<close>)
qed

text \<open>With the certificates in place, a new peer does not make the managers panic.\<close>

lemma has_certificates_AddPeer:
  assumes "has_certificates X parsed raw p"
  shows "\<exists>m. authz_AddPeer pr (px_authz p) = Inr m" and "\<exists>m. pm_AddPeer K pr (px_peers p) = Inr m"
  using assms by (auto simp: has_certificates_def authz_AddPeer_def pm_AddPeer_def newPeerMonitor_def Let_def split: option.splits)

lemma start_managers_ok:
  assumes "start_managers E peerLabels namespace cpData c = (s', Inr (Inr st))"
  shows "cst_serverConfig st = ServerConfig cpData" and "cst_watcher st = peer_watcher E"
    and "cst_runnables st = controlplane_runnables" and "s' = c_api (px_control (cst_process st))"
    and "ReadCertsAndUpdateConsumers (ce_tls E) (peer_watcher E) (ce_addr E)
      \<lparr>px_authz = authz_NewManager namespace peerLabels, px_control = c, px_peers = newPeerManager,
       px_xds = xds_NewManager (ce_xds E)\<rparr> = Inr (cst_process st, None)"
  using assms by (auto simp: start_managers_def Let_def split: sum.splits prod.splits option.splits)

lemma CreateJWKSSecret_namespace: "c_namespace (fst (CreateJWKSSecret E c)) = c_namespace c"
  by (auto simp: CreateJWKSSecret_def Let_def split: sum.splits prod.splits)

lemma controlplane_Run_ok:
  assumes "controlplane_Run E opts s = (s', Inr (Inr st))"
  shows "\<exists>cpData cpRaw c. ParseFiles (ce_tls E) cp_CAFile cp_CertificateFile cp_KeyFile = Inr (Inr (cpData, cpRaw))
    \<and> CreateJWKSSecret (ce_control E) (control_NewManager (cp_namespace (ce_Getenv E)) s) = (c, None)
    \<and> start_managers E (co_PeerLabels opts) (cp_namespace (ce_Getenv E)) cpData c = (s', Inr (Inr st))"
  using assms unfolding controlplane_Run_def
  by (auto simp del: first_error.simps split: sum.splits prod.splits option.splits)

lemma controlplane_runnables_ok:
  "rm_runnables controlplane_runnables = [PeerCertsWatcher, ControllerManager, ControlManager, GrpcServer, HttpServer]"
  "rm_errors controlplane_runnables = []"
  "mget (rm_serverAddress controlplane_runnables) = [GrpcServer \<mapsto> ''0.0.0.0:'' @ Itoa (unat controlplane_ListenPort),
     HttpServer \<mapsto> ''0.0.0.0:'' @ Itoa (unat controlplane_ReadinessListenPort)]"
  by (auto simp: controlplane_runnables_def rm_AddServer_def rm_Add_def rm_NewManager_def Let_def)

lemma controlplane_Run_managers:
  assumes "linear_cache_ok (xe_secrets (ce_xds E))" and "controlplane_Run E opts s = (s', Inr (Inr st))"
  obtains cpData cpRaw parsed raw where
    "ParseFiles (ce_tls E) cp_CAFile cp_CertificateFile cp_KeyFile = Inr (Inr (cpData, cpRaw))"
    "cst_serverConfig st = ServerConfig cpData" "cst_watcher st = peer_watcher E" "cst_runnables st = controlplane_runnables"
    "ParseFiles (ce_tls E) FabricCertificateFilePath PeerCertificateFilePath PeerKeyFilePath = Inr (Inr (parsed, raw))"
    "has_certificates (ce_xds E) parsed raw (cst_process st)"
    "am_namespace (px_authz (cst_process st)) = cp_namespace (ce_Getenv E)"
    "CreateJWKSSecret (ce_control E) (control_NewManager (cp_namespace (ce_Getenv E)) s) = (px_control (cst_process st), None)"
proof -
  from controlplane_Run_ok [OF assms(2)] obtain cpData cpRaw c where
    cp: "ParseFiles (ce_tls E) cp_CAFile cp_CertificateFile cp_KeyFile = Inr (Inr (cpData, cpRaw))" and
    jwk: "CreateJWKSSecret (ce_control E) (control_NewManager (cp_namespace (ce_Getenv E)) s) = (c, None)" and
    st: "start_managers E (co_PeerLabels opts) (cp_namespace (ce_Getenv E)) cpData c = (s', Inr (Inr st))" by blast
  note sm = start_managers_ok [OF st]
  from peer_watcher_updates [OF assms(1) sm(5)] obtain parsed raw where
    peer: "ParseFiles (ce_tls E) FabricCertificateFilePath PeerCertificateFilePath PeerKeyFilePath = Inr (Inr (parsed, raw))"
      "has_certificates (ce_xds E) parsed raw (cst_process st)" and
    frame: "px_control (cst_process st) = c" "am_namespace (px_authz (cst_process st)) = cp_namespace (ce_Getenv E)"
    by (auto simp: authz_NewManager_def)
  with cp sm(1-3) jwk show thesis by (auto intro: that)
qed


text \<open>A cluster in which the control plane starts.\<close>

definition demo_cp_env :: "(unit, mem, (string, Cluster) gomap, (string, Listener) gomap, (string, tls_Secret) gomap) cp_env" where
  "demo_cp_env = \<lparr>ce_log = \<lparr>le_HomeDir = Inr ''/root'', le_OpenFile = (\<lambda>_. Inr ()), le_ParseLevel = (\<lambda>_. Inr 4)\<rparr>,
     ce_Getenv = (\<lambda>_. []), ce_tls = good_files, ce_InClusterConfig = None, ce_SchemeBuild = None, ce_AddCoreV1 = None,
     ce_AddDiscoveryV1 = None, ce_NewManager = None, ce_authzControllers = None, ce_controlControllers = None,
     ce_xdsControllers = None, ce_control = control_demo_env, ce_xds = demo_xds, ce_format = id, ce_addr = 0\<rparr>"

definition demo_cp_opts :: cp_Options where
  "demo_cp_opts = \<lparr>co_LogFile = [], co_LogLevel = ''info'', co_PeerLabels = []\<rparr>"

lemma demo_cp_starts: "\<exists>s' st. controlplane_Run demo_cp_env demo_cp_opts empty_mem = (s', Inr (Inr st))"
proof -
  have files: "ParseFiles good_files ca cert key = Inr (Inr
      (\<lparr>pcd_certificate = \<lparr>tc_Certificate = [''contents of '' @ cert], tc_PrivateKey = ''contents of '' @ key\<rparr>,
        pcd_ca = ''contents of '' @ ca, pcd_x509cert = \<lparr>x509_DNSNames = [''contents of '' @ cert]\<rparr>\<rparr>,
      \<lparr>rcd_certificate = ''contents of '' @ cert, rcd_key = ''contents of '' @ key, rcd_ca = ''contents of '' @ ca\<rparr>))" for ca cert key
    by (simp add: ParseFiles_def good_files_def no_files_def)
  have log: "log_Set (ce_log demo_cp_env) (co_LogLevel demo_cp_opts) (co_LogFile demo_cp_opts) = Inr (None, 4)"
    by (simp add: log_Set_def demo_cp_env_def demo_cp_opts_def)
  have jwk: "snd (CreateJWKSSecret control_demo_env (control_NewManager ns empty_mem)) = None" for ns
    by (simp add: CreateJWKSSecret_def generateJWKSecret_def control_demo_env_def control_NewManager_def
        mem_client_def mem_kind_def mread_def empty_mem_def Let_def)
  have "\<exists>s' st. start_managers demo_cp_env l ns d c = (s', Inr (Inr st))" for l ns d c
    by (simp add: start_managers_def demo_cp_env_def files Let_def ReadCertsAndUpdateConsumers_def authz_consumer_def
        control_consumer_def xds_consumer_def updateConsumer_def authz_SetPeerCertificates_def DNSNames_def seqE_def
        xds_SetPeerCertificates_def xds_updateSecret_def table_env_def gomap_cache_def)
  moreover obtain c where "CreateJWKSSecret control_demo_env (control_NewManager (cp_namespace (ce_Getenv demo_cp_env)) empty_mem) = (c, None)"
    using jwk by (metis prod.collapse)
  moreover have "ce_InClusterConfig demo_cp_env = None" "ce_SchemeBuild demo_cp_env = None" "ce_AddCoreV1 demo_cp_env = None"
      "ce_AddDiscoveryV1 demo_cp_env = None" "ce_NewManager demo_cp_env = None" "ce_authzControllers demo_cp_env = None"
      "ce_controlControllers demo_cp_env = None" "ce_xdsControllers demo_cp_env = None"
      "ce_tls demo_cp_env = good_files" "ce_control demo_cp_env = control_demo_env"
    by (simp_all add: demo_cp_env_def)
  ultimately show ?thesis by (simp add: controlplane_Run_def files log)
qed


end
