(* ===== verification/Spec2Isabelle.thy ===== *)
theory Spec2Isabelle
  imports Certs AuthzSync AuthzServer Control_Results Control_Controllers Xds_Sync PeerManager XdsClient DataplaneServer
    Forwarder Operator_Results Deploy_Results Binaries
begin

text \<open>
  \<^bold>\<open>ClusterLink.\<close> ClusterLink connects services of several clusters (\<^emph>\<open>peers\<close>). A service is
  \<^emph>\<open>exported\<close> by a peer and \<^emph>\<open>imported\<close> by others; access policies say who may connect to
  what. Each peer runs a control plane, which watches Kubernetes objects, and a dataplane,
  which carries the connections. A connection of a local client arrives at a listener of the
  dataplane, which asks the control plane; the control plane picks a source of the import by
  its load balancing scheme, decides the policies, asks the remote peer for a token, and
  answers with the remote peer's cluster and that token. The dataplane connects to a gateway
  of that peer over mutual TLS; the dataplane there asks its own control plane, which
  verifies the token and names the cluster of the export.

  \<^bold>\<open>Theories.\<close> Paths are below \<^verbatim>\<open>src/pkg\<close> unless they begin with \<^verbatim>\<open>src\<close>.

  \<^item> Prelude: type synonyms of Go integers and maps, errors and panics as sums, list and map
    lemmas, the collections used by the component proofs. Go_Strings: the functions of
    \<^verbatim>\<open>strings\<close>, \<^verbatim>\<open>strconv\<close> and \<^verbatim>\<open>net/http\<close> the code calls. K8s: the Kubernetes client as a
    record of operations on an arbitrary cluster state, any of which may fail, with its laws
    (\<open>client_ok\<close>-style hypotheses) and an in-memory instance.
  \<^item> Types: \<^verbatim>\<open>apis/clusterlink.net/v1alpha1\<close>. Names: \<^verbatim>\<open>controlplane/api\<close> and the names of
    endpoint slices and system services of \<^verbatim>\<open>controlplane/control/manager.go\<close>.
  \<^item> Pdp: \<^verbatim>\<open>controlplane/authz/connectivitypdp\<close>. Decisions are compared with a declarative
    specification over the set of policies; map iteration order is an arbitrary permutation.
  \<^item> Lb: \<^verbatim>\<open>controlplane/authz/loadbalancer.go\<close>. Ports: \<^verbatim>\<open>controlplane/control/port.go\<close>, at 16
    bits. Certs: \<^verbatim>\<open>util/tls\<close> and \<^verbatim>\<open>controlplane/peer/certs.go\<close>. PeerClient: \<^verbatim>\<open>util/jsonapi\<close> and
    \<^verbatim>\<open>controlplane/peer/client.go\<close>, with the goroutines of \<^verbatim>\<open>getResponse\<close> as a step relation.
  \<^item> Authz, Authz_Safety: \<^verbatim>\<open>controlplane/authz/manager.go\<close>. AuthzServer:
    \<^verbatim>\<open>controlplane/authz/server.go\<close>.
  \<^item> Control, Control_Safety, Control_Results: \<^verbatim>\<open>controlplane/control/manager.go\<close>.
  \<^item> Monitor, PeerManager: \<^verbatim>\<open>controlplane/control/peer.go\<close>; the rounds of a monitor are a
    function, the manager with its monitors and its updater is a step relation.
  \<^item> Reconciler: \<^verbatim>\<open>util/controller\<close>; the locale \<open>reflector\<close> says what a pair of handlers has to
    promise for a controller to make its manager reflect the objects. Xds, Xds_Sync:
    \<^verbatim>\<open>controlplane/xds\<close>, which keeps these promises for exports, peers and imports.
    AuthzSync and Control_Controllers: the controllers of \<^verbatim>\<open>controlplane/authz\<close> and
    \<^verbatim>\<open>controlplane/control\<close>.
  \<^item> Dataplane, Listeners, DataplaneServer, Forwarder: \<^verbatim>\<open>dataplane/server\<close> and the handlers of
    \<^verbatim>\<open>dataplane/client/fetcher.go\<close>. XdsClient: \<^verbatim>\<open>dataplane/client\<close>, its fetchers as a step
    relation.
  \<^item> Operator, Operator_Results: \<^verbatim>\<open>operator/controller/instance_controller.go\<close>, which deploys,
    watches and removes the control plane and the dataplane of an instance.
  \<^item> Runnable: \<^verbatim>\<open>util/runnable\<close>, which runs the servers of a binary, with the goroutines of \<^verbatim>\<open>Run\<close>
    as a step relation, and how the servers of \<^verbatim>\<open>util/tcp\<close>, \<^verbatim>\<open>util/http\<close>, \<^verbatim>\<open>util/grpc\<close> and
    \<^verbatim>\<open>util/controller/manager.go\<close> start and stop.
  \<^item> Bootstrap, Paths, Bootstrap_Results: \<^verbatim>\<open>bootstrap\<close> and the commands below
    \<^verbatim>\<open>src/cmd/clusterlink/cmd/create\<close>, which make the certificates of a fabric and its peers.
    A key is a number and a certificate names the key that signed it; Paths holds the lemmas on
    clean path names.
  \<^item> Deploy, Deploy_Results: \<^verbatim>\<open>bootstrap/platform\<close> and the commands \<^verbatim>\<open>deploy peer\<close> and \<^verbatim>\<open>delete peer\<close>
    of \<^verbatim>\<open>src/cmd/clusterlink/cmd\<close>. The YAML templates are modelled by the objects they describe.
  \<^item> Envoy: \<^verbatim>\<open>envoyconf.go\<close> and \<^verbatim>\<open>envoy.go\<close> of \<^verbatim>\<open>src/cmd/cl-dataplane/app\<close>, the configuration of the Envoy
    dataplane as data; what Envoy does with it is a parameter (\<open>envoy_ok\<close>). Binaries: the \<^verbatim>\<open>Run\<close> functions
    of \<^verbatim>\<open>src/cmd/cl-controlplane\<close>, \<^verbatim>\<open>cl-dataplane\<close> and \<^verbatim>\<open>cl-go-dataplane\<close> and \<^verbatim>\<open>main\<close> of \<^verbatim>\<open>cl-operator\<close>, with
    readiness probes, \<^verbatim>\<open>util/log\<close>, \<^verbatim>\<open>versioninfo\<close> and \<^verbatim>\<open>controlplane/xds/server.go\<close>, up to the point where
    the runnables, the fetchers, Envoy or the controller manager take over.

  \<^bold>\<open>What is shown.\<close> The theory below puts control plane and dataplane together: a connection
  of a local client reaches only a gateway of a peer the policies allow, under that peer's
  name; a connection of a remote peer reaches only the export its verified token names. The
  parts are shown by themselves: decisions meet the specification of the policies; egress and
  ingress grants are sound, refusals are complete, and egress authorization always answers;
  imports touch only their own services and never share a port; the xDS resources, and the
  tables and listeners of the dataplane, converge to the objects; peers are declared
  reachable with hysteresis; the operator deploys exactly the objects of an instance, removes
  them, hands a namespace over to the next instance, and ends. The peers of a fabric trust each
  other under their names and nobody else; a deployed site finds its certificates where its
  binaries look for them, and the operator deploys what the templates describe. The runnable
  manager reports every failure and stops the others only after one. Envoy's configuration has
  no dangling references and Envoy asks the control plane what the Go dataplane asks; a control
  plane that starts has the certificates of its peer in all its managers, as has one that
  reloads them. Where the code departs
  from what it means to do, a theorem shows the departure.

  \<^bold>\<open>Bounds.\<close> The retry loop of egress authorization runs on fuel; \<open>egress_fuel\<close> is computed
  from the number of sources, and the loop is shown to end within it. A request of the
  operator calls itself after a deletion and runs on fuel too; a fuel above the number of
  instances is shown to be enough. All other loops are structural recursion or steps of a
  relation.

  \<^bold>\<open>Not modelled.\<close> Kubernetes, controller-runtime, go-control-plane, gRPC, JWT, X.509 and the
  network are parameters with stated laws; so are the encodings of certificates and YAML.
  Logging has no effect. The flags and commands are left to cobra, and generated code is not
  modelled. Of Envoy's configuration the protocol options, timeouts and buffer sizes are left
  out; of the servers, what they do between their start and their stop.
\<close>

section \<open>Control plane and dataplane together\<close>

text \<open>
  A dataplane whose authorization client talks to the control plane's \<^verbatim>\<open>Check\<close>: a panic or an
  unfinished call shows up as an RPC error.
\<close>

definition rpc_Check :: "'s server_env \<Rightarrow> authz_Manager \<Rightarrow> CheckRequest \<Rightarrow> error + HttpResponse option" where
  "rpc_Check E m r =
     (case Check E (Some r) m of
        Some (_, Inr (Inr resp)) \<Rightarrow> Inr (Some (resp_HttpResponse resp))
      | Some (_, Inr (Inl err)) \<Rightarrow> Inl err
      | _ \<Rightarrow> Inl (Errorf ''rpc error''))"

lemma rpc_Check_egress:
  assumes "rpc_Check E m (egressCheckRequest namespace name ip) = Inr (Some (OkResponse ok))"
  shows "\<exists>m' resp. authorizeEgress (se_egress E) \<lparr>er_ImportName = NamespacedName namespace name, er_IP = ip\<rparr> m
      = Some (m', Inr (Inr resp))
    \<and> authHeaders (ok_Headers ok) = (ea_RemotePeerCluster resp, ''Bearer '' @ ea_AccessToken resp)"
proof -
  let ?req = "\<lparr>http_Method = [], http_Path = [], http_Headers = [(ImportNamespaceHeader, namespace),
      (ImportNameHeader, name), (ClientIPHeader, ip)], http_Body = []\<rparr>"
  have names: "ImportNamespaceHeader \<noteq> ImportNameHeader" "ImportNamespaceHeader \<noteq> ClientIPHeader"
    "ImportNameHeader \<noteq> ClientIPHeader" "TargetClusterHeader \<noteq> AuthorizationHeader"
    by (simp_all add: ImportNamespaceHeader_def ImportNameHeader_def ClientIPHeader_def TargetClusterHeader_def
        AuthorizationHeader_def)
  from assms obtain m' r where "checkEgress E ?req m = Some (m', Inr r)" "resp_HttpResponse r = OkResponse ok"
    by (auto simp: rpc_Check_def Check_def egressCheckRequest_def Let_def map_option_case
        split: option.splits sum.splits) (auto simp: map_sum_def split: sum.splits)
  then show ?thesis using names
    by (auto simp: checkEgress_def Let_def sget_def authHeaders_def bearerSchemaPrefix_def buildAllowedResponse_def
        buildDeniedResponse_def split: option.splits sum.splits if_splits prod.splits)
qed

text \<open>A name that can stand before a port: no colon and no bracket.\<close>

definition host_name :: "string \<Rightarrow> bool" where
  "host_name n \<longleftrightarrow> CHR '':'' \<notin> set n \<and> CHR ''['' \<notin> set n \<and> CHR '']'' \<notin> set n"

lemma peer_cluster_endpoint:
  assumes "peer_resource X x (Some c)" and "firstEndpoint c = Inr e"
  obtains p gw gws where "x = Some p" "pr_Gateways (pr_Spec p) = gw # gws" "lbe_Hostname e = pr_Name p @ '':443''"
    "sa_Address (lbe_Address e) = ep_Host gw" "sa_PortValue (lbe_Address e) = ucast (ep_Port gw)"
proof -
  obtain p where p: "x = Some p" and eps: "map (map (\<lambda>e. (sa_Address (lbe_Address e), sa_PortValue (lbe_Address e), lbe_Hostname e)))
      (cla_Endpoints (xc_LoadAssignment c)) = [map (\<lambda>g. (ep_Host g, ucast (ep_Port g), pr_Name p @ '':443'')) (pr_Gateways (pr_Spec p))]"
    using assms(1) by (auto simp: peer_resource_def split: option.splits)
  obtain es rest where es: "cla_Endpoints (xc_LoadAssignment c) = (e # es) # rest"
    using assms(2) by (auto simp: firstEndpoint_def split: list.splits)
  with eps obtain gw gws where "pr_Gateways (pr_Spec p) = gw # gws" by (cases "pr_Gateways (pr_Spec p)") auto
  with p eps es show thesis by (intro that) auto
qed

lemma export_cluster_endpoint:
  assumes "export_resource x (Some c)" and "firstEndpoint c = Inr e"
  obtains ex where "x = Some ex" "sa_Address (lbe_Address e) = exportHost ex"
    "sa_PortValue (lbe_Address e) = ucast (exp_Port (exp_Spec ex))"
  using assms by (auto simp: export_resource_def firstEndpoint_def split: option.splits)

lemma port_text: "Itoa (unat (ucast (p :: uint16) :: uint32)) = Itoa (unat p)"
proof -
  have "unat p < 2 ^ 32" using unsigned_less [of p, where ?'a = nat] by simp
  then show ?thesis by (simp add: unsigned_ucast_eq take_bit_nat_eq_self)
qed

text \<open>
  C1. A local client's connection ends at a peer the control plane chose for it. If the
  dataplane, asking this control plane and routing with the peers' clusters, connects a
  client of an import, then the import exists, the policies allow this client to use one of
  its sources, the peer of that source issued a token, and the connection goes to the first
  gateway of that very peer, over TLS that accepts no other name than the peer's, carrying
  that token.
\<close>

theorem egress_end_to_end:
  assumes "dn_Check N = rpc_Check E m"
    and "serveEgressConnection N d (namespace @ ''/'' @ name) remoteAddr = Inr (Inr (target, cfg))"
    and "CHR ''/'' \<notin> set namespace"
    and "\<forall>p. peer_resource X (peers p) (mget (dp_clusters d) (RemotePeerClusterName p))"
    and "\<forall>p pr. peers p = Some pr \<longrightarrow> pr_Name pr = p \<and> host_name p"
  shows "\<exists>imp k pr gw gws token. \<exists>source \<in> set (imp_Sources (imp_Spec imp)).
      let req = \<lparr>er_ImportName = NamespacedName namespace name, er_IP = clientIP remoteAddr\<rparr>
      in k_Get (cl_Import (ee_client (se_egress E))) (NamespacedName namespace name) (ee_state (se_egress E) 0) = Inr imp
        \<and> granted (se_egress E) m req (getSrcAttributes m req) imp k source token
        \<and> peers (is_Peer source) = Some pr \<and> pr_Gateways (pr_Spec pr) = gw # gws
        \<and> target = ep_Host gw @ '':'' @ Itoa (unat (ep_Port gw))
        \<and> cfg = (dp_tlsConfig d)\<lparr>cfg_ServerName := is_Peer source\<rparr>
        \<and> dn_Do N cfg (''https://'' @ is_Peer source @ '':443'') [(AuthorizationHeader, ''Bearer '' @ token)] = Inr 200"
proof -
  let ?req = "\<lparr>er_ImportName = NamespacedName namespace name, er_IP = clientIP remoteAddr\<rparr>"
  have split: "SplitN (namespace @ ''/'' @ name) CHR ''/'' 2 = [namespace, name]"
    using SplitN_cut [OF assms(3), of name 0] by (simp add: numeral_2_eq_2)
  from assms(2) obtain ok cluster tok c e host port where
    chk: "dn_Check N (egressCheckRequest namespace name (clientIP remoteAddr)) = Inr (Some (OkResponse ok))" and
    hdr: "authHeaders (ok_Headers ok) = (cluster, tok)" and
    c: "mget (dp_clusters d) cluster = Some c" "firstEndpoint c = Inr e" and
    target: "target = sa_Address (lbe_Address e) @ '':'' @ Itoa (unat (sa_PortValue (lbe_Address e)))" and
    host: "SplitHostPort (lbe_Hostname e) = Inr (host, port)" "cfg = (dp_tlsConfig d)\<lparr>cfg_ServerName := host\<rparr>" and
    sent: "dn_Do N cfg (''https://'' @ lbe_Hostname e) [(AuthorizationHeader, tok)] = Inr 200"
    by (rule serveEgress_grant) (use split in auto)
  from rpc_Check_egress [OF chk [unfolded assms(1)]] obtain m' resp where
    auth: "authorizeEgress (se_egress E) ?req m = Some (m', Inr (Inr resp))" and
    tok: "cluster = ea_RemotePeerCluster resp" "tok = ''Bearer '' @ ea_AccessToken resp" using hdr by auto
  from authorizeEgress_granted(1) [OF auth] obtain imp k source where
    imp: "k_Get (cl_Import (ee_client (se_egress E))) (NamespacedName namespace name) (ee_state (se_egress E) 0) = Inr imp" and
    src: "source \<in> set (imp_Sources (imp_Spec imp))" "cluster = RemotePeerClusterName (is_Peer source)"
      "granted (se_egress E) m ?req (getSrcAttributes m ?req) imp k source (ea_AccessToken resp)"
    using tok by auto
  have "peer_resource X (peers (is_Peer source)) (Some c)" using assms(4) c(1) src(2) by metis
  then obtain pr gw gws where pr: "peers (is_Peer source) = Some pr" "pr_Gateways (pr_Spec pr) = gw # gws"
      "lbe_Hostname e = pr_Name pr @ '':443''" "sa_Address (lbe_Address e) = ep_Host gw"
      "sa_PortValue (lbe_Address e) = ucast (ep_Port gw)"
    using c(2) by (rule peer_cluster_endpoint)
  have name: "pr_Name pr = is_Peer source" "host_name (is_Peer source)" using assms(5) pr(1) by auto
  then have "host = is_Peer source" using host(1) pr(3) SplitHostPort_plain [of "is_Peer source"]
    by (auto simp: host_name_def)
  then show ?thesis unfolding Let_def
    using imp src pr name host(2) target sent tok(2) port_text by (intro exI bexI [of _ source]) auto
qed

text \<open>The fabric of the authorization manager's examples, with the cluster of its one peer.\<close>

definition demo_peers :: "string \<Rightarrow> Peer option" where
  "demo_peers p = (if p = ''p1'' then Some (demo_peer ''p1'' [''gw'']) else None)"

definition demo_peer_cluster :: Cluster where
  "demo_peer_cluster = (demo_cluster ''remote-peer-p1'' ''gw'' 443)\<lparr>
     xc_LoadAssignment := \<lparr>cla_ClusterName = ''remote-peer-p1'', cla_Endpoints =
       [[\<lparr>lbe_Address = \<lparr>sa_Address = ''gw'', sa_PortValue = 443\<rparr>, lbe_Hostname = ''p1:443''\<rparr>]]\<rparr>,
     xc_TransportSocket := Some \<lparr>ts_Name = [], ts_TypedConfig = []\<rparr>\<rparr>"

definition demo_dataplane :: Dataplane where
  "demo_dataplane = AddCluster demo_peer_cluster (NewDataplane ''id'')"

definition demo_net :: dp_net where
  "demo_net = \<lparr>dn_Check = rpc_Check (demo_server\<lparr>se_egress := demo_env\<rparr>) (demo_manager allow_all_pdp),
     dn_DialTimeout = (\<lambda>_. None), dn_Hijack = \<lparr>hj_Hijacker = True, hj_Hijack = None, hj_SetDeadline = None, hj_Write = None\<rparr>,
     dn_tlsDial = (\<lambda>_ _. None), dn_NewRequest = (\<lambda>_. None),
     dn_Do = (\<lambda>_ _ _. Inr 200)\<rparr>"

lemma demo_served:
  "serveEgressConnection demo_net demo_dataplane ''ns/svc'' ''10.0.0.1:5555'' =
     Inr (Inr (''gw:443'', (dp_tlsConfig demo_dataplane)\<lparr>cfg_ServerName := ''p1''\<rparr>))"
  by code_simp

theorem egress_end_to_end_witness:
  "\<exists>pr gw gws. demo_peers ''p1'' = Some pr \<and> pr_Gateways (pr_Spec pr) = gw # gws
     \<and> ''gw:443'' = ep_Host gw @ '':'' @ Itoa (unat (ep_Port gw))"
proof -
  let ?X = "table_lib [UpstreamTlsContextMsg (peerTlsContext ''p1'')]"
  have chk: "dn_Check demo_net = rpc_Check (demo_server\<lparr>se_egress := demo_env\<rparr>) (demo_manager allow_all_pdp)"
    by (simp add: demo_net_def)
  have res: "\<forall>p. peer_resource ?X (demo_peers p) (mget (dp_clusters demo_dataplane) (RemotePeerClusterName p))"
    by (auto simp: peer_resource_def demo_peers_def demo_dataplane_def AddCluster_def NewDataplane_def demo_peer_def
        demo_peer_cluster_def demo_cluster_def RemotePeerClusterName_def RemotePeerClusterPrefix_def table_lib_def)
  have names: "\<forall>p pr. demo_peers p = Some pr \<longrightarrow> pr_Name pr = p \<and> host_name p"
    by (auto simp: demo_peers_def demo_peer_def host_name_def)
  from egress_end_to_end [OF chk _ _ res names, of "''ns''" "''svc''" "''10.0.0.1:5555''"] demo_served
  obtain source :: ImportSource and pr gw gws where
    "demo_peers (is_Peer source) = Some pr" "pr_Gateways (pr_Spec pr) = gw # gws"
    "''gw:443'' = ep_Host gw @ '':'' @ Itoa (unat (ep_Port gw))"
    unfolding Let_def by fastforce
  moreover from this(1) have "is_Peer source = ''p1''" by (simp add: demo_peers_def split: if_splits)
  ultimately show ?thesis by auto
qed

lemma rpc_Check_connect:
  assumes "rpc_Check E m (ingressCheckRequest r (allowedHeaders r) body) = Inr (Some (OkResponse ok))"
    and "iq_Method r = ''CONNECT''"
  shows "\<exists>token. Header_Get (iq_Header r) AuthorizationHeader = ''Bearer '' @ token
    \<and> parseAuthorizationHeader (se_jwt E) (se_now E) m token = Inr (Inr (sget (ok_Headers ok) TargetClusterHeader))"
proof -
  let ?req = "\<lparr>http_Method = ''CONNECT'', http_Path = iq_Path r, http_Headers = allowedHeaders r, http_Body = body\<rparr>"
  from assms obtain resp where
    resp: "checkServiceAccessRequest E ?req m = Inr resp" "resp_HttpResponse resp = OkResponse ok"
    by (auto simp: rpc_Check_def Check_def ingressCheckRequest_def checkIngress_def split: sum.splits)
      (auto simp: map_sum_def split: sum.splits)
  from this obtain auth where auth: "mget (allowedHeaders r) AuthorizationHeader = Some auth"
      "HasPrefix auth bearerSchemaPrefix"
    by (auto simp: checkServiceAccessRequest_def buildDeniedResponse_def split: option.splits if_splits)
  from auth(2) obtain token where token: "auth = bearerSchemaPrefix @ token" by (rule HasPrefixE)
  have "Header_Get (iq_Header r) AuthorizationHeader = auth"
    using auth(1) by (auto simp: allowedHeaders_def Let_def split: if_splits)
  moreover have "parseAuthorizationHeader (se_jwt E) (se_now E) m token
      = Inr (Inr (sget (ok_Headers ok) TargetClusterHeader))"
    using resp auth(1) unfolding token
    by (auto simp: checkServiceAccessRequest_def buildAllowedResponse_def buildDeniedResponse_def sget_def
        split: sum.splits if_splits)
  ultimately show ?thesis using token by (auto simp: bearerSchemaPrefix_def)
qed

lemma parseAuthorizationHeader_claims:
  assumes "parseAuthorizationHeader J now m token = Inr (Inr cluster)"
  shows "\<exists>key parsed name namespace. am_jwkKey m = Some key \<and> jwt_ParseString J now key token = Inr parsed
    \<and> mget (tok_PrivateClaims parsed) ExportNameJWTClaim = Some (ClaimString name)
    \<and> mget (tok_PrivateClaims parsed) ExportNamespaceJWTClaim = Some (ClaimString namespace)
    \<and> cluster = ExportClusterName name namespace"
  using assms by (auto simp: parseAuthorizationHeader_def split: option.splits sum.splits claim.splits)


text \<open>A dataplane that routes to one export, and a remote peer's request for it.\<close>

definition demo_exports :: "NamespacedName \<Rightarrow> Export option" where
  "demo_exports k = (if k = NamespacedName ''ns'' ''svc'' then Some demo_export else None)"

definition demo_export_cluster :: Cluster where
  "demo_export_cluster = (demo_cluster ''export-ns/svc'' [] 0)\<lparr>
     xc_LoadAssignment := \<lparr>cla_ClusterName = ''export-ns/svc'', cla_Endpoints =
       [[\<lparr>lbe_Address = \<lparr>sa_Address = exportHost demo_export, sa_PortValue = ucast (exp_Port (exp_Spec demo_export))\<rparr>,
          lbe_Hostname = []\<rparr>]]\<rparr>\<rparr>"

definition demo_gateway :: Dataplane where
  "demo_gateway = AddCluster demo_export_cluster (NewDataplane ''id'')"

definition demo_ingress_req :: ingress_request where
  "demo_ingress_req = \<lparr>iq_TLS = Some [[''peer'']], iq_Method = ''CONNECT'', iq_Path = [],
     iq_Header = [(AuthorizationHeader, ''Bearer token'')], iq_Body = Inr []\<rparr>"

definition demo_ingress_net :: dp_net where
  "demo_ingress_net = demo_net\<lparr>dn_Check := rpc_Check demo_server demo_key_manager\<rparr>"

lemma demo_forwarded:
  "dataplaneIngressAuthorize ref_apimachinery demo_ingress_net demo_gateway demo_ingress_req = Inr (Forward ''svc.ns.svc.cluster.local:80'')"
  by code_simp


section \<open>From the objects to the routes\<close>

lemma map_of_keyed:
  assumes "set cs = ran g" and "\<And>n c. g n = Some c \<Longrightarrow> key c = n"
  shows "map_of (map (\<lambda>c. (key c, c)) cs) = g"
proof
  fix n
  show "map_of (map (\<lambda>c. (key c, c)) cs) n = g n"
  proof (cases "g n")
    case None
    then have "n \<notin> key ` set cs" using assms by (fastforce simp: ran_def)
    then show ?thesis using None by (auto simp: map_of_eq_None_iff image_image)
  next
    case (Some c)
    then have "c \<in> set cs" "key c = n" using assms by (auto simp: ran_def)
    then obtain c' where c': "map_of (map (\<lambda>c. (key c, c)) cs) n = Some c'"
      by (cases "map_of (map (\<lambda>c. (key c, c)) cs) n") (auto simp: map_of_eq_None_iff image_image)
    then have "c' \<in> set cs" "key c' = n" using map_of_SomeD [OF c'] by auto
    then obtain n' where "g n' = Some c'" using assms(1) by (auto simp: ran_def)
    then show ?thesis using c' Some assms(2) \<open>key c' = n\<close> by auto
  qed
qed

text \<open>
  C4. The routes of a dataplane are those of the objects. Once the controllers have worked off
  the changes of exports and peers, a dataplane that handles a response with the clusters of
  the control plane routes every export to its host and port and every peer to its gateways,
  as their objects now say, and has no route for an export or peer that does not exist,
  whatever it routed before. This is what the end-to-end theorems ask of a dataplane.
\<close>

theorem routes_follow_objects:
  assumes "xds_env_ok E" and "client_ok C view" and "range_order rng"
    and "(xds_step E C view ns)\<^sup>*\<^sup>* (xds_start E view s) st" and "xy_exports st = {}" and "xy_peers st = {}"
    and "map (UnmarshalCluster (xe_lib E)) response = map Inr cs"
    and "set cs = ran (GetResources (xe_clusters E) (xm_clusters (xy_mgr st)))"
    and "d' = fst (handleClusters (xe_lib E) rng response d)"
  shows "(\<forall>k. dns_name k \<longrightarrow> export_resource (kv_Export (view (xy_api st)) k)
        (mget (dp_clusters d') (ExportClusterName (nn_Name k) (nn_Namespace k))))
    \<and> (\<forall>p. peer_resource (xe_lib E) (kv_Peer (view (xy_api st)) (NamespacedName ns p))
        (mget (dp_clusters d') (RemotePeerClusterName p)))"
proof -
  have set: "xds_setting E C view" by (rule xds_setting.intro [OF assms(1,2)])
  let ?g = "GetResources (xe_clusters E) (xm_clusters (xy_mgr st))"
  have "mget (dp_clusters d') = map_of (map (\<lambda>c. (xc_Name c, c)) (rev cs))"
    using handleClusters_all(2) [OF assms(3,7), of d] assms(9) by (simp add: rev_map)
  also have "\<dots> = ?g" using xds_setting.runs_own_names [OF set assms(4)] assms(8)
    by (intro map_of_keyed) (auto simp: own_names_def)
  finally have routes: "mget (dp_clusters d') = ?g" .
  note conv = xds_setting.runs_converge [OF set assms(4)]
  show ?thesis unfolding routes using conv conv [of "NamespacedName ns _"] assms(5,6)
    by (auto simp: export_proj_def peer_proj_def)
qed

text \<open>The export of the example above, reconciled and fetched.\<close>

definition followed_cluster :: Cluster where
  "followed_cluster = \<lparr>xc_Name = ''export-ns/svc'', xc_ConnectTimeout = 1, xc_DnsRefreshRate = 1, xc_Type = STRICT_DNS,
     xc_DnsResolver = (''envoy.network.dns_resolver.getaddrinfo'', []),
     xc_LoadAssignment = \<lparr>cla_ClusterName = ''export-ns/svc'', cla_Endpoints = [[
       \<lparr>lbe_Address = \<lparr>sa_Address = ''svc.ns.svc.cluster.local'', sa_PortValue = 80\<rparr>, lbe_Hostname = []\<rparr>]]\<rparr>,
     xc_TransportSocket = None\<rparr>"

abbreviation followed_xds ::
    "((string, Cluster) gomap, (string, Listener) gomap, (string, tls_Secret) gomap) xds_env" where
  "followed_xds \<equiv> table_env [DnsResolverConfigMsg, ClusterMsg followed_cluster]"

lemma followed_reconciled:
  "Reconcile (cl_Export mem_client) (xds_export_controller followed_xds) (NamespacedName ''ns'' ''svc'')
     demo_api (xds_NewManager followed_xds) =
   (\<lparr>xm_clusters = [(''export-ns/svc'', followed_cluster)], xm_listeners = [], xm_secrets = []\<rparr>, None)"
  by code_simp

theorem routes_follow_objects_witness:
  "export_resource (kv_Export (mem_view demo_api) (NamespacedName ''ns'' ''svc''))
     (mget (dp_clusters (fst (handleClusters (table_lib [DnsResolverConfigMsg, ClusterMsg followed_cluster]) rev [''x'']
       (AddCluster (demo_cluster ''stale'' ''h'' 1) (NewDataplane ''id''))))) (ExportClusterName ''svc'' ''ns''))"
proof -
  let ?k = "NamespacedName ''ns'' ''svc''" and ?m = "\<lparr>xm_clusters = [(''export-ns/svc'', followed_cluster)],
    xm_listeners = [], xm_secrets = []\<rparr>"
  let ?st = "xds_start followed_xds mem_view demo_api :: (mem, _, _, _) xds_sys"
  let ?st' = "?st\<lparr>xy_mgr := ?m, xy_exports := served ?k None (xy_exports ?st)\<rparr>"
  have objs: "dom (kv_Export (mem_view demo_api)) = {?k}" "dom (kv_Peer (mem_view demo_api)) = {}"
    by (auto simp: mem_view_def demo_api_def mread_def object_key_def empty_mem_def split: if_splits)
  have "xds_step followed_xds mem_client mem_view ''sys'' ?st ?st'"
    by (rule export_request) (use objs followed_reconciled in \<open>auto simp: xds_start_def dns_name_def\<close>)
  then have run: "(xds_step followed_xds mem_client mem_view ''sys'')\<^sup>*\<^sup>* ?st ?st'" by blast
  have quiet: "xy_exports ?st' = {}" "xy_peers ?st' = {}" using objs by (auto simp: xds_start_def served_def)
  have resp: "map (UnmarshalCluster (xe_lib followed_xds)) [''x''] = map Inr [followed_cluster]"
    by (simp add: UnmarshalCluster_def table_env_def table_lib_def)
  have "set [followed_cluster] = ran (GetResources (xe_clusters followed_xds) (xm_clusters (xy_mgr ?st')))"
    by (auto simp: table_env_def gomap_cache_def ran_def)
  from routes_follow_objects [OF table_env_ok mem_client_ok range_order_rev run quiet resp this refl,
      THEN conjunct1, rule_format, of ?k]
  show ?thesis by (simp add: dns_name_def xds_start_def table_env_def)
qed

end
